(* ===== verification/Prelude.thy ===== *)
theory Prelude
  imports Main "HOL-Library.Word"
begin

text \<open>
  Shared vocabulary of the development: the collections of simplification rules the component
  theories extend, and generic facts on lists, options and maps that more than one component uses.

  \<^item> \<open>api_defs\<close>: unfoldings of the request descriptions of the API modules;
  \<^item> \<open>hook_defs\<close>: unfoldings of the operations of the stateful hooks;
  \<^item> \<open>view_defs\<close>: unfoldings of the rendering functions and of the design-system wrappers they use.
\<close>

named_theorems api_defs
named_theorems hook_defs
named_theorems view_defs

subsection \<open>Lists\<close>

lemma find_Some_mem: "List.find P xs = Some x \<Longrightarrow> x \<in> set xs \<and> P x"
  by (auto simp: find_Some_iff)

lemma find_None_all: "List.find P xs = None \<longleftrightarrow> (\<forall>x\<in>set xs. \<not> P x)"
  by (auto simp: find_None_iff)

lemma distinct_map_filter: "distinct (map f xs) \<Longrightarrow> distinct (map f (filter P xs))"
  by (induction xs) auto

lemma filter_neq_id: "a \<notin> f ` set xs \<Longrightarrow> filter (\<lambda>x. f x \<noteq> a) xs = xs"
  by (induction xs) auto

lemma map_of_the_unique:
  "distinct (map f xs) \<Longrightarrow> x \<in> set xs \<Longrightarrow> y \<in> set xs \<Longrightarrow> f x = f y \<Longrightarrow> x = y"
  by (metis distinct_map inj_on_eq_iff)

lemma nth_update: "xs[i := y] ! j = (if i = j \<and> j < length xs then y else xs ! j)"
  by (cases "i < length xs") (auto simp: nth_list_update list_update_beyond)

subsection \<open>Splitting a list at a separator\<close>

text \<open>\<open>split_at c xs\<close> cuts \<open>xs\<close> at every \<open>c\<close>, as \<open>String.prototype.split\<close> does.\<close>

fun split_at :: "'a \<Rightarrow> 'a list \<Rightarrow> 'a list list" where
  "split_at c [] = [[]]"
| "split_at c (x # xs) =
     (if x = c then [] # split_at c xs
      else (case split_at c xs of [] \<Rightarrow> [[x]] | p # ps \<Rightarrow> (x # p) # ps))"

lemma split_at_neq_Nil [simp]: "split_at c xs \<noteq> []"
  by (induction xs) (auto split: list.splits)

lemma split_at_id: "c \<notin> set xs \<Longrightarrow> split_at c xs = [xs]"
  by (induction xs) auto

lemma split_at_append: "c \<notin> set xs \<Longrightarrow> split_at c (xs @ c # ys) = xs # split_at c ys"
  by (induction xs) auto

text \<open>\<open>cut_at c xs\<close> cuts at the first \<open>c\<close> only; without one the second part is empty.\<close>

fun cut_at :: "'a \<Rightarrow> 'a list \<Rightarrow> 'a list \<times> 'a list" where
  "cut_at c [] = ([], [])"
| "cut_at c (x # xs) = (if x = c then ([], xs) else (let (a, b) = cut_at c xs in (x # a, b)))"

lemma cut_at_append: "c \<notin> set xs \<Longrightarrow> cut_at c (xs @ c # ys) = (xs, ys)"
  by (induction xs) auto

lemma cut_at_id: "c \<notin> set xs \<Longrightarrow> cut_at c xs = (xs, [])"
  by (induction xs) auto

subsection \<open>Runs and simulation\<close>

text \<open>
  A run is a list of events. \<open>guarded\<close> says that each event of a run is allowed where it happens. A
  \<open>simulation\<close> is a concrete machine each of whose allowed steps does what the abstract machine says.
\<close>

fun guarded :: "('e \<Rightarrow> 'a \<Rightarrow> bool) \<Rightarrow> ('e \<Rightarrow> 'a \<Rightarrow> 'a) \<Rightarrow> 'e list \<Rightarrow> 'a \<Rightarrow> bool" where
  "guarded ok step [] a = True"
| "guarded ok step (e # es) a = (ok e a \<and> guarded ok step es (step e a))"

lemma guarded_append:
  "guarded ok step (es @ fs) a \<longleftrightarrow> guarded ok step es a \<and> guarded ok step fs (fold step es a)"
  by (induction es arbitrary: a) auto

locale simulation =
  fixes cstep :: "'e \<Rightarrow> 'c \<Rightarrow> 'c" and astep :: "'e \<Rightarrow> 'a \<Rightarrow> 'a"
    and ok :: "'e \<Rightarrow> 'a \<Rightarrow> bool" and rel :: "'c \<Rightarrow> 'a \<Rightarrow> bool"
  assumes step_related: "rel c a \<Longrightarrow> ok e a \<Longrightarrow> rel (cstep e c) (astep e a)"
begin

lemma run_related: "rel c a \<Longrightarrow> guarded ok astep es a \<Longrightarrow> rel (fold cstep es c) (fold astep es a)"
  by (induction es arbitrary: c a) (auto simp: step_related)

end

end
