(* ===== verification/Js_Strings.thy ===== *)
theory Js_Strings
  imports Prelude
begin

text \<open>
  The part of the JavaScript standard library on strings that the program uses. A string is the
  list of its UTF-16 code units, so that \<open>length\<close>, \<open>slice\<close> and \<open>repeat\<close> count what the source
  counts; \<open>js ''abc''\<close> is the string of an ASCII literal of the source.
  The theory holds \<open>trim\<close>, the truth value of a string, the passage between code units and Unicode
  scalar values, and UTF-8 with the decoder of the WHATWG encoding standard (the one behind
  \<open>URLSearchParams\<close>).
\<close>

type_synonym jstring = "16 word list"

definition js :: "string \<Rightarrow> jstring" where
  "js s = map of_char s"

lemma unat_of_char: "unat (of_char c :: 16 word) = of_char c"
proof -
  have "(of_char c :: 16 word) = of_nat (of_char c)" by (simp add: of_nat_of_char)
  moreover have "(of_char c :: nat) < 2 ^ LENGTH(16)"
    by (rule less_trans [OF nat_of_char_less_256]) simp
  ultimately show ?thesis by (simp only: unat_of_nat mod_less)
qed

lemma of_char_word_inject: "(of_char c :: 16 word) = of_char d \<longleftrightarrow> c = d"
  by (metis of_char_eq_iff unat_of_char)

lemma js_inject [simp]: "js a = js b \<longleftrightarrow> a = b"
  by (simp add: js_def inj_map_eq_map inj_def of_char_word_inject)

lemma js_Nil [simp]: "js s = [] \<longleftrightarrow> s = []" "[] = js s \<longleftrightarrow> s = []"
  by (auto simp: js_def)

lemma js_Empty [simp]: "js [] = []"
  by (simp add: js_def)

lemma length_js [simp]: "length (js s) = length s"
  by (simp add: js_def)

subsection \<open>White space and trimming\<close>

definition js_space :: "16 word \<Rightarrow> bool" where
  "js_space c \<longleftrightarrow>
     c \<in> {9, 10, 11, 12, 13, 32, 0xA0, 0x1680, 0x2028, 0x2029, 0x202F, 0x205F, 0x3000, 0xFEFF}
     \<or> (0x2000 \<le> c \<and> c \<le> 0x200A)"

definition js_trim :: "jstring \<Rightarrow> jstring" where
  "js_trim s = rev (dropWhile js_space (rev (dropWhile js_space s)))"

lemma js_trim_Nil [simp]: "js_trim [] = []"
  by (simp add: js_trim_def)

lemma js_trim_empty_iff: "js_trim s = [] \<longleftrightarrow> (\<forall>c\<in>set s. js_space c)"
proof -
  have "(\<forall>c\<in>set (dropWhile js_space s). js_space c) \<longleftrightarrow> (\<forall>c\<in>set s. js_space c)"
    by (induction s) auto
  then show ?thesis by (simp add: js_trim_def)
qed

lemma dropWhile_ends:
  assumes "xs \<noteq> []" "\<not> P (hd xs)"
  shows "dropWhile P xs = xs"
  using assms by (cases xs) auto

lemma js_trim_ends:
  assumes "js_trim s \<noteq> []"
  shows "\<not> js_space (hd (js_trim s)) \<and> \<not> js_space (last (js_trim s))"
proof -
  let ?t = "dropWhile js_space s" and ?u = "dropWhile js_space (rev (dropWhile js_space s))"
  have ne: "?u \<noteq> []" using assms by (simp add: js_trim_def)
  then have hd_u: "\<not> js_space (hd ?u)" by (rule hd_dropWhile)
  obtain zs where zs: "rev ?t = zs @ ?u"
    by (metis takeWhile_dropWhile_id)
  then have "?t = rev ?u @ rev zs" by (metis rev_append rev_rev_ident)
  then have "hd ?t = hd (rev ?u @ rev zs)" by (rule arg_cong)
  then have "hd ?t = hd (rev ?u)" using ne by (simp add: hd_append del: dropWhile_eq_Nil_conv)
  moreover have "?t \<noteq> []" using zs ne by (metis append_is_Nil_conv rev_is_Nil_conv)
  then have "\<not> js_space (hd ?t)" by (rule hd_dropWhile)
  ultimately show ?thesis using hd_u ne by (simp add: js_trim_def last_rev)
qed

lemma js_trim_idem: "js_trim (js_trim s) = js_trim s"
proof (cases "js_trim s = []")
  case False
  let ?t = "js_trim s"
  have "dropWhile js_space ?t = ?t"
    using False js_trim_ends [OF False] by (intro dropWhile_ends) auto
  moreover have "dropWhile js_space (rev ?t) = rev ?t"
    using False js_trim_ends [OF False] by (intro dropWhile_ends) (auto simp: hd_rev)
  ultimately show ?thesis by (subst js_trim_def) simp
qed simp

subsection \<open>Code units and Unicode scalar values\<close>

definition high_surrogate :: "16 word \<Rightarrow> bool" where
  "high_surrogate u \<longleftrightarrow> 0xD800 \<le> unat u \<and> unat u < 0xDC00"

definition low_surrogate :: "16 word \<Rightarrow> bool" where
  "low_surrogate u \<longleftrightarrow> 0xDC00 \<le> unat u \<and> unat u < 0xE000"

definition scalar :: "nat \<Rightarrow> bool" where
  "scalar c \<longleftrightarrow> c < 0xD800 \<or> (0xE000 \<le> c \<and> c < 0x110000)"

definition pair_value :: "16 word \<Rightarrow> 16 word \<Rightarrow> nat" where
  "pair_value u v = (unat u - 0xD800) * 0x400 + (unat v - 0xDC00) + 0x10000"

text \<open>\<open>isWellFormed\<close>: no surrogate without its other half.\<close>

fun well_formed :: "jstring \<Rightarrow> bool" where
  "well_formed [] = True"
| "well_formed [u] = (\<not> high_surrogate u \<and> \<not> low_surrogate u)"
| "well_formed (u # v # us) =
     (if high_surrogate u then low_surrogate v \<and> well_formed us
      else \<not> low_surrogate u \<and> well_formed (v # us))"

text \<open>The scalar values of a string, a lone surrogate read as U+FFFD (the \<open>USVString\<close> conversion).\<close>

fun scalars :: "jstring \<Rightarrow> nat list" where
  "scalars [] = []"
| "scalars [u] = [if high_surrogate u \<or> low_surrogate u then 0xFFFD else unat u]"
| "scalars (u # v # us) =
     (if high_surrogate u \<and> low_surrogate v then pair_value u v # scalars us
      else if high_surrogate u \<or> low_surrogate u then 0xFFFD # scalars (v # us)
      else unat u # scalars (v # us))"

definition utf16 :: "nat \<Rightarrow> jstring" where
  "utf16 c =
     (if c < 0x10000 then [word_of_nat c]
      else [word_of_nat (0xD800 + (c - 0x10000) div 0x400), word_of_nat (0xDC00 + (c - 0x10000) mod 0x400)])"

definition of_scalars :: "nat list \<Rightarrow> jstring" where
  "of_scalars cs = concat (map utf16 cs)"

lemma unit_less: "unat (u :: 16 word) < 65536"
  using unsigned_less [of u] by simp

lemma scalar_unit: "\<not> high_surrogate u \<Longrightarrow> \<not> low_surrogate u \<Longrightarrow> scalar (unat u)"
  using unit_less [of u] by (auto simp: high_surrogate_def low_surrogate_def scalar_def)

lemma pair_value_bounds:
  "high_surrogate u \<Longrightarrow> low_surrogate v \<Longrightarrow> 0x10000 \<le> pair_value u v \<and> pair_value u v < 0x110000"
  by (auto simp: high_surrogate_def low_surrogate_def pair_value_def)

lemma scalar_pair: "high_surrogate u \<Longrightarrow> low_surrogate v \<Longrightarrow> scalar (pair_value u v)"
  using pair_value_bounds [of u v] by (simp add: scalar_def)

lemma scalar_replacement: "scalar 0xFFFD"
  by (simp add: scalar_def)

lemma scalars_scalar: "c \<in> set (scalars s) \<Longrightarrow> scalar c"
  by (induction s rule: scalars.induct)
    (auto split: if_splits intro: scalar_unit scalar_pair scalar_replacement)

lemma utf16_unit: "utf16 (unat u) = [u]"
  using unit_less [of u] by (simp add: utf16_def)

lemma utf16_pair:
  assumes "high_surrogate u" "low_surrogate v"
  shows "utf16 (pair_value u v) = [u, v]"
proof -
  have "unat v - 0xDC00 < 0x400" using assms(2) by (auto simp: low_surrogate_def)
  then have "(pair_value u v - 0x10000) div 0x400 = unat u - 0xD800"
    and "(pair_value u v - 0x10000) mod 0x400 = unat v - 0xDC00"
    by (simp_all add: pair_value_def)
  moreover have "0xD800 + (unat u - 0xD800) = unat u" "0xDC00 + (unat v - 0xDC00) = unat v"
    using assms by (auto simp: high_surrogate_def low_surrogate_def)
  ultimately show ?thesis
    using pair_value_bounds [OF assms] by (simp add: utf16_def)
qed

lemma of_scalars_scalars: "well_formed s \<Longrightarrow> of_scalars (scalars s) = s"
  by (induction s rule: well_formed.induct)
    (auto simp: of_scalars_def utf16_unit utf16_pair split: if_splits)

subsection \<open>UTF-8\<close>

definition utf8 :: "nat \<Rightarrow> nat list" where
  "utf8 c =
     (if c < 0x80 then [c]
      else if c < 0x800 then [0xC0 + c div 64, 0x80 + c mod 64]
      else if c < 0x10000 then [0xE0 + c div 4096, 0x80 + c div 64 mod 64, 0x80 + c mod 64]
      else [0xF0 + c div 262144, 0x80 + c div 4096 mod 64, 0x80 + c div 64 mod 64, 0x80 + c mod 64])"

text \<open>
  The UTF-8 decoder: \<open>n\<close> continuation bytes are still needed, \<open>cp\<close> is the code point so far and
  \<open>lo\<close>..\<open>hi\<close> the range of the next byte. A byte out of range yields U+FFFD and is read again.
\<close>

fun utf8_decode :: "nat \<Rightarrow> nat \<Rightarrow> nat \<Rightarrow> nat \<Rightarrow> nat list \<Rightarrow> nat list" where
  "utf8_decode n cp lo hi [] = (if n = 0 then [] else [0xFFFD])"
| "utf8_decode 0 cp lo hi (b # bs) =
     (if b < 0x80 then b # utf8_decode 0 0 0x80 0xBF bs
      else if 0xC2 \<le> b \<and> b \<le> 0xDF then utf8_decode 1 (b - 0xC0) 0x80 0xBF bs
      else if 0xE0 \<le> b \<and> b \<le> 0xEF then
        utf8_decode 2 (b - 0xE0) (if b = 0xE0 then 0xA0 else 0x80) (if b = 0xED then 0x9F else 0xBF) bs
      else if 0xF0 \<le> b \<and> b \<le> 0xF4 then
        utf8_decode 3 (b - 0xF0) (if b = 0xF0 then 0x90 else 0x80) (if b = 0xF4 then 0x8F else 0xBF) bs
      else 0xFFFD # utf8_decode 0 0 0x80 0xBF bs)"
| "utf8_decode (Suc n) cp lo hi (b # bs) =
     (if b < lo \<or> hi < b then 0xFFFD # utf8_decode 0 0 0x80 0xBF (b # bs)
      else if n = 0 then (cp * 64 + (b - 0x80)) # utf8_decode 0 0 0x80 0xBF bs
      else utf8_decode n (cp * 64 + (b - 0x80)) 0x80 0xBF bs)"

definition utf8_text :: "nat list \<Rightarrow> nat list" where
  "utf8_text bs = utf8_decode 0 0 0x80 0xBF bs"

lemma utf8_bytes: "scalar c \<Longrightarrow> b \<in> set (utf8 c) \<Longrightarrow> b < 256"
  by (auto simp: utf8_def scalar_def split: if_splits)

lemma utf8_join2: "(c div 64) * 64 + c mod 64 = (c :: nat)"
  by simp

lemma utf8_join3: "((c div 4096) * 64 + c div 64 mod 64) * 64 + c mod 64 = (c :: nat)"
proof -
  have "c div 4096 = c div 64 div 64" by (simp add: div_mult2_eq [symmetric])
  then have "(c div 4096) * 64 + c div 64 mod 64 = c div 64" by simp
  then show ?thesis by simp
qed

lemma utf8_join4:
  "(((c div 262144) * 64 + c div 4096 mod 64) * 64 + c div 64 mod 64) * 64 + c mod 64 = (c :: nat)"
proof -
  have "c div 262144 = c div 4096 div 64" by (simp add: div_mult2_eq [symmetric])
  then have "(c div 262144) * 64 + c div 4096 mod 64 = c div 4096" by simp
  then show ?thesis using utf8_join3 [of c] by simp
qed

text \<open>The leading byte pins the range of the next one: \<open>k\<close> is its value, \<open>d\<close> the bound inside its block.\<close>

lemma second_byte_upper:
  assumes "c div (m * 64) = k" "c < k * (m * 64) + d * m" "0 < m"
  shows "c div m mod 64 < (d :: nat)"
proof -
  have "c div m div 64 = k" using assms(1) by (simp add: div_mult2_eq)
  then have "c div m = k * 64 + c div m mod 64" by (metis div_mult_mod_eq)
  moreover have "c div m < k * 64 + d"
    using assms(2,3) by (simp add: div_less_iff_less_mult algebra_simps)
  ultimately show ?thesis by linarith
qed

lemma second_byte_lower:
  assumes "c div (m * 64) = k" "k * (m * 64) + d * m \<le> c" "0 < m"
  shows "d \<le> c div m mod (64 :: nat)"
proof -
  have "c div m div 64 = k" using assms(1) by (simp add: div_mult2_eq)
  then have "c div m = k * 64 + c div m mod 64" by (metis div_mult_mod_eq)
  moreover have "k * 64 + d \<le> c div m"
    using assms(2,3) by (simp add: less_eq_div_iff_mult_less_eq algebra_simps)
  ultimately show ?thesis by linarith
qed

lemma utf8_text_Nil [simp]: "utf8_text [] = []"
  by (simp add: utf8_text_def)

lemma utf8_text_append:
  assumes "scalar c"
  shows "utf8_text (utf8 c @ bs) = c # utf8_text bs"
proof -
  consider "c < 0x80" | "0x80 \<le> c" "c < 0x800" | "0x800 \<le> c" "c < 0x10000" | "0x10000 \<le> c"
    by linarith
  then show ?thesis
  proof cases
    case 1
    then show ?thesis by (simp add: utf8_def utf8_text_def)
  next
    case 2
    have top: "2 \<le> c div 64" "c div 64 \<le> 31" "c mod 64 \<le> 63"
      using div_le_mono [OF 2(1), of 64] div_le_mono [of c 2047 64] 2(2) mod_less_divisor [of 64 c]
      by simp_all
    have u: "utf8 c = [0xC0 + c div 64, 0x80 + c mod 64]" using 2 by (simp add: utf8_def)
    define q r where "q = c div 64" and "r = c mod 64"
    have "2 \<le> q" "q \<le> 31" "r \<le> 63" "q * 64 + r = c" using top by (simp_all add: q_def r_def)
    then show ?thesis unfolding u q_def [symmetric] r_def [symmetric]
      by (simp add: utf8_text_def)
  next
    case 3
    have top: "c div 4096 < 16" using 3 by (simp add: less_mult_imp_div_less)
    have low: "c div 4096 = 0 \<Longrightarrow> 32 \<le> c div 64 mod 64"
      using second_byte_lower [of c 64 0 32] 3 by simp
    have high: "c div 64 mod 64 < 32" if "c div 4096 = 13"
    proof -
      have "c < 57344" using that div_mult_mod_eq [of c 4096] mod_less_divisor [of 4096 c] by linarith
      then have "c < 55296" using assms by (auto simp: scalar_def)
      then show ?thesis using second_byte_upper [of c 64 13 32] that by simp
    qed
    show ?thesis using 3 top low high utf8_join3 [of c]
      by (auto simp: utf8_def utf8_text_def numeral_2_eq_2)
  next
    case 4
    have bound: "c < 0x110000" using assms 4 by (auto simp: scalar_def)
    have top: "c div 262144 < 5" using bound by (simp add: less_mult_imp_div_less)
    have low: "c div 262144 = 0 \<Longrightarrow> 16 \<le> c div 4096 mod 64"
      using second_byte_lower [of c 4096 0 16] 4 by simp
    have high: "c div 262144 = 4 \<Longrightarrow> c div 4096 mod 64 < 16"
      using second_byte_upper [of c 4096 4 16] bound by simp
    show ?thesis using 4 top low high utf8_join4 [of c]
      by (auto simp: utf8_def utf8_text_def numeral_3_eq_3)
  qed
qed

lemma utf8_text_utf8:
  "\<forall>c\<in>set cs. scalar c \<Longrightarrow> utf8_text (concat (map utf8 cs)) = cs"
  by (induction cs) (auto simp: utf8_text_append)

subsection \<open>What the decoder yields is well formed\<close>

text \<open>
  \<open>completes n cp lo hi\<close>: from this state of the decoder every sequence of \<open>n\<close> continuation bytes ends
  in a scalar value.
\<close>

fun completes :: "nat \<Rightarrow> nat \<Rightarrow> nat \<Rightarrow> nat \<Rightarrow> bool" where
  "completes 0 cp lo hi = True"
| "completes (Suc 0) cp lo hi = (\<forall>b. lo \<le> b \<and> b \<le> hi \<longrightarrow> scalar (cp * 64 + (b - 128)))"
| "completes (Suc (Suc n)) cp lo hi = (\<forall>b. lo \<le> b \<and> b \<le> hi \<longrightarrow> completes (Suc n) (cp * 64 + (b - 128)) 128 191)"

lemma completes_1: "cp * 64 + 63 < 0xD800 \<or> 0xE000 \<le> cp * 64 \<and> cp * 64 + 63 < 0x110000 \<Longrightarrow> completes (Suc 0) cp 128 191"
  by (auto simp: scalar_def)

lemma completes_2:
  assumes "128 \<le> lo" "hi \<le> 191"
    "(cp * 64 + (hi - 128)) * 64 + 63 < 0xD800 \<or> 0xE000 \<le> (cp * 64 + (lo - 128)) * 64 \<and> (cp * 64 + (hi - 128)) * 64 + 63 < 0x110000"
  shows "completes (Suc (Suc 0)) cp lo hi"
proof (simp only: completes.simps(3), intro allI impI completes_1)
  fix b assume "lo \<le> b \<and> b \<le> hi"
  then have b: "cp * 64 + (lo - 128) \<le> cp * 64 + (b - 128)" "cp * 64 + (b - 128) \<le> cp * 64 + (hi - 128)" by auto
  have "x * 64 + 63 < 0xD800 \<or> 0xE000 \<le> x * 64 \<and> x * 64 + 63 < 0x110000"
    if "l \<le> x" "x \<le> h" "h * 64 + 63 < 0xD800 \<or> 0xE000 \<le> l * 64 \<and> h * 64 + 63 < 0x110000" for x l h :: nat
    using that by auto
  from this [OF b assms(3)] show "(cp * 64 + (b - 128)) * 64 + 63 < 0xD800 \<or>
      0xE000 \<le> (cp * 64 + (b - 128)) * 64 \<and> (cp * 64 + (b - 128)) * 64 + 63 < 0x110000" .
qed

lemma completes_3:
  assumes "128 \<le> lo" "hi \<le> 191" "0x10000 \<le> (cp * 64 + (lo - 128)) * 4096" "(cp * 64 + (hi - 128)) * 4096 + 4095 < 0x110000"
  shows "completes (Suc (Suc (Suc 0))) cp lo hi"
proof (simp only: completes.simps(3) [of "Suc 0"], intro allI impI completes_2)
  fix b assume "lo \<le> b \<and> b \<le> hi"
  then have "lo - 128 \<le> b - 128" "b - 128 \<le> hi - 128" by auto
  then show "((cp * 64 + (b - 128)) * 64 + (191 - 128)) * 64 + 63 < 0xD800 \<or>
         0xE000 \<le> ((cp * 64 + (b - 128)) * 64 + (128 - 128)) * 64 \<and>
         ((cp * 64 + (b - 128)) * 64 + (191 - 128)) * 64 + 63 < 0x110000"
    using assms(3,4) by simp
qed simp_all

lemma completes_lead:
  "0xC2 \<le> b \<and> b \<le> 0xDF \<Longrightarrow> completes 1 (b - 0xC0) 0x80 0xBF"
  "0xE0 \<le> b \<and> b \<le> 0xEF \<Longrightarrow>
     completes 2 (b - 0xE0) (if b = 0xE0 then 0xA0 else 0x80) (if b = 0xED then 0x9F else 0xBF)"
  "0xF0 \<le> b \<and> b \<le> 0xF4 \<Longrightarrow>
     completes 3 (b - 0xF0) (if b = 0xF0 then 0x90 else 0x80) (if b = 0xF4 then 0x8F else 0xBF)"
proof -
  show "0xC2 \<le> b \<and> b \<le> 0xDF \<Longrightarrow> completes 1 (b - 0xC0) 0x80 0xBF"
    unfolding One_nat_def by (rule completes_1) auto
  show "completes 2 (b - 0xE0) (if b = 0xE0 then 0xA0 else 0x80) (if b = 0xED then 0x9F else 0xBF)"
    if "0xE0 \<le> b \<and> b \<le> 0xEF"
    unfolding numeral_2_eq_2 using that
    by (intro completes_2) (auto split: if_splits)
  show "completes 3 (b - 0xF0) (if b = 0xF0 then 0x90 else 0x80) (if b = 0xF4 then 0x8F else 0xBF)"
    if "0xF0 \<le> b \<and> b \<le> 0xF4"
    unfolding numeral_3_eq_3 using that
    by (intro completes_3) (auto split: if_splits)
qed

lemma utf8_decode_scalar: "completes n cp lo hi \<Longrightarrow> c \<in> set (utf8_decode n cp lo hi bs) \<Longrightarrow> scalar c"
proof (induction n cp lo hi bs rule: utf8_decode.induct)
  case (1 n cp lo hi)
  then show ?case by (auto simp: scalar_replacement split: if_splits)
next
  case (2 cp lo hi b bs)
  have "b < 0x80 \<Longrightarrow> scalar b" by (simp add: scalar_def)
  with 2 completes_lead [of b] show ?case
    by (auto simp: scalar_replacement simp del: completes.simps(2,3) split: if_split_asm)
next
  case (3 n cp lo hi b bs)
  then show ?case
    by (cases n) (auto simp: scalar_replacement split: if_split_asm)
qed

lemma utf8_text_scalar: "c \<in> set (utf8_text bs) \<Longrightarrow> scalar c"
  unfolding utf8_text_def by (rule utf8_decode_scalar [of 0]) simp_all

lemma well_formed_of_scalars: "\<forall>c\<in>set cs. scalar c \<Longrightarrow> well_formed (of_scalars cs)"
proof (induction cs)
  case (Cons c cs)
  have unit: "well_formed (u # s)" if "\<not> high_surrogate u" "\<not> low_surrogate u" "well_formed s" for u s
    using that by (cases s) auto
  show ?case
  proof (cases "c < 0x10000")
    case True
    then have "unat (word_of_nat c :: 16 word) = c" by (simp add: unat_of_nat)
    then show ?thesis
      using Cons True unit by (auto simp: of_scalars_def utf16_def scalar_def high_surrogate_def low_surrogate_def)
  next
    case False
    let ?h = "0xD800 + (c - 0x10000) div 0x400" and ?l = "0xDC00 + (c - 0x10000) mod 0x400"
    have "scalar c" using Cons.prems by simp
    then have "c < 0x110000" by (auto simp: scalar_def)
    then have "(c - 0x10000) div 0x400 < 0x400" by (simp add: div_less_iff_less_mult)
    moreover have "(c - 0x10000) mod 0x400 < 0x400" by simp
    ultimately have "high_surrogate (word_of_nat ?h)" "low_surrogate (word_of_nat ?l)"
      by (simp_all only: high_surrogate_def low_surrogate_def unat_of_nat) (simp_all)
    then show ?thesis using False Cons by (simp add: of_scalars_def utf16_def)
  qed
qed (simp add: of_scalars_def)

end
