(* ===== verification/Js_Uri.thy ===== *)
theory Js_Uri
  imports Js_Strings
begin

text \<open>
  \<open>encodeURIComponent\<close> and \<open>URLSearchParams\<close>: percent-encoding over the UTF-8 bytes of a string, the
  parser of \<open>application/x-www-form-urlencoded\<close> text and its serialiser, with the round trips that
  the redirect links and the log query of the dashboard rest on.
\<close>

definition alnum :: "nat \<Rightarrow> bool" where
  "alnum b \<longleftrightarrow> (48 \<le> b \<and> b \<le> 57) \<or> (65 \<le> b \<and> b \<le> 90) \<or> (97 \<le> b \<and> b \<le> 122)"

definition hex_digit :: "nat \<Rightarrow> nat" where
  "hex_digit n = (if n < 10 then 48 + n else 55 + n)"

definition is_hex :: "nat \<Rightarrow> bool" where
  "is_hex b \<longleftrightarrow> (48 \<le> b \<and> b \<le> 57) \<or> (65 \<le> b \<and> b \<le> 70) \<or> (97 \<le> b \<and> b \<le> 102)"

definition hex_value :: "nat \<Rightarrow> nat" where
  "hex_value b = (if b \<le> 57 then b - 48 else if b \<le> 70 then b - 55 else b - 87)"

definition percent :: "nat \<Rightarrow> nat list" where
  "percent b = [37, hex_digit (b div 16), hex_digit (b mod 16)]"

lemma hex_digit_facts:
  assumes "n < 16"
  shows "is_hex (hex_digit n)" "hex_value (hex_digit n) = n" "alnum (hex_digit n)"
  using assms by (auto simp: hex_digit_def is_hex_def hex_value_def alnum_def)

fun percent_decode :: "nat list \<Rightarrow> nat list" where
  "percent_decode (c # h # l # bs) =
     (if c = 37 \<and> is_hex h \<and> is_hex l then (hex_value h * 16 + hex_value l) # percent_decode bs
      else c # percent_decode (h # l # bs))"
| "percent_decode bs = bs"

lemma percent_decode_percent: "b < 256 \<Longrightarrow> percent_decode (percent b @ bs) = b # percent_decode bs"
  by (simp add: percent_def hex_digit_facts)

lemma percent_decode_plain: "b \<noteq> 37 \<Longrightarrow> percent_decode (b # bs) = b # percent_decode bs"
  by (cases bs rule: percent_decode.cases) auto

subsection \<open>Encoding bytes\<close>

text \<open>
  \<open>escape_bytes keep sp bs\<close>: the bytes of \<open>keep\<close> stand for themselves, a space becomes \<open>+\<close> when
  \<open>sp\<close>, every other byte becomes a percent triple.
\<close>

definition escape_byte :: "(nat \<Rightarrow> bool) \<Rightarrow> bool \<Rightarrow> nat \<Rightarrow> nat list" where
  "escape_byte keep sp b = (if keep b then [b] else if sp \<and> b = 32 then [43] else percent b)"

definition escape_bytes :: "(nat \<Rightarrow> bool) \<Rightarrow> bool \<Rightarrow> nat list \<Rightarrow> nat list" where
  "escape_bytes keep sp bs = concat (map (escape_byte keep sp) bs)"

definition plus_to_space :: "nat list \<Rightarrow> nat list" where
  "plus_to_space bs = map (\<lambda>b. if b = 43 then 32 else b) bs"

definition plain_set :: "(nat \<Rightarrow> bool) \<Rightarrow> bool" where
  "plain_set keep \<longleftrightarrow> \<not> keep 37 \<and> \<not> keep 43 \<and> \<not> keep 38 \<and> \<not> keep 61 \<and> (\<forall>b. keep b \<longrightarrow> b < 128)"

lemma alnum_not_special: "alnum b \<Longrightarrow> b \<noteq> 43 \<and> b \<noteq> 38 \<and> b \<noteq> 61 \<and> b \<noteq> 35 \<and> b \<noteq> 63 \<and> b < 128"
  by (auto simp: alnum_def)

lemma percent_elems:
  assumes "b < 256" "x \<in> set (percent b)"
  shows "x = 37 \<or> alnum x"
proof -
  have "b div 16 < 16" using assms(1) by (simp add: less_mult_imp_div_less)
  then show ?thesis
    using assms(2) hex_digit_facts(3) [of "b div 16"] hex_digit_facts(3) [of "b mod 16"]
    by (auto simp: percent_def)
qed

lemma escape_byte_elems:
  assumes "b < 256" "x \<in> set (escape_byte keep sp b)"
  shows "keep x \<or> x = 37 \<or> alnum x \<or> (sp \<and> x = 43)"
  using assms percent_elems [of b x] by (auto simp: escape_byte_def split: if_splits)

lemma escape_bytes_elems:
  assumes "\<forall>b\<in>set bs. b < 256" "x \<in> set (escape_bytes keep sp bs)"
  shows "keep x \<or> x = 37 \<or> alnum x \<or> (sp \<and> x = 43)"
  using assms escape_byte_elems by (fastforce simp: escape_bytes_def)

lemma decode_escape_byte:
  assumes "plain_set keep" "b < 256"
  shows "percent_decode (plus_to_space (escape_byte keep sp b) @ bs) = b # percent_decode bs"
proof -
  have "percent_decode (plus_to_space (percent b) @ bs) = b # percent_decode bs"
  proof -
    have "plus_to_space (percent b) = percent b"
      using percent_elems [OF assms(2)] alnum_not_special
      unfolding plus_to_space_def by (intro map_idI) fastforce
    then show ?thesis using assms(2) by (simp add: percent_decode_percent)
  qed
  moreover have "keep b \<Longrightarrow> b \<noteq> 37 \<and> b \<noteq> 43" using assms(1) by (auto simp: plain_set_def)
  ultimately show ?thesis
    by (auto simp: escape_byte_def plus_to_space_def percent_decode_plain)
qed

lemma decode_escape_bytes:
  assumes "plain_set keep" "\<forall>b\<in>set bs. b < 256"
  shows "percent_decode (plus_to_space (escape_bytes keep sp bs)) = bs"
  using assms(2)
proof (induction bs)
  case Nil
  then show ?case by (simp add: escape_bytes_def plus_to_space_def)
next
  case (Cons b bs)
  then show ?case
    using decode_escape_byte [OF assms(1), of b sp "plus_to_space (escape_bytes keep sp bs)"]
    by (simp add: escape_bytes_def plus_to_space_def)
qed

subsection \<open>Bytes of a string and back\<close>

definition bytes_of :: "jstring \<Rightarrow> nat list" where
  "bytes_of s = concat (map utf8 (scalars s))"

definition text_of :: "nat list \<Rightarrow> jstring" where
  "text_of bs = of_scalars (utf8_text bs)"

definition ascii :: "nat list \<Rightarrow> jstring" where
  "ascii bs = map word_of_nat bs"

lemma bytes_of_less: "b \<in> set (bytes_of s) \<Longrightarrow> b < 256"
  using utf8_bytes scalars_scalar by (auto simp: bytes_of_def)

lemma text_of_bytes_of: "well_formed s \<Longrightarrow> text_of (bytes_of s) = s"
  by (simp add: text_of_def bytes_of_def utf8_text_utf8 scalars_scalar of_scalars_scalars)

lemma unat_ascii: "b < 128 \<Longrightarrow> unat (word_of_nat b :: 16 word) = b"
  by (simp add: unat_of_nat)

lemma bytes_of_Cons:
  assumes "unat u < 128"
  shows "bytes_of (u # s) = unat u # bytes_of s"
proof -
  have "\<not> high_surrogate u" "\<not> low_surrogate u"
    using assms by (auto simp: high_surrogate_def low_surrogate_def)
  then have "scalars (u # s) = unat u # scalars s" by (cases s) auto
  then show ?thesis using assms by (simp add: bytes_of_def utf8_def)
qed

lemma bytes_of_ascii_append:
  "\<forall>b\<in>set bs. b < 128 \<Longrightarrow> bytes_of (ascii bs @ s) = bs @ bytes_of s"
  by (induction bs) (simp_all add: ascii_def bytes_of_Cons unat_ascii)

lemma bytes_of_Nil [simp]: "bytes_of [] = []"
  by (simp add: bytes_of_def)

lemma bytes_of_ascii: "\<forall>b\<in>set bs. b < 128 \<Longrightarrow> bytes_of (ascii bs) = bs"
  using bytes_of_ascii_append [of bs "[]"] by simp

lemma js_ascii: "js s = ascii (map of_char s)"
proof -
  have "(of_char c :: 16 word) = word_of_nat (of_char c)" for c by (simp add: of_nat_of_char)
  then show ?thesis by (simp add: js_def ascii_def)
qed

subsection \<open>encodeURIComponent\<close>

definition uri_unreserved :: "nat \<Rightarrow> bool" where
  "uri_unreserved b \<longleftrightarrow> alnum b \<or> b \<in> {33, 39, 40, 41, 42, 45, 46, 95, 126}"

definition escape_uri :: "jstring \<Rightarrow> nat list" where
  "escape_uri s = escape_bytes uri_unreserved False (bytes_of s)"

text \<open>\<open>None\<close> is the \<open>URIError\<close> the function throws on a lone surrogate.\<close>

definition encodeURIComponent :: "jstring \<Rightarrow> jstring option" where
  "encodeURIComponent s = (if well_formed s then Some (ascii (escape_uri s)) else None)"

lemma plain_uri: "plain_set uri_unreserved"
  by (auto simp: plain_set_def uri_unreserved_def alnum_def)

lemma escape_uri_elems:
  assumes "b \<in> set (escape_uri s)"
  shows "uri_unreserved b \<or> b = 37"
  using escape_bytes_elems [of "bytes_of s" b uri_unreserved False] assms
  by (auto simp: escape_uri_def bytes_of_less uri_unreserved_def)

lemma escape_uri_no:
  "38 \<notin> set (escape_uri s)" "61 \<notin> set (escape_uri s)" "35 \<notin> set (escape_uri s)"
  "63 \<notin> set (escape_uri s)" "\<forall>b\<in>set (escape_uri s). b < 128"
  using escape_uri_elems by (fastforce simp: uri_unreserved_def alnum_def)+

subsection \<open>URLSearchParams\<close>

type_synonym search_params = "(jstring \<times> jstring) list"

definition form_decode :: "nat list \<Rightarrow> jstring" where
  "form_decode bs = text_of (percent_decode (plus_to_space bs))"

definition form_pairs :: "nat list \<Rightarrow> search_params" where
  "form_pairs bs =
     map (\<lambda>sq. let (n, v) = cut_at 61 sq in (form_decode n, form_decode v))
       (filter (\<lambda>sq. sq \<noteq> []) (split_at 38 bs))"

definition strip_question :: "jstring \<Rightarrow> jstring" where
  "strip_question s = (case s of [] \<Rightarrow> [] | u # us \<Rightarrow> if u = 63 then us else s)"

definition URLSearchParams :: "jstring \<Rightarrow> search_params" where
  "URLSearchParams s = form_pairs (bytes_of (strip_question s))"

definition params_get :: "search_params \<Rightarrow> jstring \<Rightarrow> jstring option" where
  "params_get ps k = map_option snd (List.find (\<lambda>p. fst p = k) ps)"

text \<open>\<open>set\<close> replaces the first pair of that name and drops the others, or appends.\<close>

fun params_set :: "search_params \<Rightarrow> jstring \<Rightarrow> jstring \<Rightarrow> search_params" where
  "params_set [] k v = [(k, v)]"
| "params_set (p # ps) k v =
     (if fst p = k then (k, v) # filter (\<lambda>q. fst q \<noteq> k) ps else p # params_set ps k v)"

definition form_keep :: "nat \<Rightarrow> bool" where
  "form_keep b \<longleftrightarrow> alnum b \<or> b \<in> {42, 45, 46, 95}"

definition escape_form :: "jstring \<Rightarrow> nat list" where
  "escape_form s = escape_bytes form_keep True (bytes_of s)"

fun form_bytes :: "search_params \<Rightarrow> nat list" where
  "form_bytes [] = []"
| "form_bytes [(n, v)] = escape_form n @ 61 # escape_form v"
| "form_bytes ((n, v) # p # ps) = escape_form n @ 61 # escape_form v @ 38 # form_bytes (p # ps)"

definition params_toString :: "search_params \<Rightarrow> jstring" where
  "params_toString ps = ascii (form_bytes ps)"

lemma plain_form: "plain_set form_keep"
  by (auto simp: plain_set_def form_keep_def alnum_def)

lemma escape_form_no:
  "38 \<notin> set (escape_form s)" "61 \<notin> set (escape_form s)" "\<forall>b\<in>set (escape_form s). b < 128"
proof -
  have "form_keep b \<or> b = 37 \<or> b = 43" if "b \<in> set (escape_form s)" for b
    using escape_bytes_elems [of "bytes_of s" b form_keep True] that
    by (auto simp: escape_form_def bytes_of_less form_keep_def)
  then show "38 \<notin> set (escape_form s)" "61 \<notin> set (escape_form s)" "\<forall>b\<in>set (escape_form s). b < 128"
    by (fastforce simp: form_keep_def alnum_def)+
qed

lemma form_decode_form: "well_formed s \<Longrightarrow> form_decode (escape_form s) = s"
  using bytes_of_less
  by (simp add: form_decode_def escape_form_def decode_escape_bytes plain_form text_of_bytes_of)

lemma form_decode_uri: "well_formed s \<Longrightarrow> form_decode (escape_uri s) = s"
  using bytes_of_less
  by (simp add: form_decode_def escape_uri_def decode_escape_bytes plain_uri text_of_bytes_of)

lemma form_pairs_single:
  assumes "38 \<notin> set n" "61 \<notin> set n" "38 \<notin> set v"
  shows "form_pairs (n @ 61 # v) = [(form_decode n, form_decode v)]"
proof -
  have "split_at 38 (n @ 61 # v) = [n @ 61 # v]" using assms by (intro split_at_id) auto
  then show ?thesis using assms(2) by (simp add: form_pairs_def cut_at_append)
qed

lemma form_pairs_Cons:
  assumes "38 \<notin> set n" "61 \<notin> set n" "38 \<notin> set v"
  shows "form_pairs (n @ 61 # v @ 38 # bs) = (form_decode n, form_decode v) # form_pairs bs"
proof -
  have "split_at 38 ((n @ 61 # v) @ 38 # bs) = (n @ 61 # v) # split_at 38 bs"
    using assms by (intro split_at_append) auto
  then show ?thesis using assms(2) by (simp add: form_pairs_def cut_at_append)
qed

lemma form_pairs_form_bytes:
  "\<forall>(n, v)\<in>set ps. well_formed n \<and> well_formed v \<Longrightarrow> form_pairs (form_bytes ps) = ps"
proof (induction ps rule: form_bytes.induct)
  case 1
  then show ?case by (simp add: form_pairs_def)
next
  case (2 n v)
  then show ?case by (simp add: form_pairs_single escape_form_no form_decode_form)
next
  case (3 n v p ps)
  then show ?case
    by (simp add: form_pairs_Cons escape_form_no form_decode_form)
qed

lemma form_bytes_ascii: "\<forall>b\<in>set (form_bytes ps). b < 128"
  by (induction ps rule: form_bytes.induct) (auto simp: escape_form_no)

lemma ascii_no_question:
  assumes "\<forall>b\<in>set bs. b < 128" "63 \<notin> set bs"
  shows "strip_question (ascii bs) = ascii bs"
proof (cases bs)
  case (Cons b bs')
  then have "unat (word_of_nat b :: 16 word) \<noteq> unat (63 :: 16 word)"
    using assms by (auto simp: unat_ascii)
  then have "(word_of_nat b :: 16 word) \<noteq> 63" by metis
  then show ?thesis using Cons by (simp add: strip_question_def ascii_def)
qed (simp add: strip_question_def ascii_def)

lemma form_bytes_no_question: "63 \<notin> set (form_bytes ps)"
proof -
  have "63 \<notin> set (escape_form s)" for s
    using escape_bytes_elems [of "bytes_of s" 63 form_keep True]
    by (auto simp: escape_form_def bytes_of_less form_keep_def alnum_def)
  then show ?thesis by (induction ps rule: form_bytes.induct) auto
qed

text \<open>What the serialiser writes, the parser reads back.\<close>

lemma URLSearchParams_toString:
  "\<forall>(n, v)\<in>set ps. well_formed n \<and> well_formed v \<Longrightarrow> URLSearchParams (params_toString ps) = ps"
  by (simp add: URLSearchParams_def params_toString_def ascii_no_question form_bytes_ascii
      form_bytes_no_question bytes_of_ascii form_pairs_form_bytes)

text \<open>
  A search string \<open>?name=\<close> followed by a component-encoded value: \<open>get name\<close> returns the value.
  The name is a literal of the source.
\<close>

definition literal_name :: "string \<Rightarrow> bool" where
  "literal_name k \<longleftrightarrow> (\<forall>c\<in>set k. alnum (of_char c))"

lemma js_append: "js (a @ b) = js a @ js b"
  by (simp add: js_def)

lemma form_decode_plain:
  assumes "\<forall>b\<in>set bs. alnum b"
  shows "form_decode bs = ascii bs"
proof -
  have special: "\<forall>b\<in>set bs. b \<noteq> 37 \<and> b \<noteq> 43 \<and> b < 128"
    using assms by (auto simp: alnum_def)
  then have "percent_decode (plus_to_space bs) = bs"
    by (induction bs) (auto simp: plus_to_space_def percent_decode_plain)
  moreover have "utf8_text bs = bs" using special
    by (induction bs) (auto simp: utf8_text_def)
  moreover have "of_scalars bs = ascii bs" using special
    by (induction bs) (auto simp: of_scalars_def ascii_def utf16_def)
  ultimately show ?thesis by (simp add: form_decode_def text_of_def)
qed

lemma get_encoded_component:
  assumes k: "literal_name k" and e: "encodeURIComponent s = Some e"
  shows "params_get (URLSearchParams (js ''?'' @ js k @ js ''='' @ e)) (js k) = Some s"
proof -
  let ?k = "map of_char k :: nat list" and ?v = "escape_uri s"
  have wf: "well_formed s" and e': "e = ascii ?v"
    using e by (auto simp: encodeURIComponent_def split: if_splits)
  have k': "\<forall>b\<in>set ?k. alnum b" using k by (simp add: literal_name_def)
  have "js k @ js ''='' @ e = ascii (?k @ 61 # ?v)"
    unfolding e' js_ascii by (simp add: ascii_def)
  moreover have "js ''?'' = [63]" by (simp add: js_def)
  moreover have "bytes_of (ascii (?k @ 61 # ?v)) = ?k @ 61 # ?v"
    using k' alnum_not_special escape_uri_no(5) by (intro bytes_of_ascii) auto
  moreover have "form_pairs (?k @ 61 # ?v) = [(form_decode ?k, form_decode ?v)]"
    using k' alnum_not_special escape_uri_no by (intro form_pairs_single) auto
  moreover have "form_decode ?k = js k" using k' by (simp add: form_decode_plain js_ascii)
  ultimately show ?thesis
    using wf by (simp add: URLSearchParams_def strip_question_def params_get_def form_decode_uri)
qed

lemma get_set_same: "params_get (params_set ps k v) k = Some v"
  by (induction ps) (auto simp: params_get_def)

text \<open>Whatever the query, what \<open>get\<close> returns has no lone surrogate, so that it can be encoded again.\<close>

lemma text_of_well_formed: "well_formed (text_of bs)"
  by (simp add: text_of_def well_formed_of_scalars utf8_text_scalar)

lemma params_get_well_formed: "params_get (URLSearchParams s) k = Some v \<Longrightarrow> well_formed v"
  by (auto simp: params_get_def URLSearchParams_def form_pairs_def form_decode_def text_of_well_formed Let_def
      split: prod.splits dest!: find_Some_mem)

lemma encode_get: "params_get (URLSearchParams s) k = Some v \<Longrightarrow> \<exists>e. encodeURIComponent v = Some e"
  using params_get_well_formed [of s k v] by (simp add: encodeURIComponent_def)

end
