(* ===== verification/Js_Numbers.thy ===== *)
theory Js_Numbers
  imports Js_Strings
begin

text \<open>
  Decimal numbers as text. A JSON number is kept as an exact decimal \<open>Num neg m e\<close>, the value
  \<open>m * 10 ^ e\<close> with its sign; the rounding to a double that \<open>JSON.parse\<close> also does is not modelled,
  so the theory is about literals of at most 17 significant digits in the range of a double. The
  text is a list of code unit values. \<open>num_text\<close> is \<open>Number.prototype.toString\<close> on such a decimal and
  \<open>parse_num\<close> the number grammar of JSON; \<open>parse_num_text\<close> is their round trip.
\<close>

datatype jnum = Num (num_neg: bool) (num_mant: nat) (num_exp: int)

definition is_digit :: "nat \<Rightarrow> bool" where
  "is_digit c \<longleftrightarrow> 48 \<le> c \<and> c \<le> 57"

fun digits :: "nat \<Rightarrow> nat list" where
  "digits n = (if n < 10 then [48 + n] else digits (n div 10) @ [48 + n mod 10])"

declare digits.simps [simp del]

definition value_from :: "nat \<Rightarrow> nat list \<Rightarrow> nat" where
  "value_from a ds = foldl (\<lambda>a d. a * 10 + (d - 48)) a ds"

lemma value_from_append: "value_from a (ds @ es) = value_from (value_from a ds) es"
  by (simp add: value_from_def)

lemma value_from_Nil [simp]: "value_from a [] = a"
  by (simp add: value_from_def)

lemma value_from_Cons [simp]: "value_from a (d # ds) = value_from (a * 10 + (d - 48)) ds"
  by (simp add: value_from_def)

lemma value_digits: "value_from 0 (digits n) = n"
proof (induction n rule: digits.induct)
  case (1 n)
  show ?case
  proof (cases "n < 10")
    case True
    then show ?thesis by (simp add: digits.simps [of n])
  next
    case False
    with 1 show ?thesis by (simp add: digits.simps [of n] value_from_append)
  qed
qed

lemma digits_digit: "d \<in> set (digits n) \<Longrightarrow> is_digit d"
proof (induction n rule: digits.induct)
  case (1 n)
  then show ?case by (auto simp: digits.simps [of n] is_digit_def split: if_splits)
qed

lemma digits_neq_Nil [simp]: "digits n \<noteq> []"
  by (subst digits.simps) simp

lemma hd_digits: "0 < n \<Longrightarrow> hd (digits n) \<noteq> 48"
proof (induction n rule: digits.induct)
  case (1 n)
  show ?case
  proof (cases "n < 10")
    case True
    with 1 show ?thesis by (simp add: digits.simps [of n])
  next
    case False
    then have "hd (digits (n div 10)) \<noteq> 48" using 1 by simp
    with False show ?thesis by (simp add: digits.simps [of n] hd_append)
  qed
qed

lemma value_zeros: "value_from a (replicate j 48) = a * 10 ^ j"
  by (induction j arbitrary: a) simp_all

subsection \<open>Normal form\<close>

function norm_num :: "bool \<Rightarrow> nat \<Rightarrow> int \<Rightarrow> jnum" where
  "norm_num neg m e =
     (if m = 0 then Num neg 0 0
      else if m mod 10 = 0 then norm_num neg (m div 10) (e + 1)
      else Num neg m e)"
  by pat_completeness auto
termination
  by (relation "measure (\<lambda>(neg, m, e). m)") auto

declare norm_num.simps [simp del]

definition canonical :: "jnum \<Rightarrow> bool" where
  "canonical n \<longleftrightarrow> (if num_mant n = 0 then num_exp n = 0 else num_mant n mod 10 \<noteq> 0)"

lemma norm_num_canonical: "canonical (norm_num neg m e)"
proof (induction neg m e rule: norm_num.induct)
  case (1 neg m e)
  then show ?case by (subst norm_num.simps) (auto simp: canonical_def)
qed

lemma norm_num_id: "m mod 10 \<noteq> 0 \<Longrightarrow> norm_num neg m e = Num neg m e"
  by (subst norm_num.simps) auto

lemma norm_num_shift: "m mod 10 \<noteq> 0 \<Longrightarrow> norm_num neg (m * 10 ^ j) e = Num neg m (e + int j)"
proof (induction j arbitrary: e)
  case 0
  then show ?case by (simp add: norm_num_id)
next
  case (Suc j)
  have "m * 10 ^ Suc j \<noteq> 0" using Suc.prems by auto
  moreover have "m * 10 ^ Suc j mod 10 = 0" "m * 10 ^ Suc j div 10 = m * 10 ^ j" by simp_all
  ultimately have "norm_num neg (m * 10 ^ Suc j) e = norm_num neg (m * 10 ^ j) (e + 1)"
    by (subst norm_num.simps) simp
  then show ?case using Suc.IH [OF Suc.prems] by simp
qed

subsection \<open>Number to text\<close>

definition exp_text :: "int \<Rightarrow> nat list" where
  "exp_text x = 101 # (if x < 0 then 45 else 43) # digits (nat \<bar>x\<bar>)"

definition abs_text :: "nat \<Rightarrow> int \<Rightarrow> nat list" where
  "abs_text m e =
     (let ds = digits m; k = int (length ds); n = k + e
      in if k \<le> n \<and> n \<le> 21 then ds @ replicate (nat e) 48
         else if 0 < n \<and> n \<le> 21 then take (nat n) ds @ 46 # drop (nat n) ds
         else if -6 < n \<and> n \<le> 0 then 48 # 46 # replicate (nat (- n)) 48 @ ds
         else hd ds # (if tl ds = [] then [] else 46 # tl ds) @ exp_text (n - 1))"

definition num_text :: "jnum \<Rightarrow> nat list" where
  "num_text n =
     (if num_mant n = 0 then [48]
      else (if num_neg n then [45] else []) @ abs_text (num_mant n) (num_exp n))"

subsection \<open>Text to number\<close>

definition parse_exp :: "nat list \<Rightarrow> int option" where
  "parse_exp s =
     (case s of
        [] \<Rightarrow> Some 0
      | c # r \<Rightarrow>
          if c = 101 \<or> c = 69 then
            (let (neg, ds) = (case r of [] \<Rightarrow> (False, []) | d # r' \<Rightarrow>
                if d = 45 then (True, r') else if d = 43 then (False, r') else (False, r))
             in if ds \<noteq> [] \<and> (\<forall>d\<in>set ds. is_digit d)
                then Some ((if neg then - 1 else 1) * int (value_from 0 ds)) else None)
          else None)"

definition parse_frac :: "nat list \<Rightarrow> (nat list \<times> nat list) option" where
  "parse_frac s =
     (case s of
        [] \<Rightarrow> Some ([], [])
      | c # r \<Rightarrow>
          if c = 46 then
            (let fp = takeWhile is_digit r in if fp = [] then None else Some (fp, dropWhile is_digit r))
          else Some ([], s))"

definition parse_abs :: "bool \<Rightarrow> nat list \<Rightarrow> jnum option" where
  "parse_abs neg s =
     (let ip = takeWhile is_digit s
      in if ip = [] \<or> (hd ip = 48 \<and> tl ip \<noteq> []) then None
         else case parse_frac (dropWhile is_digit s) of
             None \<Rightarrow> None
           | Some (fp, r) \<Rightarrow>
               (case parse_exp r of
                  None \<Rightarrow> None
                | Some x \<Rightarrow> Some (norm_num neg (value_from 0 (ip @ fp)) (x - int (length fp)))))"

definition parse_num :: "nat list \<Rightarrow> jnum option" where
  "parse_num s =
     (case s of [] \<Rightarrow> None | c # r \<Rightarrow> if c = 45 then parse_abs True r else parse_abs False s)"

lemma parse_num_canonical: "parse_num s = Some n \<Longrightarrow> canonical n"
  by (auto simp: parse_num_def parse_abs_def Let_def norm_num_canonical split: list.splits if_splits option.splits)

subsection \<open>Round trip\<close>

lemma parse_exp_exp_text: "parse_exp (exp_text x) = Some x"
  by (auto simp: parse_exp_def exp_text_def value_digits digits_digit Let_def)

lemma parse_frac_point:
  assumes "ds \<noteq> []" "\<forall>d\<in>set ds. is_digit d" "r = [] \<or> \<not> is_digit (hd r)"
  shows "parse_frac (46 # ds @ r) = Some (ds, r)"
proof -
  have "takeWhile is_digit (ds @ r) = ds" "dropWhile is_digit (ds @ r) = r"
    using assms(2,3) by (cases r; auto)+
  then show ?thesis using assms(1) by (simp add: parse_frac_def)
qed

lemma parse_frac_exp: "parse_frac (exp_text x) = Some ([], exp_text x)"
  by (simp add: parse_frac_def exp_text_def)

lemma parse_absI:
  assumes "s = ip @ t" "ip \<noteq> []" "\<forall>d\<in>set ip. is_digit d" "hd ip \<noteq> 48 \<or> tl ip = []"
    "t = [] \<or> \<not> is_digit (hd t)" "parse_frac t = Some (fp, r)" "parse_exp r = Some x"
  shows "parse_abs neg s = Some (norm_num neg (value_from 0 (ip @ fp)) (x - int (length fp)))"
proof -
  have "takeWhile is_digit s = ip" "dropWhile is_digit s = t"
    using assms by (cases t; auto)+
  then show ?thesis using assms by (auto simp: parse_abs_def Let_def)
qed

lemma not_digit_punct [simp]: "\<not> is_digit 46" "\<not> is_digit 101" "is_digit 48"
  by (simp_all add: is_digit_def)

lemma parse_abs_abs_text:
  assumes m: "m mod 10 \<noteq> 0"
  shows "parse_abs neg (abs_text m e) = Some (Num neg m e)"
proof -
  define ds where "ds = digits m"
  define k where "k = int (length ds)"
  define n where "n = k + e"
  have ds: "ds \<noteq> []" "\<forall>d\<in>set ds. is_digit d" "hd ds \<noteq> 48" "value_from 0 ds = m"
    using m hd_digits [of m] by (auto simp: ds_def digits_digit value_digits)
  have tl_digits: "\<forall>d\<in>set (tl ds). is_digit d" using ds by (cases ds) auto
  have shape: "abs_text m e =
      (if k \<le> n \<and> n \<le> 21 then ds @ replicate (nat e) 48
       else if 0 < n \<and> n \<le> 21 then take (nat n) ds @ 46 # drop (nat n) ds
       else if -6 < n \<and> n \<le> 0 then 48 # 46 # replicate (nat (- n)) 48 @ ds
       else hd ds # (if tl ds = [] then [] else 46 # tl ds) @ exp_text (n - 1))"
    by (simp add: abs_text_def Let_def ds_def k_def n_def)
  consider "k \<le> n" "n \<le> 21" | "n < k" "0 < n" "n \<le> 21" | "-6 < n" "n \<le> 0"
    | "(n \<le> -6 \<or> 21 < n)" by linarith
  then show ?thesis
  proof cases
    case 1
    then have "parse_abs neg (abs_text m e) =
        Some (norm_num neg (value_from 0 ((ds @ replicate (nat e) 48) @ [])) (0 - int (length ([] :: nat list))))"
      using ds by (intro parse_absI [where t = "[]" and r = "[]"]) (auto simp: shape parse_frac_def parse_exp_def)
    with 1 ds m show ?thesis
      by (simp add: value_from_append value_zeros norm_num_shift n_def)
  next
    case 2
    have len: "nat n < length ds" using 2 by (simp add: k_def nat_less_iff)
    have "parse_frac (46 # drop (nat n) ds @ []) = Some (drop (nat n) ds, [])"
      using ds len by (intro parse_frac_point) (auto dest: in_set_dropD)
    then have "parse_abs neg (abs_text m e) =
        Some (norm_num neg (value_from 0 (take (nat n) ds @ drop (nat n) ds)) (0 - int (length (drop (nat n) ds))))"
      using ds 2 by (intro parse_absI [where t = "46 # drop (nat n) ds" and r = "[]"])
        (auto simp: shape parse_exp_def dest: in_set_takeD)
    moreover have "0 - int (length (drop (nat n) ds)) = e"
      using len 2 by (simp add: n_def k_def of_nat_diff)
    ultimately show ?thesis using ds m by (simp add: norm_num_id)
  next
    case 3
    let ?fp = "replicate (nat (- n)) 48 @ ds"
    have "parse_frac (46 # ?fp @ []) = Some (?fp, [])"
      using ds by (intro parse_frac_point) auto
    moreover have "\<not> k \<le> n" using 3 ds by (cases ds) (auto simp: k_def)
    ultimately have "parse_abs neg (abs_text m e) =
        Some (norm_num neg (value_from 0 ([48] @ ?fp)) (0 - int (length ?fp)))"
      using 3 by (intro parse_absI [where t = "46 # ?fp" and r = "[]"]) (auto simp: shape parse_exp_def)
    moreover have "0 - int (length ?fp) = e" using 3 by (simp add: n_def k_def)
    ultimately show ?thesis using ds m by (simp add: value_from_append value_zeros norm_num_id)
  next
    case 4
    have k: "1 \<le> k" using ds by (cases ds) (auto simp: k_def)
    let ?t = "(if tl ds = [] then [] else 46 # tl ds) @ exp_text (n - 1)"
    have "parse_frac ?t = Some (tl ds, exp_text (n - 1))"
      using parse_frac_point [of "tl ds" "exp_text (n - 1)"] tl_digits
      by (auto simp: parse_frac_exp) (simp add: exp_text_def)
    moreover have "?t \<noteq> [] \<and> \<not> is_digit (hd ?t)" by (simp add: exp_text_def)
    ultimately have "parse_abs neg (abs_text m e) =
        Some (norm_num neg (value_from 0 ([hd ds] @ tl ds)) (n - 1 - int (length (tl ds))))"
      using 4 ds k by (intro parse_absI [where t = ?t and r = "exp_text (n - 1)"])
        (auto simp: shape parse_exp_exp_text)
    moreover have "n - 1 - int (length (tl ds)) = e" using k by (simp add: n_def k_def of_nat_diff)
    ultimately show ?thesis using ds m by (simp add: norm_num_id)
  qed
qed

text \<open>Zero prints without a sign, so the round trip holds up to the sign of zero.\<close>

definition unsigned_zero :: "jnum \<Rightarrow> jnum" where
  "unsigned_zero n = (if num_mant n = 0 then Num False 0 0 else n)"

lemma abs_text_hd: "m mod 10 \<noteq> 0 \<Longrightarrow> abs_text m e \<noteq> [] \<and> is_digit (hd (abs_text m e))"
  using digits_digit [of _ m] hd_in_set [of "digits m"]
  by (auto simp: abs_text_def Let_def hd_append hd_take)

lemma parse_num_text:
  assumes "canonical n"
  shows "parse_num (num_text n) = Some (unsigned_zero n)"
proof (cases "num_mant n = 0")
  case True
  then show ?thesis
    by (simp add: num_text_def parse_num_def parse_abs_def parse_frac_def parse_exp_def unsigned_zero_def
        norm_num.simps)
next
  case False
  then have m: "num_mant n mod 10 \<noteq> 0" using assms by (simp add: canonical_def)
  obtain c r where t: "abs_text (num_mant n) (num_exp n) = c # r" and c: "is_digit c"
    using abs_text_hd [OF m, of "num_exp n"] by (cases "abs_text (num_mant n) (num_exp n)") auto
  have "c \<noteq> 45" using c by (auto simp: is_digit_def)
  then show ?thesis using False t parse_abs_abs_text [OF m, of "num_neg n" "num_exp n"]
    by (cases n) (auto simp: num_text_def parse_num_def unsigned_zero_def)
qed

lemma unsigned_zero_text: "num_text (unsigned_zero n) = num_text n"
  by (simp add: num_text_def unsigned_zero_def)

definition num_char :: "nat \<Rightarrow> bool" where
  "num_char c \<longleftrightarrow> is_digit c \<or> c \<in> {43, 45, 46, 69, 101}"

lemma num_char_digits: "c \<in> set (digits m) \<Longrightarrow> num_char c"
  using digits_digit by (auto simp: num_char_def)

lemma num_char_parts:
  "num_char (hd (digits m))" "c \<in> set (tl (digits m)) \<Longrightarrow> num_char c"
  "c \<in> set (take j (digits m)) \<Longrightarrow> num_char c" "c \<in> set (drop j (digits m)) \<Longrightarrow> num_char c"
  using num_char_digits hd_in_set [OF digits_neq_Nil] list.set_sel(2) [OF digits_neq_Nil]
  by (blast dest: in_set_takeD in_set_dropD)+

lemma num_char_puncts: "num_char 45" "num_char 43" "num_char 46" "num_char 48" "num_char 101"
  by (simp_all add: num_char_def)

lemma num_text_chars: "c \<in> set (num_text n) \<Longrightarrow> num_char c"
  by (auto simp: num_text_def abs_text_def exp_text_def Let_def num_char_puncts
      intro: num_char_digits num_char_parts split: if_splits)

lemma num_text_hd: "canonical n \<Longrightarrow> num_text n \<noteq> [] \<and> (hd (num_text n) = 45 \<or> is_digit (hd (num_text n)))"
  using abs_text_hd [of "num_mant n" "num_exp n"] by (auto simp: num_text_def canonical_def hd_append)

end
