(* ===== verification/Js_Json.thy ===== *)
theory Js_Json
  imports Js_Uri Js_Numbers "HOL-Library.Multiset"
begin

text \<open>
  \<open>JSON.parse\<close> and \<open>JSON.stringify\<close>. A value is a \<open>json\<close>; the text is a JavaScript string. The
  parser is a lexer over the code units followed by a machine over the tokens with an explicit
  stack of open containers, so that both recursions are structural in the input and no fuel is
  needed. Objects keep the property order of JavaScript: array-index names first, in numeric
  order, then the other names in the order of their first occurrence; a repeated name keeps its
  place and takes the last value. \<open>parse_stringify\<close> is the round trip for both the compact and the
  indented text.
\<close>

datatype json =
    JNull
  | JBool bool
  | JNum jnum
  | JStr jstring
  | JArr "json list"
  | JObj "(jstring \<times> json) list"

subsection \<open>Property order\<close>

text \<open>The value of an array index name: a canonical decimal below \<open>2 ^ 32 - 1\<close>.\<close>

definition index_value :: "jstring \<Rightarrow> nat option" where
  "index_value k =
     (let ds = map unat k; n = value_from 0 ds
      in if ds \<noteq> [] \<and> (\<forall>d\<in>set ds. is_digit d) \<and> digits n = ds \<and> n < 4294967295 then Some n else None)"

fun put_prop :: "(jstring \<times> json) list \<Rightarrow> jstring \<Rightarrow> json \<Rightarrow> (jstring \<times> json) list" where
  "put_prop [] k v = [(k, v)]"
| "put_prop (p # ps) k v = (if fst p = k then (k, v) # ps else p # put_prop ps k v)"

definition insert_all :: "(jstring \<times> json) list \<Rightarrow> (jstring \<times> json) list" where
  "insert_all kvs = foldl (\<lambda>ps (k, v). put_prop ps k v) [] kvs"

definition is_index :: "jstring \<times> json \<Rightarrow> bool" where
  "is_index p \<longleftrightarrow> index_value (fst p) \<noteq> None"

definition order_props :: "(jstring \<times> json) list \<Rightarrow> (jstring \<times> json) list" where
  "order_props ps =
     sort_key (\<lambda>p. case index_value (fst p) of None \<Rightarrow> 0 | Some n \<Rightarrow> n) (filter is_index ps)
     @ filter (\<lambda>p. \<not> is_index p) ps"

definition make_object :: "(jstring \<times> json) list \<Rightarrow> json" where
  "make_object kvs = JObj (order_props (insert_all kvs))"

lemma put_prop_new: "k \<notin> fst ` set ps \<Longrightarrow> put_prop ps k v = ps @ [(k, v)]"
  by (induction ps) auto

lemma put_prop_names: "fst ` set (put_prop ps k v) = insert k (fst ` set ps)"
  by (induction ps) auto

lemma put_prop_distinct: "distinct (map fst ps) \<Longrightarrow> distinct (map fst (put_prop ps k v))"
proof (induction ps)
  case (Cons p ps)
  then show ?case using put_prop_names [of ps k v] by (auto simp: image_iff)
qed simp

lemma foldl_put_distinct:
  "distinct (map fst ps) \<Longrightarrow> distinct (map fst (foldl (\<lambda>ps (k, v). put_prop ps k v) ps kvs))"
  by (induction kvs arbitrary: ps) (auto simp: put_prop_distinct)

lemma insert_all_distinct: "distinct (map fst (insert_all kvs))"
  by (simp add: insert_all_def foldl_put_distinct)

lemma foldl_put_append:
  "distinct (map fst (ps @ kvs)) \<Longrightarrow> foldl (\<lambda>ps (k, v). put_prop ps k v) ps kvs = ps @ kvs"
proof (induction kvs arbitrary: ps)
  case (Cons kv kvs)
  then show ?case
    using put_prop_new [of "fst kv" ps "snd kv"] Cons.IH [of "ps @ [kv]"] by (cases kv) auto
qed simp

lemma insert_all_id: "distinct (map fst kvs) \<Longrightarrow> insert_all kvs = kvs"
  using foldl_put_append [of "[]" kvs] by (simp add: insert_all_def)

lemma order_props_idem: "order_props (order_props ps) = order_props ps"
  by (simp add: order_props_def filter_sort sort_key_id_if_sorted)

lemma mset_order_props: "mset (order_props ps) = mset ps"
  by (simp add: order_props_def)

lemma order_props_distinct: "distinct (map fst ps) \<Longrightarrow> distinct (map fst (order_props ps))"
  by (metis mset_order_props mset_map mset_eq_imp_distinct_iff)

lemma set_order_props: "set (order_props ps) = set ps"
  by (metis mset_order_props set_mset_mset)

subsection \<open>Well-formed values\<close>

text \<open>The values JSON.parse produces: canonical numbers, objects in property order without repetition.\<close>

fun wf_json :: "json \<Rightarrow> bool" where
  "wf_json JNull = True"
| "wf_json (JBool b) = True"
| "wf_json (JNum n) = canonical n"
| "wf_json (JStr s) = True"
| "wf_json (JArr vs) = (\<forall>v\<in>set vs. wf_json v)"
| "wf_json (JObj kvs) = ((\<forall>p\<in>set kvs. wf_json (snd p)) \<and> distinct (map fst kvs) \<and> order_props kvs = kvs)"

subsection \<open>Tokens and lexer\<close>

datatype token =
    TLBrace | TRBrace | TLBrack | TRBrack | TComma | TColon
  | TStr jstring | TNum jnum | TTrue | TFalse | TNull

definition escape_char :: "nat \<Rightarrow> nat option" where
  "escape_char d =
     (if d = 34 \<or> d = 92 \<or> d = 47 then Some d
      else if d = 98 then Some 8 else if d = 102 then Some 12 else if d = 110 then Some 10
      else if d = 114 then Some 13 else if d = 116 then Some 9 else None)"

definition cons_fst :: "'a \<Rightarrow> ('a list \<times> 'b) option \<Rightarrow> ('a list \<times> 'b) option" where
  "cons_fst x r = map_option (\<lambda>(xs, y). (x # xs, y)) r"

text \<open>The body of a string literal after the opening quote: its code units and the rest of the text.\<close>

fun lex_string :: "nat list \<Rightarrow> (nat list \<times> nat list) option" where
  "lex_string [] = None"
| "lex_string (c # r) =
     (if c = 34 then Some ([], r)
      else if c < 32 then None
      else if c = 92 then
        (case r of
           [] \<Rightarrow> None
         | d # r1 \<Rightarrow>
             if d = 117 then
               (case r1 of
                  h1 # h2 # h3 # h4 # r2 \<Rightarrow>
                    if is_hex h1 \<and> is_hex h2 \<and> is_hex h3 \<and> is_hex h4
                    then cons_fst (((hex_value h1 * 16 + hex_value h2) * 16 + hex_value h3) * 16 + hex_value h4)
                           (lex_string r2)
                    else None
                | _ \<Rightarrow> None)
             else (case escape_char d of None \<Rightarrow> None | Some x \<Rightarrow> cons_fst x (lex_string r1)))
      else cons_fst c (lex_string r))"

lemma lex_string_shorter: "lex_string s = Some (xs, r) \<Longrightarrow> length r < length s"
proof (induction s arbitrary: xs r rule: lex_string.induct)
  case (2 c s)
  then show ?case
    by (fastforce simp: cons_fst_def split: if_splits list.splits option.splits)
qed simp

definition json_space :: "nat \<Rightarrow> bool" where
  "json_space c \<longleftrightarrow> c = 32 \<or> c = 9 \<or> c = 10 \<or> c = 13"

definition codes :: "string \<Rightarrow> nat list" where
  "codes s = map of_char s"

definition cons_opt :: "'a \<Rightarrow> 'a list option \<Rightarrow> 'a list option" where
  "cons_opt x r = map_option ((#) x) r"

definition of_codes :: "nat list \<Rightarrow> jstring" where
  "of_codes cs = map word_of_nat cs"

function lex :: "nat list \<Rightarrow> token list option" where
  "lex [] = Some []"
| "lex (c # r) =
     (if json_space c then lex r
      else if c = 123 then cons_opt TLBrace (lex r)
      else if c = 125 then cons_opt TRBrace (lex r)
      else if c = 91 then cons_opt TLBrack (lex r)
      else if c = 93 then cons_opt TRBrack (lex r)
      else if c = 44 then cons_opt TComma (lex r)
      else if c = 58 then cons_opt TColon (lex r)
      else if c = 34 then
        (case lex_string r of None \<Rightarrow> None | Some (xs, r1) \<Rightarrow> cons_opt (TStr (of_codes xs)) (lex r1))
      else if c = 45 \<or> is_digit c then
        (case parse_num (c # takeWhile num_char r) of
           None \<Rightarrow> None
         | Some n \<Rightarrow> cons_opt (TNum n) (lex (dropWhile num_char r)))
      else if take 4 (c # r) = codes ''true'' then cons_opt TTrue (lex (drop 3 r))
      else if take 5 (c # r) = codes ''false'' then cons_opt TFalse (lex (drop 4 r))
      else if take 4 (c # r) = codes ''null'' then cons_opt TNull (lex (drop 3 r))
      else None)"
  by pat_completeness auto
termination
proof (relation "measure length")
  fix c :: nat and r xs r1
  show "(dropWhile num_char r, c # r) \<in> measure length"
    using length_dropWhile_le [of num_char r] by simp
  fix a x y
  assume "lex_string r = Some a" "(x, y) = a"
  then show "(y, c # r) \<in> measure length" using lex_string_shorter by fastforce
qed auto

declare lex.simps(2) [simp del]

subsection \<open>The machine over tokens\<close>

datatype frame = FArr "json list" | FObj "(jstring \<times> json) list" jstring

datatype mode =
    MValue
  | MElem
  | MFirstKey
  | MKey "(jstring \<times> json) list"
  | MColon "(jstring \<times> json) list" jstring
  | MDone json

fun start_value :: "token \<Rightarrow> frame list \<Rightarrow> (mode \<times> frame list) option" where
  "start_value TLBrace st = Some (MFirstKey, st)"
| "start_value TLBrack st = Some (MElem, st)"
| "start_value (TStr s) st = Some (MDone (JStr s), st)"
| "start_value (TNum n) st = Some (MDone (JNum n), st)"
| "start_value TTrue st = Some (MDone (JBool True), st)"
| "start_value TFalse st = Some (MDone (JBool False), st)"
| "start_value TNull st = Some (MDone JNull, st)"
| "start_value _ st = None"

fun mstep :: "mode \<Rightarrow> frame list \<Rightarrow> token \<Rightarrow> (mode \<times> frame list) option" where
  "mstep MValue st t = start_value t st"
| "mstep MElem st t = (if t = TRBrack then Some (MDone (JArr []), st) else start_value t (FArr [] # st))"
| "mstep MFirstKey st t =
     (case t of TRBrace \<Rightarrow> Some (MDone (make_object []), st) | TStr k \<Rightarrow> Some (MColon [] k, st) | _ \<Rightarrow> None)"
| "mstep (MKey kvs) st t = (case t of TStr k \<Rightarrow> Some (MColon kvs k, st) | _ \<Rightarrow> None)"
| "mstep (MColon kvs k) st t = (if t = TColon then Some (MValue, FObj kvs k # st) else None)"
| "mstep (MDone v) [] t = None"
| "mstep (MDone v) (FArr vs # st) t =
     (case t of TComma \<Rightarrow> Some (MValue, FArr (vs @ [v]) # st)
      | TRBrack \<Rightarrow> Some (MDone (JArr (vs @ [v])), st) | _ \<Rightarrow> None)"
| "mstep (MDone v) (FObj kvs k # st) t =
     (case t of TComma \<Rightarrow> Some (MKey (kvs @ [(k, v)]), st)
      | TRBrace \<Rightarrow> Some (MDone (make_object (kvs @ [(k, v)])), st) | _ \<Rightarrow> None)"

fun machine :: "mode \<Rightarrow> frame list \<Rightarrow> token list \<Rightarrow> json option" where
  "machine m st [] = (case m of MDone v \<Rightarrow> if st = [] then Some v else None | _ \<Rightarrow> None)"
| "machine m st (t # ts) =
     (case mstep m st t of None \<Rightarrow> None | Some (m', st') \<Rightarrow> machine m' st' ts)"

text \<open>\<open>None\<close> is the \<open>SyntaxError\<close> that \<open>JSON.parse\<close> throws.\<close>

definition JSON_parse :: "jstring \<Rightarrow> json option" where
  "JSON_parse s = (case lex (map unat s) of None \<Rightarrow> None | Some ts \<Rightarrow> machine MValue [] ts)"

subsection \<open>Printing\<close>

definition hex_lower :: "nat \<Rightarrow> nat" where
  "hex_lower n = (if n < 10 then 48 + n else 87 + n)"

definition unicode_escape :: "nat \<Rightarrow> nat list" where
  "unicode_escape c =
     [92, 117, hex_lower (c div 4096), hex_lower (c div 256 mod 16), hex_lower (c div 16 mod 16), hex_lower (c mod 16)]"

definition quote_unit :: "nat \<Rightarrow> nat list" where
  "quote_unit c =
     (if c = 34 then [92, 34] else if c = 92 then [92, 92]
      else if c = 8 then [92, 98] else if c = 12 then [92, 102] else if c = 10 then [92, 110]
      else if c = 13 then [92, 114] else if c = 9 then [92, 116]
      else if c < 32 then unicode_escape c
      else [c])"

text \<open>Surrogate pairs are copied, lone surrogates escaped.\<close>

fun quote_body :: "jstring \<Rightarrow> nat list" where
  "quote_body [] = []"
| "quote_body [u] =
     (if high_surrogate u \<or> low_surrogate u then unicode_escape (unat u) else quote_unit (unat u))"
| "quote_body (u # v # us) =
     (if high_surrogate u \<and> low_surrogate v then unat u # unat v # quote_body us
      else if high_surrogate u \<or> low_surrogate u then unicode_escape (unat u) @ quote_body (v # us)
      else quote_unit (unat u) @ quote_body (v # us))"

definition quote :: "jstring \<Rightarrow> nat list" where
  "quote s = 34 # quote_body s @ [34]"

fun join :: "'a list \<Rightarrow> 'a list list \<Rightarrow> 'a list" where
  "join sep [] = []"
| "join sep [x] = x"
| "join sep (x # y # ys) = x @ sep @ join sep (y # ys)"

definition newline :: "nat \<Rightarrow> nat \<Rightarrow> nat list" where
  "newline ind d = (if ind = 0 then [] else 10 # replicate (ind * d) 32)"

text \<open>\<open>ind\<close> is the third argument of \<open>JSON.stringify\<close>, 0 for the compact text; \<open>d\<close> the depth.\<close>

fun json_text :: "nat \<Rightarrow> nat \<Rightarrow> json \<Rightarrow> nat list" where
  "json_text ind d JNull = codes ''null''"
| "json_text ind d (JBool b) = (if b then codes ''true'' else codes ''false'')"
| "json_text ind d (JNum n) = num_text n"
| "json_text ind d (JStr s) = quote s"
| "json_text ind d (JArr vs) =
     (if vs = [] then [91, 93]
      else 91 # newline ind (d + 1) @ join (44 # newline ind (d + 1)) (map (json_text ind (d + 1)) vs)
           @ newline ind d @ [93])"
| "json_text ind d (JObj kvs) =
     (if kvs = [] then [123, 125]
      else 123 # newline ind (d + 1)
           @ join (44 # newline ind (d + 1))
               (map (\<lambda>p. quote (fst p) @ 58 # (if ind = 0 then [] else [32]) @ json_text ind (d + 1) (snd p)) kvs)
           @ newline ind d @ [125])"

definition JSON_stringify :: "nat \<Rightarrow> json \<Rightarrow> jstring" where
  "JSON_stringify ind v = of_codes (json_text ind 0 v)"

subsection \<open>Lexing printed text\<close>

lemma hex_lower_facts:
  assumes "n < 16"
  shows "is_hex (hex_lower n)" "hex_value (hex_lower n) = n"
  using assms by (auto simp: hex_lower_def is_hex_def hex_value_def)

lemma lex_string_unicode:
  assumes "c < 65536"
  shows "lex_string (unicode_escape c @ r) = cons_fst c (lex_string r)"
proof -
  have hi: "c div 4096 < 16" using assms by (simp add: less_mult_imp_div_less)
  have h1: "c div 4096 * 16 + c div 256 mod 16 = c div 256"
    using div_mult_mod_eq [of "c div 256" 16] by (simp add: div_mult2_eq [symmetric])
  have h2: "c div 256 * 16 + c div 16 mod 16 = c div 16"
    using div_mult_mod_eq [of "c div 16" 16] by (simp add: div_mult2_eq [symmetric])
  show ?thesis
    using hi h1 h2 by (simp add: unicode_escape_def hex_lower_facts)
qed

lemma lex_string_plain: "32 \<le> c \<Longrightarrow> c \<noteq> 34 \<Longrightarrow> c \<noteq> 92 \<Longrightarrow> lex_string (c # r) = cons_fst c (lex_string r)"
  by simp

lemma lex_string_unit: "lex_string (quote_unit c @ r) = cons_fst c (lex_string r)"
  by (auto simp: quote_unit_def escape_char_def lex_string_unicode)

lemma surrogate_range: "high_surrogate u \<or> low_surrogate u \<Longrightarrow> 0xD800 \<le> unat u"
  by (auto simp: high_surrogate_def low_surrogate_def)

lemma lex_string_surrogate:
  "high_surrogate u \<or> low_surrogate u \<Longrightarrow> lex_string (unat u # r) = cons_fst (unat u) (lex_string r)"
  using surrogate_range [of u] by (intro lex_string_plain) auto

declare lex_string.simps(2) [simp del]

lemma lex_string_quote: "lex_string (quote_body s @ 34 # r) = Some (map unat s, r)"
  by (induction s rule: quote_body.induct)
    (auto simp: lex_string_unit lex_string_unicode lex_string_surrogate unit_less cons_fst_def
      lex_string.simps(2) [of 34 r])

lemma lex_punct [simp]:
  "lex (123 # r) = cons_opt TLBrace (lex r)" "lex (125 # r) = cons_opt TRBrace (lex r)"
  "lex (91 # r) = cons_opt TLBrack (lex r)" "lex (93 # r) = cons_opt TRBrack (lex r)"
  "lex (44 # r) = cons_opt TComma (lex r)" "lex (58 # r) = cons_opt TColon (lex r)"
  "lex (32 # r) = lex r" "lex (10 # r) = lex r"
  by (simp_all add: lex.simps(2) json_space_def)

lemma lex_newline [simp]: "lex (newline ind d @ r) = lex r"
proof -
  have "lex (replicate k 32 @ r) = lex r" for k by (induction k) auto
  then show ?thesis by (simp add: newline_def)
qed

lemma lex_words [simp]:
  "lex (codes ''true'' @ r) = cons_opt TTrue (lex r)"
  "lex (codes ''false'' @ r) = cons_opt TFalse (lex r)"
  "lex (codes ''null'' @ r) = cons_opt TNull (lex r)"
  by (simp_all add: codes_def lex.simps(2) json_space_def is_digit_def)

lemma of_codes_unat [simp]: "of_codes (map unat s) = s"
  by (induction s) (simp_all add: of_codes_def)

lemma lex_quote [simp]: "lex (quote s @ r) = cons_opt (TStr s) (lex r)"
  by (simp add: quote_def lex.simps(2) [of 34] json_space_def lex_string_quote)

definition no_num :: "nat list \<Rightarrow> bool" where
  "no_num r \<longleftrightarrow> r = [] \<or> \<not> num_char (hd r)"

lemma no_num_punct [simp]:
  "no_num []" "no_num (44 # r)" "no_num (93 # r)" "no_num (125 # r)"
  by (simp_all add: no_num_def num_char_def is_digit_def)

lemma no_num_newline [simp]: "no_num r \<Longrightarrow> no_num (newline ind d @ r)"
  by (auto simp: no_num_def newline_def num_char_def is_digit_def)

lemma lex_num:
  assumes "canonical n" "no_num r"
  shows "lex (num_text n @ r) = cons_opt (TNum (unsigned_zero n)) (lex r)"
proof -
  obtain c t where ct: "num_text n = c # t" and c: "c = 45 \<or> is_digit c"
    using num_text_hd [OF assms(1)] by (cases "num_text n") auto
  have t: "\<forall>x\<in>set t. num_char x" using num_text_chars [of _ n] ct by auto
  have "takeWhile num_char (t @ r) = t" "dropWhile num_char (t @ r) = r"
    using t assms(2) by (cases r; auto simp: no_num_def)+
  moreover have "\<not> json_space c" "c \<noteq> 123" "c \<noteq> 125" "c \<noteq> 91" "c \<noteq> 93" "c \<noteq> 44" "c \<noteq> 58" "c \<noteq> 34"
    using c by (auto simp: json_space_def is_digit_def)
  ultimately show ?thesis
    using c parse_num_text [OF assms(1)] by (simp add: ct lex.simps(2))
qed

fun toks :: "json \<Rightarrow> token list" where
  "toks JNull = [TNull]"
| "toks (JBool b) = [if b then TTrue else TFalse]"
| "toks (JNum n) = [TNum (unsigned_zero n)]"
| "toks (JStr s) = [TStr s]"
| "toks (JArr vs) = TLBrack # join [TComma] (map toks vs) @ [TRBrack]"
| "toks (JObj kvs) = TLBrace # join [TComma] (map (\<lambda>p. TStr (fst p) # TColon # toks (snd p)) kvs) @ [TRBrace]"

lemma lex_join:
  assumes "\<And>x r. x \<in> set xs \<Longrightarrow> no_num r \<Longrightarrow> lex (f x @ r) = map_option ((@) (g x)) (lex r)" "no_num r"
  shows "lex (join (44 # newline ind d) (map f xs) @ r) = map_option ((@) (join [TComma] (map g xs))) (lex r)"
  using assms
proof (induction xs rule: induct_list012)
  case 1
  then show ?case by (cases "lex r") auto
next
  case (3 x y zs)
  let ?rest = "join (44 # newline ind d) (map f (y # zs)) @ r"
  have "lex (join (44 # newline ind d) (map f (x # y # zs)) @ r) = lex (f x @ 44 # newline ind d @ ?rest)"
    by simp
  also have "\<dots> = map_option ((@) (g x)) (cons_opt TComma (lex ?rest))"
    using "3.prems" by simp
  also have "lex ?rest = map_option ((@) (join [TComma] (map g (y # zs)))) (lex r)"
    using "3.IH"(2) "3.prems" by simp
  finally show ?case by (cases "lex r") (simp_all add: cons_opt_def)
qed simp

lemma lex_json:
  "wf_json v \<Longrightarrow> no_num r \<Longrightarrow> lex (json_text ind d v @ r) = map_option ((@) (toks v)) (lex r)"
proof (induction v arbitrary: d r)
  case (JNum n)
  then show ?case by (simp add: lex_num cons_opt_def append_Cons [abs_def])
next
  case (JArr vs)
  have "lex (join (44 # newline ind (d + 1)) (map (json_text ind (d + 1)) vs) @ newline ind d @ 93 # r)
      = map_option ((@) (join [TComma] (map toks vs))) (lex (newline ind d @ 93 # r))"
    using JArr by (intro lex_join) auto
  then show ?case by (cases "lex r") (auto simp: cons_opt_def)
next
  case (JObj kvs)
  let ?f = "\<lambda>p. quote (fst p) @ 58 # (if ind = 0 then [] else [32]) @ json_text ind (d + 1) (snd p)"
  let ?g = "\<lambda>p. TStr (fst p) # TColon # toks (snd p)"
  have "lex (?f p @ t) = map_option ((@) (?g p)) (lex t)" if "p \<in> set kvs" "no_num t" for p t
  proof -
    have "lex (json_text ind (d + 1) (snd p) @ t) = map_option ((@) (toks (snd p))) (lex t)"
      using JObj that by (cases p) (auto intro: JObj.IH)
    then show ?thesis by (cases "lex t") (auto simp: cons_opt_def)
  qed
  then have "lex (join (44 # newline ind (d + 1)) (map ?f kvs) @ newline ind d @ 125 # r)
      = map_option ((@) (join [TComma] (map ?g kvs))) (lex (newline ind d @ 125 # r))"
    using JObj.prems by (intro lex_join) auto
  then show ?case by (cases "lex r") (auto simp: cons_opt_def)
qed (auto simp: cons_opt_def fun_eq_iff split: if_splits intro!: arg_cong [where f = "\<lambda>f. map_option f (lex _)"])

subsection \<open>Round trip\<close>

text \<open>Erasing the sign of zero, the one thing the text of a number does not keep.\<close>

fun erase :: "json \<Rightarrow> json" where
  "erase (JNum n) = JNum (unsigned_zero n)"
| "erase (JArr vs) = JArr (map erase vs)"
| "erase (JObj kvs) = JObj (map (\<lambda>p. (fst p, erase (snd p))) kvs)"
| "erase v = v"

lemma toks_start: "\<exists>t ts. toks v = t # ts \<and> t \<noteq> TRBrack"
  by (cases v) auto

lemma machine_elem: "machine MElem st (toks v @ ts) = machine MValue (FArr [] # st) (toks v @ ts)"
  using toks_start [of v] by auto

lemma machine_array:
  assumes "\<And>v st ts. v \<in> set vs \<Longrightarrow> machine MValue st (toks v @ ts) = machine (MDone (erase v)) st ts" "vs \<noteq> []"
  shows "machine MValue (FArr us # st) (join [TComma] (map toks vs) @ TRBrack # ts)
       = machine (MDone (JArr (us @ map erase vs))) st ts"
  using assms
proof (induction vs arbitrary: us rule: induct_list012)
  case (3 x y zs)
  have "machine MValue (FArr us # st) (join [TComma] (map toks (x # y # zs)) @ TRBrack # ts)
      = machine MValue (FArr (us @ [erase x]) # st) (join [TComma] (map toks (y # zs)) @ TRBrack # ts)"
    using "3.prems" by simp
  also have "\<dots> = machine (MDone (JArr ((us @ [erase x]) @ map erase (y # zs)))) st ts"
    using "3.prems" by (intro "3.IH"(2)) auto
  finally show ?case by simp
qed simp_all

lemma machine_object:
  fixes kvs :: "(jstring \<times> json) list"
  defines "g \<equiv> \<lambda>p :: jstring \<times> json. TStr (fst p) # TColon # toks (snd p)"
  assumes "\<And>p st ts. p \<in> set kvs \<Longrightarrow> machine MValue st (toks (snd p) @ ts) = machine (MDone (erase (snd p))) st ts"
    "kvs \<noteq> []"
  shows "machine (MKey us) st (join [TComma] (map g kvs) @ TRBrace # ts)
       = machine (MDone (make_object (us @ map (\<lambda>p. (fst p, erase (snd p))) kvs))) st ts"
  using assms(2,3)
proof (induction kvs arbitrary: us rule: induct_list012)
  case (3 x y zs)
  have "machine (MKey us) st (join [TComma] (map g (x # y # zs)) @ TRBrace # ts)
      = machine (MKey (us @ [(fst x, erase (snd x))])) st (join [TComma] (map g (y # zs)) @ TRBrace # ts)"
    using "3.prems" by (simp add: g_def)
  also have "\<dots> = machine (MDone (make_object ((us @ [(fst x, erase (snd x))])
      @ map (\<lambda>p. (fst p, erase (snd p))) (y # zs)))) st ts"
    using "3.prems" by (intro "3.IH"(2)) auto
  finally show ?case by simp
qed (simp_all add: g_def)

lemma is_index_fst: "is_index (fst p, x) = is_index p"
  by (simp add: is_index_def)

lemma order_props_map:
  "order_props (map (\<lambda>p. (fst p, f (snd p))) ps) = map (\<lambda>p. (fst p, f (snd p))) (order_props ps)"
proof -
  let ?m = "\<lambda>p :: jstring \<times> json. (fst p, f (snd p))"
  let ?k = "\<lambda>p :: jstring \<times> json. case index_value (fst p) of None \<Rightarrow> 0 | Some n \<Rightarrow> n"
  have insort: "insort_key ?k (?m x) (map ?m xs) = map ?m (insort_key ?k x xs)" for x xs
    by (induction xs) auto
  have "sort_key ?k (map ?m xs) = map ?m (sort_key ?k xs)" for xs
    by (induction xs) (simp_all add: insort)
  moreover have "filter is_index (map ?m xs) = map ?m (filter is_index xs)"
    "filter (\<lambda>p. \<not> is_index p) (map ?m xs) = map ?m (filter (\<lambda>p. \<not> is_index p) xs)" for xs
    by (simp_all add: filter_map o_def is_index_fst)
  ultimately show ?thesis unfolding order_props_def by (simp only: map_append)
qed

lemma make_object_erase:
  "wf_json (JObj kvs) \<Longrightarrow> make_object (map (\<lambda>p. (fst p, erase (snd p))) kvs) = erase (JObj kvs)"
  by (simp add: make_object_def insert_all_id o_def order_props_map)

lemma machine_toks: "wf_json v \<Longrightarrow> machine MValue st (toks v @ ts) = machine (MDone (erase v)) st ts"
proof (induction v arbitrary: st ts)
  case (JArr vs)
  show ?case
  proof (cases vs)
    case (Cons v vs')
    have "machine MValue st (toks (JArr vs) @ ts) = machine MElem st (join [TComma] (map toks vs) @ TRBrack # ts)"
      by simp
    also have "\<dots> = machine MValue (FArr [] # st) (join [TComma] (map toks vs) @ TRBrack # ts)"
      using Cons machine_elem [of st v] by (cases vs') auto
    also have "\<dots> = machine (MDone (JArr ([] @ map erase vs))) st ts"
      using JArr Cons by (intro machine_array) auto
    finally show ?thesis by simp
  qed simp
next
  case (JObj kvs)
  show ?case
  proof (cases kvs)
    case Nil
    then show ?thesis by (simp add: make_object_def insert_all_def order_props_def)
  next
    case (Cons kv kvs')
    let ?g = "\<lambda>p. TStr (fst p) # TColon # toks (snd p)"
    have "machine MValue st (toks (JObj kvs) @ ts) = machine (MKey []) st (join [TComma] (map ?g kvs) @ TRBrace # ts)"
      using Cons by (cases kvs') auto
    also have "\<dots> = machine (MDone (make_object ([] @ map (\<lambda>p. (fst p, erase (snd p))) kvs))) st ts"
      using JObj Cons by (intro machine_object) (auto intro: JObj.IH)
    finally show ?thesis using make_object_erase [OF JObj.prems] by simp
  qed
qed auto

lemma quote_unit_less: "c < 65536 \<Longrightarrow> x \<in> set (quote_unit c) \<Longrightarrow> x < 65536"
  by (auto simp: quote_unit_def unicode_escape_def hex_lower_def less_mult_imp_div_less split: if_splits)

lemma unicode_escape_less:
  assumes "c < 65536" "x \<in> set (unicode_escape c)"
  shows "x < 65536"
proof -
  have "c div 4096 < 16" using assms(1) by (simp add: less_mult_imp_div_less)
  then have "hex_lower (c div 4096) < 65536" by (simp add: hex_lower_def)
  moreover have "hex_lower (k mod 16) < 65536" for k
    using mod_less_divisor [of 16 k] by (auto simp: hex_lower_def)
  ultimately show ?thesis using assms(2) by (auto simp: unicode_escape_def)
qed

lemma quote_less: "x \<in> set (quote s) \<Longrightarrow> x < 65536"
proof -
  have "x \<in> set (quote_body s) \<Longrightarrow> x < 65536"
    by (induction s rule: quote_body.induct)
      (auto dest: unicode_escape_less [OF unit_less] quote_unit_less [OF unit_less] simp: unit_less split: if_splits)
  then show "x \<in> set (quote s) \<Longrightarrow> x < 65536" by (auto simp: quote_def)
qed

lemma set_join: "x \<in> set (join sep xss) \<Longrightarrow> x \<in> set sep \<or> (\<exists>xs\<in>set xss. x \<in> set xs)"
  by (induction sep xss rule: join.induct) auto

lemma num_text_less: "x \<in> set (num_text n) \<Longrightarrow> x < 65536"
  using num_text_chars [of x n] by (auto simp: num_char_def is_digit_def)

lemma newline_less: "x \<in> set (newline ind d) \<Longrightarrow> x < 65536"
  by (auto simp: newline_def split: if_splits)

lemma json_text_less: "x \<in> set (json_text ind d v) \<Longrightarrow> x < 65536"
proof (induction v arbitrary: d)
  case (JArr vs)
  then show ?case by (auto split: if_splits dest!: set_join newline_less)
next
  case (JObj kvs)
  have "x < 65536" if "p \<in> set kvs" "x \<in> set (json_text ind (d + 1) (snd p))" for p
    using JObj.IH [of p "snd p" "d + 1"] that by (cases p) auto
  with JObj.prems show ?case by (auto split: if_splits dest!: set_join newline_less quote_less)
qed (auto simp: codes_def num_text_less quote_less split: if_splits)

lemma unat_of_codes: "\<forall>x\<in>set cs. x < 65536 \<Longrightarrow> map unat (of_codes cs) = cs"
  by (induction cs) (auto simp: of_codes_def unat_of_nat)

text \<open>Parsing the printed text, compact or indented, gives the value back.\<close>

lemma parse_stringify:
  assumes "wf_json v"
  shows "JSON_parse (JSON_stringify ind v) = Some (erase v)"
proof -
  have "map unat (JSON_stringify ind v) = json_text ind 0 v @ []"
    by (simp add: JSON_stringify_def unat_of_codes json_text_less)
  moreover have "lex (json_text ind 0 v @ []) = Some (toks v @ [])"
    using lex_json [OF assms, of "[]"] by simp
  moreover have "machine MValue [] (toks v @ []) = Some (erase v)"
    by (subst machine_toks [OF assms]) simp
  ultimately show ?thesis by (simp add: JSON_parse_def)
qed

lemma json_text_erase: "json_text ind d (erase v) = json_text ind d v"
proof (induction v arbitrary: d)
  case (JArr vs)
  then show ?case by (simp add: o_def cong: map_cong)
next
  case (JObj kvs)
  have "json_text ind (d + 1) (erase (snd p)) = json_text ind (d + 1) (snd p)" if "p \<in> set kvs" for p
    using JObj that by (cases p) auto
  then show ?case by (simp add: o_def cong: map_cong)
qed (auto simp: unsigned_zero_text)

lemma stringify_erase: "JSON_stringify ind (erase v) = JSON_stringify ind v"
  by (simp add: JSON_stringify_def json_text_erase)

subsection \<open>What the parser accepts is well formed\<close>

definition wf_props :: "(jstring \<times> json) list \<Rightarrow> bool" where
  "wf_props kvs \<longleftrightarrow> (\<forall>p\<in>set kvs. wf_json (snd p))"

fun wf_frame :: "frame \<Rightarrow> bool" where
  "wf_frame (FArr vs) = (\<forall>v\<in>set vs. wf_json v)"
| "wf_frame (FObj kvs k) = wf_props kvs"

fun wf_mode :: "mode \<Rightarrow> bool" where
  "wf_mode (MKey kvs) = wf_props kvs"
| "wf_mode (MColon kvs k) = wf_props kvs"
| "wf_mode (MDone v) = wf_json v"
| "wf_mode _ = True"

fun wf_token :: "token \<Rightarrow> bool" where
  "wf_token (TNum n) = canonical n"
| "wf_token _ = True"

lemma put_prop_wf: "wf_props ps \<Longrightarrow> wf_json v \<Longrightarrow> wf_props (put_prop ps k v)"
  by (induction ps) (auto simp: wf_props_def)

lemma wf_props_Cons: "wf_props (kv # kvs) \<longleftrightarrow> wf_json (snd kv) \<and> wf_props kvs"
  by (simp add: wf_props_def)

lemma foldl_put_wf: "wf_props ps \<Longrightarrow> wf_props kvs \<Longrightarrow> wf_props (foldl (\<lambda>ps (k, v). put_prop ps k v) ps kvs)"
proof (induction kvs arbitrary: ps)
  case (Cons kv kvs)
  obtain k v where kv: "kv = (k, v)" by (cases kv)
  have "wf_props (put_prop ps k v)"
    using Cons.prems by (simp add: kv wf_props_Cons put_prop_wf)
  then show ?case using Cons.IH Cons.prems by (simp add: kv wf_props_Cons)
qed simp

lemma make_object_wf: "wf_props kvs \<Longrightarrow> wf_json (make_object kvs)"
proof -
  assume "wf_props kvs"
  then have "wf_props (insert_all kvs)"
    using foldl_put_wf [of "[]" kvs] by (simp add: wf_props_def insert_all_def)
  then have "\<forall>p\<in>set (order_props (insert_all kvs)). wf_json (snd p)"
    by (simp only: set_order_props wf_props_def)
  moreover have "distinct (map fst (order_props (insert_all kvs)))"
    by (intro order_props_distinct insert_all_distinct)
  ultimately show ?thesis
    by (simp only: make_object_def wf_json.simps order_props_idem simp_thms)
qed

lemma start_value_wf:
  "start_value t st = Some (m, st') \<Longrightarrow> wf_token t \<Longrightarrow> wf_mode m \<and> st' = st"
  by (cases t) auto

lemma mstep_wf:
  assumes "mstep m st t = Some (m', st')" "wf_mode m" "\<forall>f\<in>set st. wf_frame f" "wf_token t"
  shows "wf_mode m' \<and> (\<forall>f\<in>set st'. wf_frame f)"
proof (cases m)
  case (MDone v)
  show ?thesis
  proof (cases st)
    case Nil
    then show ?thesis using assms MDone by simp
  next
    case (Cons f st1)
    then show ?thesis
      using assms MDone by (cases f; cases t) (auto simp: make_object_wf wf_props_def)
  qed
next
  case MFirstKey
  then show ?thesis using assms by (cases t) (auto simp: make_object_wf wf_props_def)
next
  case (MKey kvs)
  then show ?thesis using assms by (cases t) auto
next
  case MElem
  then show ?thesis using assms start_value_wf [of t "FArr [] # st" m' st'] by (auto split: if_splits)
qed (use assms in \<open>auto dest: start_value_wf split: if_splits\<close>)

lemma machine_wf:
  "machine m st ts = Some v \<Longrightarrow> wf_mode m \<Longrightarrow> \<forall>f\<in>set st. wf_frame f \<Longrightarrow> \<forall>t\<in>set ts. wf_token t \<Longrightarrow> wf_json v"
proof (induction m st ts rule: machine.induct)
  case (1 m st)
  then show ?case by (auto split: mode.splits if_splits)
next
  case (2 m st t ts)
  then obtain m' st' where "mstep m st t = Some (m', st')" by (auto split: option.splits)
  then show ?case using 2 mstep_wf [of m st t m' st'] by auto
qed

definition wf_tokens :: "token list option \<Rightarrow> bool" where
  "wf_tokens r \<longleftrightarrow> (case r of None \<Rightarrow> True | Some ts \<Rightarrow> \<forall>t\<in>set ts. wf_token t)"

lemma wf_tokens_simps [simp]:
  "wf_tokens None" "wf_tokens (Some ts) = (\<forall>t\<in>set ts. wf_token t)"
  "wf_token t \<Longrightarrow> wf_tokens (cons_opt t r) = wf_tokens r"
  by (auto simp: wf_tokens_def cons_opt_def split: option.splits)

lemma wf_tokens_if: "(b \<Longrightarrow> wf_tokens x) \<Longrightarrow> (\<not> b \<Longrightarrow> wf_tokens y) \<Longrightarrow> wf_tokens (if b then x else y)"
  by simp

lemma wf_tokens_cons: "wf_tokens r \<Longrightarrow> wf_token t \<Longrightarrow> wf_tokens (cons_opt t r)"
  by simp

lemma wf_tokens_opt:
  "(\<And>a. y = Some a \<Longrightarrow> wf_tokens (f a)) \<Longrightarrow> wf_tokens (case y of None \<Rightarrow> None | Some a \<Rightarrow> f a)"
  "(\<And>a b. y' = Some (a, b) \<Longrightarrow> wf_tokens (g a b)) \<Longrightarrow> wf_tokens (case y' of None \<Rightarrow> None | Some (a, b) \<Rightarrow> g a b)"
  by (auto split: option.split)

lemma wf_tokens_None: "wf_tokens None" by simp

lemma lex_wf: "wf_tokens (lex s)"
proof (induction s rule: lex.induct)
  case (2 c r)
  show ?case
    unfolding lex.simps(2)
    by (intro wf_tokens_if wf_tokens_cons wf_tokens_opt wf_tokens_None wf_token.simps(2-) [THEN iffD2] TrueI;
        (rule "2.IH" refl; assumption)?)
      (auto simp: parse_num_canonical intro: "2.IH")
qed simp

lemma JSON_parse_wf: "JSON_parse s = Some v \<Longrightarrow> wf_json v"
  using lex_wf [of "map unat s"] machine_wf [of MValue "[]"]
  by (auto simp: JSON_parse_def split: option.splits)

text \<open>Printing what was parsed and parsing again: the text is a fixed point after one round.\<close>

lemma reformat_idem:
  assumes "JSON_parse s = Some v"
  shows "JSON_parse (JSON_stringify ind v) = Some (erase v)"
    and "JSON_stringify ind (erase v) = JSON_stringify ind v"
  using parse_stringify [OF JSON_parse_wf [OF assms]] stringify_erase by auto

end
