(* ===== verification/Browser.thy ===== *)
theory Browser
  imports Js_Json
begin

text \<open>
  What the components use of the browser and of React: the string truthiness of JavaScript, the
  \<open>localStorage\<close> of the origin, absolute paths with a query, and the element trees a component
  returns. A component's function is translated to a function from its hook values to a list of
  \<open>node\<close>s, one constructor call per JSX element, with the element's name, its attributes (all but
  list keys and the styling ones: \<open>className\<close>, icon sizes, \<open>align\<close>, \<open>side\<close>) and its children. An event
  handler is the event it raises, a value of the page's own event type; what the handler does is
  the page's handler function on that event.
\<close>

subsection \<open>Strings and conditions\<close>

definition truthy :: "jstring option \<Rightarrow> bool" where
  "truthy x \<longleftrightarrow> x \<noteq> None \<and> x \<noteq> Some []"

text \<open>\<open>x || d\<close> on a string that may be \<open>null\<close> or \<open>undefined\<close>.\<close>

definition or_else :: "jstring option \<Rightarrow> jstring \<Rightarrow> jstring" where
  "or_else x d = (if truthy x then the x else d)"

lemma truthy_simps [simp]: "\<not> truthy None" "truthy (Some s) = (s \<noteq> [])"
  by (auto simp: truthy_def)

lemma or_else_simps [simp]: "or_else None d = d" "or_else (Some []) d = d" "s \<noteq> [] \<Longrightarrow> or_else (Some s) d = s"
  by (auto simp: or_else_def)

text \<open>The decimal text of a natural number, \<open>String(n)\<close> for a safe integer.\<close>

definition of_nat_text :: "nat \<Rightarrow> jstring" where
  "of_nat_text n = of_codes (digits n)"

subsection \<open>Storage\<close>

type_synonym storage = "jstring \<Rightarrow> jstring option"

definition getItem :: "storage \<Rightarrow> jstring \<Rightarrow> jstring option" where
  "getItem st k = st k"

definition setItem :: "jstring \<Rightarrow> jstring \<Rightarrow> storage \<Rightarrow> storage" where
  "setItem k v st = st(k \<mapsto> v)"

definition removeItem :: "jstring \<Rightarrow> storage \<Rightarrow> storage" where
  "removeItem k st = st(k := None)"

lemma storage_simps [simp]:
  "getItem (setItem k v st) k = Some v"
  "k \<noteq> k' \<Longrightarrow> getItem (setItem k v st) k' = getItem st k'"
  "getItem (removeItem k st) k = None"
  "k \<noteq> k' \<Longrightarrow> getItem (removeItem k st) k' = getItem st k'"
  "getItem Map.empty k = None"
  by (auto simp: getItem_def setItem_def removeItem_def)

subsection \<open>Locations\<close>

record location =
  pathname :: jstring
  search :: jstring

text \<open>
  A relative URL that starts with a path: the path, and the query with its question mark (empty
  when there is none). The fragment is cut off first.
\<close>

definition parse_url :: "jstring \<Rightarrow> location" where
  "parse_url u =
     (let (p, q) = cut_at 63 (fst (cut_at 35 u))
      in \<lparr> pathname = p, search = (if q = [] then [] else 63 # q) \<rparr>)"

text \<open>The parameters a component reads: \<open>new URLSearchParams(location.search)\<close>.\<close>

definition searchParams :: "location \<Rightarrow> search_params" where
  "searchParams l = URLSearchParams (search l)"

text \<open>What a component asks of the router: \<open>navigate (to, replace)\<close>.\<close>

datatype navigation = Navigate jstring bool

text \<open>A text with a double quote or with a character outside of ASCII.\<close>

definition dquote :: jstring where "dquote = [34]"
definition em_dash :: jstring where "em_dash = [0x2014]"
definition bullet :: jstring where "bullet = [0x2022]"

text \<open>
  The texts of the host that depend on its language and time zone: a date and a date with its time,
  from the text of the date, and a number with separators. They are parameters of the views.
\<close>

record host =
  date_text :: "jstring \<Rightarrow> jstring"
  datetime_text :: "jstring \<Rightarrow> jstring"
  number_text :: "jnum \<Rightarrow> jstring"

subsection \<open>Element trees\<close>

datatype 'e node =
    Txt jstring
  | El string "'e attr list" "'e node list"
and 'e attr =
    Attr string jstring
  | Flag string bool
  | On string 'e
  | OnText string "jstring \<Rightarrow> 'e"
  | OnBool string "bool \<Rightarrow> 'e"
  | OnValue string "jstring option \<Rightarrow> 'e"
  | Render "'e node"

text \<open>A JSX condition \<open>{b && x}\<close>: nothing is rendered when \<open>b\<close> is falsy.\<close>

definition only_if :: "bool \<Rightarrow> 'a list \<Rightarrow> 'a list" where
  "only_if b xs = (if b then xs else [])"

definition if_text :: "jstring option \<Rightarrow> (jstring \<Rightarrow> 'a list) \<Rightarrow> 'a list" where
  "if_text x f = (case x of None \<Rightarrow> [] | Some s \<Rightarrow> if s = [] then [] else f s)"

definition lit :: "string \<Rightarrow> 'e node" where
  "lit s = Txt (js s)"

lemma only_if_simps [simp]: "only_if True xs = xs" "only_if False xs = []"
  by (auto simp: only_if_def)

lemma if_text_simps [simp]:
  "if_text None f = []" "if_text (Some []) f = []" "s \<noteq> [] \<Longrightarrow> if_text (Some s) f = f s"
  by (auto simp: if_text_def)

text \<open>
  The texts a tree shows, in order; the events a click can raise (an element carrying a true
  \<open>disabled\<close> raises none); and the events a form submission can raise (a form whose submit button
  is disabled cannot be submitted, by the button or by the Enter key).
\<close>

fun node_texts :: "'e node \<Rightarrow> jstring list" and attr_texts :: "'e attr \<Rightarrow> jstring list" where
  "node_texts (Txt s) = [s]"
| "node_texts (El n as cs) = concat (map attr_texts as) @ concat (map node_texts cs)"
| "attr_texts (Render r) = node_texts r"
| "attr_texts _ = []"

definition texts :: "'e node list \<Rightarrow> jstring list" where
  "texts ns = concat (map node_texts ns)"

fun is_disabled :: "'e attr list \<Rightarrow> bool" where
  "is_disabled [] = False"
| "is_disabled (Flag n b # as) = ((n = ''disabled'' \<and> b) \<or> is_disabled as)"
| "is_disabled (_ # as) = is_disabled as"

fun handlers :: "string \<Rightarrow> 'e attr list \<Rightarrow> 'e list" where
  "handlers h [] = []"
| "handlers h (On n e # as) = (if n = h then e # handlers h as else handlers h as)"
| "handlers h (_ # as) = handlers h as"

fun node_clicks :: "'e node \<Rightarrow> 'e list" and attr_clicks :: "'e attr \<Rightarrow> 'e list" where
  "node_clicks (Txt s) = []"
| "node_clicks (El n as cs) =
     (if is_disabled as then [] else handlers ''onClick'' as)
     @ concat (map attr_clicks as) @ concat (map node_clicks cs)"
| "attr_clicks (Render r) = node_clicks r"
| "attr_clicks _ = []"

definition clicks :: "'e node list \<Rightarrow> 'e list" where
  "clicks ns = concat (map node_clicks ns)"

fun is_submit :: "'e attr list \<Rightarrow> bool" where
  "is_submit [] = False"
| "is_submit (Attr n v # as) = ((n = ''type'' \<and> v = js ''submit'') \<or> is_submit as)"
| "is_submit (_ # as) = is_submit as"

fun blocked :: "'e node \<Rightarrow> bool" where
  "blocked (Txt s) = False"
| "blocked (El n as cs) = ((is_submit as \<and> is_disabled as) \<or> list_ex blocked cs)"

fun node_submits :: "'e node \<Rightarrow> 'e list" where
  "node_submits (Txt s) = []"
| "node_submits (El n as cs) =
     (if n = ''form'' \<and> \<not> list_ex blocked cs then handlers ''onSubmit'' as else [])
     @ concat (map node_submits cs)"

definition submits :: "'e node list \<Rightarrow> 'e list" where
  "submits ns = concat (map node_submits ns)"

lemma tree_simps [simp]:
  "texts [] = []" "texts (n # ns) = node_texts n @ texts ns" "texts (ns @ ms) = texts ns @ texts ms"
  "clicks [] = []" "clicks (n # ns) = node_clicks n @ clicks ns" "clicks (ns @ ms) = clicks ns @ clicks ms"
  "submits [] = []" "submits (n # ns) = node_submits n @ submits ns" "submits (ns @ ms) = submits ns @ submits ms"
  by (auto simp: texts_def clicks_def submits_def)

lemma tree_map:
  "texts (map f xs) = concat (map (\<lambda>x. node_texts (f x)) xs)"
  "clicks (map f xs) = concat (map (\<lambda>x. node_clicks (f x)) xs)"
  "submits (map f xs) = concat (map (\<lambda>x. node_submits (f x)) xs)"
  by (auto simp: texts_def clicks_def submits_def o_def)

lemma tree_cases [simp]:
  "texts (only_if b ns) = (if b then texts ns else [])"
  "clicks (only_if b ns) = (if b then clicks ns else [])"
  "submits (only_if b ns) = (if b then submits ns else [])"
  "texts (if c then ns else ms) = (if c then texts ns else texts ms)"
  "clicks (if c then ns else ms) = (if c then clicks ns else clicks ms)"
  "submits (if c then ns else ms) = (if c then submits ns else submits ms)"
  by (auto simp: only_if_def)

lemma node_texts_El: "node_texts (El n as cs) = concat (map attr_texts as) @ texts cs"
  by (simp add: texts_def)

lemma node_clicks_El:
  "node_clicks (El n as cs) =
     (if is_disabled as then [] else handlers ''onClick'' as) @ concat (map attr_clicks as) @ clicks cs"
  by (simp add: clicks_def)

lemma node_submits_El:
  "node_submits (El n as cs) =
     (if n = ''form'' \<and> \<not> list_ex blocked cs then handlers ''onSubmit'' as else []) @ submits cs"
  by (simp add: submits_def)

lemma lit_simps [simp]:
  "node_texts (lit s) = [js s]" "node_clicks (lit s) = []" "node_submits (lit s) = []" "blocked (lit s) = False"
  by (auto simp: lit_def)

declare node_texts.simps(2) [simp del] node_clicks.simps(2) [simp del] node_submits.simps(2) [simp del]

lemmas tree_El [simp] = node_texts_El node_clicks_El node_submits_El

lemma blocked_cases [simp]:
  "list_ex blocked (only_if b ns) = (b \<and> list_ex blocked ns)"
  "list_ex blocked (map f xs) = (\<exists>x\<in>set xs. blocked (f x))"
  by (auto simp: only_if_def list_ex_iff)

end
