(* ===== verification/Api_Client.thy ===== *)
theory Api_Client
  imports Browser
begin

text \<open>
  \<open>shared/api/api-client.ts\<close> and \<open>shared/api/api-error.ts\<close>: the stored token, the request that
  \<open>apiRequest\<close> hands to \<open>fetch\<close>, and what becomes of the response. \<open>apiRequest\<close> awaits twice, so it
  is two functions: \<open>apiRequest\<close> up to the call of \<open>fetch\<close>, a function of the storage at that
  moment, and \<open>apiRequest_settle\<close> from the response on. \<open>VITE_API_URL\<close> is fixed at build time and
  is the argument \<open>base\<close>. An \<open>async\<close> function that rejects gives \<open>Inl\<close>, one that returns gives \<open>Inr\<close>.
\<close>

subsection \<open>Stored token\<close>

definition AUTH_TOKEN_KEY :: jstring where "AUTH_TOKEN_KEY = js ''auth_token''"
definition SELECTED_ORG_KEY :: jstring where "SELECTED_ORG_KEY = js ''selected_org''"

definition getStoredToken :: "storage \<Rightarrow> jstring option" where
  "getStoredToken st = getItem st AUTH_TOKEN_KEY"

definition setStoredToken :: "jstring \<Rightarrow> storage \<Rightarrow> storage" where
  "setStoredToken token st = setItem AUTH_TOKEN_KEY token st"

definition removeStoredToken :: "storage \<Rightarrow> storage" where
  "removeStoredToken st = removeItem AUTH_TOKEN_KEY st"

subsection \<open>Errors\<close>

record field_error =
  fe_field :: jstring
  fe_message :: jstring

text \<open>
  The body of an error response. The interface promises \<open>message\<close>, \<open>path\<close> and \<open>timestamp\<close>; the
  middleware of the server also answers with a \<open>message\<close> alone, so every field may be missing.
\<close>

record api_error_body =
  eb_message :: "jstring option"
  eb_path :: "jstring option"
  eb_timestamp :: "jstring option"
  eb_details :: "field_error list option"

record api_request_error =
  ae_message :: jstring
  ae_name :: jstring
  ae_status :: nat
  ae_path :: "jstring option"
  ae_timestamp :: "jstring option"
  ae_details :: "field_error list option"

definition ApiRequestError :: "nat \<Rightarrow> api_error_body \<Rightarrow> api_request_error" where
  "ApiRequestError status body =
     \<lparr> ae_message = (case eb_message body of None \<Rightarrow> [] | Some m \<Rightarrow> m), ae_name = js ''ApiRequestError'',
       ae_status = status, ae_path = eb_path body, ae_timestamp = eb_timestamp body,
       ae_details = eb_details body \<rparr>"

text \<open>What a promise rejects with: an \<open>ApiRequestError\<close>, or another \<open>Error\<close> with its message.\<close>

datatype js_exn = Api_Request_Error api_request_error | Js_Error jstring

text \<open>The message the hooks show for a rejection.\<close>

definition error_message :: "js_exn \<Rightarrow> jstring" where
  "error_message x =
     (case x of Api_Request_Error e \<Rightarrow> ae_message e | Js_Error _ \<Rightarrow> js ''An unexpected error occurred'')"

text \<open>
  Reading the declared fields of the parsed error body. A field of another type than the declared
  one counts as missing: the code would go on with a value outside of its own types.
\<close>

fun prop_of :: "json \<Rightarrow> jstring \<Rightarrow> json option" where
  "prop_of (JObj kvs) k = map_of kvs k"
| "prop_of _ k = None"

fun as_string :: "json option \<Rightarrow> jstring option" where
  "as_string (Some (JStr s)) = Some s"
| "as_string _ = None"

definition as_field_error :: "json \<Rightarrow> field_error" where
  "as_field_error v =
     \<lparr> fe_field = (case as_string (prop_of v (js ''field'')) of None \<Rightarrow> [] | Some s \<Rightarrow> s),
       fe_message = (case as_string (prop_of v (js ''message'')) of None \<Rightarrow> [] | Some s \<Rightarrow> s) \<rparr>"

fun as_details :: "json option \<Rightarrow> field_error list option" where
  "as_details (Some (JArr vs)) = Some (map as_field_error vs)"
| "as_details _ = None"

definition as_error_body :: "json \<Rightarrow> api_error_body" where
  "as_error_body v =
     \<lparr> eb_message = as_string (prop_of v (js ''message'')), eb_path = as_string (prop_of v (js ''path'')),
       eb_timestamp = as_string (prop_of v (js ''timestamp'')), eb_details = as_details (prop_of v (js ''details'')) \<rparr>"

subsection \<open>Requests\<close>

datatype http_method = GET | POST | PUT | DELETE | PATCH

record api_options =
  ao_method :: http_method
  ao_path :: jstring
  ao_body :: "json option"
  ao_auth :: bool

record http_request =
  rq_url :: jstring
  rq_method :: http_method
  rq_headers :: "(jstring \<times> jstring) list"
  rq_body :: "jstring option"

text \<open>The truthiness of a body; \<open>None\<close> is \<open>undefined\<close>.\<close>

fun truthy_json :: "json option \<Rightarrow> bool" where
  "truthy_json None = False"
| "truthy_json (Some JNull) = False"
| "truthy_json (Some (JBool b)) = b"
| "truthy_json (Some (JNum n)) = (num_mant n \<noteq> 0)"
| "truthy_json (Some (JStr s)) = (s \<noteq> [])"
| "truthy_json (Some _) = True"

definition auth_headers :: "storage \<Rightarrow> (jstring \<times> jstring) list" where
  "auth_headers st =
     if_text (getStoredToken st) (\<lambda>token. [(js ''Authorization'', js ''Bearer '' @ token)])
     @ if_text (getItem st SELECTED_ORG_KEY) (\<lambda>orgId. [(js ''X-Org-ID'', orgId)])"

definition apiRequest :: "jstring \<Rightarrow> storage \<Rightarrow> api_options \<Rightarrow> http_request" where
  "apiRequest base st ao =
     \<lparr> rq_url = base @ ao_path ao, rq_method = ao_method ao,
       rq_headers = (js ''Content-Type'', js ''application/json'')
                    # only_if (ao_auth ao) (auth_headers st),
       rq_body = (if truthy_json (ao_body ao) then map_option (JSON_stringify 0) (ao_body ao) else None) \<rparr>"

text \<open>What an event handler does outside of the state of its component.\<close>

datatype io =
    Send http_request
  | Clipboard jstring
  | Go navigation
  | Set_Timeout nat

text \<open>\<open>fetch\<close> rejects (no connection, CORS) or resolves with a status and a body text.\<close>

datatype fetch_result = Fetch_Rejected jstring | Response nat jstring

definition response_ok :: "nat \<Rightarrow> bool" where
  "response_ok status \<longleftrightarrow> 200 \<le> status \<and> status \<le> 299"

text \<open>The value of \<open>apiRequest\<close>; \<open>Inr None\<close> is \<open>undefined\<close>, the result for an empty 204 response.\<close>

definition apiRequest_settle :: "fetch_result \<Rightarrow> js_exn + json option" where
  "apiRequest_settle r =
     (case r of
        Fetch_Rejected m \<Rightarrow> Inl (Js_Error m)
      | Response status body \<Rightarrow>
          if \<not> response_ok status then
            (case JSON_parse body of
               None \<Rightarrow> Inl (Js_Error (js ''SyntaxError''))
             | Some JNull \<Rightarrow> Inl (Js_Error (js ''TypeError''))
             | Some v \<Rightarrow> Inl (Api_Request_Error (ApiRequestError status (as_error_body v))))
          else if status = 204 then Inr None
          else (case JSON_parse body of
                  None \<Rightarrow> Inl (Js_Error (js ''SyntaxError''))
                | Some v \<Rightarrow> Inr (Some v)))"

lemma error_message_simps [simp]:
  "error_message (Api_Request_Error e) = ae_message e"
  "error_message (Js_Error m) = js ''An unexpected error occurred''"
  by (auto simp: error_message_def)

subsection \<open>Headers\<close>

definition header :: "http_request \<Rightarrow> jstring \<Rightarrow> jstring option" where
  "header rq k = map_of (rq_headers rq) k"

lemma storage_keys [simp]: "AUTH_TOKEN_KEY \<noteq> SELECTED_ORG_KEY" "SELECTED_ORG_KEY \<noteq> AUTH_TOKEN_KEY"
  by (auto simp: AUTH_TOKEN_KEY_def SELECTED_ORG_KEY_def)

text \<open>A value the headers take: \<open>null\<close> and the empty string send nothing.\<close>

definition sent :: "jstring option \<Rightarrow> jstring option" where
  "sent x = (if truthy x then x else None)"

lemma header_org:
  "header (apiRequest base st ao) (js ''X-Org-ID'') =
     (if ao_auth ao then sent (getItem st SELECTED_ORG_KEY) else None)"
  by (auto simp: header_def apiRequest_def auth_headers_def if_text_def sent_def only_if_def split: option.splits)

lemma header_token:
  "header (apiRequest base st ao) (js ''Authorization'') =
     (if ao_auth ao then map_option ((@) (js ''Bearer '')) (sent (getStoredToken st)) else None)"
  by (auto simp: header_def apiRequest_def auth_headers_def if_text_def sent_def only_if_def split: option.splits)

lemma header_other:
  "k \<noteq> js ''X-Org-ID'' \<Longrightarrow> k \<noteq> js ''Authorization'' \<Longrightarrow>
   header (apiRequest base st ao) k = (if k = js ''Content-Type'' then Some (js ''application/json'') else None)"
  by (auto simp: header_def apiRequest_def auth_headers_def if_text_def only_if_def split: option.splits)

subsection \<open>Requests and responses\<close>

text \<open>Every request declares a JSON body type, and carries the stored token and the stored
  organization exactly when its caller asks for authentication and they are non-empty; without
  authentication nothing of the storage is sent.\<close>

theorem apiRequest_headers:
  "header (apiRequest base st ao) k =
     (if k = js ''Content-Type'' then Some (js ''application/json'')
      else if k = js ''Authorization'' \<and> ao_auth ao
        then map_option (\<lambda>token. js ''Bearer '' @ token) (sent (getStoredToken st))
      else if k = js ''X-Org-ID'' \<and> ao_auth ao then sent (getItem st SELECTED_ORG_KEY)
      else None)"
  by (cases "k = js ''X-Org-ID''"; cases "k = js ''Authorization''")
    (simp_all add: header_org header_token header_other)

text \<open>The error a failing response turns into when its body is the object the server prints.\<close>

definition failed_with :: "nat \<Rightarrow> json \<Rightarrow> js_exn" where
  "failed_with status v = Api_Request_Error (ApiRequestError status (as_error_body v))"

lemma prop_of_erase: "prop_of (erase v) k = map_option erase (prop_of v k)"
proof (cases v)
  case (JObj kvs)
  have "map_of (map (\<lambda>p. (fst p, erase (snd p))) kvs) k = map_option erase (map_of kvs k)"
    by (induction kvs) auto
  then show ?thesis using JObj by simp
qed (auto simp: unsigned_zero_def)

lemma as_string_erase [simp]: "as_string (map_option erase x) = as_string x"
  by (cases x rule: as_string.cases) auto

lemma as_field_error_erase: "as_field_error (erase v) = as_field_error v"
  by (simp add: as_field_error_def prop_of_erase)

lemma as_details_erase: "as_details (map_option erase x) = as_details x"
  by (cases x rule: as_details.cases) (auto simp: as_field_error_erase)

lemma as_error_body_erase: "as_error_body (erase v) = as_error_body v"
  by (simp add: as_error_body_def prop_of_erase as_details_erase)

lemma erase_JNull [simp]: "erase v = JNull \<longleftrightarrow> v = JNull"
  by (cases v) auto

lemma apiRequest_settle_parsed:
  "JSON_parse body = Some w \<Longrightarrow> w \<noteq> JNull \<Longrightarrow>
   apiRequest_settle (Response status body) =
     (if response_ok status then Inr (if status = 204 then None else Some w) else Inl (failed_with status w))"
  by (cases w) (auto simp: apiRequest_settle_def failed_with_def)



end
