(* ===== verification/Api.thy ===== *)
theory Api
  imports Api_Client
begin

text \<open>
  The data types of \<open>features/*/types\<close> and the API modules \<open>auth-api.ts\<close>, \<open>organization-api.ts\<close>,
  \<open>invitation-api.ts\<close> and \<open>dashboard-api.ts\<close>. An interface is a record whose fields carry a prefix.
  Every function that calls \<open>apiRequest\<close> is the \<open>api_options\<close> it passes; \<open>sendTestWebhook\<close> calls
  \<open>fetch\<close> itself and has its own request and its own settling. What a successful request returns is
  taken at the type the code casts it to (\<open>as T\<close>): the code does not check it.
\<close>

subsection \<open>Numbers as text\<close>

text \<open>\<open>String(n)\<close> of an integer.\<close>

definition int_text :: "int \<Rightarrow> jstring" where
  "int_text n = (if n < 0 then 45 # of_nat_text (nat (- n)) else of_nat_text (nat n))"

subsection \<open>Types\<close>

record auth_user =
  user_id :: jstring
  user_email :: jstring
  user_firstName :: jstring

record organization =
  org_id :: jstring
  org_name :: jstring
  org_slug :: jstring
  org_role :: jstring

record invitation =
  inv_id :: jstring
  inv_email :: jstring
  inv_role :: jstring
  inv_status :: jstring
  inv_expiresAt :: jstring
  inv_createdAt :: jstring

record accept_invitation_response =
  air_message :: jstring
  air_orgId :: jstring
  air_orgName :: jstring
  air_orgSlug :: jstring
  air_role :: jstring

record pending_invitation =
  pi_id :: jstring
  pi_orgName :: jstring
  pi_orgSlug :: jstring
  pi_role :: jstring
  pi_expiresAt :: jstring

record dashboard_stats =
  totalWebhooksSent :: jnum
  totalWebhooksFailed :: jnum
  totalWebhooksQueued :: jnum
  successRate :: jnum

record api_key =
  key_id :: jstring
  key_name :: jstring
  key_prefix :: jstring
  key_createdAt :: jstring
  key_lastUsedAt :: "jstring option"

record create_api_key_response =
  cak_id :: jstring
  cak_name :: jstring
  cak_prefix :: jstring
  cak_key :: jstring
  cak_createdAt :: jstring

text \<open>
  The declared statuses of a log are \<open>success\<close>, \<open>failed\<close> and \<open>pending\<close>; the server also sends
  \<open>retry\<close>, so the field is the string it sends.
\<close>

record webhook_log =
  wl_id :: jstring
  wl_endpoint :: jstring
  wl_status :: jstring
  wl_statusCode :: int
  wl_eventType :: jstring
  wl_attemptedAt :: jstring
  wl_responseTimeMs :: int

record webhook_logs_params =
  wp_status :: "jstring option"
  wp_search :: "jstring option"
  wp_page :: "int option"
  wp_limit :: "int option"

record 'a paginated_response =
  pr_data :: "'a list"
  pr_total :: int
  pr_page :: int
  pr_limit :: int
  pr_totalPages :: int

record delivery_attempt_detail =
  da_id :: jstring
  da_attemptNumber :: int
  da_statusCode :: "int option"
  da_responseBody :: "jstring option"
  da_errorMessage :: "jstring option"
  da_durationMs :: "int option"
  da_attemptedAt :: jstring

record send_webhook_request =
  sw_url :: jstring
  sw_method :: jstring
  sw_payload :: json

record send_webhook_response =
  sr_messageId :: jstring
  sr_status :: jstring

record webhook_log_detail =
  wd_id :: jstring
  wd_method :: jstring
  wd_url :: jstring
  wd_status :: jstring
  wd_payload :: json
  wd_attemptCount :: int
  wd_createdAt :: jstring
  wd_updatedAt :: jstring
  wd_nextRetryAt :: "jstring option"
  wd_deliveryAttempts :: "delivery_attempt_detail list"

subsection \<open>Requests of the modules\<close>

definition get_request :: "string \<Rightarrow> api_options" where
  "get_request path = \<lparr> ao_method = GET, ao_path = js path, ao_body = None, ao_auth = True \<rparr>"

definition str_field :: "string \<Rightarrow> jstring \<Rightarrow> jstring \<times> json" where
  "str_field k s = (js k, JStr s)"

paragraph \<open>\<open>auth-api.ts\<close>\<close>

definition loginUser :: "jstring \<Rightarrow> jstring \<Rightarrow> api_options" where
  "loginUser email password =
     \<lparr> ao_method = POST, ao_path = js ''/auth/login'',
       ao_body = Some (JObj [str_field ''email'' email, str_field ''password'' password]), ao_auth = False \<rparr>"

definition registerUser :: "jstring \<Rightarrow> jstring \<Rightarrow> jstring \<Rightarrow> jstring \<Rightarrow> api_options" where
  "registerUser email password firstName lastName =
     \<lparr> ao_method = POST, ao_path = js ''/auth/register'',
       ao_body = Some (JObj [str_field ''email'' email, str_field ''password'' password,
                             str_field ''firstName'' firstName, str_field ''lastName'' lastName]),
       ao_auth = False \<rparr>"

paragraph \<open>\<open>organization-api.ts\<close>\<close>

definition fetchOrganizations :: api_options where
  "fetchOrganizations = get_request ''/api/orgs''"

definition createOrganization :: "jstring \<Rightarrow> api_options" where
  "createOrganization name =
     \<lparr> ao_method = POST, ao_path = js ''/api/orgs'', ao_body = Some (JObj [str_field ''name'' name]), ao_auth = True \<rparr>"

definition deleteOrganization :: "jstring \<Rightarrow> api_options" where
  "deleteOrganization name =
     \<lparr> ao_method = DELETE, ao_path = js ''/api/org'', ao_body = Some (JObj [str_field ''name'' name]), ao_auth = True \<rparr>"

definition getSigningSecret :: api_options where
  "getSigningSecret = get_request ''/api/org/signing-secret''"

definition rotateSigningSecret :: api_options where
  "rotateSigningSecret =
     \<lparr> ao_method = POST, ao_path = js ''/api/org/signing-secret/rotate'', ao_body = None, ao_auth = True \<rparr>"

paragraph \<open>\<open>invitation-api.ts\<close>\<close>

definition fetchInvitations :: api_options where
  "fetchInvitations = get_request ''/api/invitations/''"

definition createInvitation :: "jstring \<Rightarrow> api_options" where
  "createInvitation email =
     \<lparr> ao_method = POST, ao_path = js ''/api/invitations/'', ao_body = Some (JObj [str_field ''email'' email]),
       ao_auth = True \<rparr>"

definition cancelInvitation :: "jstring \<Rightarrow> api_options" where
  "cancelInvitation i =
     \<lparr> ao_method = DELETE, ao_path = js ''/api/invitations/'' @ i, ao_body = None, ao_auth = True \<rparr>"

definition acceptInvitation :: "jstring \<Rightarrow> api_options" where
  "acceptInvitation token =
     \<lparr> ao_method = POST, ao_path = js ''/api/invitations/accept'', ao_body = Some (JObj [str_field ''token'' token]),
       ao_auth = True \<rparr>"

definition fetchPendingInvitations :: api_options where
  "fetchPendingInvitations = get_request ''/api/invitations/pending''"

datatype respond_action = Accept | Decline

definition action_text :: "respond_action \<Rightarrow> jstring" where
  "action_text a = (case a of Accept \<Rightarrow> js ''accept'' | Decline \<Rightarrow> js ''decline'')"

definition respondToInvitation :: "jstring \<Rightarrow> respond_action \<Rightarrow> api_options" where
  "respondToInvitation i a =
     \<lparr> ao_method = POST, ao_path = js ''/api/invitations/'' @ i @ js ''/respond'',
       ao_body = Some (JObj [str_field ''action'' (action_text a)]), ao_auth = True \<rparr>"

paragraph \<open>\<open>dashboard-api.ts\<close>\<close>

definition fetchDashboardStats :: api_options where
  "fetchDashboardStats = get_request ''/api/dashboard/stats''"

definition fetchApiKeys :: api_options where
  "fetchApiKeys = get_request ''/api/api-key/list''"

definition createApiKey :: "jstring \<Rightarrow> api_options" where
  "createApiKey name =
     \<lparr> ao_method = POST, ao_path = js ''/api/api-key/create'', ao_body = Some (JObj [str_field ''name'' name]),
       ao_auth = True \<rparr>"

definition deleteApiKey :: "jstring \<Rightarrow> api_options" where
  "deleteApiKey i =
     \<lparr> ao_method = DELETE, ao_path = js ''/api/api-key/'' @ i, ao_body = None, ao_auth = True \<rparr>"

definition fetchWebhookLogDetail :: "jstring \<Rightarrow> api_options" where
  "fetchWebhookLogDetail i =
     \<lparr> ao_method = GET, ao_path = js ''/api/webhook-logs/'' @ i, ao_body = None, ao_auth = True \<rparr>"

text \<open>\<open>if (x) searchParams.set(k, x)\<close>, for a string and for a number.\<close>

definition set_text :: "string \<Rightarrow> jstring option \<Rightarrow> search_params \<Rightarrow> search_params" where
  "set_text k x ps = (if truthy x then params_set ps (js k) (the x) else ps)"

definition set_int :: "string \<Rightarrow> int option \<Rightarrow> search_params \<Rightarrow> search_params" where
  "set_int k x ps = (if x \<noteq> None \<and> x \<noteq> Some 0 then params_set ps (js k) (int_text (the x)) else ps)"

definition webhook_logs_query :: "webhook_logs_params option \<Rightarrow> search_params" where
  "webhook_logs_query params =
     (case params of
        None \<Rightarrow> []
      | Some p \<Rightarrow> set_int ''limit'' (wp_limit p) (set_int ''page'' (wp_page p)
                    (set_text ''search'' (wp_search p) (set_text ''status'' (wp_status p) []))))"

definition fetchWebhookLogs :: "webhook_logs_params option \<Rightarrow> api_options" where
  "fetchWebhookLogs params =
     (let query = params_toString (webhook_logs_query params)
      in \<lparr> ao_method = GET,
           ao_path = (if query \<noteq> [] then js ''/api/webhook-logs?'' @ query else js ''/api/webhook-logs''),
           ao_body = None, ao_auth = True \<rparr>)"

definition sendTestWebhook :: "jstring \<Rightarrow> jstring \<Rightarrow> send_webhook_request \<Rightarrow> http_request" where
  "sendTestWebhook base apiKey request =
     \<lparr> rq_url = base @ js ''/webhook/send'', rq_method = POST,
       rq_headers = [(js ''Content-Type'', js ''application/json''), (js ''X-API-Key'', apiKey)],
       rq_body = Some (JSON_stringify 0 (JObj [str_field ''url'' (sw_url request),
                   str_field ''method'' (sw_method request), (js ''payload'', sw_payload request)])) \<rparr>"

text \<open>
  On an error status the body may fail to parse (\<open>.catch(() => ({}))\<close>), may be \<open>null\<close>, and only its
  \<open>error\<close> field is read. The text of an error raised by the engine is represented by its name.
\<close>

definition send_error_message :: "nat \<Rightarrow> json \<Rightarrow> jstring" where
  "send_error_message status body =
     or_else (as_string (prop_of body (js ''error''))) (js ''Request failed with status '' @ of_nat_text status)"

definition as_send_response :: "json \<Rightarrow> send_webhook_response" where
  "as_send_response v =
     \<lparr> sr_messageId = (case as_string (prop_of v (js ''messageId'')) of None \<Rightarrow> [] | Some s \<Rightarrow> s),
       sr_status = (case as_string (prop_of v (js ''status'')) of None \<Rightarrow> [] | Some s \<Rightarrow> s) \<rparr>"

definition sendTestWebhook_settle :: "fetch_result \<Rightarrow> js_exn + send_webhook_response option" where
  "sendTestWebhook_settle r =
     (case r of
        Fetch_Rejected m \<Rightarrow> Inl (Js_Error m)
      | Response status body \<Rightarrow>
          if \<not> response_ok status then
            (case JSON_parse body of
               None \<Rightarrow> Inl (Js_Error (send_error_message status (JObj [])))
             | Some JNull \<Rightarrow> Inl (Js_Error (js ''TypeError''))
             | Some v \<Rightarrow> Inl (Js_Error (send_error_message status v)))
          else (case JSON_parse body of
                  None \<Rightarrow> Inl (Js_Error (js ''SyntaxError''))
                | Some JNull \<Rightarrow> Inr None
                | Some v \<Rightarrow> Inr (Some (as_send_response v))))"

lemmas request_defs [api_defs] =
  get_request_def str_field_def loginUser_def registerUser_def fetchOrganizations_def createOrganization_def
  deleteOrganization_def getSigningSecret_def rotateSigningSecret_def fetchInvitations_def createInvitation_def
  cancelInvitation_def acceptInvitation_def fetchPendingInvitations_def respondToInvitation_def
  fetchDashboardStats_def fetchApiKeys_def createApiKey_def deleteApiKey_def fetchWebhookLogDetail_def
  fetchWebhookLogs_def Let_def

text \<open>Every request of the modules except the two of \<open>auth-api.ts\<close> is sent with the credentials.\<close>

lemma auth_requests [simp]:
  "ao_auth fetchOrganizations" "ao_auth (createOrganization n)" "ao_auth (deleteOrganization n)"
  "ao_auth getSigningSecret" "ao_auth rotateSigningSecret" "ao_auth fetchInvitations"
  "ao_auth (createInvitation e)" "ao_auth (cancelInvitation i)" "ao_auth (acceptInvitation t)"
  "ao_auth fetchPendingInvitations" "ao_auth (respondToInvitation i a)" "ao_auth fetchDashboardStats"
  "ao_auth fetchApiKeys" "ao_auth (createApiKey n)" "ao_auth (deleteApiKey i)"
  "ao_auth (fetchWebhookLogDetail i)" "ao_auth (fetchWebhookLogs ps)"
  "\<not> ao_auth (loginUser e p)" "\<not> ao_auth (registerUser e p f l)"
  by (auto simp: api_defs)

subsection \<open>The query of the log list\<close>

definition wf_params :: "search_params \<Rightarrow> bool" where
  "wf_params ps \<longleftrightarrow> (\<forall>(n, v)\<in>set ps. well_formed n \<and> well_formed v)"

definition sent_text :: "jstring option \<Rightarrow> jstring option" where
  "sent_text x = sent x"

definition sent_int :: "int option \<Rightarrow> jstring option" where
  "sent_int x = (if x \<noteq> None \<and> x \<noteq> Some 0 then map_option int_text x else None)"

lemma params_set_new: "k \<notin> fst ` set ps \<Longrightarrow> params_set ps k v = ps @ [(k, v)]"
  by (induction ps) auto

lemma params_get_set_other: "k \<noteq> k' \<Longrightarrow> params_get (params_set ps k v) k' = params_get ps k'"
proof (induction ps)
  case (Cons p ps)
  have "List.find (\<lambda>q. fst q = k') (filter (\<lambda>q. fst q \<noteq> k) qs) = List.find (\<lambda>q. fst q = k') qs" for qs :: search_params
    using Cons.prems by (induction qs) auto
  then show ?case using Cons by (auto simp: params_get_def)
qed (auto simp: params_get_def)

lemma params_set_wf: "wf_params ps \<Longrightarrow> well_formed k \<Longrightarrow> well_formed v \<Longrightarrow> wf_params (params_set ps k v)"
  by (induction ps) (auto simp: wf_params_def)

lemma well_formed_small: "\<forall>c\<in>set s. unat c < 0xD800 \<Longrightarrow> well_formed s"
proof (induction s)
  case (Cons c s)
  then have "\<not> high_surrogate c" "\<not> low_surrogate c"
    by (auto simp: high_surrogate_def low_surrogate_def)
  then show ?case using Cons by (cases s) auto
qed simp

lemma well_formed_js: "well_formed (js s)"
proof (rule well_formed_small)
  have "unat (of_char c :: 16 word) < 256" for c :: char
    by (simp add: unat_of_char nat_of_char_less_256)
  then show "\<forall>c\<in>set (js s). unat c < 0xD800" by (force simp: js_def intro: less_trans)
qed

lemma well_formed_int_text: "well_formed (int_text n)"
proof (rule well_formed_small)
  have "unat (word_of_nat d :: 16 word) < 0xD800" if "d \<in> set (digits k)" for d k
    using digits_digit [OF that] by (simp add: is_digit_def unat_of_nat)
  then show "\<forall>c\<in>set (int_text n). unat c < 0xD800"
    by (auto simp: int_text_def of_nat_text_def of_codes_def)
qed

lemma set_text_wf: "wf_params ps \<Longrightarrow> (\<And>s. x = Some s \<Longrightarrow> well_formed s) \<Longrightarrow> wf_params (set_text k x ps)"
  by (auto simp: set_text_def truthy_def intro!: params_set_wf well_formed_js)

lemma set_int_wf: "wf_params ps \<Longrightarrow> wf_params (set_int k x ps)"
  by (auto simp: set_int_def intro!: params_set_wf well_formed_js well_formed_int_text)

lemma params_get_Nil [simp]: "params_get [] k = None"
  by (simp add: params_get_def)

lemma get_set_text:
  "params_get (set_text k x ps) (js k') =
     (if k = k' \<and> truthy x then x else params_get ps (js k'))"
  by (auto simp: set_text_def get_set_same params_get_set_other truthy_def)

lemma get_set_int:
  "params_get (set_int k x ps) (js k') =
     (if k = k' \<and> x \<noteq> None \<and> x \<noteq> Some 0 then Some (int_text (the x)) else params_get ps (js k'))"
  by (auto simp: set_int_def get_set_same params_get_set_other)

lemma webhook_logs_query_wf:
  assumes "\<And>s. wp_status p = Some s \<Longrightarrow> well_formed s" "\<And>s. wp_search p = Some s \<Longrightarrow> well_formed s"
  shows "wf_params (webhook_logs_query (Some p))"
  unfolding webhook_logs_query_def using assms
  by (auto intro!: set_int_wf set_text_wf simp: wf_params_def [of "[]"])

lemma params_toString_Nil: "params_toString ps = [] \<longleftrightarrow> ps = []"
  by (cases ps rule: form_bytes.cases) (auto simp: params_toString_def ascii_def)

lemma cut_at_path: "cut_at 63 (js ''/api/webhook-logs?'' @ q) = (js ''/api/webhook-logs'', q)"
  by (simp add: js_def)

lemma ascii_mem: "\<forall>b\<in>set bs. b < 128 \<Longrightarrow> c < 128 \<Longrightarrow> c \<notin> set bs \<Longrightarrow> word_of_nat c \<notin> set (ascii bs)"
  by (auto simp: ascii_def) (metis unat_ascii)

lemma form_bytes_no_hash: "35 \<notin> set (form_bytes ps)"
proof -
  have "35 \<notin> set (escape_form s)" for s
    using escape_bytes_elems [of "bytes_of s" 35 form_keep True]
    by (auto simp: escape_form_def bytes_of_less form_keep_def alnum_def)
  then show ?thesis by (induction ps rule: form_bytes.induct) auto
qed

lemma parse_query_url:
  assumes "35 \<notin> set p" "63 \<notin> set p" "35 \<notin> set q"
  shows "parse_url (p @ 63 # q) = \<lparr> pathname = p, search = (if q = [] then [] else 63 # q) \<rparr>"
proof -
  have "cut_at 35 (p @ 63 # q) = (p @ 63 # q, [])" using assms by (intro cut_at_id) auto
  then show ?thesis using assms by (simp add: parse_url_def cut_at_append)
qed

lemma parse_plain_url: "35 \<notin> set p \<Longrightarrow> 63 \<notin> set p \<Longrightarrow> parse_url p = \<lparr> pathname = p, search = [] \<rparr>"
  by (simp add: parse_url_def cut_at_id)

lemma strip_question_mark: "strip_question (63 # q) = q"
  by (simp add: strip_question_def)

lemma URLSearchParams_question:
  assumes "wf_params ps"
  shows "URLSearchParams (63 # params_toString ps) = ps"
  using URLSearchParams_toString [of ps] assms
  by (simp add: URLSearchParams_def wf_params_def strip_question_mark params_toString_def
      ascii_no_question form_bytes_ascii form_bytes_no_question)

lemma fetchWebhookLogs_url:
  assumes "wf_params (webhook_logs_query (Some p))"
  defines "l \<equiv> parse_url (ao_path (fetchWebhookLogs (Some p)))"
  shows "pathname l = js ''/api/webhook-logs''"
    and "searchParams l = webhook_logs_query (Some p)"
proof -
  let ?ps = "webhook_logs_query (Some p)"
  have hash: "35 \<notin> set (params_toString ?ps)"
    using ascii_mem [of "form_bytes ?ps" 35] form_bytes_ascii form_bytes_no_hash
    by (simp add: params_toString_def)
  have path: "35 \<notin> set (js ''/api/webhook-logs'')" "63 \<notin> set (js ''/api/webhook-logs'')"
    by (simp_all add: js_def)
  have split: "js ''/api/webhook-logs?'' = js ''/api/webhook-logs'' @ [63]" by (simp add: js_def)
  have "pathname l = js ''/api/webhook-logs'' \<and> searchParams l = ?ps"
  proof (cases "?ps = []")
    case True
    then show ?thesis
      using path by (simp add: l_def fetchWebhookLogs_def params_toString_Nil parse_plain_url
          searchParams_def URLSearchParams_def strip_question_def form_pairs_def)
  next
    case False
    then have "ao_path (fetchWebhookLogs (Some p)) = js ''/api/webhook-logs'' @ 63 # params_toString ?ps"
      by (simp add: fetchWebhookLogs_def params_toString_Nil split)
    moreover have "params_toString ?ps \<noteq> []" using False by (simp add: params_toString_Nil)
    ultimately show ?thesis
      using parse_query_url [OF path hash] assms(1)
      by (simp add: l_def searchParams_def URLSearchParams_question)
  qed
  then show "pathname l = js ''/api/webhook-logs''" "searchParams l = ?ps" by auto
qed

text \<open>C17: The request of the log list reaches the log endpoint, and a server that parses its query reads
  back exactly the filter, the search text, the page and the limit of the hook; an absent or empty
  filter and a zero number are not sent at all.\<close>

theorem webhook_logs_query_roundtrip:
  assumes "pred_option well_formed (wp_status p)" "pred_option well_formed (wp_search p)"
  defines "l \<equiv> parse_url (ao_path (fetchWebhookLogs (Some p)))"
  shows "pathname l = js ''/api/webhook-logs''
    \<and> params_get (searchParams l) (js ''status'') = sent (wp_status p)
    \<and> params_get (searchParams l) (js ''search'') = sent (wp_search p)
    \<and> params_get (searchParams l) (js ''page'') = sent_int (wp_page p)
    \<and> params_get (searchParams l) (js ''limit'') = sent_int (wp_limit p)"
proof -
  have "wf_params (webhook_logs_query (Some p))"
    using assms(1,2) by (intro webhook_logs_query_wf) (auto simp: pred_option_def)
  note url = fetchWebhookLogs_url [OF this]
  show ?thesis
    unfolding l_def url
    by (auto simp: webhook_logs_query_def get_set_int get_set_text sent_int_def sent_def truthy_def)
qed

lemma webhook_logs_query_roundtrip_witness:
  "params_get (searchParams (parse_url (ao_path (fetchWebhookLogs
      (Some \<lparr> wp_status = Some (js ''failed''), wp_search = Some (js ''a&b=c d''), wp_page = Some 2, wp_limit = Some 20 \<rparr>)))))
     (js ''search'') = Some (js ''a&b=c d'')"
  using webhook_logs_query_roundtrip
    [of "\<lparr> wp_status = Some (js ''failed''), wp_search = Some (js ''a&b=c d''), wp_page = Some 2, wp_limit = Some 20 \<rparr>"]
  by (simp add: well_formed_js sent_def)

end
