(* ===== verification/Auth_Context.thy ===== *)
theory Auth_Context
  imports Api
begin

text \<open>
  \<open>shared/context/auth-context.tsx\<close>: the two state cells of \<open>AuthProvider\<close>, their initial values
  read from the storage, and the operations it hands to its consumers, which write the storage and
  the cells together. \<open>null\<close> is \<open>None\<close>. The user cell holds whatever \<open>JSON.parse\<close> returned: the
  code casts it and does not look at it.
\<close>

definition AUTH_USER_KEY :: jstring where "AUTH_USER_KEY = js ''auth_user''"

record auth_state =
  au_token :: "jstring option"
  au_user :: "json option"

text \<open>A value as a cell that may be \<open>null\<close>.\<close>

definition nullable :: "json \<Rightarrow> json option" where
  "nullable v = (if v = JNull then None else Some v)"

definition getInitialToken :: "storage \<Rightarrow> jstring option" where
  "getInitialToken st = getItem st (js ''auth_token'')"

definition getInitialUser :: "storage \<Rightarrow> json option" where
  "getInitialUser st =
     (let raw = getItem st AUTH_USER_KEY
      in if \<not> truthy raw then None
         else (case JSON_parse (the raw) of None \<Rightarrow> None | Some v \<Rightarrow> nullable v))"

text \<open>The first render of the provider after a page load.\<close>

definition auth_mount :: "storage \<Rightarrow> auth_state" where
  "auth_mount st = \<lparr> au_token = getInitialToken st, au_user = getInitialUser st \<rparr>"

definition isAuthenticated :: "auth_state \<Rightarrow> bool" where
  "isAuthenticated s \<longleftrightarrow> au_token s \<noteq> None \<and> au_user s \<noteq> None"

definition json_of_user :: "auth_user \<Rightarrow> json" where
  "json_of_user u =
     JObj [str_field ''id'' (user_id u), str_field ''email'' (user_email u), str_field ''firstName'' (user_firstName u)]"

definition setAuth :: "jstring \<Rightarrow> auth_user \<Rightarrow> storage \<times> auth_state \<Rightarrow> storage \<times> auth_state" where
  "setAuth newToken newUser = (\<lambda>(st, s).
     (setItem AUTH_USER_KEY (JSON_stringify 0 (json_of_user newUser)) (setStoredToken newToken st),
      s\<lparr> au_token := Some newToken, au_user := Some (json_of_user newUser) \<rparr>))"

definition logout :: "storage \<times> auth_state \<Rightarrow> storage \<times> auth_state" where
  "logout = (\<lambda>(st, s).
     (removeItem (js ''selected_org'') (removeItem AUTH_USER_KEY (removeStoredToken st)),
      s\<lparr> au_token := None, au_user := None \<rparr>))"

text \<open>A property of the user cell, read with \<open>user?.k\<close>.\<close>

definition user_field :: "auth_state \<Rightarrow> string \<Rightarrow> jstring option" where
  "user_field s k = (case au_user s of None \<Rightarrow> None | Some v \<Rightarrow> as_string (prop_of v (js k)))"

text \<open>\<open>useAuth\<close> and \<open>useOrg\<close>: the context value, or an error outside of the provider.\<close>

definition useAuth :: "'c option \<Rightarrow> js_exn + 'c" where
  "useAuth context =
     (case context of
        None \<Rightarrow> Inl (Js_Error (js ''useAuth must be used within an AuthProvider''))
      | Some c \<Rightarrow> Inr c)"

subsection \<open>The cells and the storage\<close>

lemma auth_keys [simp]:
  "AUTH_USER_KEY \<noteq> AUTH_TOKEN_KEY" "AUTH_TOKEN_KEY \<noteq> AUTH_USER_KEY"
  "AUTH_USER_KEY \<noteq> SELECTED_ORG_KEY" "SELECTED_ORG_KEY \<noteq> AUTH_USER_KEY"
  by (auto simp: AUTH_USER_KEY_def AUTH_TOKEN_KEY_def SELECTED_ORG_KEY_def)

lemma key_literals: "js ''auth_token'' = AUTH_TOKEN_KEY" "js ''selected_org'' = SELECTED_ORG_KEY"
  by (simp_all add: AUTH_TOKEN_KEY_def SELECTED_ORG_KEY_def)

lemmas auth_defs [hook_defs] =
  auth_mount_def getInitialToken_def getInitialUser_def isAuthenticated_def setAuth_def logout_def
  setStoredToken_def removeStoredToken_def getStoredToken_def key_literals nullable_def Let_def

lemma order_props_plain: "\<forall>p\<in>set kvs. \<not> is_index p \<Longrightarrow> order_props kvs = kvs"
  by (simp add: order_props_def filter_False)

lemma index_value_letter: "s \<noteq> [] \<Longrightarrow> \<not> is_digit (unat (hd s)) \<Longrightarrow> index_value s = None"
  by (cases s) (auto simp: index_value_def Let_def)

lemma not_index_letter: "fst p \<noteq> [] \<Longrightarrow> \<not> is_digit (unat (hd (fst p))) \<Longrightarrow> \<not> is_index p"
  by (simp add: is_index_def index_value_letter)

lemma json_of_user_wf: "wf_json (json_of_user u)"
proof -
  have "\<not> is_index (js ''id'', v)" "\<not> is_index (js ''email'', v)" "\<not> is_index (js ''firstName'', v)" for v
    by (rule not_index_letter; simp add: js_def is_digit_def)+
  then show ?thesis by (simp add: json_of_user_def str_field_def order_props_plain)
qed

lemma parse_user: "JSON_parse (JSON_stringify 0 (json_of_user u)) = Some (json_of_user u)"
  using parse_stringify [OF json_of_user_wf, of 0 u] by (simp add: json_of_user_def str_field_def)

lemma stringify_user_neq_Nil: "JSON_stringify 0 (json_of_user u) \<noteq> []"
  by (simp add: JSON_stringify_def json_of_user_def of_codes_def)

text \<open>
  The operations that write the storage: those of the provider, and the two writes of the
  organization provider, which only touch the selected organization.
\<close>

datatype auth_op = Set_Auth jstring auth_user | Logout | Select_Org jstring | Deselect_Org

fun auth_step :: "auth_op \<Rightarrow> storage \<times> auth_state \<Rightarrow> storage \<times> auth_state" where
  "auth_step (Set_Auth t u) w = setAuth t u w"
| "auth_step Logout w = logout w"
| "auth_step (Select_Org i) (st, s) = (setItem SELECTED_ORG_KEY i st, s)"
| "auth_step Deselect_Org (st, s) = (removeItem SELECTED_ORG_KEY st, s)"

definition auth_run :: "storage \<Rightarrow> auth_op list \<Rightarrow> storage \<times> auth_state" where
  "auth_run st ops = fold auth_step ops (st, auth_mount st)"

definition mirrors :: "storage \<times> auth_state \<Rightarrow> bool" where
  "mirrors w \<longleftrightarrow> auth_mount (fst w) = snd w"

lemma setAuth_mirrors: "mirrors (setAuth t u w)"
  by (cases w) (simp add: mirrors_def hook_defs parse_user stringify_user_neq_Nil, simp add: json_of_user_def)

lemma logout_mirrors: "mirrors (logout w)"
  by (cases w) (simp add: mirrors_def hook_defs)

lemma auth_step_mirrors: "mirrors w \<Longrightarrow> mirrors (auth_step op w)"
  by (cases "(op, w)" rule: auth_step.cases)
    (auto simp: setAuth_mirrors logout_mirrors, auto simp: mirrors_def hook_defs)

subsection \<open>Properties\<close>

text \<open>Whatever the storage held when the page was loaded and whatever sign-ins, sign-outs and
  organization switches happened since, reloading the page gives the same token, the same user and
  therefore the same answer to \<open>isAuthenticated\<close>: the cells always mirror the storage.\<close>

theorem auth_reload_stable: "auth_mount (fst (auth_run st ops)) = snd (auth_run st ops)"
proof -
  have "mirrors w \<Longrightarrow> mirrors (fold auth_step ops w)" for w
    by (induction ops arbitrary: w) (auto simp: auth_step_mirrors)
  moreover have "mirrors (st, auth_mount st)" by (simp add: mirrors_def)
  ultimately show ?thesis by (simp add: mirrors_def auth_run_def)
qed


end
