(* ===== verification/Org_Context.thy ===== *)
theory Org_Context
  imports Auth_Context
begin

text \<open>
  \<open>shared/context/org-context.tsx\<close>. The state is the storage with the cells of \<open>OrgProvider\<close>, the
  last value its effect ran for, and the \<open>load()\<close> calls it has started: each with the request it
  sent and whether it has settled. \<open>load\<close> awaits once, so it is \<open>org_effect\<close> up to the request
  and \<open>org_load_settled\<close> from the response on; \<open>load\<close> is not cancelled by a later effect, and in the
  model a started load may settle at any later step. A functional state update is applied at once.
\<close>

record org_state =
  oc_organizations :: "organization list"
  oc_currentOrg :: "organization option"
  oc_deps :: "bool option"
  oc_loads :: "(http_request \<times> bool) list"

type_synonym org_world = "storage \<times> org_state"

definition org_mount :: org_state where
  "org_mount = \<lparr> oc_organizations = [], oc_currentOrg = None, oc_deps = None, oc_loads = [] \<rparr>"

definition org_effect :: "jstring \<Rightarrow> bool \<Rightarrow> org_world \<Rightarrow> org_world" where
  "org_effect base isAuth = (\<lambda>(st, s).
     if oc_deps s = Some isAuth then (st, s)
     else if \<not> isAuth then
       (st, s\<lparr> oc_deps := Some isAuth, oc_organizations := [], oc_currentOrg := None \<rparr>)
     else
       (st, s\<lparr> oc_deps := Some isAuth,
               oc_loads := oc_loads s @ [(apiRequest base st fetchOrganizations, False)] \<rparr>))"

definition load_pending :: "nat \<Rightarrow> org_state \<Rightarrow> bool" where
  "load_pending i s \<longleftrightarrow> i < length (oc_loads s) \<and> \<not> snd (oc_loads s ! i)"

definition finish_load :: "nat \<Rightarrow> org_state \<Rightarrow> org_state" where
  "finish_load i s = s\<lparr> oc_loads := (oc_loads s)[i := (fst (oc_loads s ! i), True)] \<rparr>"

definition org_load_settled :: "nat \<Rightarrow> js_exn + organization list \<Rightarrow> org_world \<Rightarrow> org_world" where
  "org_load_settled i r = (\<lambda>(st, s).
     if \<not> load_pending i s then (st, s)
     else (case r of
       Inl _ \<Rightarrow> (st, finish_load i s)
     | Inr orgs \<Rightarrow>
         (let s1 = (finish_load i s)\<lparr> oc_organizations := orgs \<rparr>;
              storedId = getItem st SELECTED_ORG_KEY;
              matched = List.find (\<lambda>org. Some (org_id org) = storedId) orgs
          in case matched of
               Some o1 \<Rightarrow> (st, s1\<lparr> oc_currentOrg := Some o1 \<rparr>)
             | None \<Rightarrow>
                 if length orgs > 0
                 then (setItem SELECTED_ORG_KEY (org_id (orgs ! 0)) st, s1\<lparr> oc_currentOrg := Some (orgs ! 0) \<rparr>)
                 else (st, s1))))"

definition switchOrg :: "organization \<Rightarrow> org_world \<Rightarrow> org_world" where
  "switchOrg org = (\<lambda>(st, s). (setItem SELECTED_ORG_KEY (org_id org) st, s\<lparr> oc_currentOrg := Some org \<rparr>))"

definition addOrg :: "organization \<Rightarrow> org_world \<Rightarrow> org_world" where
  "addOrg org = (\<lambda>(st, s).
     (setItem SELECTED_ORG_KEY (org_id org) st,
      s\<lparr> oc_organizations := oc_organizations s @ [org], oc_currentOrg := Some org \<rparr>))"

definition removeOrg :: "jstring \<Rightarrow> org_world \<Rightarrow> org_world" where
  "removeOrg orgId = (\<lambda>(st, s).
     let remaining = filter (\<lambda>org. org_id org \<noteq> orgId) (oc_organizations s)
     in if length remaining > 0
        then (setItem SELECTED_ORG_KEY (org_id (remaining ! 0)) st,
              s\<lparr> oc_organizations := remaining, oc_currentOrg := Some (remaining ! 0) \<rparr>)
        else (removeItem SELECTED_ORG_KEY st, s\<lparr> oc_organizations := remaining, oc_currentOrg := None \<rparr>))"

definition useOrg :: "'c option \<Rightarrow> js_exn + 'c" where
  "useOrg context =
     (case context of
        None \<Rightarrow> Inl (Js_Error (js ''useOrg must be used within an OrgProvider''))
      | Some c \<Rightarrow> Inr c)"

definition is_admin :: "organization option \<Rightarrow> bool" where
  "is_admin org \<longleftrightarrow> map_option org_role org = Some (js ''admin'')"

lemmas org_ops [hook_defs] =
  org_mount_def org_effect_def load_pending_def finish_load_def org_load_settled_def
  switchOrg_def addOrg_def removeOrg_def

subsection \<open>Operation sequences\<close>

text \<open>
  What can happen to the provider: it is rendered with the current authentication, a started load
  settles, a consumer calls one of the three operations, or the user signs out, which clears the
  selected organization and renders the provider unauthenticated.
\<close>

datatype org_op =
    Render_Auth bool
  | Load_Settled nat "js_exn + organization list"
  | Switch organization
  | Add organization
  | Remove jstring
  | Sign_Out

definition sign_out :: "jstring \<Rightarrow> org_world \<Rightarrow> org_world" where
  "sign_out base w = org_effect base False (removeItem SELECTED_ORG_KEY (fst w), snd w)"

fun org_step :: "jstring \<Rightarrow> org_op \<Rightarrow> org_world \<Rightarrow> org_world" where
  "org_step base (Render_Auth b) w = org_effect base b w"
| "org_step base (Load_Settled i r) w = org_load_settled i r w"
| "org_step base (Switch org) w = switchOrg org w"
| "org_step base (Add org) w = addOrg org w"
| "org_step base (Remove i) w = removeOrg i w"
| "org_step base Sign_Out w = sign_out base w"

definition pending_loads :: "org_state \<Rightarrow> nat" where
  "pending_loads s = length (filter (\<lambda>p. \<not> snd p) (oc_loads s))"

text \<open>
  The operations that respect the loads: the consumers are only there when the user is signed in,
  the switcher only offers listed organizations, and while a load is under way nothing happens but
  its answer and renders that change nothing.
\<close>

fun org_allowed :: "org_world \<Rightarrow> org_op \<Rightarrow> bool" where
  "org_allowed w (Load_Settled i r) = True"
| "org_allowed w (Render_Auth b) = (oc_deps (snd w) = Some b \<or> pending_loads (snd w) = 0)"
| "org_allowed w (Switch org) =
     (org \<in> set (oc_organizations (snd w)) \<and> pending_loads (snd w) = 0 \<and> oc_deps (snd w) = Some True)"
| "org_allowed w Sign_Out = (pending_loads (snd w) = 0)"
| "org_allowed w _ = (pending_loads (snd w) = 0 \<and> oc_deps (snd w) = Some True)"

fun org_trace :: "jstring \<Rightarrow> org_op list \<Rightarrow> org_world \<Rightarrow> bool" where
  "org_trace base [] w = True"
| "org_trace base (op # ops) w = (org_allowed w op \<and> org_trace base ops (org_step base op w))"

definition org_run :: "jstring \<Rightarrow> org_op list \<Rightarrow> org_world \<Rightarrow> org_world" where
  "org_run base ops w = fold (org_step base) ops w"

text \<open>
  The contract of the provider: a current organization is a listed one and is the stored one; with
  listed organizations there is a current one.
\<close>

fun org_ok :: "org_world \<Rightarrow> bool" where
  "org_ok (st, s) =
     (case oc_currentOrg s of
        None \<Rightarrow> oc_organizations s = []
      | Some org \<Rightarrow> org \<in> set (oc_organizations s) \<and> getItem st SELECTED_ORG_KEY = Some (org_id org))"

definition org_inv :: "org_world \<Rightarrow> bool" where
  "org_inv w \<longleftrightarrow> org_ok w \<and> pending_loads (snd w) \<le> 1
     \<and> (pending_loads (snd w) = 0 \<or> oc_organizations (snd w) = [])
     \<and> (oc_deps (snd w) = Some True \<or> oc_organizations (snd w) = [] \<and> pending_loads (snd w) = 0)"

lemma switchOrg_ok: "org \<in> set (oc_organizations (snd w)) \<Longrightarrow> org_ok (switchOrg org w)"
  by (cases w) (simp add: switchOrg_def)

lemma addOrg_ok: "org_ok (addOrg org w)"
  by (cases w) (simp add: addOrg_def)

lemma removeOrg_ok: "org_ok (removeOrg i w)"
proof -
  obtain st s where w: "w = (st, s)" by (cases w)
  let ?xs = "filter (\<lambda>org. org_id org \<noteq> i) (oc_organizations s)"
  show ?thesis
  proof (cases "?xs = []")
    case False
    then have "?xs ! 0 \<in> set ?xs" by (intro nth_mem) simp
    then show ?thesis using False by (simp add: w removeOrg_def Let_def del: set_filter)
  qed (simp add: w removeOrg_def Let_def)
qed

lemma load_settled_ok:
  assumes "org_ok (st, s)" "oc_organizations s = []"
  shows "org_ok (org_load_settled i r (st, s))"
proof (cases "load_pending i s")
  case True
  have none: "oc_currentOrg s = None" using assms by (cases "oc_currentOrg s") auto
  show ?thesis
  proof (cases r)
    case (Inr orgs)
    show ?thesis
    proof (cases "List.find (\<lambda>org. Some (org_id org) = getItem st SELECTED_ORG_KEY) orgs")
      case None
      then show ?thesis using True Inr none by (cases orgs) (simp_all add: org_load_settled_def finish_load_def Let_def)
    next
      case (Some org)
      from find_Some_mem [OF this] show ?thesis
        using True Inr Some by (simp add: org_load_settled_def)
    qed
  qed (use True assms none in \<open>simp add: org_load_settled_def finish_load_def\<close>)
qed (use assms in \<open>simp add: org_load_settled_def\<close>)

lemma pending_loads_finish:
  assumes "load_pending i s"
  shows "pending_loads s = Suc (pending_loads (finish_load i s))"
proof -
  define xs where "xs = oc_loads s"
  have i: "i < length xs" "\<not> snd (xs ! i)" using assms by (auto simp: load_pending_def xs_def)
  define a b x where "a = take i xs" and "b = drop (Suc i) xs" and "x = xs ! i"
  have xs: "xs = a @ x # b" using i(1) by (simp add: a_def b_def x_def id_take_nth_drop)
  have upd: "xs[i := y] = a @ y # b" for y using i(1) by (simp add: a_def b_def upd_conv_take_nth_drop)
  have "\<not> snd x" using i(2) by (simp add: x_def)
  then have "length (filter (\<lambda>p. \<not> snd p) xs) = Suc (length (filter (\<lambda>p. \<not> snd p) (xs[i := (fst x, True)])))"
    unfolding upd by (simp add: xs)
  then show ?thesis by (simp add: pending_loads_def finish_load_def xs_def x_def)
qed

lemma settled_frame:
  "oc_deps (snd (org_load_settled i r (st, s))) = oc_deps s"
  "load_pending i s \<Longrightarrow> oc_loads (snd (org_load_settled i r (st, s))) = oc_loads (finish_load i s)"
  by (auto simp: org_load_settled_def finish_load_def Let_def split: sum.splits option.splits)

lemma org_step_inv: "org_inv w \<Longrightarrow> org_allowed w op \<Longrightarrow> org_inv (org_step base op w)"
proof (cases op)
  case (Load_Settled i r)
  obtain st s where w: "w = (st, s)" by (cases w)
  assume inv: "org_inv w"
  show ?thesis
  proof (cases "load_pending i s")
    case True
    then have c: "pending_loads s = 1" "pending_loads (finish_load i s) = 0" "oc_organizations s = []"
      "oc_deps s = Some True"
      using pending_loads_finish [OF True] inv by (auto simp: org_inv_def w)
    moreover have "org_ok (org_load_settled i r (st, s))"
      using inv c by (intro load_settled_ok) (auto simp: org_inv_def w)
    ultimately show ?thesis
      using settled_frame(1) [of i r st s] settled_frame(2) [OF True, of r st]
      by (simp add: org_inv_def w Load_Settled pending_loads_def)
  next
    case False
    then show ?thesis using inv by (simp add: w Load_Settled org_load_settled_def)
  qed
qed (cases w; auto simp: org_inv_def switchOrg_ok addOrg_ok removeOrg_ok sign_out_def,
     auto simp: hook_defs pending_loads_def Let_def split: option.splits if_splits)+

lemma org_run_inv: "org_inv w \<Longrightarrow> org_trace base ops w \<Longrightarrow> org_inv (org_run base ops w)"
  by (induction ops arbitrary: w) (auto simp: org_run_def org_step_inv)

lemma org_mount_inv: "org_inv (st, org_mount)"
  by (simp add: org_inv_def org_mount_def pending_loads_def)

subsection \<open>Properties\<close>

text \<open>C3: From the mount of the provider, through any sequence of renders, loads, switches, additions,
  removals and sign-outs in which the consumers act only while no load is under way: the current
  organization is always one of the listed ones, one is current whenever any is listed, and the
  organization that authenticated requests name in their header is exactly the current one.\<close>

theorem org_context_invariant:
  assumes "org_trace base ops (st, org_mount)" "org_run base ops (st, org_mount) = (st', s)"
  shows "case oc_currentOrg s of
       None \<Rightarrow> oc_organizations s = []
     | Some org \<Rightarrow> org \<in> set (oc_organizations s)
         \<and> header (apiRequest base st' fetchApiKeys) (js ''X-Org-ID'') = (if org_id org = [] then None else Some (org_id org))"
proof -
  have "org_ok (st', s)"
    using org_run_inv [OF org_mount_inv assms(1)] assms(2) by (simp add: org_inv_def)
  then show ?thesis by (auto simp: header_org sent_def split: option.splits)
qed

definition demo_org :: "string \<Rightarrow> organization" where
  "demo_org i = \<lparr> org_id = js i, org_name = js i, org_slug = js i, org_role = js ''admin'' \<rparr>"

definition demo_ops :: "org_op list" where
  "demo_ops = [Render_Auth True, Load_Settled 0 (Inr [demo_org ''a'', demo_org ''b'']), Switch (demo_org ''b''),
     Remove (js ''a''), Add (demo_org ''c''), Render_Auth True]"

lemma demo_org_simps [simp]: "org_id (demo_org i) = js i" "demo_org i = demo_org j \<longleftrightarrow> i = j"
  by (auto simp: demo_org_def)

lemmas demo_simps = demo_ops_def org_run_def hook_defs Let_def pending_loads_def

lemma org_context_invariant_witness:
  "org_trace [] demo_ops (Map.empty, org_mount)
   \<and> oc_currentOrg (snd (org_run [] demo_ops (Map.empty, org_mount))) = Some (demo_org ''c'')
   \<and> demo_org ''c'' \<in> set (oc_organizations (snd (org_run [] demo_ops (Map.empty, org_mount))))"
proof -
  have trace: "org_trace [] demo_ops (Map.empty, org_mount)"
    and current: "oc_currentOrg (snd (org_run [] demo_ops (Map.empty, org_mount))) = Some (demo_org ''c'')"
    by (simp_all add: demo_simps)
  from org_context_invariant [OF trace surjective_pairing] trace current show ?thesis by simp
qed

text \<open>Removing an organization keeps the others in their order and makes the first of them current;
  removing the last one leaves no organization and nothing in the storage.\<close>

theorem removeOrg_result:
  "removeOrg i (st, s) =
     (case filter (\<lambda>org. org_id org \<noteq> i) (oc_organizations s) of
        [] \<Rightarrow> (removeItem SELECTED_ORG_KEY st, s\<lparr> oc_organizations := [], oc_currentOrg := None \<rparr>)
      | org # orgs \<Rightarrow> (setItem SELECTED_ORG_KEY (org_id org) st,
                        s\<lparr> oc_organizations := org # orgs, oc_currentOrg := Some org \<rparr>))"
  by (cases "filter (\<lambda>org. org_id org \<noteq> i) (oc_organizations s)") (simp_all add: removeOrg_def)

text \<open>C35: A list of organizations that is still on its way when the user signs out is applied when it
  arrives: the signed-out provider lists the organizations of the previous user again, selects the
  first of them and writes it back into the storage the sign-out has just cleared.\<close>

theorem late_load_after_sign_out:
  fixes base :: jstring
  assumes "load_pending i (snd w)" "orgs \<noteq> []"
  defines "w' \<equiv> org_load_settled i (Inr orgs) (sign_out base w)"
  shows "oc_organizations (snd w') = orgs \<and> oc_currentOrg (snd w') = Some (hd orgs)
    \<and> getItem (fst w') SELECTED_ORG_KEY = Some (org_id (hd orgs)) \<and> oc_deps (snd w') = Some False"
proof -
  obtain st s where w: "w = (st, s)" by (cases w)
  have none: "List.find (\<lambda>org. Some (org_id org) = None) orgs = None" by (simp add: find_None_iff)
  show ?thesis
    using assms(1,2) none
    by (auto simp: w'_def w sign_out_def hook_defs Let_def hd_conv_nth)
qed

lemma late_load_after_sign_out_witness:
  "oc_currentOrg (snd (org_load_settled 0 (Inr [demo_org ''a''])
     (sign_out [] (org_effect [] True (Map.empty, org_mount))))) = Some (demo_org ''a'')"
  using late_load_after_sign_out [of 0 "org_effect [] True (Map.empty, org_mount)" "[demo_org ''a'']" "[]"]
  by (simp add: hook_defs)

end
