(* ===== verification/Effects.thy ===== *)
theory Effects
  imports Org_Context
begin

text \<open>
  The effects that load data. A hook runs such an effect after the first render and whenever its
  dependencies change; the effect starts a request, and its cleanup sets the \<open>cancelled\<close> variable of
  that one run. An \<open>effect\<close> is the last dependencies, all runs started so far and the run whose
  cleanup is registered; each run has its dependencies, its request, its own \<open>cancelled\<close> variable
  and whether its promise has settled. A promise settles once, at any later moment.

  The locale \<open>effect_hook\<close> is the contract the hooks share: what committing a render, settling a
  run, unmounting and any other operation do to the effect, and that a cancelled run changes nothing;
  \<open>cancellable_load\<close> extends it with the loading flag and how it follows the effect, and \<open>read_hook\<close> is
  one whose view nothing else writes. The component
  theories interpret them on their hooks.
\<close>

record 'd effect_run =
  run_deps :: 'd
  run_request :: http_request
  run_cancelled :: bool
  run_settled :: bool

record 'd effect =
  ef_deps :: "'d option"
  ef_runs :: "'d effect_run list"
  ef_cleanup :: "nat option"

definition new_effect :: "'d effect" where
  "new_effect = \<lparr> ef_deps = None, ef_runs = [], ef_cleanup = None \<rparr>"

definition effect_due :: "'d \<Rightarrow> 'd effect \<Rightarrow> bool" where
  "effect_due d e \<longleftrightarrow> ef_deps e \<noteq> Some d"

definition cancel_run :: "nat \<Rightarrow> 'd effect \<Rightarrow> 'd effect" where
  "cancel_run i e = e\<lparr> ef_runs := (ef_runs e)[i := (ef_runs e ! i)\<lparr> run_cancelled := True \<rparr>] \<rparr>"

definition run_cleanup :: "'d effect \<Rightarrow> 'd effect" where
  "run_cleanup e = (case ef_cleanup e of None \<Rightarrow> e | Some i \<Rightarrow> (cancel_run i e)\<lparr> ef_cleanup := None \<rparr>)"

text \<open>One execution of the effect: it returns early (no request) or starts a run.\<close>

definition start_run :: "'d \<Rightarrow> http_request option \<Rightarrow> 'd effect \<Rightarrow> 'd effect" where
  "start_run d rq e =
     (case rq of
        None \<Rightarrow> e\<lparr> ef_deps := Some d \<rparr>
      | Some q \<Rightarrow> e\<lparr> ef_deps := Some d,
                     ef_runs := ef_runs e @ [\<lparr> run_deps = d, run_request = q, run_cancelled = False, run_settled = False \<rparr>],
                     ef_cleanup := Some (length (ef_runs e)) \<rparr>)"

definition commit_effect :: "'d \<Rightarrow> http_request option \<Rightarrow> 'd effect \<Rightarrow> 'd effect" where
  "commit_effect d rq e = (if effect_due d e then start_run d rq (run_cleanup e) else e)"

text \<open>Unmounting runs the cleanup; a remount (also the one of the strict mode) runs the effect again.\<close>

definition unmount_effect :: "'d effect \<Rightarrow> 'd effect" where
  "unmount_effect e = (run_cleanup e)\<lparr> ef_deps := None \<rparr>"

definition run_pending :: "nat \<Rightarrow> 'd effect \<Rightarrow> bool" where
  "run_pending i e \<longleftrightarrow> i < length (ef_runs e) \<and> \<not> run_settled (ef_runs e ! i)"

definition run_live :: "nat \<Rightarrow> 'd effect \<Rightarrow> bool" where
  "run_live i e \<longleftrightarrow> run_pending i e \<and> \<not> run_cancelled (ef_runs e ! i)"

definition finish_run :: "nat \<Rightarrow> 'd effect \<Rightarrow> 'd effect" where
  "finish_run i e =
     (if run_pending i e then e\<lparr> ef_runs := (ef_runs e)[i := (ef_runs e ! i)\<lparr> run_settled := True \<rparr>] \<rparr> else e)"

lemmas effect_defs [hook_defs] =
  new_effect_def effect_due_def cancel_run_def run_cleanup_def start_run_def commit_effect_def
  unmount_effect_def run_pending_def run_live_def finish_run_def

subsection \<open>The invariant of an effect\<close>

text \<open>Every run but the one whose cleanup is registered has been cancelled.\<close>

definition effect_ok :: "'d effect \<Rightarrow> bool" where
  "effect_ok e \<longleftrightarrow>
     (\<forall>i<length (ef_runs e). ef_cleanup e \<noteq> Some i \<longrightarrow> run_cancelled (ef_runs e ! i))
     \<and> (\<forall>i. ef_cleanup e = Some i \<longrightarrow> i < length (ef_runs e) \<and> \<not> run_cancelled (ef_runs e ! i)
           \<and> Some (run_deps (ef_runs e ! i)) = ef_deps e)"

text \<open>Run \<open>i\<close> has been started and is cancelled.\<close>

definition dead :: "nat \<Rightarrow> 'd effect \<Rightarrow> bool" where
  "dead i e \<longleftrightarrow> i < length (ef_runs e) \<and> run_cancelled (ef_runs e ! i)"

lemma new_effect_ok [simp]: "effect_ok new_effect"
  by (simp add: effect_ok_def new_effect_def)

lemma run_cleanup_ok: "effect_ok e \<Longrightarrow> effect_ok (run_cleanup e) \<and> ef_cleanup (run_cleanup e) = None
    \<and> length (ef_runs (run_cleanup e)) = length (ef_runs e)"
  by (auto simp: effect_ok_def run_cleanup_def cancel_run_def nth_update split: option.splits)

lemma start_run_ok:
  "effect_ok e \<Longrightarrow> ef_cleanup e = None \<Longrightarrow> effect_ok (start_run d rq e)"
  by (auto simp: effect_ok_def start_run_def nth_append less_Suc_eq split: option.splits)

lemma commit_effect_ok: "effect_ok e \<Longrightarrow> effect_ok (commit_effect d rq e)"
  using run_cleanup_ok [of e] start_run_ok [of "run_cleanup e" d rq] by (simp add: commit_effect_def)

lemma unmount_effect_ok: "effect_ok e \<Longrightarrow> effect_ok (unmount_effect e)"
  using run_cleanup_ok [of e] by (auto simp: unmount_effect_def effect_ok_def)

lemma finish_run_ok: "effect_ok e \<Longrightarrow> effect_ok (finish_run i e)"
  by (auto simp: effect_ok_def finish_run_def nth_update)

lemma dead_cleanup: "dead i e \<Longrightarrow> dead i (run_cleanup e)"
  by (auto simp: dead_def run_cleanup_def cancel_run_def nth_update split: option.splits)

lemma dead_commit: "dead i e \<Longrightarrow> dead i (commit_effect d rq e)"
  using dead_cleanup [of i e]
  by (auto simp: commit_effect_def start_run_def dead_def nth_append split: option.splits)

lemma dead_unmount: "dead i e \<Longrightarrow> dead i (unmount_effect e)"
  using dead_cleanup [of i e] by (auto simp: unmount_effect_def dead_def)

lemma dead_finish: "dead i e \<Longrightarrow> dead i (finish_run j e)"
  by (auto simp: dead_def finish_run_def nth_update)

lemma commit_kills:
  assumes "effect_ok e" "effect_due d e" "i < length (ef_runs e)"
  shows "dead i (commit_effect d rq e)"
  using assms run_cleanup_ok [of e]
  by (auto simp: commit_effect_def start_run_def dead_def nth_append effect_ok_def split: option.splits)

lemma unmount_kills: "effect_ok e \<Longrightarrow> i < length (ef_runs e) \<Longrightarrow> dead i (unmount_effect e)"
  using run_cleanup_ok [of e] by (auto simp: unmount_effect_def dead_def effect_ok_def)

lemma commit_starts:
  assumes "effect_due d e"
  shows "ef_deps (commit_effect d (Some q) e) = Some d"
    and "ef_cleanup (commit_effect d (Some q) e) = Some (length (ef_runs e))"
    and "run_live (length (ef_runs e)) (commit_effect d (Some q) e)"
    and "run_request (ef_runs (commit_effect d (Some q) e) ! length (ef_runs e)) = q"
proof -
  have "length (ef_runs (run_cleanup e)) = length (ef_runs e)"
    by (simp add: run_cleanup_def cancel_run_def split: option.splits)
  then show "ef_deps (commit_effect d (Some q) e) = Some d"
    "ef_cleanup (commit_effect d (Some q) e) = Some (length (ef_runs e))"
    "run_live (length (ef_runs e)) (commit_effect d (Some q) e)"
    "run_request (ef_runs (commit_effect d (Some q) e) ! length (ef_runs e)) = q"
    using assms by (auto simp: commit_effect_def start_run_def run_live_def run_pending_def nth_append)
qed

text \<open>The effect awaits a run just started for \<open>d\<close> with the request \<open>q\<close>.\<close>

definition awaits :: "'d \<Rightarrow> http_request \<Rightarrow> nat \<Rightarrow> 'd effect \<Rightarrow> bool" where
  "awaits d q n e \<longleftrightarrow> ef_deps e = Some d \<and> ef_cleanup e = Some n \<and> Suc n = length (ef_runs e)
     \<and> ef_runs e ! n = \<lparr> run_deps = d, run_request = q, run_cancelled = False, run_settled = False \<rparr>"

lemma commit_awaits: "effect_due d e \<Longrightarrow> awaits d q (length (ef_runs e)) (commit_effect d (Some q) e)"
proof -
  assume due: "effect_due d e"
  have "length (ef_runs (run_cleanup e)) = length (ef_runs e)"
    by (simp add: run_cleanup_def cancel_run_def split: option.split)
  then show ?thesis using due by (simp add: awaits_def commit_effect_def start_run_def nth_append)
qed

lemma commit_again: "awaits d q n e \<Longrightarrow> commit_effect d rq e = e"
  by (simp add: awaits_def commit_effect_def effect_due_def)

lemma awaits_live: "awaits d q n e \<Longrightarrow> run_live n e"
  by (auto simp: awaits_def run_live_def run_pending_def)

subsection \<open>Hooks\<close>

text \<open>
  What happens to a hook: a render is committed with the dependencies \<open>d\<close>, with the storage of that
  moment; a run settles; the component is unmounted; one of the hook's other operations runs.
\<close>

datatype ('d, 'r, 'o) hook_event = Commit storage 'd | Settled nat 'r | Unmount | Other 'o

fun hook_step ::
  "(storage \<Rightarrow> 'd \<Rightarrow> 's \<Rightarrow> 's) \<Rightarrow> (nat \<Rightarrow> 'r \<Rightarrow> 's \<Rightarrow> 's) \<Rightarrow> ('s \<Rightarrow> 's) \<Rightarrow> ('o \<Rightarrow> 's \<Rightarrow> 's) \<Rightarrow>
   ('d, 'r, 'o) hook_event \<Rightarrow> 's \<Rightarrow> 's" where
  "hook_step commit settle unmount other (Commit st d) s = commit st d s"
| "hook_step commit settle unmount other (Settled i r) s = settle i r s"
| "hook_step commit settle unmount other Unmount s = unmount s"
| "hook_step commit settle unmount other (Other x) s = other x s"

text \<open>Events that only bring the answers of earlier runs.\<close>

definition stale_event :: "nat \<Rightarrow> ('d, 'r, 'o) hook_event \<Rightarrow> bool" where
  "stale_event n ev \<longleftrightarrow> (\<exists>i r. ev = Settled i r \<and> i < n)"

locale effect_hook =
  fixes cell :: "'s \<Rightarrow> 'd effect"
    and view :: "'s \<Rightarrow> 'v"
    and request :: "storage \<Rightarrow> 'd \<Rightarrow> http_request option"
    and begin_load :: "'v \<Rightarrow> 'v"
    and end_load :: "'r \<Rightarrow> 'v \<Rightarrow> 'v"
    and commit :: "storage \<Rightarrow> 'd \<Rightarrow> 's \<Rightarrow> 's"
    and settle :: "nat \<Rightarrow> 'r \<Rightarrow> 's \<Rightarrow> 's"
    and unmount :: "'s \<Rightarrow> 's"
    and other :: "'o \<Rightarrow> 's \<Rightarrow> 's"
  assumes cell_commit: "cell (commit st d s) = commit_effect d (request st d) (cell s)"
    and cell_settle: "cell (settle i r s) = finish_run i (cell s)"
    and cell_unmount: "cell (unmount s) = unmount_effect (cell s)"
    and cell_other: "cell (other x s) = cell s"
    and view_commit: "effect_due d (cell s) \<Longrightarrow> request st d = Some q \<Longrightarrow> view (commit st d s) = begin_load (view s)"
    and view_settle: "view (settle i r s) = (if run_live i (cell s) then end_load r (view s) else view s)"
begin

definition step :: "('d, 'r, 'o) hook_event \<Rightarrow> 's \<Rightarrow> 's" where
  "step = hook_step commit settle unmount other"

definition steps :: "('d, 'r, 'o) hook_event list \<Rightarrow> 's \<Rightarrow> 's" where
  "steps evs s = fold step evs s"

lemma steps_simps [simp]:
  "steps [] s = s" "steps (ev # evs) s = steps evs (step ev s)" "steps (es @ evs) s = steps evs (steps es s)"
  by (auto simp: steps_def)

lemma step_simps [simp]:
  "step (Commit st d) s = commit st d s" "step (Settled i r) s = settle i r s"
  "step Unmount s = unmount s" "step (Other x) s = other x s"
  by (auto simp: step_def)

lemma step_ok: "effect_ok (cell s) \<Longrightarrow> effect_ok (cell (step ev s))"
  by (cases ev) (auto simp: cell_commit cell_settle cell_unmount cell_other
      commit_effect_ok finish_run_ok unmount_effect_ok)

lemma steps_ok: "effect_ok (cell s) \<Longrightarrow> effect_ok (cell (steps evs s))"
  by (induction evs arbitrary: s) (auto simp: step_ok)

lemma dead_step: "dead i (cell s) \<Longrightarrow> dead i (cell (step ev s))"
  by (cases ev) (auto simp: cell_commit cell_settle cell_unmount cell_other dead_commit dead_unmount dead_finish)

lemma dead_steps: "dead i (cell s) \<Longrightarrow> dead i (cell (steps evs s))"
  by (induction evs arbitrary: s) (auto simp: dead_step)

lemma dead_view: "dead i (cell s) \<Longrightarrow> view (settle i r s) = view s"
  by (simp add: view_settle run_live_def dead_def)

text \<open>Once a run is cancelled, its answer never changes what the hook shows, whatever happens in between.\<close>

lemma unmounted_view:
  assumes "effect_ok (cell s)" "i < length (ef_runs (cell s))"
  shows "view (settle i r (steps evs (unmount s))) = view (steps evs (unmount s))"
  using assms by (intro dead_view dead_steps) (simp add: cell_unmount unmount_kills)

lemma stale_view:
  assumes "effect_ok (cell s)" "effect_due d (cell s)" "i < length (ef_runs (cell s))"
  shows "view (settle i r (steps evs (commit st d s))) = view (steps evs (commit st d s))"
  using assms by (intro dead_view dead_steps) (simp add: cell_commit commit_kills)

text \<open>Answers of cancelled runs pass by without a trace.\<close>

lemma stale_views:
  assumes "\<forall>i<n. dead i (cell s)" "\<forall>ev\<in>set evs. stale_event n ev"
  shows "view (steps evs s) = view s
    \<and> (\<forall>i<n. dead i (cell (steps evs s)))
    \<and> (\<forall>j\<ge>n. run_live j (cell s) \<longrightarrow> run_live j (cell (steps evs s)))"
  using assms
proof (induction evs arbitrary: s)
  case (Cons ev evs)
  then obtain i r where ev: "ev = Settled i r" "i < n" by (auto simp: stale_event_def)
  have "view (settle i r s) = view s" using dead_view [of i s r] Cons.prems ev by simp
  moreover have "\<forall>j<n. dead j (cell (settle i r s))"
    using Cons.prems by (simp add: cell_settle dead_finish)
  moreover have "\<forall>j\<ge>n. run_live j (cell s) \<longrightarrow> run_live j (cell (settle i r s))"
    using ev by (auto simp: cell_settle finish_run_def run_live_def run_pending_def nth_update)
  ultimately show ?case using Cons.IH [of "settle i r s"] Cons.prems ev by simp
qed simp

end

text \<open>A hook that also has a loading flag, set by the first part of \<open>load\<close> and cleared by its end.\<close>

locale cancellable_load = effect_hook cell view request begin_load end_load commit settle unmount other
  for cell :: "'s \<Rightarrow> 'd effect"
    and view :: "'s \<Rightarrow> 'v"
    and loading :: "'s \<Rightarrow> bool"
    and request :: "storage \<Rightarrow> 'd \<Rightarrow> http_request option"
    and begin_load :: "'v \<Rightarrow> 'v"
    and end_load :: "'r \<Rightarrow> 'v \<Rightarrow> 'v"
    and commit :: "storage \<Rightarrow> 'd \<Rightarrow> 's \<Rightarrow> 's"
    and settle :: "nat \<Rightarrow> 'r \<Rightarrow> 's \<Rightarrow> 's"
    and unmount :: "'s \<Rightarrow> 's"
    and other :: "'o \<Rightarrow> 's \<Rightarrow> 's" +
  assumes loading_commit:
      "loading (commit st d s) = (loading s \<or> effect_due d (cell s) \<and> request st d \<noteq> None)"
    and loading_settle: "loading (settle i r s) = (loading s \<and> \<not> run_live i (cell s))"
    and loading_unmount: "loading (unmount s) = loading s"
    and loading_other: "loading (other x s) = loading s"
begin

lemma dead_loading: "dead i (cell s) \<Longrightarrow> loading (settle i r s) = loading s"
  by (simp add: loading_settle run_live_def dead_def)

lemma no_stale_write:
  assumes "effect_ok (cell s)" "effect_due d (cell s)" "i < length (ef_runs (cell s))"
  shows "view (settle i r (steps evs (commit st d s))) = view (steps evs (commit st d s))
    \<and> loading (settle i r (steps evs (commit st d s))) = loading (steps evs (commit st d s))"
  using stale_view [OF assms] assms
  by (intro conjI dead_loading dead_steps) (simp_all add: cell_commit commit_kills)

lemma no_write_after_unmount:
  assumes "effect_ok (cell s)" "i < length (ef_runs (cell s))"
  shows "view (settle i r (steps evs (unmount s))) = view (steps evs (unmount s))
    \<and> loading (settle i r (steps evs (unmount s))) = loading (steps evs (unmount s))"
  using unmounted_view [OF assms] assms
  by (intro conjI dead_loading dead_steps) (simp_all add: cell_unmount unmount_kills)

lemma stale_loading:
  assumes "\<forall>i<n. dead i (cell s)" "\<forall>ev\<in>set evs. stale_event n ev"
  shows "loading (steps evs s) = loading s"
  using assms
proof (induction evs arbitrary: s)
  case (Cons ev evs)
  then obtain i r where ev: "ev = Settled i r" "i < n" by (auto simp: stale_event_def)
  have "\<forall>j<n. dead j (cell (settle i r s))" using Cons.prems by (simp add: cell_settle dead_finish)
  then show ?case using Cons.IH [of "settle i r s"] Cons.prems ev dead_loading [of i s r] by simp
qed simp

lemma stale_events:
  assumes "\<forall>i<n. dead i (cell s)" "\<forall>ev\<in>set evs. stale_event n ev"
  shows "view (steps evs s) = view s \<and> loading (steps evs s) = loading s
    \<and> (\<forall>i<n. dead i (cell (steps evs s)))
    \<and> (\<forall>j\<ge>n. run_live j (cell s) \<longrightarrow> run_live j (cell (steps evs s)))"
  using stale_views [OF assms] stale_loading [OF assms] by simp

text \<open>
  After a commit with new dependencies, the answer to the request it sends is what the hook shows,
  with the answers of all earlier runs arriving before or after it.
\<close>

lemma fresh_result:
  assumes ok: "effect_ok (cell s)" and due: "effect_due d (cell s)" and q: "request st d = Some q"
    and n: "n = length (ef_runs (cell s))"
    and before: "\<forall>ev\<in>set before. stale_event n ev" and after: "\<forall>ev\<in>set after. stale_event n ev"
  shows "view (steps (Commit st d # before @ Settled n r # after) s) = end_load r (begin_load (view s))
    \<and> \<not> loading (steps (Commit st d # before @ Settled n r # after) s)"
proof -
  let ?s1 = "commit st d s" and ?s2 = "steps before (commit st d s)"
  have dead1: "\<forall>i<n. dead i (cell ?s1)" using ok due n by (simp add: cell_commit commit_kills)
  have live1: "run_live n (cell ?s1)" using due n q by (simp add: cell_commit commit_starts)
  note s2 = stale_events [OF dead1 before]
  have live2: "run_live n (cell ?s2)" using s2 live1 by blast
  have view2: "view (settle n r ?s2) = end_load r (begin_load (view s))"
    using s2 live2 view_commit [OF due q] by (simp add: view_settle)
  have load2: "\<not> loading (settle n r ?s2)" using live2 by (simp add: loading_settle)
  have "\<forall>i<n. dead i (cell (settle n r ?s2))" using s2 by (simp add: cell_settle dead_finish)
  from stale_events [OF this after] view2 load2 show ?thesis by simp
qed

text \<open>The same for a run that is awaited already.\<close>

lemma live_result:
  assumes ok: "effect_ok (cell s)" and aw: "awaits d q n (cell s)"
    and before: "\<forall>ev\<in>set before. stale_event n ev" and after: "\<forall>ev\<in>set after. stale_event n ev"
  shows "view (steps (before @ Settled n r # after) s) = end_load r (view s)
    \<and> \<not> loading (steps (before @ Settled n r # after) s)"
proof -
  let ?s1 = "steps before s"
  have dead: "\<forall>i<n. dead i (cell s)"
    using ok aw by (auto simp: effect_ok_def awaits_def dead_def)
  note s1 = stale_events [OF dead before]
  have live: "run_live n (cell ?s1)" using s1 awaits_live [OF aw] by blast
  have "view (settle n r ?s1) = end_load r (view s)" "\<not> loading (settle n r ?s1)"
    using s1 live by (simp_all add: view_settle loading_settle)
  moreover have "\<forall>i<n. dead i (cell (settle n r ?s1))" using s1 by (simp add: cell_settle dead_finish)
  ultimately show ?thesis using stale_events [OF _ after, of "settle n r ?s1"] by simp
qed

text \<open>The loading flag, once the effect has a run: it is set exactly while that run is awaited.\<close>

definition load_flag_ok :: "'s \<Rightarrow> bool" where
  "load_flag_ok s \<longleftrightarrow> effect_ok (cell s)
     \<and> (\<forall>i. ef_cleanup (cell s) = Some i \<longrightarrow> (loading s \<longleftrightarrow> run_live i (cell s)))"

lemma load_flag_commit:
  assumes "load_flag_ok s"
  shows "load_flag_ok (commit st d s)"
proof (cases "effect_due d (cell s)")
  case True
  then show ?thesis
    using assms run_cleanup_ok [of "cell s"] commit_effect_ok [of "cell s"] commit_starts [of d "cell s"]
    by (cases "request st d")
      (auto simp: load_flag_ok_def cell_commit loading_commit, auto simp: commit_effect_def start_run_def)
next
  case False
  then show ?thesis using assms by (simp add: load_flag_ok_def cell_commit loading_commit commit_effect_def)
qed

lemma load_flag_settle:
  assumes "load_flag_ok s"
  shows "load_flag_ok (settle j r s)"
proof -
  have "run_live i (finish_run j (cell s)) \<longleftrightarrow> run_live i (cell s) \<and> i \<noteq> j" for i
    by (auto simp: finish_run_def run_live_def run_pending_def nth_update)
  moreover have "run_live j (cell s) \<Longrightarrow> ef_cleanup (cell s) = Some j"
    using assms by (auto simp: load_flag_ok_def effect_ok_def run_live_def run_pending_def)
  moreover have "ef_cleanup (finish_run j (cell s)) = ef_cleanup (cell s)"
    by (simp add: finish_run_def)
  ultimately show ?thesis
    using assms by (auto simp: load_flag_ok_def cell_settle loading_settle finish_run_ok)
qed

lemma load_flag_steps: "load_flag_ok s \<Longrightarrow> load_flag_ok (steps evs s)"
proof (induction evs arbitrary: s)
  case (Cons ev evs)
  have "ef_cleanup (unmount_effect e) = None" if "effect_ok e" for e :: "'d effect"
    using run_cleanup_ok [OF that] by (simp add: unmount_effect_def)
  then have "load_flag_ok (step ev s)"
    using Cons.prems load_flag_commit load_flag_settle
    by (cases ev) (auto simp: load_flag_ok_def cell_unmount cell_other loading_other loading_unmount unmount_effect_ok)
  then show ?case using Cons.IH by simp
qed simp

text \<open>While no commit ever starts a request, the loading flag stays as the hook was mounted.\<close>

lemma loading_without_request:
  assumes "\<forall>st d. Commit st d \<in> set evs \<longrightarrow> request st d = None" "ef_runs (cell s) = []"
  shows "loading (steps evs s) = loading s \<and> ef_runs (cell (steps evs s)) = []"
  using assms
proof (induction evs arbitrary: s)
  case (Cons ev evs)
  have none: "ef_runs (run_cleanup e) = [] \<longleftrightarrow> ef_runs e = []" for e :: "'d effect"
    by (simp add: run_cleanup_def cancel_run_def split: option.split)
  have "loading (step ev s) = loading s \<and> ef_runs (cell (step ev s)) = []"
  proof (cases ev)
    case (Commit st d)
    then show ?thesis using Cons.prems none
      by (auto simp: loading_commit cell_commit commit_effect_def start_run_def)
  next
    case (Settled i r)
    then show ?thesis using Cons.prems
      by (simp add: loading_settle cell_settle finish_run_def run_live_def run_pending_def)
  qed (use Cons.prems none in \<open>auto simp: loading_unmount cell_unmount loading_other cell_other unmount_effect_def\<close>)
  then show ?case using Cons.IH [of "step ev s"] Cons.prems by auto
qed simp

end

subsection \<open>Hooks that only show answers\<close>

text \<open>
  Answers come from somewhere: \<open>ans d r\<close> says that \<open>r\<close> can be the answer to a request for \<open>d\<close>. A run of
  a hook is truthful when each answer it gets is one to the request of its run.
\<close>

fun answered :: "('s \<Rightarrow> 'd effect) \<Rightarrow> ('d \<Rightarrow> 'r \<Rightarrow> bool) \<Rightarrow> ('d, 'r, 'o) hook_event \<Rightarrow> 's \<Rightarrow> bool" where
  "answered cell ans (Settled i r) s = (run_pending i (cell s) \<longrightarrow> ans (run_deps (ef_runs (cell s) ! i)) r)"
| "answered cell ans _ s = True"

text \<open>
  A hook whose view is written by its effect alone: once nothing is loading, the view is the outcome of
  an answer for the dependencies of the last render, whatever happened before.
\<close>

locale read_hook = cancellable_load cell view loading request begin_load end_load commit settle unmount other
  for cell :: "'s \<Rightarrow> 'd effect"
    and view :: "'s \<Rightarrow> 'v"
    and loading :: "'s \<Rightarrow> bool"
    and request :: "storage \<Rightarrow> 'd \<Rightarrow> http_request option"
    and begin_load :: "'v \<Rightarrow> 'v"
    and end_load :: "'r \<Rightarrow> 'v \<Rightarrow> 'v"
    and commit :: "storage \<Rightarrow> 'd \<Rightarrow> 's \<Rightarrow> 's"
    and settle :: "nat \<Rightarrow> 'r \<Rightarrow> 's \<Rightarrow> 's"
    and unmount :: "'s \<Rightarrow> 's"
    and other :: "'o \<Rightarrow> 's \<Rightarrow> 's" +
  fixes active :: "'d \<Rightarrow> bool"
  assumes request_active: "request st d \<noteq> None \<longleftrightarrow> active d"
    and view_idle: "\<not> effect_due d (cell s) \<Longrightarrow> view (commit st d s) = view s"
    and view_other: "view (other x s) = view s"
begin

definition truthful :: "('d \<Rightarrow> 'r \<Rightarrow> bool) \<Rightarrow> 's \<Rightarrow> bool" where
  "truthful ans s \<longleftrightarrow> load_flag_ok s
     \<and> (\<forall>d. ef_deps (cell s) = Some d \<longrightarrow> active d \<longrightarrow> ef_cleanup (cell s) \<noteq> None)
     \<and> (\<forall>i. ef_cleanup (cell s) = Some i \<longrightarrow>
          (if run_settled (ef_runs (cell s) ! i)
           then \<exists>r v. ans (run_deps (ef_runs (cell s) ! i)) r \<and> view s = end_load r (begin_load v)
           else \<exists>v. view s = begin_load v))"

lemma truthful_commit:
  assumes "truthful ans s"
  shows "truthful ans (commit st d s)"
proof (cases "effect_due d (cell s)")
  case True
  have flag: "load_flag_ok (commit st d s)" using assms by (intro load_flag_commit) (simp add: truthful_def)
  show ?thesis
  proof (cases "request st d")
    case None
    then have "\<not> active d" using request_active [of st d] by simp
    moreover have "ef_cleanup (run_cleanup (cell s)) = None" by (simp add: run_cleanup_def split: option.split)
    ultimately show ?thesis
      using flag True None by (simp add: truthful_def cell_commit commit_effect_def start_run_def)
  next
    case (Some q)
    have "awaits d q (length (ef_runs (cell s))) (cell (commit st d s))"
      using commit_awaits [OF True] by (simp add: cell_commit Some)
    then show ?thesis using flag view_commit [OF True Some] by (auto simp: truthful_def awaits_def)
  qed
next
  case False
  then have "cell (commit st d s) = cell s" "view (commit st d s) = view s"
    by (simp_all add: cell_commit commit_effect_def view_idle)
  then show ?thesis using assms load_flag_commit [of s st d] unfolding truthful_def by metis
qed

lemma truthful_settle:
  assumes t: "truthful ans s" and a: "answered cell ans (Settled i r :: ('d, 'r, 'o) hook_event) s"
  shows "truthful ans (settle i r s)"
proof (cases "run_live i (cell s)")
  case True
  then have c: "ef_cleanup (cell s) = Some i" and p: "run_pending i (cell s)"
    using t by (auto simp: truthful_def load_flag_ok_def effect_ok_def run_live_def run_pending_def)
  obtain v where "view s = begin_load v" using t c p by (auto simp: truthful_def run_pending_def)
  then have "view (settle i r s) = end_load r (begin_load v)" using True by (simp add: view_settle)
  moreover have "ans (run_deps (ef_runs (cell s) ! i)) r" using a p by simp
  ultimately show ?thesis
    using t c p load_flag_settle [of s i r] by (auto simp: truthful_def cell_settle finish_run_def run_pending_def)
next
  case False
  then have "run_pending i (cell s) \<Longrightarrow> ef_cleanup (cell s) \<noteq> Some i"
    using t by (auto simp: truthful_def load_flag_ok_def effect_ok_def run_live_def)
  then show ?thesis
    using t False load_flag_settle [of s i r] by (auto simp: truthful_def cell_settle view_settle finish_run_def nth_update)
qed

lemma truthful_step: "truthful ans s \<Longrightarrow> answered cell ans ev s \<Longrightarrow> truthful ans (step ev s)"
proof (cases ev)
  case Unmount
  assume t: "truthful ans s"
  have "ef_cleanup (unmount_effect (cell s)) = None \<and> ef_deps (unmount_effect (cell s)) = None"
    by (simp add: unmount_effect_def run_cleanup_def split: option.split)
  moreover have "load_flag_ok (unmount s)" using t load_flag_steps [of s "[Unmount]"] by (simp add: truthful_def)
  ultimately show "truthful ans (step ev s)" by (simp add: Unmount truthful_def cell_unmount)
next
  case (Other x)
  assume t: "truthful ans s"
  then have "load_flag_ok (other x s)" using load_flag_steps [of s "[Other x]"] by (simp add: truthful_def)
  moreover have "cell (other x s) = cell s" "view (other x s) = view s" by (simp_all add: cell_other view_other)
  ultimately have "truthful ans (other x s)" using t unfolding truthful_def by metis
  then show "truthful ans (step ev s)" by (simp add: Other)
qed (use truthful_commit truthful_settle in auto)

lemma truthful_steps: "truthful ans s \<Longrightarrow> guarded (answered cell ans) step evs s \<Longrightarrow> truthful ans (steps evs s)"
  by (induction evs arbitrary: s) (auto simp: truthful_step)

lemma truthful_init: "cell s = new_effect \<Longrightarrow> truthful ans s"
  by (simp add: truthful_def load_flag_ok_def) (simp add: new_effect_def)

lemma truthful_view:
  assumes t: "truthful ans s" and d: "ef_deps (cell s) = Some d" "active d" and idle: "\<not> loading s"
  shows "\<exists>r v. ans d r \<and> view s = end_load r (begin_load v)"
proof -
  obtain i where i: "ef_cleanup (cell s) = Some i" using t d by (auto simp: truthful_def)
  then have "i < length (ef_runs (cell s))" "\<not> run_cancelled (ef_runs (cell s) ! i)" "run_deps (ef_runs (cell s) ! i) = d"
    using t d by (auto simp: truthful_def load_flag_ok_def effect_ok_def)
  moreover have "\<not> run_live i (cell s)" using t idle i by (simp add: truthful_def load_flag_ok_def)
  ultimately show ?thesis using t i by (auto simp: truthful_def run_live_def run_pending_def)
qed

end

subsection \<open>Hooks whose state has the effect in one cell\<close>

text \<open>
  The form every hook of the console has: the effect is one cell of the state, the first part and
  the continuation of \<open>load\<close> work on the other cells, and so do the other operations. Such a hook
  meets the contract; what it shows is its state with the bookkeeping of the effect erased.
\<close>

locale data_hook =
  fixes cell :: "'s \<Rightarrow> 'd effect"
    and set_cell :: "'d effect \<Rightarrow> 's \<Rightarrow> 's"
    and loading :: "'s \<Rightarrow> bool"
    and request :: "storage \<Rightarrow> 'd \<Rightarrow> http_request option"
    and begin_load :: "'s \<Rightarrow> 's"
    and end_load :: "'r \<Rightarrow> 's \<Rightarrow> 's"
    and commit :: "storage \<Rightarrow> 'd \<Rightarrow> 's \<Rightarrow> 's"
    and settle :: "nat \<Rightarrow> 'r \<Rightarrow> 's \<Rightarrow> 's"
    and unmount :: "'s \<Rightarrow> 's"
    and other :: "'o \<Rightarrow> 's \<Rightarrow> 's"
  assumes cell_set: "cell (set_cell e s) = e" "set_cell e (set_cell e' s) = set_cell e s" "set_cell (cell s) s = s"
    and cell_begin: "begin_load (set_cell e s) = set_cell e (begin_load s)" "cell (begin_load s) = cell s"
    and cell_end: "end_load r (set_cell e s) = set_cell e (end_load r s)" "cell (end_load r s) = cell s"
    and loading_set: "loading (set_cell e s) = loading s"
    and loading_begin: "loading (begin_load s)"
    and loading_end: "\<not> loading (end_load r s)"
    and commit_eq: "commit st d s =
      (if effect_due d (cell s)
       then (let s1 = set_cell (commit_effect d (request st d) (cell s)) s
             in if request st d = None then s1 else begin_load s1)
       else s)"
    and settle_eq: "settle i r s =
      (let s1 = set_cell (finish_run i (cell s)) s in if run_live i (cell s) then end_load r s1 else s1)"
    and unmount_eq: "unmount s = set_cell (unmount_effect (cell s)) s"
    and other_cell: "cell (other x s) = cell s"
    and other_loading: "loading (other x s) = loading s"
begin

lemma finish_dead: "\<not> run_pending i (cell s) \<Longrightarrow> finish_run i (cell s) = cell s"
  by (simp add: finish_run_def)

end

sublocale data_hook \<subseteq> cancellable_load cell "set_cell new_effect" loading request begin_load end_load
  commit settle unmount other
proof
  fix st d s i r x
  show "cell (commit st d s) = commit_effect d (request st d) (cell s)"
    by (auto simp: commit_eq Let_def cell_set cell_begin commit_effect_def)
  show "cell (settle i r s) = finish_run i (cell s)"
    by (simp add: settle_eq Let_def cell_set cell_end)
  show "cell (unmount s) = unmount_effect (cell s)" by (simp add: unmount_eq cell_set)
  show "cell (other x s) = cell s" by (rule other_cell)
  show "set_cell new_effect (settle i r s)
      = (if run_live i (cell s) then end_load r (set_cell new_effect s) else set_cell new_effect s)"
    by (simp add: settle_eq Let_def cell_set cell_end)
  show "loading (commit st d s) = (loading s \<or> effect_due d (cell s) \<and> request st d \<noteq> None)"
    by (auto simp: commit_eq Let_def loading_set loading_begin cell_begin)
  show "loading (settle i r s) = (loading s \<and> \<not> run_live i (cell s))"
    by (simp add: settle_eq Let_def loading_set cell_end loading_end)
  show "loading (unmount s) = loading s" by (simp add: unmount_eq loading_set)
  show "loading (other x s) = loading s" by (rule other_loading)
next
  fix st d s q
  assume "effect_due d (cell s)" "request st d = Some q"
  then show "set_cell new_effect (commit st d s) = begin_load (set_cell new_effect s)"
    by (simp add: commit_eq Let_def cell_set cell_begin)
qed

end
