(* ===== verification/Layout.thy ===== *)
theory Layout
  imports Effects
begin

text \<open>
  The presentational components the pages share: \<open>page-header.tsx\<close> and \<open>auth-layout.tsx\<close>. A
  component of the repository that has no state is a function that returns its elements; a wrapper
  of the design system (\<open>components/ui\<close>) stays an element with the wrapper's name.
\<close>

definition pageHeader :: "jstring \<Rightarrow> jstring option \<Rightarrow> 'e node" where
  "pageHeader title description =
     El ''header'' []
       (El ''h1'' [] [Txt title] # if_text description (\<lambda>d. [El ''p'' [] [Txt d]]))"

definition authLayout :: "jstring \<Rightarrow> jstring \<Rightarrow> 'e node list \<Rightarrow> 'e node" where
  "authLayout title description children =
     El ''div'' []
       [El ''Card'' []
          [El ''CardHeader'' []
             [El ''CardTitle'' [] [Txt title],
              El ''CardDescription'' [] [Txt description]],
           El ''CardContent'' [] children]]"

text \<open>The box every page shows its error in.\<close>

definition error_box :: "jstring option \<Rightarrow> 'e node list" where
  "error_box err = if_text err (\<lambda>e. [El ''div'' [] [Txt e]])"

text \<open>The grey placeholders of a list that is still loading.\<close>

definition placeholders :: "nat \<Rightarrow> 'e node" where
  "placeholders n = El ''div'' [] (replicate n (El ''div'' [] []))"

text \<open>A host that shows dates and numbers as they are, for examples.\<close>

definition plain_host :: host where
  "plain_host = \<lparr> date_text = id, datetime_text = id, number_text = (\<lambda>n. of_codes (num_text n)) \<rparr>"

lemma pageHeader_tree [simp]:
  "node_texts (pageHeader t (Some d)) = (if d = [] then [t] else [t, d])"
  "node_clicks (pageHeader t c) = []" "node_submits (pageHeader t c) = []"
  by (auto simp: pageHeader_def if_text_def split: option.splits)

lemma error_box_tree [simp]:
  "texts (error_box err) = (if truthy err then [the err] else [])"
  "clicks (error_box err) = []" "submits (error_box err) = []"
  by (auto simp: error_box_def if_text_def truthy_def split: option.splits)

lemma replicate_tree:
  "texts (replicate n (El ''div'' [] [])) = []" "clicks (replicate n (El ''div'' [] [])) = []"
  "submits (replicate n (El ''div'' [] [])) = []"
  by (induction n) auto

lemma placeholders_tree [simp]:
  "node_texts (placeholders n) = []" "node_clicks (placeholders n) = []" "node_submits (placeholders n) = []"
  by (auto simp: placeholders_def replicate_tree)

lemma authLayout_tree [simp]:
  "node_texts (authLayout t d cs) = [t, d] @ texts cs"
  "node_clicks (authLayout t d cs) = clicks cs" "node_submits (authLayout t d cs) = submits cs"
  by (auto simp: authLayout_def)

end
