(* ===== verification/Api_Keys.thy ===== *)
theory Api_Keys
  imports Layout
begin

text \<open>
  \<open>features/dashboard/hooks/use-api-keys.ts\<close> and \<open>pages/api-keys-page.tsx\<close>: the hook with its
  loading effect and the two asynchronous operations, each split at its \<open>await\<close>, and the page with
  its input cell, its event handlers and its element tree.
\<close>

subsection \<open>The hook\<close>

record api_keys_hook =
  ak_cell :: "jstring option effect"
  ak_apiKeys :: "api_key list"
  ak_isLoading :: bool
  ak_isCreating :: bool
  ak_error :: "jstring option"
  ak_newlyCreatedKey :: "create_api_key_response option"

definition ak_init :: api_keys_hook where
  "ak_init = \<lparr> ak_cell = new_effect, ak_apiKeys = [], ak_isLoading = True, ak_isCreating = False,
     ak_error = None, ak_newlyCreatedKey = None \<rparr>"

definition ak_request :: "jstring \<Rightarrow> storage \<Rightarrow> jstring option \<Rightarrow> http_request option" where
  "ak_request base st orgId = map_option (\<lambda>_. apiRequest base st fetchApiKeys) orgId"

definition ak_load_begin :: "api_keys_hook \<Rightarrow> api_keys_hook" where
  "ak_load_begin s = s\<lparr> ak_isLoading := True, ak_error := None \<rparr>"

definition ak_load_end :: "js_exn + api_key list \<Rightarrow> api_keys_hook \<Rightarrow> api_keys_hook" where
  "ak_load_end r s =
     (case r of
        Inr data \<Rightarrow> s\<lparr> ak_apiKeys := data, ak_isLoading := False \<rparr>
      | Inl err \<Rightarrow> s\<lparr> ak_error := Some (error_message err), ak_isLoading := False \<rparr>)"

definition ak_commit :: "jstring \<Rightarrow> storage \<Rightarrow> jstring option \<Rightarrow> api_keys_hook \<Rightarrow> api_keys_hook" where
  "ak_commit base st orgId s =
     (if effect_due orgId (ak_cell s)
      then (let s1 = s\<lparr> ak_cell := commit_effect orgId (ak_request base st orgId) (ak_cell s) \<rparr>
            in if orgId = None then s1 else ak_load_begin s1)
      else s)"

definition ak_load_settled :: "nat \<Rightarrow> js_exn + api_key list \<Rightarrow> api_keys_hook \<Rightarrow> api_keys_hook" where
  "ak_load_settled i r s =
     (let s1 = s\<lparr> ak_cell := finish_run i (ak_cell s) \<rparr>
      in if run_live i (ak_cell s) then ak_load_end r s1 else s1)"

definition ak_unmount :: "api_keys_hook \<Rightarrow> api_keys_hook" where
  "ak_unmount s = s\<lparr> ak_cell := unmount_effect (ak_cell s) \<rparr>"

definition createKey :: "jstring \<Rightarrow> storage \<Rightarrow> jstring \<Rightarrow> api_keys_hook \<Rightarrow> api_keys_hook \<times> io list" where
  "createKey base st name s =
     (s\<lparr> ak_isCreating := True, ak_error := None \<rparr>, [Send (apiRequest base st (createApiKey name))])"

definition listed_key :: "create_api_key_response \<Rightarrow> api_key" where
  "listed_key response =
     \<lparr> key_id = cak_id response, key_name = cak_name response, key_prefix = cak_prefix response,
       key_createdAt = cak_createdAt response, key_lastUsedAt = None \<rparr>"

definition createKey_settled :: "js_exn + create_api_key_response \<Rightarrow> api_keys_hook \<Rightarrow> api_keys_hook" where
  "createKey_settled r s =
     (case r of
        Inr response \<Rightarrow> s\<lparr> ak_newlyCreatedKey := Some response,
                           ak_apiKeys := listed_key response # ak_apiKeys s, ak_isCreating := False \<rparr>
      | Inl err \<Rightarrow> s\<lparr> ak_error := Some (error_message err), ak_isCreating := False \<rparr>)"

definition removeKey :: "jstring \<Rightarrow> storage \<Rightarrow> jstring \<Rightarrow> api_keys_hook \<Rightarrow> api_keys_hook \<times> io list" where
  "removeKey base st i s = (s\<lparr> ak_error := None \<rparr>, [Send (apiRequest base st (deleteApiKey i))])"

definition removeKey_settled :: "jstring \<Rightarrow> js_exn + unit \<Rightarrow> api_keys_hook \<Rightarrow> api_keys_hook" where
  "removeKey_settled i r s =
     (case r of
        Inr _ \<Rightarrow> s\<lparr> ak_apiKeys := filter (\<lambda>k. key_id k \<noteq> i) (ak_apiKeys s) \<rparr>
      | Inl err \<Rightarrow> s\<lparr> ak_error := Some (error_message err) \<rparr>)"

definition clearNewKey :: "api_keys_hook \<Rightarrow> api_keys_hook" where
  "clearNewKey s = s\<lparr> ak_newlyCreatedKey := None \<rparr>"

subsection \<open>The page\<close>

record api_keys_page =
  akp_hook :: api_keys_hook
  akp_newKeyName :: jstring

definition akp_init :: api_keys_page where
  "akp_init = \<lparr> akp_hook = ak_init, akp_newKeyName = [] \<rparr>"

datatype api_keys_event =
    Ak_Create
  | Ak_Name jstring
  | Ak_Copy
  | Ak_Clear
  | Ak_Remove jstring

text \<open>\<open>handleCreate\<close> up to its \<open>await\<close>, and from there on.\<close>

definition akp_handleCreate :: "jstring \<Rightarrow> storage \<Rightarrow> api_keys_page \<Rightarrow> api_keys_page \<times> io list" where
  "akp_handleCreate base st p =
     (if js_trim (akp_newKeyName p) = [] then (p, [])
      else (let (s, out) = createKey base st (js_trim (akp_newKeyName p)) (akp_hook p)
            in (p\<lparr> akp_hook := s \<rparr>, out)))"

definition akp_create_settled :: "js_exn + create_api_key_response \<Rightarrow> api_keys_page \<Rightarrow> api_keys_page" where
  "akp_create_settled r p = p\<lparr> akp_hook := createKey_settled r (akp_hook p), akp_newKeyName := [] \<rparr>"

definition akp_handleCopy :: "api_keys_page \<Rightarrow> io list" where
  "akp_handleCopy p =
     (case ak_newlyCreatedKey (akp_hook p) of None \<Rightarrow> [] | Some k \<Rightarrow> [Clipboard (cak_key k)])"

fun akp_handle :: "jstring \<Rightarrow> storage \<Rightarrow> api_keys_event \<Rightarrow> api_keys_page \<Rightarrow> api_keys_page \<times> io list" where
  "akp_handle base st Ak_Create p = akp_handleCreate base st p"
| "akp_handle base st (Ak_Name v) p = (p\<lparr> akp_newKeyName := v \<rparr>, [])"
| "akp_handle base st Ak_Copy p = (p, akp_handleCopy p)"
| "akp_handle base st Ak_Clear p = (p\<lparr> akp_hook := clearNewKey (akp_hook p) \<rparr>, [])"
| "akp_handle base st (Ak_Remove i) p =
     (let (s, out) = removeKey base st i (akp_hook p) in (p\<lparr> akp_hook := s \<rparr>, out))"

subsection \<open>The element tree\<close>

definition ak_new_key_card :: "create_api_key_response \<Rightarrow> api_keys_event node" where
  "ak_new_key_card k =
     El ''Card'' []
       [El ''CardContent'' []
          [El ''div'' []
             [El ''div'' []
                [El ''p'' []
                   [Txt (js ''Your new API key has been created. Copy it now '' @ em_dash
                         @ js '' you won't be able to see it again.'')],
                 El ''code'' [] [Txt (cak_key k)]],
              El ''div'' []
                [El ''Button'' [Attr ''variant'' (js ''ghost''), On ''onClick'' Ak_Copy] [El ''Copy'' [] []],
                 El ''Button'' [Attr ''variant'' (js ''ghost''), On ''onClick'' Ak_Clear] [El ''X'' [] []]]]]]"

definition ak_create_form :: "jstring \<Rightarrow> bool \<Rightarrow> api_keys_event node" where
  "ak_create_form newKeyName isCreating =
     El ''form'' [On ''onSubmit'' Ak_Create]
       [El ''Input'' [Attr ''placeholder'' (js ''Key name''), Attr ''value'' newKeyName, OnText ''onChange'' Ak_Name] [],
        El ''Button'' [Attr ''type'' (js ''submit''), Flag ''disabled'' (isCreating \<or> js_trim newKeyName = [])]
          [El ''Plus'' [] [], lit ''Create key'']]"

definition ak_key_card :: "host \<Rightarrow> api_key \<Rightarrow> api_keys_event node" where
  "ak_key_card h key =
     El ''Card'' []
       [El ''CardContent'' []
          [El ''div'' []
             [El ''div'' []
                [El ''p'' [] [Txt (key_name key)],
                 El ''code'' [] [Txt (key_prefix key), lit ''...'']],
              El ''p'' []
                [Txt (if truthy (key_lastUsedAt key)
                      then js ''Last used '' @ date_text h (the (key_lastUsedAt key)) else js ''Never used'')]],
           El ''AlertDialog'' []
             [El ''AlertDialogTrigger''
                [Render (El ''Button'' [Attr ''variant'' (js ''ghost'')] [El ''Trash2'' [] []])] [],
              El ''AlertDialogContent'' []
                [El ''AlertDialogHeader'' []
                   [El ''AlertDialogTitle'' [] [lit ''Revoke API key''],
                    El ''AlertDialogDescription'' []
                      [Txt (js ''Are you sure you want to revoke '' @ dquote), Txt (key_name key),
                       Txt (dquote @ js (''? This action cannot be undone. Any integrations using this key ''
                                         @ ''will stop working.''))]],
                 El ''AlertDialogFooter'' []
                   [El ''AlertDialogCancel'' [] [lit ''Cancel''],
                    El ''AlertDialogAction''
                      [Attr ''variant'' (js ''destructive''), On ''onClick'' (Ak_Remove (key_id key))]
                      [lit ''Revoke'']]]]]]"

definition ak_list :: "host \<Rightarrow> bool \<Rightarrow> api_key list \<Rightarrow> api_keys_event node" where
  "ak_list h isLoading apiKeys =
     (if isLoading then placeholders 3
      else if length apiKeys = 0 then
        El ''Card'' []
          [El ''CardContent'' []
             [El ''p'' [] [lit ''No API keys yet''],
              El ''p'' [] [lit ''Create a key to start sending webhooks.'']]]
      else El ''div'' [] (map (ak_key_card h) apiKeys))"

definition apiKeysPage_view :: "host \<Rightarrow> api_keys_page \<Rightarrow> api_keys_event node list" where
  "apiKeysPage_view h p =
     (let s = akp_hook p in
      [pageHeader (js ''API Keys'')
         (Some (js ''Create and manage API keys for programmatic access to the webhook API.''))]
      @ error_box (ak_error s)
      @ (case ak_newlyCreatedKey s of None \<Rightarrow> [] | Some k \<Rightarrow> [ak_new_key_card k])
      @ [ak_create_form (akp_newKeyName p) (ak_isCreating s), ak_list h (ak_isLoading s) (ak_apiKeys s)])"

lemmas ak_view_defs [view_defs] = ak_new_key_card_def ak_create_form_def ak_key_card_def ak_list_def

lemmas ak_defs [hook_defs] =
  ak_init_def ak_request_def ak_load_begin_def ak_load_end_def ak_commit_def ak_load_settled_def ak_unmount_def
  createKey_def createKey_settled_def listed_key_def removeKey_def removeKey_settled_def clearNewKey_def
  akp_init_def akp_handleCreate_def akp_create_settled_def akp_handleCopy_def

subsection \<open>The loading contract\<close>

text \<open>The operations of the hook that do not belong to its loading effect.\<close>

datatype ak_op =
    Ak_Create_Begin storage jstring
  | Ak_Create_End "js_exn + create_api_key_response"
  | Ak_Remove_Begin storage jstring
  | Ak_Remove_End jstring "js_exn + unit"
  | Ak_Clear_New

fun ak_other :: "jstring \<Rightarrow> ak_op \<Rightarrow> api_keys_hook \<Rightarrow> api_keys_hook" where
  "ak_other base (Ak_Create_Begin st name) s = fst (createKey base st name s)"
| "ak_other base (Ak_Create_End r) s = createKey_settled r s"
| "ak_other base (Ak_Remove_Begin st i) s = fst (removeKey base st i s)"
| "ak_other base (Ak_Remove_End i r) s = removeKey_settled i r s"
| "ak_other base Ak_Clear_New s = clearNewKey s"

definition ak_run :: "jstring \<Rightarrow> (jstring option, js_exn + api_key list, ak_op) hook_event list \<Rightarrow> api_keys_hook \<Rightarrow> api_keys_hook" where
  "ak_run base evs s = fold (hook_step (ak_commit base) ak_load_settled ak_unmount (ak_other base)) evs s"

text \<open>What the hook shows: its cells without the bookkeeping of the effect.\<close>

definition ak_set_cell :: "jstring option effect \<Rightarrow> api_keys_hook \<Rightarrow> api_keys_hook" where
  "ak_set_cell e s = s\<lparr> ak_cell := e \<rparr>"

definition ak_view :: "api_keys_hook \<Rightarrow> api_keys_hook" where
  "ak_view s = ak_set_cell new_effect s"

lemma ak_other_frame: "ak_cell (ak_other base x s) = ak_cell s \<and> ak_isLoading (ak_other base x s) = ak_isLoading s"
  by (cases x) (auto simp: ak_defs split: sum.split)

interpretation ak: data_hook ak_cell ak_set_cell ak_isLoading "ak_request base" ak_load_begin ak_load_end
  "ak_commit base" ak_load_settled ak_unmount "ak_other base"
  rewrites "ak_set_cell new_effect = ak_view" for base
  by unfold_locales
    (auto simp: ak_set_cell_def ak_other_frame ak_view_def ak_commit_def ak_request_def ak_load_begin_def ak_load_end_def
      ak_load_settled_def ak_unmount_def Let_def fun_eq_iff split: sum.split)

lemma ak_run_steps: "ak_run base = ak.steps base"
  by (rule ext)+ (simp add: ak_run_def ak.steps_def ak.step_def)

lemma ak_init_ok [simp]: "effect_ok (ak_cell ak_init)"
  by (simp add: ak_init_def)

lemma ak_run_ok: "effect_ok (ak_cell (ak_run base evs ak_init))"
  by (simp add: ak_run_steps ak.steps_ok)

lemma ak_view_cells:
  "ak_view s = v \<Longrightarrow> ak_apiKeys s = ak_apiKeys v \<and> ak_error s = ak_error v
    \<and> ak_isCreating s = ak_isCreating v \<and> ak_newlyCreatedKey s = ak_newlyCreatedKey v \<and> ak_isLoading s = ak_isLoading v"
  by (auto simp: ak_view_def ak_set_cell_def)

subsection \<open>Properties\<close>

text \<open>C15: Whatever the page went through before, after the current organization changes and is rendered,
  the keys on the page are exactly the answer to the request that render sent, which names the
  selected organization in its header; the answers to all earlier requests, arriving before or
  after it in any order, change nothing.\<close>

theorem api_keys_of_current_org:
  fixes base orgId :: jstring and st :: storage and keys :: "api_key list"
    and evs0 before after :: "(jstring option, js_exn + api_key list, ak_op) hook_event list"
  defines "s \<equiv> ak_run base evs0 ak_init"
  defines "n \<equiv> length (ef_runs (ak_cell s))"
  defines "t \<equiv> ak_run base (Commit st (Some orgId) # before @ Settled n (Inr keys) # after) s"
  assumes due: "ef_deps (ak_cell s) \<noteq> Some (Some orgId)"
    and stale: "\<forall>ev\<in>set before \<union> set after. stale_event n ev"
  shows "ak_apiKeys t = keys \<and> ak_error t = None \<and> \<not> ak_isLoading t
    \<and> header (run_request (ef_runs (ak_cell (ak_commit base st (Some orgId) s)) ! n)) (js ''X-Org-ID'')
        = sent (getItem st SELECTED_ORG_KEY)"
proof -
  have due': "effect_due (Some orgId) (ak_cell s)" using due by (simp add: effect_due_def)
  have q: "ak_request base st (Some orgId) = Some (apiRequest base st fetchApiKeys)"
    by (simp add: ak_request_def)
  have ok: "effect_ok (ak_cell s)" unfolding s_def by (rule ak_run_ok)
  have "ak_view t = ak_load_end (Inr keys) (ak_load_begin (ak_view s)) \<and> \<not> ak_isLoading t"
    unfolding t_def ak_run_steps
    using ak.fresh_result [OF ok due' q n_def [THEN meta_eq_to_obj_eq]] stale by simp
  then have "ak_apiKeys t = keys" "ak_error t = None" "\<not> ak_isLoading t"
    using ak_view_cells [of t] by (auto simp: ak_load_end_def ak_load_begin_def)
  moreover have "run_request (ef_runs (ak_cell (ak_commit base st (Some orgId) s)) ! n)
      = apiRequest base st fetchApiKeys"
    using commit_starts(4) [OF due'] by (simp add: ak.cell_commit q n_def)
  ultimately show ?thesis by (simp add: header_org)
qed

lemma api_keys_of_current_org_witness:
  "ak_apiKeys (ak_run [] [Commit Map.empty (Some (js ''b'')), Settled 0 (Inl (Js_Error [])), Settled 1 (Inr []), Settled 0 (Inr [])]
     (ak_run [] [Commit Map.empty (Some (js ''a''))] ak_init)) = []"
proof -
  have "length (ef_runs (ak_cell (ak_run [] [Commit Map.empty (Some (js ''a''))] ak_init))) = 1"
    "ef_deps (ak_cell (ak_run [] [Commit Map.empty (Some (js ''a''))] ak_init)) \<noteq> Some (Some (js ''b''))"
    by (simp_all add: ak_run_def hook_defs)
  then show ?thesis
    using api_keys_of_current_org [of "[]" "[Commit Map.empty (Some (js ''a''))]" "js ''b''"
        "[Settled 0 (Inl (Js_Error []))]" "[Settled 0 (Inr [])]" Map.empty "[]"]
    by (simp add: stale_event_def)
qed

text \<open>C38: The same does not hold for a key being created: when the organization is switched while the
  creation is under way, the new key of the first organization is put at the head of the list of
  the second one, although its own request was sent for the first.\<close>

theorem created_key_in_other_org:
  assumes "a \<noteq> b"
  shows "ak_apiKeys (ak_run base
      [Commit st (Some a), Settled 0 (Inr ka), Other (Ak_Create_Begin st name),
       Commit st' (Some b), Settled 1 (Inr kb), Other (Ak_Create_End (Inr response))] ak_init)
     = listed_key response # kb"
  using assms by (simp add: ak_run_def hook_defs)

lemma created_key_in_other_org_witness:
  "ak_apiKeys (ak_run []
      [Commit Map.empty (Some (js ''a'')), Settled 0 (Inr []), Other (Ak_Create_Begin Map.empty (js ''ci'')),
       Commit Map.empty (Some (js ''b'')), Settled 1 (Inr []),
       Other (Ak_Create_End (Inr \<lparr> cak_id = js ''1'', cak_name = js ''ci'', cak_prefix = [], cak_key = [], cak_createdAt = [] \<rparr>))] ak_init)
     = [\<lparr> key_id = js ''1'', key_name = js ''ci'', key_prefix = [], key_createdAt = [], key_lastUsedAt = None \<rparr>]"
  using created_key_in_other_org [of "js ''a''" "js ''b''" "[]" Map.empty "[]" "js ''ci''" Map.empty "[]"]
  by (simp add: listed_key_def)

lemma ak_clicks:
  "node_clicks (ak_key_card h k) = [Ak_Remove (key_id k)]"
  "node_clicks (ak_new_key_card c) = [Ak_Copy, Ak_Clear]"
  "node_submits (ak_key_card h k) = []" "node_submits (ak_new_key_card c) = []"
  by (simp_all add: view_defs)

lemma ak_form:
  "node_clicks (ak_create_form v b) = []"
  "node_submits (ak_create_form v b) = (if b \<or> js_trim v = [] then [] else [Ak_Create])"
  by (simp_all add: view_defs)

lemma concat_single: "concat (map (\<lambda>x. [f x]) xs) = map f xs"
  by (induction xs) auto

lemma api_keys_actions_submits:
  "submits (apiKeysPage_view h p) =
     (if ak_isCreating (akp_hook p) \<or> js_trim (akp_newKeyName p) = [] then [] else [Ak_Create])"
  by (cases "ak_newlyCreatedKey (akp_hook p)")
    (simp_all add: apiKeysPage_view_def Let_def ak_clicks ak_form ak_list_def tree_map o_def)

text \<open>What the user can do on the page: revoke exactly the listed keys, each by its own id, once the
  list is loaded; copy or dismiss the new key while it is shown; and submit the form exactly when
  no creation is under way and the name is not blank.\<close>

theorem api_keys_actions:
  "clicks (apiKeysPage_view h p) =
     (if ak_newlyCreatedKey (akp_hook p) = None then [] else [Ak_Copy, Ak_Clear])
     @ (if ak_isLoading (akp_hook p) then [] else map (\<lambda>k. Ak_Remove (key_id k)) (ak_apiKeys (akp_hook p)))
   \<and> submits (apiKeysPage_view h p) =
     (if ak_isCreating (akp_hook p) \<or> js_trim (akp_newKeyName p) = [] then [] else [Ak_Create])"
  by (cases "ak_newlyCreatedKey (akp_hook p)")
    (simp_all add: apiKeysPage_view_def Let_def ak_clicks ak_form ak_list_def tree_map o_def concat_single)

text \<open>C23: When the form can be submitted, submitting it sends one creation request with the trimmed name
  and blocks the form; a successful answer puts the new key at the head of the list and its secret
  on the page, a failed one keeps the list and shows the message; either way the input is emptied
  and the creation is over.\<close>

theorem create_key_flow:
  fixes base :: jstring and st :: storage
  assumes enabled: "Ak_Create \<in> set (submits (apiKeysPage_view h p))"
  defines "p1 \<equiv> fst (akp_handle base st Ak_Create p)"
  shows "snd (akp_handle base st Ak_Create p)
      = [Send (apiRequest base st (createApiKey (js_trim (akp_newKeyName p))))]
    \<and> submits (apiKeysPage_view h p1) = []
    \<and> ak_apiKeys (akp_hook (akp_create_settled (Inr response) p1)) = listed_key response # ak_apiKeys (akp_hook p)
    \<and> cak_key response \<in> set (texts (apiKeysPage_view h (akp_create_settled (Inr response) p1)))
    \<and> ak_apiKeys (akp_hook (akp_create_settled (Inl err) p1)) = ak_apiKeys (akp_hook p)
    \<and> ak_error (akp_hook (akp_create_settled (Inl err) p1)) = Some (error_message err)
    \<and> akp_newKeyName (akp_create_settled r p1) = [] \<and> \<not> ak_isCreating (akp_hook (akp_create_settled r p1))"
proof -
  have name: "js_trim (akp_newKeyName p) \<noteq> []" and idle: "\<not> ak_isCreating (akp_hook p)"
    using enabled api_keys_actions_submits [of h p] by (auto split: if_splits)
  have p1: "p1 = p\<lparr> akp_hook := (akp_hook p)\<lparr> ak_isCreating := True, ak_error := None \<rparr> \<rparr>"
    by (simp add: p1_def akp_handleCreate_def createKey_def name)
  have "cak_key response \<in> set (texts (apiKeysPage_view h (akp_create_settled (Inr response) p1)))"
    by (simp add: apiKeysPage_view_def Let_def akp_create_settled_def createKey_settled_def ak_new_key_card_def)
  then show ?thesis
    by (cases r) (simp_all add: p1 name api_keys_actions_submits hook_defs)
qed

lemma create_key_flow_witness:
  "snd (akp_handle [] Map.empty Ak_Create \<lparr> akp_hook = ak_init, akp_newKeyName = js '' ci '' \<rparr>)
    = [Send (apiRequest [] Map.empty (createApiKey (js ''ci'')))]"
proof -
  let ?p = "\<lparr> akp_hook = ak_init, akp_newKeyName = js '' ci '' \<rparr>"
  have "js_trim (js '' ci '') = js ''ci''" by (simp add: js_trim_def js_def js_space_def)
  moreover from this have "Ak_Create \<in> set (submits (apiKeysPage_view plain_host ?p))"
    by (simp add: api_keys_actions_submits ak_init_def)
  ultimately show ?thesis using create_key_flow [of plain_host ?p "[]" Map.empty] by simp
qed

end
