(* ===== verification/Overview.thy ===== *)
theory Overview
  imports Layout
begin

text \<open>
  \<open>features/dashboard/hooks/use-dashboard-stats.ts\<close> and \<open>pages/overview-page.tsx\<close>: the four figures
  of the current organization.
\<close>

subsection \<open>The hook\<close>

record stats_hook =
  ds_cell :: "jstring option effect"
  ds_stats :: "dashboard_stats option"
  ds_isLoading :: bool
  ds_error :: "jstring option"

definition ds_init :: stats_hook where
  "ds_init = \<lparr> ds_cell = new_effect, ds_stats = None, ds_isLoading = True, ds_error = None \<rparr>"

definition ds_request :: "jstring \<Rightarrow> storage \<Rightarrow> jstring option \<Rightarrow> http_request option" where
  "ds_request base st orgId = map_option (\<lambda>_. apiRequest base st fetchDashboardStats) orgId"

definition ds_load_begin :: "stats_hook \<Rightarrow> stats_hook" where
  "ds_load_begin s = s\<lparr> ds_isLoading := True, ds_error := None \<rparr>"

definition ds_load_end :: "js_exn + dashboard_stats \<Rightarrow> stats_hook \<Rightarrow> stats_hook" where
  "ds_load_end r s =
     (case r of
        Inr data \<Rightarrow> s\<lparr> ds_stats := Some data, ds_isLoading := False \<rparr>
      | Inl err \<Rightarrow> s\<lparr> ds_error := Some (error_message err), ds_isLoading := False \<rparr>)"

definition ds_commit :: "jstring \<Rightarrow> storage \<Rightarrow> jstring option \<Rightarrow> stats_hook \<Rightarrow> stats_hook" where
  "ds_commit base st orgId s =
     (if effect_due orgId (ds_cell s)
      then (let s1 = s\<lparr> ds_cell := commit_effect orgId (ds_request base st orgId) (ds_cell s) \<rparr>
            in if orgId = None then s1 else ds_load_begin s1)
      else s)"

definition ds_load_settled :: "nat \<Rightarrow> js_exn + dashboard_stats \<Rightarrow> stats_hook \<Rightarrow> stats_hook" where
  "ds_load_settled i r s =
     (let s1 = s\<lparr> ds_cell := finish_run i (ds_cell s) \<rparr>
      in if run_live i (ds_cell s) then ds_load_end r s1 else s1)"

definition ds_unmount :: "stats_hook \<Rightarrow> stats_hook" where
  "ds_unmount s = s\<lparr> ds_cell := unmount_effect (ds_cell s) \<rparr>"

text \<open>The hook has no other operation.\<close>

definition ds_other :: "unit \<Rightarrow> stats_hook \<Rightarrow> stats_hook" where
  "ds_other x s = s"

definition ds_run :: "jstring \<Rightarrow> (jstring option, js_exn + dashboard_stats, unit) hook_event list \<Rightarrow> stats_hook \<Rightarrow> stats_hook" where
  "ds_run base evs s = fold (hook_step (ds_commit base) ds_load_settled ds_unmount ds_other) evs s"

subsection \<open>The page\<close>

datatype stat_key = TotalWebhooksSent | TotalWebhooksFailed | TotalWebhooksQueued | SuccessRate

definition statCards :: "(stat_key \<times> string \<times> string) list" where
  "statCards =
     [(TotalWebhooksSent, ''Webhooks sent'', ''Total deliveries''),
      (TotalWebhooksFailed, ''Failed'', ''Requires attention''),
      (TotalWebhooksQueued, ''Queued'', ''Pending delivery''),
      (SuccessRate, ''Success rate'', ''Last 30 days'')]"

definition stat_of :: "dashboard_stats \<Rightarrow> stat_key \<Rightarrow> jnum" where
  "stat_of d k =
     (case k of TotalWebhooksSent \<Rightarrow> totalWebhooksSent d | TotalWebhooksFailed \<Rightarrow> totalWebhooksFailed d
      | TotalWebhooksQueued \<Rightarrow> totalWebhooksQueued d | SuccessRate \<Rightarrow> successRate d)"

definition formatValue :: "host \<Rightarrow> stat_key \<Rightarrow> jnum \<Rightarrow> jstring" where
  "formatValue h k v = (if k = SuccessRate then of_codes (num_text v) @ js ''%'' else number_text h v)"

definition stat_card :: "host \<Rightarrow> stats_hook \<Rightarrow> stat_key \<times> string \<times> string \<Rightarrow> unit node" where
  "stat_card h s = (\<lambda>(k, label, description).
     El ''Card'' []
       [El ''CardHeader'' [] [El ''p'' [] [lit label]],
        El ''CardContent'' []
          (if ds_isLoading s then [El ''div'' [] []]
           else [El ''p'' [] [Txt (case ds_stats s of Some d \<Rightarrow> formatValue h k (stat_of d k) | None \<Rightarrow> em_dash)],
                 El ''p'' [] [lit description]])])"

definition overviewPage_view :: "host \<Rightarrow> stats_hook \<Rightarrow> unit node list" where
  "overviewPage_view h s =
     [pageHeader (js ''Overview'') (Some (js ''Key metrics for your webhook delivery and API usage.''))]
     @ error_box (ds_error s)
     @ [El ''div'' [] (map (stat_card h s) statCards)]"

lemmas ds_defs =
  ds_init_def ds_request_def ds_load_begin_def ds_load_end_def ds_commit_def ds_load_settled_def ds_unmount_def ds_other_def

subsection \<open>The loading contract\<close>

definition ds_set_cell :: "jstring option effect \<Rightarrow> stats_hook \<Rightarrow> stats_hook" where
  "ds_set_cell e s = s\<lparr> ds_cell := e \<rparr>"

interpretation ds: data_hook ds_cell ds_set_cell ds_isLoading "ds_request base" ds_load_begin ds_load_end
  "ds_commit base" ds_load_settled ds_unmount ds_other for base
  by unfold_locales (auto simp: ds_set_cell_def ds_defs Let_def split: sum.split)

lemma ds_run_steps: "ds_run base = ds.steps base"
  by (rule ext)+ (simp add: ds_run_def ds.steps_def ds.step_def)

lemma ds_run_ok: "effect_ok (ds_cell (ds_run base evs ds_init))"
  unfolding ds_run_steps by (rule ds.steps_ok) (simp add: ds_init_def)

lemma ds_cells:
  "ds_set_cell e s = v \<Longrightarrow> ds_stats s = ds_stats v \<and> ds_error s = ds_error v \<and> ds_isLoading s = ds_isLoading v"
  by (auto simp: ds_set_cell_def)

subsection \<open>Properties\<close>

text \<open>The texts of the page when it shows the figures \<open>d\<close>.\<close>

definition shown_figures :: "host \<Rightarrow> dashboard_stats \<Rightarrow> jstring list" where
  "shown_figures h d =
     [js ''Webhooks sent'', number_text h (totalWebhooksSent d), js ''Total deliveries'',
      js ''Failed'', number_text h (totalWebhooksFailed d), js ''Requires attention'',
      js ''Queued'', number_text h (totalWebhooksQueued d), js ''Pending delivery'',
      js ''Success rate'', of_codes (num_text (successRate d)) @ js ''%'', js ''Last 30 days'']"

text \<open>C26: After a switch of the organization the page shows exactly the figures of the answer to the
  request sent for it, each under its own label, whatever answers of earlier requests arrive before
  or after that one, and it shows no error.\<close>

theorem overview_of_current_org:
  fixes base orgId :: jstring and st :: storage and d :: dashboard_stats
    and evs0 before after :: "(jstring option, js_exn + dashboard_stats, unit) hook_event list"
  defines "s \<equiv> ds_run base evs0 ds_init"
  defines "n \<equiv> length (ef_runs (ds_cell s))"
  assumes due: "ef_deps (ds_cell s) \<noteq> Some (Some orgId)"
    and stale: "\<forall>ev\<in>set before \<union> set after. stale_event n ev"
  shows "texts (overviewPage_view h (ds_run base (Commit st (Some orgId) # before @ Settled n (Inr d) # after) s))
     = [js ''Overview'', js ''Key metrics for your webhook delivery and API usage.''] @ shown_figures h d"
proof -
  let ?t = "ds_run base (Commit st (Some orgId) # before @ Settled n (Inr d) # after) s"
  have due': "effect_due (Some orgId) (ds_cell s)" using due by (simp add: effect_due_def)
  have q: "ds_request base st (Some orgId) = Some (apiRequest base st fetchDashboardStats)"
    by (simp add: ds_request_def)
  have ok: "effect_ok (ds_cell s)" unfolding s_def by (rule ds_run_ok)
  have "ds_set_cell new_effect ?t = ds_load_end (Inr d) (ds_load_begin (ds_set_cell new_effect s))"
    unfolding ds_run_steps
    using ds.fresh_result [OF ok due' q n_def [THEN meta_eq_to_obj_eq]] stale by simp
  from ds_cells [OF this] have "ds_stats ?t = Some d \<and> ds_error ?t = None \<and> \<not> ds_isLoading ?t"
    by (simp add: ds_load_end_def ds_load_begin_def ds_set_cell_def)
  then show ?thesis
    by (simp add: overviewPage_view_def statCards_def stat_card_def formatValue_def stat_of_def shown_figures_def)
qed

lemma overview_of_current_org_witness:
  "js ''7%'' \<in> set (texts (overviewPage_view plain_host (ds_run []
     [Commit Map.empty (Some (js ''b'')), Settled 0 (Inl (Js_Error [])),
      Settled 1 (Inr \<lparr> totalWebhooksSent = Num False 3 0, totalWebhooksFailed = Num False 0 0,
        totalWebhooksQueued = Num False 1 0, successRate = Num False 7 0 \<rparr>)]
     (ds_run [] [Commit Map.empty (Some (js ''a''))] ds_init))))"
proof -
  have "length (ef_runs (ds_cell (ds_run [] [Commit Map.empty (Some (js ''a''))] ds_init))) = 1"
    "ef_deps (ds_cell (ds_run [] [Commit Map.empty (Some (js ''a''))] ds_init)) \<noteq> Some (Some (js ''b''))"
    by (simp_all add: ds_run_def ds_defs effect_defs)
  moreover have "of_codes (num_text (Num False 7 0)) @ js ''%'' = js ''7%''"
    by (simp add: num_text_def abs_text_def digits.simps of_codes_def js_def)
  ultimately show ?thesis
    using overview_of_current_org [of "[]" "[Commit Map.empty (Some (js ''a''))]" "js ''b''"
        "[Settled 0 (Inl (Js_Error []))]" "[]" plain_host Map.empty]
    by (simp add: stale_event_def shown_figures_def)
qed

text \<open>C40: A user who belongs to no organization never leaves the loading state: as long as no organization
  is current, no sequence of renders and unmounts starts a request, and the page shows the four
  labels with placeholders instead of figures or an error.\<close>

theorem overview_without_org:
  assumes "\<forall>ev\<in>set evs. \<forall>st d. ev = Commit st d \<longrightarrow> d = None"
  shows "ef_runs (ds_cell (ds_run base evs ds_init)) = []
    \<and> ds_isLoading (ds_run base evs ds_init)
    \<and> texts [El ''div'' [] (map (stat_card h (ds_run base evs ds_init)) statCards)]
        = [js ''Webhooks sent'', js ''Failed'', js ''Queued'', js ''Success rate'']"
proof -
  have "\<forall>st d. Commit st d \<in> set evs \<longrightarrow> ds_request base st d = None"
    using assms by (fastforce simp: ds_request_def)
  then have "ef_runs (ds_cell (ds_run base evs ds_init)) = []" "ds_isLoading (ds_run base evs ds_init)"
    using ds.loading_without_request [of evs base ds_init]
    by (simp_all add: ds_run_steps, simp_all add: ds_init_def new_effect_def)
  then show ?thesis by (simp add: statCards_def stat_card_def)
qed

lemma overview_without_org_witness:
  "ds_isLoading (ds_run [] [Commit Map.empty None, Unmount, Commit Map.empty None] ds_init)"
  using overview_without_org [of "[Commit Map.empty None, Unmount, Commit Map.empty None]" "[]" plain_host] by simp

end
