(* ===== verification/Members.thy ===== *)
theory Members
  imports Layout
begin

text \<open>
  \<open>features/dashboard/hooks/use-invitations.ts\<close> and \<open>pages/members-page.tsx\<close>: the invitations of
  the current organization, sending one and cancelling one, each split at its \<open>await\<close>.
\<close>

subsection \<open>The hook\<close>

record invitations_hook =
  iv_cell :: "jstring option effect"
  iv_invitations :: "invitation list"
  iv_isLoading :: bool
  iv_isSending :: bool
  iv_error :: "jstring option"

definition iv_init :: invitations_hook where
  "iv_init = \<lparr> iv_cell = new_effect, iv_invitations = [], iv_isLoading = True, iv_isSending = False, iv_error = None \<rparr>"

definition iv_request :: "jstring \<Rightarrow> storage \<Rightarrow> jstring option \<Rightarrow> http_request option" where
  "iv_request base st orgId = map_option (\<lambda>_. apiRequest base st fetchInvitations) orgId"

definition iv_load_begin :: "invitations_hook \<Rightarrow> invitations_hook" where
  "iv_load_begin s = s\<lparr> iv_isLoading := True, iv_error := None \<rparr>"

definition iv_load_end :: "js_exn + invitation list \<Rightarrow> invitations_hook \<Rightarrow> invitations_hook" where
  "iv_load_end r s =
     (case r of
        Inr data \<Rightarrow> s\<lparr> iv_invitations := data, iv_isLoading := False \<rparr>
      | Inl err \<Rightarrow> s\<lparr> iv_error := Some (error_message err), iv_isLoading := False \<rparr>)"

definition iv_commit :: "jstring \<Rightarrow> storage \<Rightarrow> jstring option \<Rightarrow> invitations_hook \<Rightarrow> invitations_hook" where
  "iv_commit base st orgId s =
     (if effect_due orgId (iv_cell s)
      then (let s1 = s\<lparr> iv_cell := commit_effect orgId (iv_request base st orgId) (iv_cell s) \<rparr>
            in if orgId = None then s1 else iv_load_begin s1)
      else s)"

definition iv_load_settled :: "nat \<Rightarrow> js_exn + invitation list \<Rightarrow> invitations_hook \<Rightarrow> invitations_hook" where
  "iv_load_settled i r s =
     (let s1 = s\<lparr> iv_cell := finish_run i (iv_cell s) \<rparr>
      in if run_live i (iv_cell s) then iv_load_end r s1 else s1)"

definition iv_unmount :: "invitations_hook \<Rightarrow> invitations_hook" where
  "iv_unmount s = s\<lparr> iv_cell := unmount_effect (iv_cell s) \<rparr>"

definition sendInvitation :: "jstring \<Rightarrow> storage \<Rightarrow> jstring \<Rightarrow> invitations_hook \<Rightarrow> invitations_hook \<times> io list" where
  "sendInvitation base st email s =
     (s\<lparr> iv_isSending := True, iv_error := None \<rparr>, [Send (apiRequest base st (createInvitation email))])"

definition sendInvitation_settled :: "js_exn + invitation \<Rightarrow> invitations_hook \<Rightarrow> invitations_hook" where
  "sendInvitation_settled r s =
     (case r of
        Inr iv \<Rightarrow> s\<lparr> iv_invitations := iv # iv_invitations s, iv_isSending := False \<rparr>
      | Inl err \<Rightarrow> s\<lparr> iv_error := Some (error_message err), iv_isSending := False \<rparr>)"

definition cancelInv :: "jstring \<Rightarrow> storage \<Rightarrow> jstring \<Rightarrow> invitations_hook \<Rightarrow> invitations_hook \<times> io list" where
  "cancelInv base st i s = (s\<lparr> iv_error := None \<rparr>, [Send (apiRequest base st (cancelInvitation i))])"

definition cancelInv_settled :: "jstring \<Rightarrow> js_exn + unit \<Rightarrow> invitations_hook \<Rightarrow> invitations_hook" where
  "cancelInv_settled i r s =
     (case r of
        Inr _ \<Rightarrow> s\<lparr> iv_invitations := filter (\<lambda>iv. inv_id iv \<noteq> i) (iv_invitations s) \<rparr>
      | Inl err \<Rightarrow> s\<lparr> iv_error := Some (error_message err) \<rparr>)"

subsection \<open>The page\<close>

record members_page =
  mp_hook :: invitations_hook
  mp_email :: jstring

definition mp_init :: members_page where
  "mp_init = \<lparr> mp_hook = iv_init, mp_email = [] \<rparr>"

datatype members_event = Mp_Send | Mp_Email jstring | Mp_Cancel jstring

definition mp_handleSend :: "jstring \<Rightarrow> storage \<Rightarrow> members_page \<Rightarrow> members_page \<times> io list" where
  "mp_handleSend base st p =
     (if js_trim (mp_email p) = [] then (p, [])
      else (let (s, out) = sendInvitation base st (js_trim (mp_email p)) (mp_hook p)
            in (p\<lparr> mp_hook := s \<rparr>, out)))"

definition mp_send_settled :: "js_exn + invitation \<Rightarrow> members_page \<Rightarrow> members_page" where
  "mp_send_settled r p = p\<lparr> mp_hook := sendInvitation_settled r (mp_hook p), mp_email := [] \<rparr>"

fun mp_handle :: "jstring \<Rightarrow> storage \<Rightarrow> members_event \<Rightarrow> members_page \<Rightarrow> members_page \<times> io list" where
  "mp_handle base st Mp_Send p = mp_handleSend base st p"
| "mp_handle base st (Mp_Email v) p = (p\<lparr> mp_email := v \<rparr>, [])"
| "mp_handle base st (Mp_Cancel i) p =
     (let (s, out) = cancelInv base st i (mp_hook p) in (p\<lparr> mp_hook := s \<rparr>, out))"

definition statusVariant :: "jstring \<Rightarrow> jstring" where
  "statusVariant status =
     (if status = js ''accepted'' then js ''secondary''
      else if status = js ''expired'' \<or> status = js ''cancelled'' then js ''outline''
      else js ''default'')"

definition mp_form :: "jstring \<Rightarrow> bool \<Rightarrow> members_event node" where
  "mp_form email isSending =
     El ''form'' [On ''onSubmit'' Mp_Send]
       [El ''Input'' [Attr ''type'' (js ''email''), Attr ''placeholder'' (js ''Email address''),
                      Attr ''value'' email, OnText ''onChange'' Mp_Email] [],
        El ''Button'' [Attr ''type'' (js ''submit''), Flag ''disabled'' (isSending \<or> js_trim email = [])]
          [El ''Send'' [] [], lit ''Send invite'']]"

definition mp_cancel_dialog :: "invitation \<Rightarrow> members_event node" where
  "mp_cancel_dialog iv =
     El ''AlertDialog'' []
       [El ''AlertDialogTrigger''
          [Render (El ''Button'' [Attr ''variant'' (js ''ghost'')] [El ''X'' [] []])] [],
        El ''AlertDialogContent'' []
          [El ''AlertDialogHeader'' []
             [El ''AlertDialogTitle'' [] [lit ''Cancel invitation''],
              El ''AlertDialogDescription'' []
                [lit ''Are you sure you want to cancel the invitation to'', lit '' '', Txt (inv_email iv),
                 lit (''? They will no longer be able to join using '' @ ''this invitation.'')]],
           El ''AlertDialogFooter'' []
             [El ''AlertDialogCancel'' [] [lit ''Keep''],
              El ''AlertDialogAction''
                [Attr ''variant'' (js ''destructive''), On ''onClick'' (Mp_Cancel (inv_id iv))]
                [lit ''Cancel invitation'']]]]"

definition mp_card :: "host \<Rightarrow> invitation \<Rightarrow> members_event node" where
  "mp_card h iv =
     El ''Card'' []
       [El ''CardContent'' []
          (El ''div'' []
             [El ''div'' []
                [El ''p'' [] [Txt (inv_email iv)],
                 El ''p'' [] [lit ''Invited '', Txt (date_text h (inv_createdAt iv))]],
              El ''Badge'' [Attr ''variant'' (statusVariant (inv_status iv))] [Txt (inv_status iv)]]
           # only_if (inv_status iv = js ''pending'') [mp_cancel_dialog iv])]"

definition mp_list :: "host \<Rightarrow> bool \<Rightarrow> invitation list \<Rightarrow> members_event node" where
  "mp_list h isLoading invitations =
     (if isLoading then placeholders 3
      else if length invitations = 0 then
        El ''Card'' []
          [El ''CardContent'' []
             [El ''p'' [] [lit ''No invitations yet''],
              El ''p'' [] [lit ''Invite teammates by email above.'']]]
      else El ''div'' [] (map (mp_card h) invitations))"

definition membersPage_view :: "host \<Rightarrow> members_page \<Rightarrow> members_event node list" where
  "membersPage_view h p =
     (let s = mp_hook p in
      [pageHeader (js ''Members'') (Some (js ''Invite people to your organization and manage pending invitations.''))]
      @ error_box (iv_error s)
      @ [mp_form (mp_email p) (iv_isSending s), mp_list h (iv_isLoading s) (iv_invitations s)])"

lemmas iv_defs =
  iv_init_def iv_request_def iv_load_begin_def iv_load_end_def iv_commit_def iv_load_settled_def iv_unmount_def
  sendInvitation_def sendInvitation_settled_def cancelInv_def cancelInv_settled_def

subsection \<open>The loading contract\<close>

datatype iv_op =
    Iv_Send_Begin storage jstring
  | Iv_Send_End "js_exn + invitation"
  | Iv_Cancel_Begin storage jstring
  | Iv_Cancel_End jstring "js_exn + unit"

fun iv_other :: "jstring \<Rightarrow> iv_op \<Rightarrow> invitations_hook \<Rightarrow> invitations_hook" where
  "iv_other base (Iv_Send_Begin st email) s = fst (sendInvitation base st email s)"
| "iv_other base (Iv_Send_End r) s = sendInvitation_settled r s"
| "iv_other base (Iv_Cancel_Begin st i) s = fst (cancelInv base st i s)"
| "iv_other base (Iv_Cancel_End i r) s = cancelInv_settled i r s"

definition iv_run ::
  "jstring \<Rightarrow> (jstring option, js_exn + invitation list, iv_op) hook_event list \<Rightarrow> invitations_hook \<Rightarrow> invitations_hook" where
  "iv_run base evs s = fold (hook_step (iv_commit base) iv_load_settled iv_unmount (iv_other base)) evs s"

definition iv_set_cell :: "jstring option effect \<Rightarrow> invitations_hook \<Rightarrow> invitations_hook" where
  "iv_set_cell e s = s\<lparr> iv_cell := e \<rparr>"

lemma iv_other_frame: "iv_cell (iv_other base x s) = iv_cell s \<and> iv_isLoading (iv_other base x s) = iv_isLoading s"
  by (cases x) (auto simp: iv_defs split: sum.split)

interpretation iv: data_hook iv_cell iv_set_cell iv_isLoading "iv_request base" iv_load_begin iv_load_end
  "iv_commit base" iv_load_settled iv_unmount "iv_other base" for base
  by unfold_locales
    (auto simp: iv_set_cell_def iv_other_frame iv_commit_def iv_request_def iv_load_begin_def iv_load_end_def
      iv_load_settled_def iv_unmount_def Let_def split: sum.split)

lemma iv_run_steps: "iv_run base = iv.steps base"
  by (rule ext)+ (simp add: iv_run_def iv.steps_def iv.step_def)

lemma iv_run_ok: "effect_ok (iv_cell (iv_run base evs iv_init))"
  unfolding iv_run_steps by (rule iv.steps_ok) (simp add: iv_init_def)

lemma iv_cells:
  "iv_set_cell e s = iv_set_cell e t \<Longrightarrow> iv_invitations s = iv_invitations t \<and> iv_error s = iv_error t
    \<and> iv_isSending s = iv_isSending t \<and> iv_isLoading s = iv_isLoading t"
  by (cases s, cases t) (simp add: iv_set_cell_def)

lemma view_without_cell:
  "iv_set_cell e s = iv_set_cell e t \<Longrightarrow>
   membersPage_view h (p\<lparr> mp_hook := s \<rparr>) = membersPage_view h (p\<lparr> mp_hook := t \<rparr>)"
  using iv_cells [of e s t] by (simp add: membersPage_view_def Let_def)

lemma mp_clicks [simp]:
  "node_clicks (mp_card h iv) = (if inv_status iv = js ''pending'' then [Mp_Cancel (inv_id iv)] else [])"
  "node_submits (mp_card h iv) = []" "node_clicks (mp_form v b) = []"
  "node_submits (mp_form v b) = (if b \<or> js_trim v = [] then [] else [Mp_Send])"
  by (simp_all add: mp_card_def mp_cancel_dialog_def mp_form_def)

lemma concat_filter: "concat (map (\<lambda>x. if P x then [f x] else []) xs) = map f (filter P xs)"
  by (induction xs) auto

subsection \<open>Properties\<close>

text \<open>The page offers to cancel exactly the pending invitations of the list, in its order and each by
  its own id; accepted, expired and cancelled ones cannot be cancelled, and while the list is
  loading none can. An invitation can be sent exactly when none is under way and the address is not
  blank.\<close>

theorem members_actions:
  "clicks (membersPage_view h p) =
     (if iv_isLoading (mp_hook p) then []
      else map (\<lambda>iv. Mp_Cancel (inv_id iv)) (filter (\<lambda>iv. inv_status iv = js ''pending'') (iv_invitations (mp_hook p))))
   \<and> submits (membersPage_view h p) =
     (if iv_isSending (mp_hook p) \<or> js_trim (mp_email p) = [] then [] else [Mp_Send])"
  by (simp add: membersPage_view_def Let_def mp_list_def tree_map concat_filter o_def)

text \<open>Once another organization has been rendered, the answer to a request sent for an earlier one
  leaves the page as it is, at any later moment and whatever else has happened in between.\<close>

theorem members_no_stale_answer:
  fixes base :: jstring and evs0 evs :: "(jstring option, js_exn + invitation list, iv_op) hook_event list"
  defines "s \<equiv> iv_run base evs0 iv_init"
  assumes "ef_deps (iv_cell s) \<noteq> Some orgId" "i < length (ef_runs (iv_cell s))"
  shows "membersPage_view h (p\<lparr> mp_hook := iv_load_settled i r (iv_run base (Commit st orgId # evs) s) \<rparr>)
    = membersPage_view h (p\<lparr> mp_hook := iv_run base (Commit st orgId # evs) s \<rparr>)"
proof (rule view_without_cell)
  have "effect_ok (iv_cell s)" unfolding s_def by (rule iv_run_ok)
  then show "iv_set_cell new_effect (iv_load_settled i r (iv_run base (Commit st orgId # evs) s))
      = iv_set_cell new_effect (iv_run base (Commit st orgId # evs) s)"
    using iv.no_stale_write [of s orgId i r base evs st] assms(2,3)
    by (simp add: iv_run_steps effect_due_def)
qed

definition demo_invitation :: "string \<Rightarrow> string \<Rightarrow> invitation" where
  "demo_invitation i status =
     \<lparr> inv_id = js i, inv_email = js i, inv_role = js ''member'', inv_status = js status, inv_expiresAt = [], inv_createdAt = [] \<rparr>"

lemma members_no_stale_answer_witness:
  "membersPage_view plain_host (mp_init\<lparr> mp_hook := iv_load_settled 0 (Inr [demo_invitation ''x'' ''pending''])
      (iv_run [] [Commit Map.empty (Some (js ''b''))] (iv_run [] [Commit Map.empty (Some (js ''a''))] iv_init)) \<rparr>)
   = membersPage_view plain_host (mp_init\<lparr> mp_hook :=
      iv_run [] [Commit Map.empty (Some (js ''b''))] (iv_run [] [Commit Map.empty (Some (js ''a''))] iv_init) \<rparr>)"
proof (rule members_no_stale_answer)
  show "ef_deps (iv_cell (iv_run [] [Commit Map.empty (Some (js ''a''))] iv_init)) \<noteq> Some (Some (js ''b''))"
    "0 < length (ef_runs (iv_cell (iv_run [] [Commit Map.empty (Some (js ''a''))] iv_init)))"
    by (simp_all add: iv_run_def iv_defs effect_defs)
qed



end
