(* ===== verification/Settings.thy ===== *)
theory Settings
  imports Layout
begin

text \<open>
  \<open>features/dashboard/hooks/use-signing-secret.ts\<close> and \<open>pages/settings-page.tsx\<close>: the signing
  secret with its rotation, and the deletion of the current organization, which the page carries out
  on the organization context. The page reads the current organization from that context.
\<close>

subsection \<open>The hook\<close>

record secret_hook =
  ss_cell :: "jstring option effect"
  ss_signingSecret :: "jstring option"
  ss_isLoading :: bool
  ss_isRotating :: bool
  ss_error :: "jstring option"

definition ss_init :: secret_hook where
  "ss_init = \<lparr> ss_cell = new_effect, ss_signingSecret = None, ss_isLoading = True, ss_isRotating = False, ss_error = None \<rparr>"

definition ss_request :: "jstring \<Rightarrow> storage \<Rightarrow> jstring option \<Rightarrow> http_request option" where
  "ss_request base st orgId = map_option (\<lambda>_. apiRequest base st getSigningSecret) orgId"

definition ss_load_begin :: "secret_hook \<Rightarrow> secret_hook" where
  "ss_load_begin s = s\<lparr> ss_isLoading := True, ss_error := None \<rparr>"

text \<open>The answer is the field \<open>signingSecret\<close> of the body.\<close>

definition ss_load_end :: "js_exn + jstring \<Rightarrow> secret_hook \<Rightarrow> secret_hook" where
  "ss_load_end r s =
     (case r of
        Inr secret \<Rightarrow> s\<lparr> ss_signingSecret := Some secret, ss_isLoading := False \<rparr>
      | Inl err \<Rightarrow> s\<lparr> ss_error := Some (error_message err), ss_isLoading := False \<rparr>)"

definition ss_commit :: "jstring \<Rightarrow> storage \<Rightarrow> jstring option \<Rightarrow> secret_hook \<Rightarrow> secret_hook" where
  "ss_commit base st orgId s =
     (if effect_due orgId (ss_cell s)
      then (let s1 = s\<lparr> ss_cell := commit_effect orgId (ss_request base st orgId) (ss_cell s) \<rparr>
            in if orgId = None then s1 else ss_load_begin s1)
      else s)"

definition ss_load_settled :: "nat \<Rightarrow> js_exn + jstring \<Rightarrow> secret_hook \<Rightarrow> secret_hook" where
  "ss_load_settled i r s =
     (let s1 = s\<lparr> ss_cell := finish_run i (ss_cell s) \<rparr>
      in if run_live i (ss_cell s) then ss_load_end r s1 else s1)"

definition ss_unmount :: "secret_hook \<Rightarrow> secret_hook" where
  "ss_unmount s = s\<lparr> ss_cell := unmount_effect (ss_cell s) \<rparr>"

definition rotate_secret :: "jstring \<Rightarrow> storage \<Rightarrow> secret_hook \<Rightarrow> secret_hook \<times> io list" where
  "rotate_secret base st s =
     (s\<lparr> ss_isRotating := True, ss_error := None \<rparr>, [Send (apiRequest base st rotateSigningSecret)])"

definition rotate_settled :: "js_exn + jstring \<Rightarrow> secret_hook \<Rightarrow> secret_hook" where
  "rotate_settled r s =
     (case r of
        Inr secret \<Rightarrow> s\<lparr> ss_signingSecret := Some secret, ss_isRotating := False \<rparr>
      | Inl err \<Rightarrow> s\<lparr> ss_error := Some (error_message err), ss_isRotating := False \<rparr>)"

subsection \<open>The page\<close>

record settings_page =
  sp_hook :: secret_hook
  sp_confirmName :: jstring
  sp_isDeleting :: bool
  sp_error :: jstring
  sp_open :: bool
  sp_secretVisible :: bool
  sp_copied :: bool
  sp_rotateOpen :: bool

definition sp_init :: settings_page where
  "sp_init = \<lparr> sp_hook = ss_init, sp_confirmName = [], sp_isDeleting = False, sp_error = [], sp_open = False,
     sp_secretVisible = False, sp_copied = False, sp_rotateOpen = False \<rparr>"

datatype settings_event =
    Sp_Toggle_Secret
  | Sp_Copy
  | Sp_Copied_Timeout
  | Sp_Rotate_Open bool
  | Sp_Rotate
  | Sp_Delete_Open bool
  | Sp_Confirm jstring
  | Sp_Delete

definition orgName :: "organization option \<Rightarrow> jstring" where
  "orgName currentOrg = (case currentOrg of None \<Rightarrow> [] | Some org \<Rightarrow> org_name org)"

definition canDelete :: "organization option \<Rightarrow> settings_page \<Rightarrow> bool" where
  "canDelete currentOrg p \<longleftrightarrow> sp_confirmName p = orgName currentOrg"

definition sp_handleDelete ::
  "jstring \<Rightarrow> storage \<Rightarrow> organization option \<Rightarrow> settings_page \<Rightarrow> settings_page \<times> io list" where
  "sp_handleDelete base st currentOrg p =
     (if currentOrg = None \<or> \<not> canDelete currentOrg p then (p, [])
      else (p\<lparr> sp_isDeleting := True, sp_error := [] \<rparr>,
            [Send (apiRequest base st (deleteOrganization (sp_confirmName p)))]))"

text \<open>
  The rest of \<open>handleDelete\<close>, on the page, the organization context and the router; \<open>org\<close> is the
  organization of the render whose handler ran.
\<close>

definition sp_delete_settled ::
  "organization \<Rightarrow> js_exn + unit \<Rightarrow> settings_page \<times> org_world \<Rightarrow> (settings_page \<times> org_world) \<times> io list" where
  "sp_delete_settled org r = (\<lambda>(p, w).
     case r of
       Inr _ \<Rightarrow> ((p\<lparr> sp_open := False, sp_isDeleting := False \<rparr>, removeOrg (org_id org) w),
                 [Go (Navigate (js ''/dashboard'') True)])
     | Inl _ \<Rightarrow> ((p\<lparr> sp_error := js ''Failed to delete organization. Please try again.'', sp_isDeleting := False \<rparr>, w), []))"

definition sp_handleCopy :: "settings_page \<Rightarrow> settings_page \<times> io list" where
  "sp_handleCopy p =
     (let secret = ss_signingSecret (sp_hook p)
      in if truthy secret then (p\<lparr> sp_copied := True \<rparr>, [Clipboard (the secret), Set_Timeout 2000]) else (p, []))"

definition sp_rotate_settled :: "js_exn + jstring \<Rightarrow> settings_page \<Rightarrow> settings_page" where
  "sp_rotate_settled r p = p\<lparr> sp_hook := rotate_settled r (sp_hook p), sp_rotateOpen := False \<rparr>"

definition maskedSecret :: "jstring \<Rightarrow> jstring" where
  "maskedSecret secret = (if length secret \<le> 6 then secret else take 6 secret @ concat (replicate 12 bullet))"

fun sp_handle ::
  "jstring \<Rightarrow> storage \<Rightarrow> organization option \<Rightarrow> settings_event \<Rightarrow> settings_page \<Rightarrow> settings_page \<times> io list" where
  "sp_handle base st org Sp_Toggle_Secret p = (p\<lparr> sp_secretVisible := \<not> sp_secretVisible p \<rparr>, [])"
| "sp_handle base st org Sp_Copy p = sp_handleCopy p"
| "sp_handle base st org Sp_Copied_Timeout p = (p\<lparr> sp_copied := False \<rparr>, [])"
| "sp_handle base st org (Sp_Rotate_Open b) p = (p\<lparr> sp_rotateOpen := b \<rparr>, [])"
| "sp_handle base st org Sp_Rotate p = (let (s, out) = rotate_secret base st (sp_hook p) in (p\<lparr> sp_hook := s \<rparr>, out))"
| "sp_handle base st org (Sp_Delete_Open isOpen) p =
     (if isOpen then (p\<lparr> sp_open := isOpen \<rparr>, [])
      else (p\<lparr> sp_open := isOpen, sp_confirmName := [], sp_error := [] \<rparr>, []))"
| "sp_handle base st org (Sp_Confirm v) p = (p\<lparr> sp_confirmName := v \<rparr>, [])"
| "sp_handle base st org Sp_Delete p = sp_handleDelete base st org p"

subsection \<open>The element tree\<close>

definition sp_rotate_dialog :: "settings_page \<Rightarrow> settings_event node" where
  "sp_rotate_dialog p =
     El ''AlertDialog'' [Flag ''open'' (sp_rotateOpen p), OnBool ''onOpenChange'' Sp_Rotate_Open]
       [El ''AlertDialogTrigger''
          [Render (El ''Button'' [Attr ''variant'' (js ''outline'')] [lit ''Rotate''])] [],
        El ''AlertDialogContent'' []
          [El ''AlertDialogHeader'' []
             [El ''AlertDialogTitle'' [] [lit ''Rotate signing secret?''],
              El ''AlertDialogDescription'' []
                [lit (''The current secret will be immediately invalidated. '' @
                      ''All webhook receivers using the old secret will fail verification until updated.'')]],
           El ''AlertDialogFooter'' []
             [El ''AlertDialogCancel'' [] [lit ''Cancel''],
              El ''Button''
                [Attr ''variant'' (js ''destructive''), Flag ''disabled'' (ss_isRotating (sp_hook p)), On ''onClick'' Sp_Rotate]
                [lit (if ss_isRotating (sp_hook p) then ''Rotating...'' else ''Rotate secret'')]]]]"

definition sp_secret_row :: "settings_page \<Rightarrow> jstring \<Rightarrow> settings_event node" where
  "sp_secret_row p secret =
     El ''div'' []
       [El ''code'' [] [Txt (if sp_secretVisible p then secret else maskedSecret secret)],
        El ''Button'' [Attr ''variant'' (js ''outline''), On ''onClick'' Sp_Toggle_Secret]
          [lit (if sp_secretVisible p then ''Hide'' else ''Reveal'')],
        El ''Button'' [Attr ''variant'' (js ''outline''), On ''onClick'' Sp_Copy]
          [lit (if sp_copied p then ''Copied!'' else ''Copy'')],
        sp_rotate_dialog p]"

definition sp_secret_section :: "settings_page \<Rightarrow> settings_event node" where
  "sp_secret_section p =
     (let s = sp_hook p in
      El ''section'' []
        [El ''h2'' [] [lit ''Webhook Signing Secret''],
         El ''Card'' []
           [El ''CardContent'' []
              (El ''p'' []
                 [lit ''Used to sign webhook payloads so receivers can verify authenticity. Every delivery includes'',
                  lit '' '', El ''code'' [] [lit ''X-Webhook-Signature''], lit '' '', lit ''headers.'']
               # (if ss_isLoading s then [El ''div'' [] []]
                  else if truthy (ss_error s) then [El ''p'' [] [Txt (the (ss_error s))]]
                  else if_text (ss_signingSecret s) (\<lambda>secret. [sp_secret_row p secret])))]])"

definition sp_delete_dialog :: "organization option \<Rightarrow> settings_page \<Rightarrow> settings_event node" where
  "sp_delete_dialog currentOrg p =
     El ''AlertDialog'' [Flag ''open'' (sp_open p), OnBool ''onOpenChange'' Sp_Delete_Open]
       [El ''AlertDialogTrigger''
          [Render (El ''Button'' [Attr ''variant'' (js ''destructive'')] [lit ''Delete organization''])] [],
        El ''AlertDialogContent'' []
          [El ''AlertDialogHeader'' []
             [El ''AlertDialogTitle'' [] [lit ''Delete '', Txt (orgName currentOrg), lit ''?''],
              El ''AlertDialogDescription'' []
                [lit (''This action cannot be undone. All API keys, webhooks, and '' @
                      ''members will be permanently removed.'')]],
           El ''div'' []
             ([El ''label'' []
                 [lit ''Type '', El ''span'' [] [Txt (orgName currentOrg)], lit '' to confirm''],
               El ''Input''
                 [Attr ''value'' (sp_confirmName p), OnText ''onChange'' Sp_Confirm,
                  Attr ''placeholder'' (orgName currentOrg)] []]
              @ if_text (Some (sp_error p)) (\<lambda>e. [El ''p'' [] [Txt e]])),
           El ''AlertDialogFooter'' []
             [El ''AlertDialogCancel'' [] [lit ''Cancel''],
              El ''Button''
                [Attr ''variant'' (js ''destructive''),
                 Flag ''disabled'' (\<not> canDelete currentOrg p \<or> sp_isDeleting p), On ''onClick'' Sp_Delete]
                [lit (if sp_isDeleting p then ''Deleting...'' else ''Delete'')]]]]"

definition sp_danger_section :: "organization option \<Rightarrow> settings_page \<Rightarrow> settings_event node" where
  "sp_danger_section currentOrg p =
     El ''section'' []
       [El ''h2'' [] [lit ''Danger zone''],
        El ''Card'' []
          [El ''CardContent'' []
             [El ''div'' []
                [El ''p'' [] [lit ''Delete organization''],
                 El ''p'' [] [lit ''Permanently delete this organization and all its data.'']],
              sp_delete_dialog currentOrg p]]]"

definition settingsPage_view :: "organization option \<Rightarrow> settings_page \<Rightarrow> settings_event node list" where
  "settingsPage_view currentOrg p =
     [pageHeader (js ''Settings'') (Some (js ''Organization settings, signing secret, and danger zone.'')),
      El ''div'' [] [sp_secret_section p, sp_danger_section currentOrg p]]"

lemmas sp_view_defs [view_defs] =
  sp_rotate_dialog_def sp_secret_row_def sp_secret_section_def sp_delete_dialog_def sp_danger_section_def

lemmas ss_defs =
  ss_init_def ss_request_def ss_load_begin_def ss_load_end_def ss_commit_def ss_load_settled_def ss_unmount_def
  rotate_secret_def rotate_settled_def

subsection \<open>The loading contract\<close>

datatype ss_op = Ss_Rotate_Begin storage | Ss_Rotate_End "js_exn + jstring"

fun ss_other :: "jstring \<Rightarrow> ss_op \<Rightarrow> secret_hook \<Rightarrow> secret_hook" where
  "ss_other base (Ss_Rotate_Begin st) s = fst (rotate_secret base st s)"
| "ss_other base (Ss_Rotate_End r) s = rotate_settled r s"

definition ss_run ::
  "jstring \<Rightarrow> (jstring option, js_exn + jstring, ss_op) hook_event list \<Rightarrow> secret_hook \<Rightarrow> secret_hook" where
  "ss_run base evs s = fold (hook_step (ss_commit base) ss_load_settled ss_unmount (ss_other base)) evs s"

definition ss_set_cell :: "jstring option effect \<Rightarrow> secret_hook \<Rightarrow> secret_hook" where
  "ss_set_cell e s = s\<lparr> ss_cell := e \<rparr>"

lemma ss_other_frame: "ss_cell (ss_other base x s) = ss_cell s \<and> ss_isLoading (ss_other base x s) = ss_isLoading s"
  by (cases x) (auto simp: ss_defs split: sum.split)

interpretation ss: data_hook ss_cell ss_set_cell ss_isLoading "ss_request base" ss_load_begin ss_load_end
  "ss_commit base" ss_load_settled ss_unmount "ss_other base" for base
  by unfold_locales
    (auto simp: ss_set_cell_def ss_other_frame ss_commit_def ss_request_def ss_load_begin_def ss_load_end_def
      ss_load_settled_def ss_unmount_def Let_def split: sum.split)

lemma ss_run_steps: "ss_run base = ss.steps base"
  by (rule ext)+ (simp add: ss_run_def ss.steps_def ss.step_def)

subsection \<open>Properties\<close>



text \<open>C32: An organization can be deleted from the page exactly when its name has been typed in full and no
  deletion is under way; the click then sends one deletion request whose body is that name.\<close>

theorem delete_requires_name:
  "(Sp_Delete \<in> set (clicks (settingsPage_view (Some org) p))
      \<longleftrightarrow> sp_confirmName p = org_name org \<and> \<not> sp_isDeleting p)
   \<and> snd (sp_handle base st (Some org) Sp_Delete p) =
      (if sp_confirmName p = org_name org then [Send (apiRequest base st (deleteOrganization (org_name org)))] else [])
   \<and> snd (sp_handle base st None Sp_Delete p) = []"
proof -
  have "Sp_Delete \<notin> set (node_clicks (sp_secret_section p))"
    by (auto simp: view_defs Let_def if_text_def split: option.splits)
  then show ?thesis
    by (auto simp: settingsPage_view_def sp_danger_section_def sp_delete_dialog_def canDelete_def orgName_def
        sp_handleDelete_def if_text_def)
qed

text \<open>When the server has deleted the organization, the context forgets exactly it, the dialog closes and
  the console goes to the dashboard; the next organization, if there is one, is current and stored.
  When the deletion fails the context is untouched, the dialog stays open and shows the error.\<close>

theorem delete_outcome:
  "(let ((p', (st', s')), out) = sp_delete_settled org (Inr ()) (p, (st, s)) in
      oc_organizations s' = filter (\<lambda>o1. org_id o1 \<noteq> org_id org) (oc_organizations s)
      \<and> org_ok (st', s') \<and> \<not> sp_open p' \<and> \<not> sp_isDeleting p' \<and> out = [Go (Navigate (js ''/dashboard'') True)])
   \<and> (let ((p', w'), out) = sp_delete_settled org (Inl err) (p, (st, s)) in
      w' = (st, s) \<and> sp_open p' = sp_open p \<and> \<not> sp_isDeleting p' \<and> out = []
      \<and> sp_error p' \<in> set (texts (settingsPage_view currentOrg p')))"
proof -
  obtain st' s' where w: "removeOrg (org_id org) (st, s) = (st', s')" by (cases "removeOrg (org_id org) (st, s)")
  then have "oc_organizations s' = filter (\<lambda>o1. org_id o1 \<noteq> org_id org) (oc_organizations s)"
    by (auto simp: removeOrg_def Let_def split: if_splits)
  moreover have "org_ok (st', s')" using removeOrg_ok [of "org_id org" "(st, s)"] by (simp only: w)
  ultimately show ?thesis
    by (simp del: org_ok.simps add: w sp_delete_settled_def settingsPage_view_def sp_danger_section_def sp_delete_dialog_def)
qed


end
