(* ===== verification/Playground.thy ===== *)
theory Playground
  imports Layout
begin

text \<open>
  \<open>features/dashboard/pages/playground-page.tsx\<close>: the page that sends a test webhook. \<open>handleSend\<close>
  validates its three inputs in order, then awaits \<open>sendTestWebhook\<close>; it is split at the await.
\<close>

definition HTTP_METHODS :: "jstring list" where
  "HTTP_METHODS = [js ''POST'', js ''GET'', js ''PUT'', js ''DELETE'', js ''PATCH'']"

definition DEFAULT_PAYLOAD :: jstring where
  "DEFAULT_PAYLOAD =
     JSON_stringify 2 (JObj [str_field ''event'' (js ''test''),
       (js ''data'', JObj [str_field ''message'' (js ''Hello from Chis!'')])])"

record playground_page =
  pg_apiKey :: jstring
  pg_method :: jstring
  pg_url :: jstring
  pg_payload :: jstring
  pg_isLoading :: bool
  pg_response :: "send_webhook_response option"
  pg_error :: "jstring option"
  pg_copied :: bool

definition pg_init :: playground_page where
  "pg_init = \<lparr> pg_apiKey = [], pg_method = js ''POST'', pg_url = [], pg_payload = DEFAULT_PAYLOAD,
     pg_isLoading = False, pg_response = None, pg_error = None, pg_copied = False \<rparr>"

datatype playground_event =
    Pg_ApiKey jstring
  | Pg_Method "jstring option"
  | Pg_Url jstring
  | Pg_Payload jstring
  | Pg_Format
  | Pg_Send
  | Pg_Copy_Id
  | Pg_Copied_Timeout

definition pg_handleFormatJson :: "playground_page \<Rightarrow> playground_page" where
  "pg_handleFormatJson p =
     (case JSON_parse (pg_payload p) of
        Some parsed \<Rightarrow> p\<lparr> pg_payload := JSON_stringify 2 parsed \<rparr>
      | None \<Rightarrow> p)"

definition pg_handleSend :: "jstring \<Rightarrow> playground_page \<Rightarrow> playground_page \<times> io list" where
  "pg_handleSend base p =
     (let p1 = p\<lparr> pg_error := None, pg_response := None \<rparr>
      in if js_trim (pg_apiKey p) = [] then (p1\<lparr> pg_error := Some (js ''API key is required.'') \<rparr>, [])
         else if js_trim (pg_url p) = [] then (p1\<lparr> pg_error := Some (js ''URL is required.'') \<rparr>, [])
         else (case JSON_parse (pg_payload p) of
                 None \<Rightarrow> (p1\<lparr> pg_error := Some (js ''Invalid JSON payload.'') \<rparr>, [])
               | Some parsedPayload \<Rightarrow>
                   (p1\<lparr> pg_isLoading := True \<rparr>,
                    [Send (sendTestWebhook base (js_trim (pg_apiKey p))
                       \<lparr> sw_url = js_trim (pg_url p), sw_method = pg_method p, sw_payload = parsedPayload \<rparr>)])))"

text \<open>\<open>err.message\<close> of whatever the promise rejected with.\<close>

definition exn_message :: "js_exn \<Rightarrow> jstring" where
  "exn_message x = (case x of Api_Request_Error e \<Rightarrow> ae_message e | Js_Error m \<Rightarrow> m)"

definition pg_send_settled :: "js_exn + send_webhook_response option \<Rightarrow> playground_page \<Rightarrow> playground_page" where
  "pg_send_settled r p =
     (case r of
        Inr result \<Rightarrow> p\<lparr> pg_response := result, pg_isLoading := False \<rparr>
      | Inl err \<Rightarrow> p\<lparr> pg_error := Some (exn_message err), pg_isLoading := False \<rparr>)"

definition pg_handleCopyId :: "playground_page \<Rightarrow> playground_page \<times> io list" where
  "pg_handleCopyId p =
     (case pg_response p of
        None \<Rightarrow> (p, [])
      | Some response \<Rightarrow> (p\<lparr> pg_copied := True \<rparr>, [Clipboard (sr_messageId response), Set_Timeout 2000]))"

fun pg_handle :: "jstring \<Rightarrow> playground_event \<Rightarrow> playground_page \<Rightarrow> playground_page \<times> io list" where
  "pg_handle base (Pg_ApiKey v) p = (p\<lparr> pg_apiKey := v \<rparr>, [])"
| "pg_handle base (Pg_Method v) p = (if truthy v then p\<lparr> pg_method := the v \<rparr> else p, [])"
| "pg_handle base (Pg_Url v) p = (p\<lparr> pg_url := v \<rparr>, [])"
| "pg_handle base (Pg_Payload v) p = (p\<lparr> pg_payload := v \<rparr>, [])"
| "pg_handle base Pg_Format p = (pg_handleFormatJson p, [])"
| "pg_handle base Pg_Send p = pg_handleSend base p"
| "pg_handle base Pg_Copy_Id p = pg_handleCopyId p"
| "pg_handle base Pg_Copied_Timeout p = (p\<lparr> pg_copied := False \<rparr>, [])"

subsection \<open>The element tree\<close>

definition link :: "string \<Rightarrow> 'e node list \<Rightarrow> 'e node" where
  "link to children = El ''Link'' [Attr ''to'' (js to)] children"

definition pg_api_key_field :: "jstring \<Rightarrow> playground_event node" where
  "pg_api_key_field apiKey =
     El ''div'' []
       [El ''Label'' [Attr ''htmlFor'' (js ''api-key'')] [lit ''API Key''],
        El ''Input''
          [Attr ''id'' (js ''api-key''), Attr ''type'' (js ''password''), Attr ''placeholder'' (js ''chis_sk_...''),
           Attr ''value'' apiKey, OnText ''onChange'' Pg_ApiKey] [],
        El ''p'' []
          [lit ''Paste your full API key.'', lit '' '',
           link ''/dashboard/api-keys'' [lit ''Create one''],
           lit '' '', lit ''if you don't have one yet.'']]"

definition pg_target_fields :: "jstring \<Rightarrow> jstring \<Rightarrow> playground_event node" where
  "pg_target_fields httpMethod url =
     El ''div'' []
       [El ''div'' []
          [El ''Label'' [] [lit ''Method''],
           El ''Select'' [Attr ''value'' httpMethod, OnValue ''onValueChange'' Pg_Method]
             [El ''SelectTrigger'' [] [El ''SelectValue'' [] []],
              El ''SelectContent'' []
                (map (\<lambda>m. El ''SelectItem'' [Attr ''value'' m] [Txt m]) HTTP_METHODS)]],
        El ''div'' []
          [El ''Label'' [Attr ''htmlFor'' (js ''url'')] [lit ''URL''],
           El ''Input''
             [Attr ''id'' (js ''url''), Attr ''placeholder'' (js ''https://httpbin.org/post''), Attr ''value'' url,
              OnText ''onChange'' Pg_Url] []]]"

definition pg_payload_field :: "jstring \<Rightarrow> playground_event node" where
  "pg_payload_field payload =
     El ''div'' []
       [El ''div'' []
          [El ''Label'' [Attr ''htmlFor'' (js ''payload'')] [lit ''Payload''],
           El ''Button'' [Attr ''variant'' (js ''ghost''), On ''onClick'' Pg_Format] [lit ''Format JSON'']],
        El ''Textarea''
          [Attr ''id'' (js ''payload''), Attr ''value'' payload, OnText ''onChange'' Pg_Payload] []]"

definition pg_request_card :: "playground_page \<Rightarrow> playground_event node" where
  "pg_request_card p =
     El ''Card'' []
       [El ''CardHeader'' [] [El ''CardTitle'' [] [lit ''Request'']],
        El ''CardContent'' []
          [pg_api_key_field (pg_apiKey p),
           pg_target_fields (pg_method p) (pg_url p),
           pg_payload_field (pg_payload p),
           El ''Button'' [On ''onClick'' Pg_Send, Flag ''disabled'' (pg_isLoading p)]
             [if pg_isLoading p then El ''Loader2'' [] [] else El ''Send'' [] [],
              lit (if pg_isLoading p then ''Sending...'' else ''Send Webhook'')]]]"

definition pg_response_box :: "bool \<Rightarrow> send_webhook_response \<Rightarrow> playground_event node" where
  "pg_response_box copied response =
     El ''div'' []
       [El ''div'' [] [El ''Badge'' [Attr ''variant'' (js ''secondary'')] [Txt (sr_status response)]],
        El ''div'' []
          [El ''p'' [] [lit ''Message ID''],
           El ''div'' []
             [El ''code'' [] [Txt (sr_messageId response)],
              El ''Button'' [Attr ''variant'' (js ''ghost''), On ''onClick'' Pg_Copy_Id]
                [if copied then El ''Check'' [] [] else El ''Copy'' [] []]]],
        link ''/dashboard/logs'' [lit ''View in logs'', El ''ExternalLink'' [] []]]"

text \<open>The three conditional children of the response card: the error, the response, the hint.\<close>

definition pg_result :: "playground_page \<Rightarrow> playground_event node list" where
  "pg_result p =
     error_box (pg_error p)
     @ (case pg_response p of None \<Rightarrow> [] | Some r \<Rightarrow> [pg_response_box (pg_copied p) r])
     @ only_if (\<not> truthy (pg_error p) \<and> pg_response p = None)
         [El ''p'' [] [lit ''Send a request to see the response here.'']]"

definition pg_response_card :: "playground_page \<Rightarrow> playground_event node" where
  "pg_response_card p =
     El ''Card'' []
       [El ''CardHeader'' [] [El ''CardTitle'' [] [lit ''Response'']],
        El ''CardContent'' [] (pg_result p)]"

definition pg_example :: jstring where
  "pg_example =
     js ''{'' @ [10] @ js ''  '' @ dquote @ js ''url'' @ dquote @ js '': '' @ dquote @ js ''https://example.com/hook'' @ dquote
     @ js '','' @ [10] @ js ''  '' @ dquote @ js ''method'' @ dquote @ js '': '' @ dquote @ js ''POST'' @ dquote @ js '',''
     @ [10] @ js ''  '' @ dquote @ js ''payload'' @ dquote @ js '': { '' @ dquote @ js ''event'' @ dquote @ js '': ''
     @ dquote @ js ''test'' @ dquote @ js '' }'' @ [10] @ js ''}''"

definition pg_help_card :: "playground_event node" where
  "pg_help_card =
     El ''Card'' []
       [El ''CardHeader'' [] [El ''CardTitle'' [] [lit ''How it works'']],
        El ''CardContent'' []
          [El ''p'' []
             [lit (''Sends a webhook to any URL. The request is queued and delivered '' @
                   ''asynchronously with automatic retries on failure.'')],
           El ''div'' [] [El ''p'' [] [lit ''API Endpoint''], El ''code'' [] [lit ''POST /webhook/send'']],
           El ''div'' [] [El ''p'' [] [lit ''Headers''], El ''code'' [] [lit ''X-API-Key: your_api_key'']],
           El ''div'' [] [El ''p'' [] [lit ''Example Payload''], El ''pre'' [] [Txt pg_example]]]]"

definition playgroundPage_view :: "playground_page \<Rightarrow> playground_event node list" where
  "playgroundPage_view p =
     [pageHeader (js ''Playground'')
        (Some (js ''Send test webhooks to any URL. Useful for debugging and integration checks.'')),
      El ''div'' []
        [pg_request_card p,
         El ''div'' [] [pg_response_card p, pg_help_card]]]"

lemmas pg_view_defs [view_defs] =
  link_def pg_api_key_field_def pg_target_fields_def pg_payload_field_def pg_request_card_def pg_response_box_def
  pg_response_card_def pg_help_card_def

subsection \<open>The states of the page\<close>

text \<open>
  The states the page can be in: a handler runs for an event the page offers (the send button is
  disabled while a request is under way), and the answer arrives while one is.
\<close>

inductive pg_reachable :: "jstring \<Rightarrow> playground_page \<Rightarrow> bool" for base :: jstring where
  mount: "pg_reachable base pg_init"
| handle: "pg_reachable base p \<Longrightarrow> ev \<noteq> Pg_Send \<or> \<not> pg_isLoading p \<Longrightarrow> pg_reachable base (fst (pg_handle base ev p))"
| settled: "pg_reachable base p \<Longrightarrow> pg_isLoading p \<Longrightarrow> pg_reachable base (pg_send_settled r p)"

definition pg_ok :: "playground_page \<Rightarrow> bool" where
  "pg_ok p \<longleftrightarrow> (pg_error p = None \<or> pg_response p = None)
     \<and> (pg_isLoading p \<longrightarrow> pg_error p = None \<and> pg_response p = None)"

lemma pg_handle_ok: "pg_ok p \<Longrightarrow> ev \<noteq> Pg_Send \<or> \<not> pg_isLoading p \<Longrightarrow> pg_ok (fst (pg_handle base ev p))"
  by (cases ev)
    (auto simp: pg_ok_def pg_handleFormatJson_def pg_handleSend_def pg_handleCopyId_def Let_def split: option.splits)

lemma pg_settled_ok: "pg_ok p \<Longrightarrow> pg_isLoading p \<Longrightarrow> pg_ok (pg_send_settled r p)"
  by (cases r) (auto simp: pg_ok_def pg_send_settled_def)

lemma pg_reachable_ok: "pg_reachable base p \<Longrightarrow> pg_ok p"
  by (induction rule: pg_reachable.induct)
    (auto simp: pg_handle_ok pg_settled_ok, simp add: pg_ok_def pg_init_def)

definition send_body :: "send_webhook_request \<Rightarrow> json" where
  "send_body rq = JObj [str_field ''url'' (sw_url rq), str_field ''method'' (sw_method rq), (js ''payload'', sw_payload rq)]"

lemma send_body_wf: "wf_json (sw_payload rq) \<Longrightarrow> wf_json (send_body rq)"
proof -
  have "\<not> is_index (js ''url'', v)" "\<not> is_index (js ''method'', v)" "\<not> is_index (js ''payload'', v)" for v
    by (rule not_index_letter; simp add: js_def is_digit_def)+
  then show "wf_json (sw_payload rq) \<Longrightarrow> wf_json (send_body rq)"
    by (simp add: send_body_def str_field_def order_props_plain)
qed

subsection \<open>Properties\<close>

text \<open>C19: Whatever the user does and whatever answers arrive, the response card shows exactly one thing: an
  error, a response or the hint; while a request is under way it is the hint.\<close>

theorem playground_shows_one_result:
  assumes "pg_reachable base p"
  shows "length (pg_result p) = 1 \<and> (pg_isLoading p \<longrightarrow> texts (pg_result p) = [js ''Send a request to see the response here.''])"
  using pg_reachable_ok [OF assms]
  by (auto simp: pg_ok_def pg_result_def error_box_def if_text_def truthy_def split: option.splits)

lemma playground_shows_one_result_witness:
  "length (pg_result (fst (pg_handle [] Pg_Send pg_init))) = 1"
proof -
  have "pg_reachable [] (fst (pg_handle [] Pg_Send pg_init))"
    by (rule pg_reachable.handle [OF pg_reachable.mount]) (simp add: pg_init_def)
  from playground_shows_one_result [OF this] show ?thesis by simp
qed


definition demo_page :: playground_page where
  "demo_page = pg_init\<lparr> pg_apiKey := js '' k '', pg_url := js ''http://x'', pg_payload := js ''[true]'' \<rparr>"

lemma demo_payload: "JSON_parse (js ''[true]'') = Some (JArr [JBool True])"
proof -
  have "JSON_stringify 0 (JArr [JBool True]) = js ''[true]''"
    by (simp add: JSON_stringify_def of_codes_def codes_def newline_def js_def)
  with parse_stringify [of "JArr [JBool True]" 0] show ?thesis by simp
qed


text \<open>Formatting the payload keeps the value it denotes (up to the sign of a zero), leaves text that is
  not JSON untouched, and formatting twice is formatting once.\<close>

theorem format_json_stable:
  "JSON_parse (pg_payload (pg_handleFormatJson p)) = map_option erase (JSON_parse (pg_payload p))
   \<and> pg_handleFormatJson (pg_handleFormatJson p) = pg_handleFormatJson p
   \<and> (JSON_parse (pg_payload p) = None \<longleftrightarrow> JSON_parse (pg_payload (pg_handleFormatJson p)) = None)"
  by (cases "JSON_parse (pg_payload p)")
    (simp_all add: pg_handleFormatJson_def reformat_idem)

text \<open>When the server refuses a test webhook, the message in its response is never shown: the error
  bodies of the server carry \<open>message\<close>, the page reads \<open>error\<close>, so that the user sees only the status.\<close>

theorem playground_drops_server_message:
  assumes "\<not> response_ok status"
  shows "pg_error (pg_send_settled (sendTestWebhook_settle (Response status
      (JSON_stringify 0 (JObj [str_field ''message'' m])))) p)
    = Some (js ''Request failed with status '' @ of_nat_text status)"
proof -
  have "wf_json (JObj [str_field ''message'' m])"
    by (simp add: str_field_def order_props_def is_index_def)
  from parse_stringify [OF this, of 0] show ?thesis
    using assms by (simp add: sendTestWebhook_settle_def pg_send_settled_def send_error_message_def
        exn_message_def str_field_def)
qed

lemma playground_drops_server_message_witness:
  "pg_error (pg_send_settled (sendTestWebhook_settle (Response 401
      (JSON_stringify 0 (JObj [str_field ''message'' (js ''invalid API key'')])))) pg_init)
    = Some (js ''Request failed with status 401'')"
proof -
  have "of_nat_text 401 = js ''401''" by (simp add: of_nat_text_def digits.simps of_codes_def js_def)
  moreover have "\<not> response_ok 401" by (simp add: response_ok_def)
  ultimately show ?thesis
    using playground_drops_server_message [of 401 "js ''invalid API key''" pg_init]
    by (simp add: js_append [symmetric])
qed

end
