(* ===== verification/Log_Detail.thy ===== *)
theory Log_Detail
  imports Layout
begin

text \<open>
  \<open>features/dashboard/hooks/use-webhook-log-detail.ts\<close> and \<open>components/webhook-log-detail.tsx\<close>: the
  detail of the selected log. The effect depends on the id of the log; without one it clears the
  detail instead of starting a request.
\<close>

subsection \<open>The hook\<close>

record log_detail_hook =
  wd_cell :: "jstring option effect"
  wd_detail :: "webhook_log_detail option"
  wd_isLoading :: bool
  wd_error :: "jstring option"

definition wd_init :: log_detail_hook where
  "wd_init = \<lparr> wd_cell = new_effect, wd_detail = None, wd_isLoading = False, wd_error = None \<rparr>"

definition wd_request :: "jstring \<Rightarrow> storage \<Rightarrow> jstring option \<Rightarrow> http_request option" where
  "wd_request base st logId = (if truthy logId then Some (apiRequest base st (fetchWebhookLogDetail (the logId))) else None)"

definition wd_load_begin :: "log_detail_hook \<Rightarrow> log_detail_hook" where
  "wd_load_begin s = s\<lparr> wd_isLoading := True, wd_error := None \<rparr>"

definition wd_load_end :: "js_exn + webhook_log_detail \<Rightarrow> log_detail_hook \<Rightarrow> log_detail_hook" where
  "wd_load_end r s =
     (case r of
        Inr data \<Rightarrow> s\<lparr> wd_detail := Some data, wd_isLoading := False \<rparr>
      | Inl err \<Rightarrow> s\<lparr> wd_error := Some (error_message err), wd_isLoading := False \<rparr>)"

definition wd_commit :: "jstring \<Rightarrow> storage \<Rightarrow> jstring option \<Rightarrow> log_detail_hook \<Rightarrow> log_detail_hook" where
  "wd_commit base st logId s =
     (if effect_due logId (wd_cell s)
      then (let s1 = s\<lparr> wd_cell := commit_effect logId (wd_request base st logId) (wd_cell s) \<rparr>
            in if \<not> truthy logId then s1\<lparr> wd_detail := None, wd_error := None \<rparr> else wd_load_begin s1)
      else s)"

definition wd_load_settled :: "nat \<Rightarrow> js_exn + webhook_log_detail \<Rightarrow> log_detail_hook \<Rightarrow> log_detail_hook" where
  "wd_load_settled i r s =
     (let s1 = s\<lparr> wd_cell := finish_run i (wd_cell s) \<rparr>
      in if run_live i (wd_cell s) then wd_load_end r s1 else s1)"

definition wd_unmount :: "log_detail_hook \<Rightarrow> log_detail_hook" where
  "wd_unmount s = s\<lparr> wd_cell := unmount_effect (wd_cell s) \<rparr>"

definition wd_other :: "unit \<Rightarrow> log_detail_hook \<Rightarrow> log_detail_hook" where
  "wd_other x s = s"

definition wd_run ::
  "jstring \<Rightarrow> (jstring option, js_exn + webhook_log_detail, unit) hook_event list \<Rightarrow> log_detail_hook \<Rightarrow> log_detail_hook" where
  "wd_run base evs s = fold (hook_step (wd_commit base) wd_load_settled wd_unmount wd_other) evs s"

subsection \<open>The element tree\<close>

text \<open>The variant of a status badge; \<open>None\<close> is \<open>undefined\<close>, the value for an unlisted status.\<close>

definition statusBadgeVariant :: "jstring \<Rightarrow> jstring option" where
  "statusBadgeVariant status =
     (if status = js ''success'' then Some (js ''default'')
      else if status = js ''failed'' then Some (js ''destructive'')
      else if status = js ''pending'' then Some (js ''secondary'')
      else None)"

definition formatJson :: "json \<Rightarrow> jstring" where
  "formatJson v =
     (case v of
        JNull \<Rightarrow> []
      | JStr s \<Rightarrow> (case JSON_parse s of Some parsed \<Rightarrow> JSON_stringify 2 parsed | None \<Rightarrow> s)
      | _ \<Rightarrow> JSON_stringify 2 v)"

definition statusCodeBadge :: "int option \<Rightarrow> 'e node" where
  "statusCodeBadge code =
     (case code of
        None \<Rightarrow> El ''span'' [] [lit ''-'']
      | Some c \<Rightarrow> El ''Badge'' [Attr ''variant'' (js (if 200 \<le> c \<and> c < 300 then ''default'' else ''destructive''))]
                   [Txt (int_text c)])"

definition detailSkeleton :: "'e node" where
  "detailSkeleton =
     El ''div'' []
       [placeholders 2,
        El ''div'' [] (replicate 4 (placeholders 2)),
        placeholders 2,
        placeholders 2]"

definition attemptCard :: "host \<Rightarrow> delivery_attempt_detail \<Rightarrow> 'e node" where
  "attemptCard h attempt =
     (let responseFormatted =
        (if truthy (da_responseBody attempt) then Some (formatJson (JStr (the (da_responseBody attempt)))) else None)
      in El ''div'' []
        ([El ''div'' []
            [El ''span'' [] [lit ''Attempt #'', Txt (int_text (da_attemptNumber attempt))],
             statusCodeBadge (da_statusCode attempt)],
          El ''div'' []
            ((case da_durationMs attempt of None \<Rightarrow> [] | Some d \<Rightarrow> [El ''span'' [] [Txt (int_text d), lit ''ms'']])
             @ [El ''span'' [] [Txt (datetime_text h (da_attemptedAt attempt))]])]
         @ if_text (da_errorMessage attempt) (\<lambda>e. [El ''div'' [] [Txt e]])
         @ if_text responseFormatted
             (\<lambda>r. [El ''div'' [] [El ''span'' [] [lit ''Response Body''], El ''pre'' [] [Txt r]]])))"

definition metadata_cell :: "string \<Rightarrow> jstring \<Rightarrow> 'e node" where
  "metadata_cell label v = El ''div'' [] [El ''p'' [] [lit label], El ''p'' [] [Txt v]]"

definition detail_body :: "host \<Rightarrow> webhook_log_detail \<Rightarrow> 'e node" where
  "detail_body h d =
     (let payloadFormatted = formatJson (wd_payload d) in
      El ''div'' []
        ([El ''div'' []
            [El ''div'' []
               [El ''Badge''
                  [Attr ''variant'' (case statusBadgeVariant (wd_status d) of None \<Rightarrow> js ''secondary'' | Some v \<Rightarrow> v)]
                  [Txt (wd_status d)],
                El ''span'' [] [Txt (wd_method d)]],
             El ''p'' [] [Txt (wd_url d)]],
          El ''div'' []
            [metadata_cell ''Attempts'' (int_text (wd_attemptCount d)),
             metadata_cell ''Created'' (datetime_text h (wd_createdAt d)),
             metadata_cell ''Updated'' (datetime_text h (wd_updatedAt d)),
             metadata_cell ''Next Retry''
               (if truthy (wd_nextRetryAt d) then datetime_text h (the (wd_nextRetryAt d)) else js ''-'')]]
         @ if_text (Some payloadFormatted)
             (\<lambda>r. [El ''div'' [] [El ''h4'' [] [lit ''Request Payload''], El ''pre'' [] [Txt r]]])
         @ [El ''div'' []
              [El ''h4'' []
                 [lit ''Delivery Attempts ('', Txt (of_nat_text (length (wd_deliveryAttempts d))), lit '')''],
               (if length (wd_deliveryAttempts d) = 0 then El ''p'' [] [lit ''No delivery attempts yet.'']
                else El ''div'' [] (map (attemptCard h) (wd_deliveryAttempts d)))]]))"

definition webhookLogDetailView :: "host \<Rightarrow> log_detail_hook \<Rightarrow> 'e node list" where
  "webhookLogDetailView h s =
     (if wd_isLoading s then [detailSkeleton]
      else if truthy (wd_error s) then [El ''div'' [] [El ''div'' [] [Txt (the (wd_error s))]]]
      else (case wd_detail s of None \<Rightarrow> [] | Some d \<Rightarrow> [detail_body h d]))"

lemmas wd_defs =
  wd_init_def wd_request_def wd_load_begin_def wd_load_end_def wd_commit_def wd_load_settled_def wd_unmount_def wd_other_def

subsection \<open>The loading contract\<close>

definition wd_view :: "log_detail_hook \<Rightarrow> log_detail_hook" where
  "wd_view s = s\<lparr> wd_cell := new_effect \<rparr>"

interpretation wd: cancellable_load wd_cell wd_view wd_isLoading "wd_request base" wd_load_begin wd_load_end
  "wd_commit base" wd_load_settled wd_unmount wd_other for base
  by unfold_locales
    (auto simp: wd_view_def wd_defs commit_effect_def Let_def split: sum.split if_splits)

lemma wd_run_steps: "wd_run base = wd.steps base"
  by (rule ext)+ (simp add: wd_run_def wd.steps_def wd.step_def)

lemma wd_run_ok: "effect_ok (wd_cell (wd_run base evs wd_init))"
  unfolding wd_run_steps by (rule wd.steps_ok) (simp add: wd_init_def)

lemma wd_cells: "wd_view s = wd_view t \<Longrightarrow> wd_detail s = wd_detail t \<and> wd_error s = wd_error t"
  by (cases s, cases t) (simp add: wd_view_def)

lemma view_of_wd_view: "webhookLogDetailView h (wd_view s) = webhookLogDetailView h s"
  by (simp add: wd_view_def webhookLogDetailView_def)

subsection \<open>Properties\<close>

text \<open>C25: After another log has been selected, the panel shows exactly the detail the server returned for that
  log's own request: the answers for logs selected earlier, arriving before or after it, are ignored,
  and an earlier error is gone.\<close>

theorem detail_of_selected_log:
  fixes base logId :: jstring and st :: storage and d :: webhook_log_detail and h :: host
    and evs0 before after :: "(jstring option, js_exn + webhook_log_detail, unit) hook_event list"
  defines "s \<equiv> wd_run base evs0 wd_init"
  defines "n \<equiv> length (ef_runs (wd_cell s))"
  assumes due: "ef_deps (wd_cell s) \<noteq> Some (Some logId)" "logId \<noteq> []"
    and stale: "\<forall>ev\<in>set before \<union> set after. stale_event n ev"
  shows "webhookLogDetailView h (wd_run base (Commit st (Some logId) # before @ Settled n (Inr d) # after) s)
      = [detail_body h d :: 'e node]
    \<and> run_request (ef_runs (wd_cell (wd_commit base st (Some logId) s)) ! n)
      = apiRequest base st (fetchWebhookLogDetail logId)"
proof -
  let ?t = "wd_run base (Commit st (Some logId) # before @ Settled n (Inr d) # after) s"
  have due': "effect_due (Some logId) (wd_cell s)" using due by (simp add: effect_due_def)
  have q: "wd_request base st (Some logId) = Some (apiRequest base st (fetchWebhookLogDetail logId))"
    using due by (simp add: wd_request_def)
  have ok: "effect_ok (wd_cell s)" unfolding s_def by (rule wd_run_ok)
  have "wd_view ?t = wd_load_end (Inr d) (wd_load_begin (wd_view s))"
    unfolding wd_run_steps
    using wd.fresh_result [OF ok due' q n_def [THEN meta_eq_to_obj_eq]] stale by simp
  then have "webhookLogDetailView h (wd_view ?t) = [detail_body h d]"
    by (simp add: webhookLogDetailView_def wd_load_end_def wd_load_begin_def)
  moreover have "run_request (ef_runs (wd_cell (wd_commit base st (Some logId) s)) ! n)
      = apiRequest base st (fetchWebhookLogDetail logId)"
    using commit_starts(4) [OF due'] by (simp add: wd.cell_commit q n_def)
  ultimately show ?thesis by (simp add: view_of_wd_view)
qed

definition demo_detail :: webhook_log_detail where
  "demo_detail = \<lparr> wd_id = js ''1'', wd_method = js ''POST'', wd_url = js ''u'', wd_status = js ''retry'', wd_payload = JNull,
     wd_attemptCount = 1, wd_createdAt = [], wd_updatedAt = [], wd_nextRetryAt = None, wd_deliveryAttempts = [] \<rparr>"

lemma detail_of_selected_log_witness:
  "webhookLogDetailView plain_host (wd_run [] [Commit Map.empty (Some (js ''2'')), Settled 0 (Inl (Js_Error [])),
       Settled 1 (Inr demo_detail), Settled 0 (Inl (Js_Error []))]
     (wd_run [] [Commit Map.empty (Some (js ''1''))] wd_init)) = [detail_body plain_host demo_detail :: unit node]"
proof -
  have "length (ef_runs (wd_cell (wd_run [] [Commit Map.empty (Some (js ''1''))] wd_init))) = 1"
    "ef_deps (wd_cell (wd_run [] [Commit Map.empty (Some (js ''1''))] wd_init)) \<noteq> Some (Some (js ''2''))"
    by (simp_all add: wd_run_def wd_defs effect_defs)
  then show ?thesis
    using detail_of_selected_log [where 'e = unit, of "[]" "[Commit Map.empty (Some (js ''1''))]" "js ''2''"
        "[Settled 0 (Inl (Js_Error []))]" "[Settled 0 (Inl (Js_Error []))]" plain_host Map.empty demo_detail]
    by (simp add: stale_event_def)
qed

text \<open>Closing the panel while a detail is on its way clears it for good: whatever answers arrive later, no
  detail and no error comes back; but the loading flag of the closed panel stays set until the next
  log has been loaded.\<close>

theorem closed_detail_stays_closed:
  fixes base :: jstring and st :: storage and evs0 answers :: "(jstring option, js_exn + webhook_log_detail, unit) hook_event list"
  defines "s \<equiv> wd_run base evs0 wd_init"
  defines "t \<equiv> wd_run base (Commit st None # answers) s"
  assumes "ef_deps (wd_cell s) \<noteq> Some None"
    and "\<forall>ev\<in>set answers. stale_event (length (ef_runs (wd_cell s))) ev"
  shows "wd_detail t = None \<and> wd_error t = None \<and> wd_isLoading t = wd_isLoading s"
proof -
  let ?s1 = "wd_commit base st None s"
  have due: "effect_due None (wd_cell s)" using assms(3) by (simp add: effect_due_def)
  have ok: "effect_ok (wd_cell s)" unfolding s_def by (rule wd_run_ok)
  have "\<forall>i<length (ef_runs (wd_cell s)). dead i (wd_cell ?s1)"
    using ok due by (simp add: wd.cell_commit commit_kills)
  from wd.stale_events [OF this assms(4)] have "wd_view t = wd_view ?s1 \<and> wd_isLoading t = wd_isLoading ?s1"
    by (simp add: t_def wd_run_steps)
  moreover have "wd_detail ?s1 = None" "wd_error ?s1 = None" "wd_isLoading ?s1 = wd_isLoading s"
    using due by (simp_all add: wd_commit_def)
  ultimately show ?thesis using wd_cells [of t ?s1] by simp
qed

lemma closed_detail_stays_closed_witness:
  "wd_detail (wd_run [] [Commit Map.empty None, Settled 0 (Inr demo_detail)]
     (wd_run [] [Commit Map.empty (Some (js ''1''))] wd_init)) = None"
proof -
  have "ef_deps (wd_cell (wd_run [] [Commit Map.empty (Some (js ''1''))] wd_init)) \<noteq> Some None"
    "length (ef_runs (wd_cell (wd_run [] [Commit Map.empty (Some (js ''1''))] wd_init))) = 1"
    by (simp_all add: wd_run_def wd_defs effect_defs)
  then show ?thesis
    using closed_detail_stays_closed [of "[]" "[Commit Map.empty (Some (js ''1''))]" "[Settled 0 (Inr demo_detail)]" Map.empty]
    by (simp add: stale_event_def)
qed

text \<open>The payload and the response bodies are shown as indented JSON: a value and the text of that value,
  compact or indented, format to the same text; a text that is not JSON is shown unchanged, and
  \<open>null\<close> as nothing.\<close>

theorem formatJson_texts:
  assumes "wf_json v" "\<And>s. v \<noteq> JStr s" "v \<noteq> JNull"
  shows "formatJson (JStr (JSON_stringify ind v)) = formatJson v \<and> JSON_parse (formatJson v) = Some (erase v)"
proof -
  have "formatJson v = JSON_stringify 2 v" using assms by (cases v) (auto simp: formatJson_def)
  then show ?thesis by (simp add: formatJson_def parse_stringify [OF assms(1)] stringify_erase)
qed

lemma formatJson_texts_witness:
  "formatJson (JStr (JSON_stringify 0 (JArr [JBool True, JNull]))) = formatJson (JArr [JBool True, JNull])"
  by (rule formatJson_texts [THEN conjunct1]) auto

end
