(* ===== verification/Logs.thy ===== *)
theory Logs
  imports Log_Detail
begin

text \<open>
  \<open>features/dashboard/hooks/use-webhook-logs.ts\<close> and \<open>pages/logs-page.tsx\<close>: the delivery log with its
  status filter, its debounced search and its pages. The hook has three effects, run in their order
  when a render is committed: the debounce timer of the search text, the reset of the page after a
  change of the filters, and the fetch. All three see the values of the committed render, so the
  fetch of the commit that resets the page still asks for the old page; the render that follows
  cancels it.
\<close>

subsection \<open>The hook\<close>

type_synonym logs_deps = "int \<times> jstring \<times> jstring \<times> jstring option"

record logs_hook =
  wl_cell :: "logs_deps effect"
  wl_logs :: "webhook_log list"
  wl_isLoading :: bool
  wl_error :: "jstring option"
  wl_page :: int
  wl_totalPages :: int
  wl_statusFilter :: jstring
  wl_search :: jstring
  wl_debouncedSearch :: jstring
  wl_isFirstRender :: bool
  wl_search_deps :: "jstring option"
  wl_timer :: "jstring option"
  wl_filter_deps :: "(jstring \<times> jstring) option"

definition wl_init :: logs_hook where
  "wl_init = \<lparr> wl_cell = new_effect, wl_logs = [], wl_isLoading = True, wl_error = None, wl_page = 1,
     wl_totalPages = 1, wl_statusFilter = [], wl_search = [], wl_debouncedSearch = [], wl_isFirstRender = True,
     wl_search_deps = None, wl_timer = None, wl_filter_deps = None \<rparr>"

text \<open>The debounce effect: its cleanup clears the timer, its body sets one that carries the search text.\<close>

definition wl_debounce_effect :: "logs_hook \<Rightarrow> logs_hook" where
  "wl_debounce_effect s =
     (if wl_search_deps s = Some (wl_search s) then s
      else s\<lparr> wl_search_deps := Some (wl_search s), wl_timer := Some (wl_search s) \<rparr>)"

definition wl_timer_fired :: "logs_hook \<Rightarrow> logs_hook" where
  "wl_timer_fired s =
     (case wl_timer s of
        None \<Rightarrow> s
      | Some t \<Rightarrow> s\<lparr> wl_debouncedSearch := t, wl_timer := None \<rparr>)"

definition wl_reset_effect :: "logs_hook \<Rightarrow> logs_hook" where
  "wl_reset_effect s =
     (if wl_filter_deps s = Some (wl_statusFilter s, wl_debouncedSearch s) then s
      else (let s1 = s\<lparr> wl_filter_deps := Some (wl_statusFilter s, wl_debouncedSearch s) \<rparr>
            in if wl_isFirstRender s then s1\<lparr> wl_isFirstRender := False \<rparr> else s1\<lparr> wl_page := 1 \<rparr>))"

definition logs_params :: "logs_deps \<Rightarrow> webhook_logs_params" where
  "logs_params = (\<lambda>(page, statusFilter, debouncedSearch, _).
     \<lparr> wp_status = (if statusFilter = [] then None else Some statusFilter),
       wp_search = (if debouncedSearch = [] then None else Some debouncedSearch),
       wp_page = Some page, wp_limit = Some 20 \<rparr>)"

definition wl_request :: "jstring \<Rightarrow> storage \<Rightarrow> logs_deps \<Rightarrow> http_request option" where
  "wl_request base st d =
     (case d of (_, _, _, orgId) \<Rightarrow>
        map_option (\<lambda>_. apiRequest base st (fetchWebhookLogs (Some (logs_params d)))) orgId)"

definition wl_load_begin :: "logs_hook \<Rightarrow> logs_hook" where
  "wl_load_begin s = s\<lparr> wl_isLoading := True, wl_error := None \<rparr>"

definition wl_load_end :: "js_exn + webhook_log paginated_response \<Rightarrow> logs_hook \<Rightarrow> logs_hook" where
  "wl_load_end r s =
     (case r of
        Inr response \<Rightarrow> s\<lparr> wl_logs := pr_data response, wl_totalPages := pr_totalPages response, wl_isLoading := False \<rparr>
      | Inl err \<Rightarrow> s\<lparr> wl_error := Some (error_message err), wl_isLoading := False \<rparr>)"

definition wl_fetch_effect :: "jstring \<Rightarrow> storage \<Rightarrow> logs_deps \<Rightarrow> logs_hook \<Rightarrow> logs_hook" where
  "wl_fetch_effect base st d s =
     (if effect_due d (wl_cell s)
      then (let s1 = s\<lparr> wl_cell := commit_effect d (wl_request base st d) (wl_cell s) \<rparr>
            in if snd (snd (snd d)) = None then s1 else wl_load_begin s1)
      else s)"

definition wl_deps :: "jstring option \<Rightarrow> logs_hook \<Rightarrow> logs_deps" where
  "wl_deps orgId s = (wl_page s, wl_statusFilter s, wl_debouncedSearch s, orgId)"

text \<open>Committing a render: its dependencies are those of the render, before the effects run.\<close>

definition wl_commit :: "jstring \<Rightarrow> storage \<Rightarrow> jstring option \<Rightarrow> logs_hook \<Rightarrow> logs_hook" where
  "wl_commit base st orgId s =
     wl_fetch_effect base st (wl_deps orgId s) (wl_reset_effect (wl_debounce_effect s))"

definition wl_load_settled :: "nat \<Rightarrow> js_exn + webhook_log paginated_response \<Rightarrow> logs_hook \<Rightarrow> logs_hook" where
  "wl_load_settled i r s =
     (let s1 = s\<lparr> wl_cell := finish_run i (wl_cell s) \<rparr>
      in if run_live i (wl_cell s) then wl_load_end r s1 else s1)"

text \<open>Unmounting runs the cleanups of the first and the third effect.\<close>

definition wl_unmount_fetch :: "logs_hook \<Rightarrow> logs_hook" where
  "wl_unmount_fetch s = s\<lparr> wl_cell := unmount_effect (wl_cell s) \<rparr>"

definition wl_unmount :: "logs_hook \<Rightarrow> logs_hook" where
  "wl_unmount s = wl_unmount_fetch (s\<lparr> wl_timer := None, wl_search_deps := None, wl_filter_deps := None \<rparr>)"

definition goToPage :: "int \<Rightarrow> logs_hook \<Rightarrow> logs_hook" where
  "goToPage p s = s\<lparr> wl_page := p \<rparr>"

definition setStatusFilter :: "jstring \<Rightarrow> logs_hook \<Rightarrow> logs_hook" where
  "setStatusFilter v s = s\<lparr> wl_statusFilter := v \<rparr>"

definition setSearch :: "jstring \<Rightarrow> logs_hook \<Rightarrow> logs_hook" where
  "setSearch v s = s\<lparr> wl_search := v \<rparr>"

lemmas wl_defs =
  wl_init_def wl_debounce_effect_def wl_timer_fired_def wl_reset_effect_def wl_request_def wl_load_begin_def
  wl_load_end_def wl_fetch_effect_def wl_deps_def wl_commit_def wl_load_settled_def wl_unmount_fetch_def
  wl_unmount_def goToPage_def setStatusFilter_def setSearch_def

subsection \<open>The page\<close>

record logs_page =
  lp_hook :: logs_hook
  lp_selectedLogId :: "jstring option"

definition lp_init :: logs_page where
  "lp_init = \<lparr> lp_hook = wl_init, lp_selectedLogId = None \<rparr>"

datatype logs_event =
    Lp_Open bool
  | Lp_Search jstring
  | Lp_Status "jstring option"
  | Lp_Select jstring
  | Lp_Previous
  | Lp_Next

fun lp_handle :: "logs_event \<Rightarrow> logs_page \<Rightarrow> logs_page" where
  "lp_handle (Lp_Open isOpen) p = (if \<not> isOpen then p\<lparr> lp_selectedLogId := None \<rparr> else p)"
| "lp_handle (Lp_Search v) p = p\<lparr> lp_hook := setSearch v (lp_hook p) \<rparr>"
| "lp_handle (Lp_Status val) p =
     p\<lparr> lp_hook := setStatusFilter (if val = Some (js ''all'') then [] else (case val of None \<Rightarrow> [] | Some v \<Rightarrow> v)) (lp_hook p) \<rparr>"
| "lp_handle (Lp_Select i) p = p\<lparr> lp_selectedLogId := Some i \<rparr>"
| "lp_handle Lp_Previous p = p\<lparr> lp_hook := goToPage (wl_page (lp_hook p) - 1) (lp_hook p) \<rparr>"
| "lp_handle Lp_Next p = p\<lparr> lp_hook := goToPage (wl_page (lp_hook p) + 1) (lp_hook p) \<rparr>"

definition lp_filters :: "logs_hook \<Rightarrow> logs_event node" where
  "lp_filters s =
     El ''div'' []
       [El ''div'' []
          [El ''Search'' [] [],
           El ''Input''
             [Attr ''placeholder'' (js ''Search endpoints...''), Attr ''value'' (wl_search s), OnText ''onChange'' Lp_Search] []],
        El ''Select'' [Attr ''value'' (wl_statusFilter s), OnValue ''onValueChange'' Lp_Status]
          [El ''SelectTrigger'' [] [El ''SelectValue'' [Attr ''placeholder'' (js ''All statuses'')] []],
           El ''SelectContent'' []
             [El ''SelectItem'' [Attr ''value'' (js ''all'')] [lit ''All statuses''],
              El ''SelectItem'' [Attr ''value'' (js ''success'')] [lit ''Success''],
              El ''SelectItem'' [Attr ''value'' (js ''failed'')] [lit ''Failed''],
              El ''SelectItem'' [Attr ''value'' (js ''pending'')] [lit ''Pending'']]]]"

text \<open>A row; an unlisted status gives the badge no variant.\<close>

definition lp_row :: "host \<Rightarrow> webhook_log \<Rightarrow> logs_event node" where
  "lp_row h log =
     El ''div'' [On ''onClick'' (Lp_Select (wl_id log))]
       [El ''span'' []
          [El ''Badge'' (case statusBadgeVariant (wl_status log) of None \<Rightarrow> [] | Some v \<Rightarrow> [Attr ''variant'' v])
             [Txt (wl_status log)]],
        El ''span'' [] [Txt (wl_endpoint log)],
        El ''span'' [] [Txt (wl_eventType log)],
        El ''span'' [] [Txt (int_text (wl_statusCode log))],
        El ''span'' [] [Txt (int_text (wl_responseTimeMs log)), lit ''ms''],
        El ''span'' [] [Txt (date_text h (wl_attemptedAt log))]]"

definition lp_table :: "host \<Rightarrow> logs_hook \<Rightarrow> logs_event node" where
  "lp_table h s =
     El ''Card'' []
       [El ''CardContent'' []
          [El ''div'' []
             [El ''span'' [] [lit ''Status''], El ''span'' [] [lit ''Endpoint''], El ''span'' [] [lit ''Event''],
              El ''span'' [] [lit ''Code''], El ''span'' [] [lit ''Time''], El ''span'' [] [lit ''Date'']],
           (if wl_isLoading s then El ''div'' [] (replicate 5 (El ''div'' [] [El ''div'' [] []]))
            else if length (wl_logs s) = 0 then
              El ''div'' []
                [El ''p'' [] [lit ''No logs yet''], El ''p'' [] [lit ''Webhook deliveries will appear here.'']]
            else El ''div'' [] (map (lp_row h) (wl_logs s)))]]"

definition lp_pager :: "logs_hook \<Rightarrow> logs_event node list" where
  "lp_pager s =
     only_if (wl_totalPages s > 1)
       [El ''div'' []
          [El ''p'' [] [lit ''Page '', Txt (int_text (wl_page s)), lit '' of '', Txt (int_text (wl_totalPages s))],
           El ''div'' []
             [El ''Button'' [Attr ''variant'' (js ''outline''), Flag ''disabled'' (wl_page s \<le> 1), On ''onClick'' Lp_Previous]
                [lit ''Previous''],
              El ''Button'' [Attr ''variant'' (js ''outline''), Flag ''disabled'' (wl_page s \<ge> wl_totalPages s),
                             On ''onClick'' Lp_Next]
                [lit ''Next'']]]]"

definition logsPage_view :: "host \<Rightarrow> logs_page \<Rightarrow> log_detail_hook \<Rightarrow> logs_event node" where
  "logsPage_view h p detail =
     (let s = lp_hook p in
      El ''Sheet'' [Flag ''open'' (lp_selectedLogId p \<noteq> None), OnBool ''onOpenChange'' Lp_Open]
        [El ''div'' []
           ([pageHeader (js ''Logs'')
               (Some (js ''Delivery history and status for your webhooks. Click a row to see details.''))]
            @ error_box (wl_error s)
            @ [lp_filters s, lp_table h s]
            @ lp_pager s),
         El ''SheetContent'' []
           (El ''SheetHeader'' []
              [El ''SheetTitle'' [] [lit ''Webhook Log Detail''],
               El ''SheetDescription'' [] [lit ''Full request and delivery information'']]
            # webhookLogDetailView h detail)])"

subsection \<open>The loading contract\<close>

datatype wl_op = Wl_Debounce | Wl_Reset | Wl_Timer | Wl_Page int | Wl_Status jstring | Wl_Search jstring | Wl_Clear

fun wl_other :: "wl_op \<Rightarrow> logs_hook \<Rightarrow> logs_hook" where
  "wl_other Wl_Debounce s = wl_debounce_effect s"
| "wl_other Wl_Reset s = wl_reset_effect s"
| "wl_other Wl_Timer s = wl_timer_fired s"
| "wl_other (Wl_Page p) s = goToPage p s"
| "wl_other (Wl_Status v) s = setStatusFilter v s"
| "wl_other (Wl_Search v) s = setSearch v s"
| "wl_other Wl_Clear s = s\<lparr> wl_timer := None, wl_search_deps := None, wl_filter_deps := None \<rparr>"

definition wl_set_cell :: "logs_deps effect \<Rightarrow> logs_hook \<Rightarrow> logs_hook" where
  "wl_set_cell e s = s\<lparr> wl_cell := e \<rparr>"

lemma wl_other_frame: "wl_cell (wl_other x s) = wl_cell s \<and> wl_isLoading (wl_other x s) = wl_isLoading s"
  by (cases x) (auto simp: wl_defs Let_def split: option.split)

interpretation wl: data_hook wl_cell wl_set_cell wl_isLoading "wl_request base" wl_load_begin wl_load_end
  "wl_fetch_effect base" wl_load_settled wl_unmount_fetch wl_other for base
  by unfold_locales
    (auto simp: wl_set_cell_def wl_other_frame wl_fetch_effect_def wl_request_def wl_load_begin_def wl_load_end_def
      wl_load_settled_def wl_unmount_fetch_def Let_def split: sum.split prod.splits)

text \<open>
  The steps of the hook as the page sees them, and each of them as events of the contract: a commit
  is the two other effects and then the fetch effect with the dependencies of the render.
\<close>

datatype logs_step =
    Ls_Render storage "jstring option"
  | Ls_Timer
  | Ls_Settled nat "js_exn + webhook_log paginated_response"
  | Ls_Page int
  | Ls_Status jstring
  | Ls_Search jstring
  | Ls_Unmount

fun wl_step :: "jstring \<Rightarrow> logs_step \<Rightarrow> logs_hook \<Rightarrow> logs_hook" where
  "wl_step base (Ls_Render st orgId) s = wl_commit base st orgId s"
| "wl_step base Ls_Timer s = wl_timer_fired s"
| "wl_step base (Ls_Settled i r) s = wl_load_settled i r s"
| "wl_step base (Ls_Page p) s = goToPage p s"
| "wl_step base (Ls_Status v) s = setStatusFilter v s"
| "wl_step base (Ls_Search v) s = setSearch v s"
| "wl_step base Ls_Unmount s = wl_unmount s"

definition wl_run :: "jstring \<Rightarrow> logs_step list \<Rightarrow> logs_hook \<Rightarrow> logs_hook" where
  "wl_run base evs s = fold (wl_step base) evs s"

fun hook_events ::
  "logs_step \<Rightarrow> logs_hook \<Rightarrow> (logs_deps, js_exn + webhook_log paginated_response, wl_op) hook_event list" where
  "hook_events (Ls_Render st orgId) s = [Other Wl_Debounce, Other Wl_Reset, Commit st (wl_deps orgId s)]"
| "hook_events Ls_Timer s = [Other Wl_Timer]"
| "hook_events (Ls_Settled i r) s = [Settled i r]"
| "hook_events (Ls_Page p) s = [Other (Wl_Page p)]"
| "hook_events (Ls_Status v) s = [Other (Wl_Status v)]"
| "hook_events (Ls_Search v) s = [Other (Wl_Search v)]"
| "hook_events Ls_Unmount s = [Other Wl_Clear, Unmount]"

lemma wl_step_refines: "wl_step base ev s = wl.steps base (hook_events ev s) s"
  by (cases ev) (simp_all add: wl_commit_def wl_unmount_def)

lemma wl_run_refines: "\<exists>es. wl_run base evs s = wl.steps base es s"
proof (induction evs arbitrary: s)
  case Nil
  have "wl_run base [] s = wl.steps base [] s" by (simp add: wl_run_def)
  then show ?case by blast
next
  case (Cons ev evs)
  from Cons [of "wl_step base ev s"] obtain es where "wl_run base evs (wl_step base ev s) = wl.steps base es (wl_step base ev s)"
    by blast
  then have "wl_run base (ev # evs) s = wl.steps base (hook_events ev s @ es) s"
    by (simp add: wl_run_def wl_step_refines)
  then show ?case by blast
qed

lemma wl_run_ok: "effect_ok (wl_cell (wl_run base evs wl_init))"
proof -
  obtain es where "wl_run base evs wl_init = wl.steps base es wl_init" using wl_run_refines by blast
  then show ?thesis by (simp add: wl.steps_ok wl_init_def)
qed

lemma wl_cells:
  "wl_set_cell e s = wl_set_cell e t \<Longrightarrow> wl_logs s = wl_logs t \<and> wl_error s = wl_error t \<and> wl_totalPages s = wl_totalPages t
    \<and> wl_page s = wl_page t \<and> wl_statusFilter s = wl_statusFilter t \<and> wl_debouncedSearch s = wl_debouncedSearch t
    \<and> wl_isLoading s = wl_isLoading t \<and> wl_search s = wl_search t"
  by (cases s, cases t) (simp add: wl_set_cell_def)

subsection \<open>Rendered states\<close>

text \<open>A state that another commit for the same organization leaves as it is: all effects have run.\<close>

definition wl_rendered :: "jstring option \<Rightarrow> logs_hook \<Rightarrow> bool" where
  "wl_rendered orgId s \<longleftrightarrow> wl_search_deps s = Some (wl_search s)
     \<and> wl_filter_deps s = Some (wl_statusFilter s, wl_debouncedSearch s)
     \<and> ef_deps (wl_cell s) = Some (wl_deps orgId s) \<and> \<not> wl_isFirstRender s"

lemma wl_commit_rendered: "wl_rendered orgId s \<Longrightarrow> wl_commit base st orgId s = s"
  by (simp add: wl_rendered_def wl_commit_def wl_debounce_effect_def wl_reset_effect_def wl_fetch_effect_def
      effect_due_def)

text \<open>What a single commit does to the cells the effects read and write.\<close>

lemma commit_effect_deps: "ef_deps (commit_effect d rq e) = Some d"
  by (auto simp: commit_effect_def start_run_def effect_due_def split: option.split)

lemma wl_commit_frame:
  "wl_statusFilter (wl_commit base st orgId s) = wl_statusFilter s"
  "wl_search (wl_commit base st orgId s) = wl_search s"
  "wl_debouncedSearch (wl_commit base st orgId s) = wl_debouncedSearch s"
  "wl_search_deps (wl_commit base st orgId s) = Some (wl_search s)"
  "wl_filter_deps (wl_commit base st orgId s) = Some (wl_statusFilter s, wl_debouncedSearch s)"
  "\<not> wl_isFirstRender s \<Longrightarrow> \<not> wl_isFirstRender (wl_commit base st orgId s)"
  "wl_cell (wl_commit base st orgId s) = commit_effect (wl_deps orgId s) (wl_request base st (wl_deps orgId s)) (wl_cell s)"
  by (auto simp: wl_commit_def wl_defs effect_due_def commit_effect_def Let_def split: prod.splits)

lemma wl_commit_page:
  "wl_page (wl_commit base st orgId s) =
     (if wl_filter_deps s \<noteq> Some (wl_statusFilter s, wl_debouncedSearch s) \<and> \<not> wl_isFirstRender s then 1 else wl_page s)"
  by (auto simp: wl_commit_def wl_defs Let_def split: prod.splits)

lemma wl_commit_timer:
  "wl_timer (wl_commit base st orgId s) = (if wl_search_deps s = Some (wl_search s) then wl_timer s else Some (wl_search s))"
  by (auto simp: wl_commit_def wl_defs Let_def split: prod.splits)

text \<open>Two commits reach a rendered state.\<close>

lemma wl_two_commits:
  assumes "\<not> wl_isFirstRender s"
  shows "wl_rendered orgId (wl_commit base st2 orgId (wl_commit base st1 orgId s))"
  using assms by (simp add: wl_rendered_def wl_commit_frame wl_commit_page commit_effect_deps wl_deps_def)

text \<open>The filters the page was last reset for are those of the last request.\<close>

definition wl_inv :: "logs_hook \<Rightarrow> bool" where
  "wl_inv s \<longleftrightarrow> effect_ok (wl_cell s)
     \<and> (\<forall>p f d orgId. ef_deps (wl_cell s) = Some (p, f, d, orgId) \<longrightarrow> wl_filter_deps s = Some (f, d))"

lemma wl_step_inv: "wl_inv s \<Longrightarrow> wl_inv (wl_step base ev s)"
proof (cases ev)
  case (Ls_Render st orgId)
  then show "wl_inv s \<Longrightarrow> ?thesis"
    by (simp add: wl_inv_def wl_commit_frame commit_effect_deps wl_deps_def commit_effect_ok)
next
  case (Ls_Settled i r)
  have "wl_filter_deps (wl_load_settled i r s) = wl_filter_deps s"
    by (auto simp: wl_defs Let_def split: sum.split)
  moreover have "ef_deps (finish_run i (wl_cell s)) = ef_deps (wl_cell s)" by (simp add: finish_run_def)
  ultimately show "wl_inv s \<Longrightarrow> ?thesis" using Ls_Settled by (simp add: wl_inv_def wl.cell_settle finish_run_ok)
next
  case Ls_Unmount
  then show "wl_inv s \<Longrightarrow> ?thesis"
    using unmount_effect_ok [of "wl_cell s"] by (simp add: wl_inv_def wl_unmount_def wl_unmount_fetch_def unmount_effect_def)
qed (auto simp: wl_inv_def wl_timer_fired_def goToPage_def setStatusFilter_def setSearch_def split: option.splits)

lemma wl_run_inv: "wl_inv (wl_run base evs wl_init)"
proof -
  have "wl_inv s \<Longrightarrow> wl_inv (fold (wl_step base) evs s)" for s
    by (induction evs arbitrary: s) (auto simp: wl_step_inv)
  moreover have "wl_inv wl_init" by (simp add: wl_inv_def wl_init_def new_effect_def effect_ok_def)
  ultimately show ?thesis by (simp add: wl_run_def)
qed

lemma wl_commit_load:
  assumes "effect_due (wl_deps (Some i) s) (wl_cell s)"
  shows "wl_error (wl_commit base st (Some i) s) = None \<and> wl_isLoading (wl_commit base st (Some i) s)"
  using assms by (auto simp: wl_commit_def wl_defs Let_def effect_due_def split: prod.splits)

subsection \<open>Changing the filters\<close>

text \<open>
  After the status filter or the settled search text has changed, two renders bring the hook to the
  first page of the new filters, with exactly that request awaited.
\<close>

definition rerendered :: "jstring \<Rightarrow> storage \<Rightarrow> jstring \<Rightarrow> logs_hook \<Rightarrow> logs_hook" where
  "rerendered base st orgId s = wl_commit base st (Some orgId) (wl_commit base st (Some orgId) s)"

lemma rerendered_filters:
  fixes orgId :: jstring
  assumes inv: "wl_inv s" and mounted: "\<not> wl_isFirstRender s"
    and changed: "wl_filter_deps s \<noteq> Some (wl_statusFilter s, wl_debouncedSearch s)"
  defines "d \<equiv> (1, wl_statusFilter s, wl_debouncedSearch s, Some orgId)"
  shows "wl_page (rerendered base st orgId s) = 1 \<and> wl_rendered (Some orgId) (rerendered base st orgId s)
    \<and> wl_error (rerendered base st orgId s) = None
    \<and> (\<exists>n. awaits d (apiRequest base st (fetchWebhookLogs (Some (logs_params d)))) n (wl_cell (rerendered base st orgId s)))"
proof -
  let ?s1 = "wl_commit base st (Some orgId) s" and ?s2 = "rerendered base st orgId s"
  let ?q = "\<lambda>d. apiRequest base st (fetchWebhookLogs (Some (logs_params d)))"
  have deps1: "wl_deps (Some orgId) s = (wl_page s, wl_statusFilter s, wl_debouncedSearch s, Some orgId)"
    by (simp add: wl_deps_def)
  have due: "effect_due (wl_deps (Some orgId) s) (wl_cell s)"
    using inv changed by (auto simp: effect_due_def wl_inv_def deps1)
  have page1: "wl_page ?s1 = 1" using mounted changed by (simp add: wl_commit_page)
  then have deps2: "wl_deps (Some orgId) ?s1 = d" by (simp add: wl_deps_def d_def wl_commit_frame)
  have page2: "wl_page ?s2 = 1" using wl_commit_page [of base st "Some orgId" ?s1] page1 by (simp add: rerendered_def)
  have aw1: "awaits (wl_deps (Some orgId) s) (?q (wl_deps (Some orgId) s)) (length (ef_runs (wl_cell s))) (wl_cell ?s1)"
    using commit_awaits [OF due] by (simp add: wl_commit_frame wl_request_def deps1)
  have "\<exists>n. awaits d (?q d) n (wl_cell ?s2)"
  proof (cases "effect_due d (wl_cell ?s1)")
    case True
    then show ?thesis
      using commit_awaits [OF True] by (auto simp: rerendered_def wl_commit_frame(7) deps2, auto simp: wl_request_def d_def)
  next
    case False
    then have "wl_deps (Some orgId) s = d" using aw1 by (simp add: effect_due_def awaits_def)
    then have "awaits d (?q d) (length (ef_runs (wl_cell s))) (wl_cell ?s2)"
      using aw1 False by (simp add: rerendered_def wl_commit_frame(7) deps2, simp add: commit_effect_def)
    then show ?thesis by blast
  qed
  moreover have "wl_error ?s2 = None"
  proof (cases "effect_due (wl_deps (Some orgId) ?s1) (wl_cell ?s1)")
    case True
    then show ?thesis by (simp add: rerendered_def wl_commit_load)
  next
    case False
    then have "wl_error (wl_commit base st (Some orgId) ?s1) = wl_error ?s1"
      by (simp add: wl_commit_def [of base st _ ?s1] wl_fetch_effect_def wl_debounce_effect_def wl_reset_effect_def
          effect_due_def Let_def)
    then show ?thesis using wl_commit_load [OF due] by (simp add: rerendered_def)
  qed
  ultimately show ?thesis using page2 wl_two_commits [OF mounted] by (simp add: rerendered_def)
qed

subsection \<open>The table only shows answers\<close>

type_synonym logs_shown = "webhook_log list \<times> int \<times> jstring option"

definition wl_shown :: "logs_hook \<Rightarrow> logs_shown" where
  "wl_shown s = (wl_logs s, wl_totalPages s, wl_error s)"

definition wl_shown_begin :: "logs_shown \<Rightarrow> logs_shown" where
  "wl_shown_begin = (\<lambda>(logs, totalPages, _). (logs, totalPages, None))"

definition wl_shown_end :: "js_exn + webhook_log paginated_response \<Rightarrow> logs_shown \<Rightarrow> logs_shown" where
  "wl_shown_end r = (\<lambda>(logs, totalPages, error).
     case r of
       Inr response \<Rightarrow> (pr_data response, pr_totalPages response, error)
     | Inl err \<Rightarrow> (logs, totalPages, Some (error_message err)))"

definition wl_asks :: "logs_deps \<Rightarrow> bool" where
  "wl_asks = (\<lambda>(_, _, _, orgId). orgId \<noteq> None)"

lemmas wl_shown_defs = wl_shown_def wl_shown_begin_def wl_shown_end_def wl_asks_def

lemma wl_shown_other: "wl_shown (wl_other x s) = wl_shown s"
  by (cases x) (auto simp: wl_shown_def wl_defs Let_def split: option.split)

interpretation wl_read: read_hook wl_cell wl_shown wl_isLoading "wl_request base" wl_shown_begin wl_shown_end
  "wl_fetch_effect base" wl_load_settled wl_unmount_fetch wl_other wl_asks for base
proof unfold_locales
  show "(wl_request base st d \<noteq> None) = wl_asks d" for base st d
    by (auto simp: wl_request_def wl_asks_def split: prod.split)
  show "wl_shown (wl_other x s) = wl_shown s" for x s by (rule wl_shown_other)
qed (auto simp: wl_shown_defs wl_other_frame wl_fetch_effect_def wl_request_def wl_load_begin_def wl_load_end_def
    wl_load_settled_def wl_unmount_fetch_def Let_def commit_effect_def split: sum.split prod.splits)

fun logs_answered ::
  "(logs_deps \<Rightarrow> js_exn + webhook_log paginated_response \<Rightarrow> bool) \<Rightarrow> logs_step \<Rightarrow> logs_hook \<Rightarrow> bool" where
  "logs_answered ans (Ls_Settled i r) s = (run_pending i (wl_cell s) \<longrightarrow> ans (run_deps (ef_runs (wl_cell s) ! i)) r)"
| "logs_answered ans _ s = True"

lemma wl_step_truthful:
  assumes "wl_read.truthful ans s" "logs_answered ans ev s"
  shows "wl_read.truthful ans (wl_step base ev s)"
proof -
  have "guarded (answered wl_cell ans) (wl_read.step base) (hook_events ev s) s"
    using assms(2) by (cases ev) simp_all
  then have "wl_read.truthful ans (wl_read.steps base (hook_events ev s) s)"
    by (rule wl_read.truthful_steps [OF assms(1)])
  then show ?thesis by (cases ev) (simp_all add: wl_commit_def wl_unmount_def)
qed

lemma wl_run_truthful:
  "wl_read.truthful ans s \<Longrightarrow> guarded (logs_answered ans) (wl_step base) evs s \<Longrightarrow> wl_read.truthful ans (wl_run base evs s)"
  by (induction evs arbitrary: s) (auto simp: wl_run_def wl_step_truthful)

subsection \<open>Properties\<close>

definition settle_events :: "(nat \<times> (js_exn + webhook_log paginated_response)) list \<Rightarrow> logs_step list" where
  "settle_events xs = map (\<lambda>(i, r). Ls_Settled i r) xs"

lemma settle_events_run:
  "wl_run base (settle_events xs) s = wl.steps base (map (\<lambda>(i, r). Settled i r) xs) s"
  by (induction xs arbitrary: s) (auto simp: settle_events_def wl_run_def)

lemma wl_run_Cons: "wl_run base (ev # evs) s = wl_run base evs (wl_step base ev s)"
  by (simp add: wl_run_def)

lemma wl_run_append: "wl_run base (xs @ ys) s = wl_run base ys (wl_run base xs s)"
  by (simp add: wl_run_def)

text \<open>C5: Choosing another status on a mounted page, whatever page and search it was on, brings the hook to the
  first page: the request then awaited is the one for page 1 with the new status and the current
  search, and its answer is what the table shows, also when answers to any of the earlier requests
  arrive before or after it.\<close>

theorem status_filter_shows_first_page:
  fixes base orgId v :: jstring and st :: storage and earlier :: "logs_step list"
    and before after :: "(nat \<times> (js_exn + webhook_log paginated_response)) list"
    and response :: "webhook_log paginated_response"
  defines "s \<equiv> wl_run base earlier wl_init"
  defines "s2 \<equiv> rerendered base st orgId (setStatusFilter v s)"
  defines "n \<equiv> length (ef_runs (wl_cell s2)) - 1"
  defines "t \<equiv> wl_run base (settle_events before @ Ls_Settled n (Inr response) # settle_events after) s2"
  assumes mounted: "\<not> wl_isFirstRender s" and changed: "wl_filter_deps s \<noteq> Some (v, wl_debouncedSearch s)"
    and stale: "\<forall>(i, r)\<in>set before \<union> set after. i < n"
  shows "wl_page t = 1 \<and> wl_logs t = pr_data response \<and> wl_totalPages t = pr_totalPages response
    \<and> wl_error t = None \<and> \<not> wl_isLoading t
    \<and> run_request (ef_runs (wl_cell s2) ! n)
      = apiRequest base st (fetchWebhookLogs (Some (logs_params (1, v, wl_debouncedSearch s, Some orgId))))"
proof -
  let ?q = "apiRequest base st (fetchWebhookLogs (Some (logs_params (1, v, wl_debouncedSearch s, Some orgId))))"
  have "wl_inv (setStatusFilter v s)"
    using wl_step_inv [of s base "Ls_Status v"] wl_run_inv by (simp add: s_def)
  then have r: "wl_page s2 = 1 \<and> wl_error s2 = None
      \<and> (\<exists>m. awaits (1, v, wl_debouncedSearch s, Some orgId) ?q m (wl_cell s2))"
    using rerendered_filters [of "setStatusFilter v s" base st orgId] mounted changed
    by (simp add: s2_def setStatusFilter_def)
  then obtain m where m: "awaits (1, v, wl_debouncedSearch s, Some orgId) ?q m (wl_cell s2)" by blast
  then have "Suc m = length (ef_runs (wl_cell s2))" by (simp only: awaits_def)
  then have "m = n" unfolding n_def by arith
  with m have aw: "awaits (1, v, wl_debouncedSearch s, Some orgId) ?q n (wl_cell s2)" by simp
  have "s2 = wl_run base (earlier @ [Ls_Status v, Ls_Render st (Some orgId), Ls_Render st (Some orgId)]) wl_init"
    by (simp add: s2_def s_def rerendered_def wl_run_def)
  then have ok: "effect_ok (wl_cell s2)" using wl_run_ok by simp
  have ev: "\<forall>ev\<in>set (map (\<lambda>(i, r). Settled i r) before). stale_event n ev"
    "\<forall>ev\<in>set (map (\<lambda>(i, r). Settled i r) after). stale_event n ev"
    using stale by (auto simp: stale_event_def)
  have "t = wl.steps base (map (\<lambda>(i, r). Settled i r) before @ Settled n (Inr response)
      # map (\<lambda>(i, r). Settled i r) after) s2"
    by (simp add: t_def wl_run_append wl_run_Cons settle_events_run)
  then have "wl_set_cell new_effect t = wl_load_end (Inr response) (wl_set_cell new_effect s2) \<and> \<not> wl_isLoading t"
    using wl.live_result [OF ok aw ev] by simp
  then have "wl_set_cell new_effect t = wl_set_cell new_effect (wl_load_end (Inr response) s2) \<and> \<not> wl_isLoading t"
    by (simp add: wl_set_cell_def wl_load_end_def)
  then show ?thesis
    using wl_cells [of new_effect t "wl_load_end (Inr response) s2"] r aw
    by (simp add: wl_load_end_def awaits_def)
qed

definition mounted_logs :: logs_hook where
  "mounted_logs = wl_run [] [Ls_Render Map.empty (Some (js ''a'')), Ls_Page 3, Ls_Render Map.empty (Some (js ''a''))] wl_init"

lemma mounted_logs_facts:
  "\<not> wl_isFirstRender mounted_logs" "wl_filter_deps mounted_logs = Some ([], [])" "wl_debouncedSearch mounted_logs = []"
  "length (ef_runs (wl_cell mounted_logs)) = 2" "wl_page mounted_logs = 3"
  by (simp_all add: mounted_logs_def wl_run_def wl_defs effect_defs)

lemma status_filter_shows_first_page_witness:
  "wl_page (wl_run [] [] mounted_logs) = 3
   \<and> wl_page (wl_run [] [Ls_Settled 3 (Inr \<lparr> pr_data = [], pr_total = 0, pr_page = 1, pr_limit = 20, pr_totalPages = 0 \<rparr>)]
      (rerendered [] Map.empty (js ''a'') (setStatusFilter (js ''failed'') mounted_logs))) = 1"
proof -
  let ?s2 = "rerendered [] Map.empty (js ''a'') (setStatusFilter (js ''failed'') mounted_logs)"
  have "length (ef_runs (wl_cell ?s2)) = 4"
    by (simp add: rerendered_def mounted_logs_def wl_run_def wl_defs effect_defs)
  then show ?thesis
    using status_filter_shows_first_page [where base = "[]" and orgId = "js ''a''" and v = "js ''failed''" and st = Map.empty
        and earlier = "[Ls_Render Map.empty (Some (js ''a'')), Ls_Page 3, Ls_Render Map.empty (Some (js ''a''))]"
        and before = "[]" and after = "[]"
        and response = "\<lparr> pr_data = [], pr_total = 0, pr_page = 1, pr_limit = 20, pr_totalPages = 0 \<rparr>"]
      mounted_logs_facts
    by (simp add: mounted_logs_def [symmetric] settle_events_def, simp add: wl_run_def)
qed


definition only_page_one :: "logs_deps \<Rightarrow> js_exn + webhook_log paginated_response \<Rightarrow> bool" where
  "only_page_one = (\<lambda>(page, _) r. if page = 1 then r = Inr \<lparr> pr_data = [], pr_total = 0, pr_page = 1, pr_limit = 20,
     pr_totalPages = 7 \<rparr> else r = Inl (Js_Error (js ''no such page'')))"


text \<open>Typing a sequence of search texts, with a render after each.\<close>

fun type_texts :: "jstring \<Rightarrow> storage \<Rightarrow> jstring option \<Rightarrow> jstring list \<Rightarrow> logs_hook \<Rightarrow> logs_hook" where
  "type_texts base st orgId [] s = s"
| "type_texts base st orgId (t # ts) s = type_texts base st orgId ts (wl_commit base st orgId (setSearch t s))"

text \<open>The timer of a rendered hook carries the text in the search box, or that text has arrived already.\<close>

definition timer_ok :: "logs_hook \<Rightarrow> bool" where
  "timer_ok s \<longleftrightarrow> wl_timer s = Some (wl_search s) \<or> wl_timer s = None \<and> wl_debouncedSearch s = wl_search s"

lemma type_one:
  fixes base t :: jstring and st :: storage
  assumes "wl_rendered orgId s" "timer_ok s"
  defines "u \<equiv> wl_commit base st orgId (setSearch t s)"
  shows "wl_rendered orgId u \<and> timer_ok u \<and> wl_cell u = wl_cell s \<and> wl_search u = t
    \<and> wl_debouncedSearch u = wl_debouncedSearch s \<and> wl_page u = wl_page s \<and> wl_statusFilter u = wl_statusFilter s
    \<and> wl_logs u = wl_logs s"
  using assms(1,2)
  by (auto simp: u_def wl_rendered_def timer_ok_def wl_defs effect_due_def)

lemma type_texts_facts:
  "wl_rendered orgId s \<Longrightarrow> timer_ok s \<Longrightarrow>
   (let u = type_texts base st orgId ts s in
    wl_rendered orgId u \<and> timer_ok u \<and> wl_cell u = wl_cell s \<and> wl_search u = last (wl_search s # ts)
    \<and> wl_debouncedSearch u = wl_debouncedSearch s \<and> wl_page u = wl_page s \<and> wl_statusFilter u = wl_statusFilter s
    \<and> wl_logs u = wl_logs s)"
proof (induction ts arbitrary: s)
  case (Cons t ts)
  show ?case
    using Cons.IH [of "wl_commit base st orgId (setSearch t s)"] type_one [OF Cons.prems, of base st t]
    by (auto simp: Let_def)
qed (simp add: Let_def)

text \<open>C20: Typing in the search box sends nothing and changes nothing in the table, however many texts are typed
  between two firings of the timer; when the timer fires, exactly the last text typed becomes the
  search.\<close>

theorem search_is_debounced:
  assumes "wl_rendered orgId s" "timer_ok s" "ts \<noteq> []"
  shows "wl_cell (type_texts base st orgId ts s) = wl_cell s
    \<and> wl_logs (type_texts base st orgId ts s) = wl_logs s
    \<and> wl_debouncedSearch (type_texts base st orgId ts s) = wl_debouncedSearch s
    \<and> wl_debouncedSearch (wl_timer_fired (type_texts base st orgId ts s)) = last ts
    \<and> wl_timer (wl_timer_fired (type_texts base st orgId ts s)) = None"
proof -
  let ?u = "type_texts base st orgId ts s"
  have u: "timer_ok ?u" "wl_cell ?u = wl_cell s" "wl_search ?u = last ts"
    "wl_debouncedSearch ?u = wl_debouncedSearch s" "wl_logs ?u = wl_logs s"
    using type_texts_facts [OF assms(1,2), of base st ts] assms(3) by (simp_all add: Let_def)
  then show ?thesis by (auto simp: timer_ok_def wl_timer_fired_def)
qed

lemma search_is_debounced_witness:
  "wl_debouncedSearch (wl_timer_fired (type_texts [] Map.empty (Some (js ''a'')) [js ''h'', js ''ho'', js ''hoo''] mounted_logs)) = js ''hoo''"
proof -
  have "wl_rendered (Some (js ''a'')) mounted_logs" "timer_ok mounted_logs"
    by (simp_all add: wl_rendered_def timer_ok_def mounted_logs_def wl_run_def wl_defs effect_defs)
  from search_is_debounced [OF this, of "[js ''h'', js ''ho'', js ''hoo'']"] show ?thesis by simp
qed

lemma detail_no_clicks:
  "clicks (webhookLogDetailView h d) = []"
proof -
  have "node_clicks (attemptCard h a) = []" for a
    by (auto simp: attemptCard_def Let_def if_text_def statusCodeBadge_def split: option.splits)
  moreover have "clicks (replicate n (placeholders k)) = []" for n k by (induction n) auto
  ultimately have "node_clicks (detail_body h x) = []" "node_clicks detailSkeleton = []" for x
    by (auto simp: detail_body_def detailSkeleton_def metadata_cell_def Let_def if_text_def tree_map)
  then show ?thesis by (auto simp: webhookLogDetailView_def split: option.split)
qed

lemma row_clicks: "node_clicks (lp_row h log) = [Lp_Select (wl_id log)]"
  by (cases "statusBadgeVariant (wl_status log)") (simp_all add: lp_row_def)

lemma pager_clicks:
  "clicks (lp_pager s) =
     (if wl_totalPages s > 1
      then (if wl_page s \<le> 1 then [] else [Lp_Previous]) @ (if wl_page s \<ge> wl_totalPages s then [] else [Lp_Next]) else [])"
  by (simp add: lp_pager_def)

lemma logs_page_clicks:
  "node_clicks (logsPage_view h p d) =
     (if wl_isLoading (lp_hook p) then [] else map (\<lambda>log. Lp_Select (wl_id log)) (wl_logs (lp_hook p)))
     @ (if wl_totalPages (lp_hook p) > 1
        then (if wl_page (lp_hook p) > 1 then [Lp_Previous] else [])
             @ (if wl_page (lp_hook p) < wl_totalPages (lp_hook p) then [Lp_Next] else []) else [])"
proof -
  have "clicks (replicate n (El ''div'' [] [El ''div'' [] []])) = []" for n by (induction n) auto
  from this [of 5] show ?thesis
    by (auto simp add: logsPage_view_def Let_def lp_filters_def lp_table_def tree_map row_clicks concat_map_singleton
        detail_no_clicks pager_clicks)
qed

text \<open>What can be clicked on the page: every row of a loaded table, opening that log and no other, and the
  two pager buttons, each only when there is a page to go to; the panel is open exactly when a log is
  selected, and closing it deselects the log.\<close>

theorem logs_page_actions:
  "node_clicks (logsPage_view h p d) =
     (if wl_isLoading (lp_hook p) then [] else map (\<lambda>log. Lp_Select (wl_id log)) (wl_logs (lp_hook p)))
     @ (if wl_totalPages (lp_hook p) > 1
        then (if wl_page (lp_hook p) > 1 then [Lp_Previous] else [])
             @ (if wl_page (lp_hook p) < wl_totalPages (lp_hook p) then [Lp_Next] else []) else [])
   \<and> lp_selectedLogId (lp_handle (Lp_Select i) p) = Some i \<and> lp_selectedLogId (lp_handle (Lp_Open False) p) = None"
  by (simp add: logs_page_clicks)

text \<open>The states of the page: its inputs and the buttons it offers, renders, the timer and answers.\<close>

inductive lp_reachable :: "jstring \<Rightarrow> logs_page \<Rightarrow> bool" for base :: jstring where
  mount: "lp_reachable base lp_init"
| hook: "lp_reachable base p \<Longrightarrow> ev \<in> {Ls_Render st orgId, Ls_Timer, Ls_Settled i r, Ls_Unmount} \<Longrightarrow>
    lp_reachable base (p\<lparr> lp_hook := wl_step base ev (lp_hook p) \<rparr>)"
| input: "lp_reachable base p \<Longrightarrow> ev \<in> {Lp_Open b, Lp_Search v, Lp_Status x} \<Longrightarrow> lp_reachable base (lp_handle ev p)"
| click: "lp_reachable base p \<Longrightarrow> ev \<in> set (node_clicks (logsPage_view h p d)) \<Longrightarrow> lp_reachable base (lp_handle ev p)"

definition pages_ok :: "logs_hook \<Rightarrow> bool" where
  "pages_ok s \<longleftrightarrow> 1 \<le> wl_page s \<and> (\<forall>run\<in>set (ef_runs (wl_cell s)). 1 \<le> fst (run_deps run))"

lemma pages_ok_set:
  "pages_ok s \<longleftrightarrow> 1 \<le> wl_page s \<and> (\<forall>d\<in>set (map run_deps (ef_runs (wl_cell s))). 1 \<le> fst d)"
  by (simp add: pages_ok_def)

lemma run_deps_update: "map run_deps (xs[i := (xs ! i)\<lparr> run_cancelled := b \<rparr>]) = map run_deps xs"
  "map run_deps (xs[i := (xs ! i)\<lparr> run_settled := b \<rparr>]) = map run_deps xs"
  by (induction xs arbitrary: i) (auto split: nat.splits)

lemma run_deps_frame:
  "map run_deps (ef_runs (finish_run i e)) = map run_deps (ef_runs e)"
  "map run_deps (ef_runs (run_cleanup e)) = map run_deps (ef_runs e)"
  "map run_deps (ef_runs (unmount_effect e)) = map run_deps (ef_runs e)"
  by (auto simp: finish_run_def run_cleanup_def cancel_run_def unmount_effect_def run_deps_update split: option.split)

lemma run_deps_commit:
  "set (map run_deps (ef_runs (commit_effect d rq e))) \<subseteq> insert d (set (map run_deps (ef_runs e)))"
  using run_deps_frame(2) [of e] by (auto simp: commit_effect_def start_run_def simp flip: set_map split: option.split)

lemma wl_step_pages:
  assumes "pages_ok s" "ev \<in> {Ls_Render st orgId, Ls_Timer, Ls_Settled i r, Ls_Unmount}"
  shows "pages_ok (wl_step base ev s)"
proof -
  have "pages_ok (wl_commit base st orgId s)"
    using assms(1) run_deps_commit [of "wl_deps orgId s" "wl_request base st (wl_deps orgId s)" "wl_cell s"]
    by (auto simp: pages_ok_set wl_commit_frame wl_commit_page wl_deps_def simp del: set_map)
  moreover have "wl_page (wl_load_settled i r s) = wl_page s" by (simp add: wl_defs Let_def split: sum.split)
  then have "pages_ok (wl_load_settled i r s)"
    using assms(1) by (simp add: pages_ok_set wl.cell_settle run_deps_frame del: set_map)
  moreover have "pages_ok (wl_unmount s)"
    using assms(1) by (simp add: pages_ok_set wl_unmount_def wl_unmount_fetch_def run_deps_frame del: set_map)
  moreover have "pages_ok (wl_timer_fired s)"
    using assms(1) by (simp add: pages_ok_def wl_timer_fired_def split: option.split)
  ultimately show ?thesis using assms(2) by auto
qed

lemma lp_reachable_pages: "lp_reachable base p \<Longrightarrow> pages_ok (lp_hook p)"
proof (induction rule: lp_reachable.induct)
  case mount
  show ?case by (simp add: lp_init_def wl_init_def pages_ok_def new_effect_def)
next
  case (hook p ev st orgId i r)
  then show ?case using wl_step_pages [of "lp_hook p" ev] by simp
next
  case (input p ev b v x)
  then show ?case by (auto simp: pages_ok_def setSearch_def setStatusFilter_def split: if_splits)
next
  case (click p ev h d)
  then show ?case
    by (auto simp: logs_page_clicks pages_ok_def goToPage_def split: if_splits)
qed



text \<open>C39: Switching the organization keeps the page number: the request for the new organization asks for the
  page the old one was on, and when the new one has a single page the table says that there are no
  logs yet and the pager, the only way back to page 1, is not shown.\<close>

theorem org_switch_keeps_page:
  fixes base a b :: jstring and st :: storage and response :: "webhook_log paginated_response"
  assumes rendered: "wl_rendered (Some a) s" and other: "a \<noteq> b"
    and response: "pr_data response = []" "pr_totalPages response \<le> 1"
  defines "u \<equiv> wl_commit base st (Some b) s"
  defines "n \<equiv> length (ef_runs (wl_cell s))"
  defines "t \<equiv> wl_load_settled n (Inr response) u"
  shows "run_request (ef_runs (wl_cell u) ! n)
      = apiRequest base st (fetchWebhookLogs (Some (logs_params (wl_page s, wl_statusFilter s, wl_debouncedSearch s, Some b))))
    \<and> wl_page t = wl_page s \<and> lp_pager t = [] \<and> js ''No logs yet'' \<in> set (node_texts (lp_table h t))
    \<and> wl_commit base st (Some b) t = t"
proof -
  have due: "effect_due (wl_deps (Some b) s) (wl_cell s)"
    using rendered other by (simp add: wl_rendered_def effect_due_def wl_deps_def)
  have q: "wl_request base st (wl_deps (Some b) s)
      = Some (apiRequest base st (fetchWebhookLogs (Some (logs_params (wl_deps (Some b) s)))))"
    by (simp add: wl_request_def wl_deps_def)
  have aw: "awaits (wl_deps (Some b) s) (apiRequest base st (fetchWebhookLogs (Some (logs_params (wl_deps (Some b) s))))) n (wl_cell u)"
    using commit_awaits [OF due] by (simp add: u_def wl_commit_frame q n_def)
  have page: "wl_page u = wl_page s" "\<not> wl_isFirstRender u"
    using rendered by (simp_all add: u_def wl_commit_page wl_rendered_def wl_commit_frame)
  have t: "t = (wl_set_cell (finish_run n (wl_cell u)) u)\<lparr> wl_logs := [], wl_totalPages := pr_totalPages response, wl_isLoading := False \<rparr>"
    using awaits_live [OF aw] response by (simp add: t_def wl_load_settled_def wl_load_end_def wl_set_cell_def)
  have "wl_rendered (Some b) t"
    using rendered aw page
    by (simp add: t wl_rendered_def wl_set_cell_def finish_run_def awaits_def wl_deps_def u_def wl_commit_frame)
  then have "wl_commit base st (Some b) t = t" by (rule wl_commit_rendered)
  then show ?thesis
    using aw page response by (simp add: t wl_set_cell_def lp_pager_def lp_table_def awaits_def wl_deps_def)
qed

lemma org_switch_keeps_page_witness:
  "wl_page (wl_load_settled 2 (Inr \<lparr> pr_data = [], pr_total = 0, pr_page = 3, pr_limit = 20, pr_totalPages = 1 \<rparr>)
     (wl_commit [] Map.empty (Some (js ''b'')) mounted_logs)) = 3"
proof -
  have "wl_rendered (Some (js ''a'')) mounted_logs"
    by (simp add: wl_rendered_def mounted_logs_def wl_run_def wl_defs effect_defs)
  from org_switch_keeps_page [OF this, of "js ''b''" "\<lparr> pr_data = [], pr_total = 0, pr_page = 3, pr_limit = 20, pr_totalPages = 1 \<rparr>"]
  show ?thesis by (simp add: mounted_logs_facts)
qed

end
