(* ===== verification/Auth_Forms.thy ===== *)
theory Auth_Forms
  imports Layout
begin

text \<open>
  \<open>features/auth\<close> and \<open>shared/components/protected-route.tsx\<close>: the sign-in and the registration form,
  their hooks, and the redirect that carries the location a visitor asked for through both of them.
  A submit handler is split at its \<open>await\<close>; what it captured at the submit (the typed e-mail, the
  query of the page) is an argument of its second part. \<open>encodeURIComponent\<close> can throw while a form
  renders, so the trees of the forms are options; they are proved to be always there.
\<close>

subsection \<open>\<open>use-login.ts\<close>\<close>

record login_hook =
  lg_email :: jstring
  lg_password :: jstring
  lg_error :: "jstring option"
  lg_fieldErrors :: "field_error list"
  lg_isLoading :: bool

definition lg_init :: login_hook where
  "lg_init = \<lparr> lg_email = [], lg_password = [], lg_error = None, lg_fieldErrors = [], lg_isLoading = False \<rparr>"

definition getFieldError :: "field_error list \<Rightarrow> string \<Rightarrow> jstring option" where
  "getFieldError fieldErrors k = map_option fe_message (List.find (\<lambda>e. fe_field e = js k) fieldErrors)"

definition lg_handleSubmit :: "jstring \<Rightarrow> storage \<Rightarrow> login_hook \<Rightarrow> login_hook \<times> io list" where
  "lg_handleSubmit base st s =
     (s\<lparr> lg_error := None, lg_fieldErrors := [], lg_isLoading := True \<rparr>,
      [Send (apiRequest base st (loginUser (lg_email s) (lg_password s)))])"

definition login_redirect :: "search_params \<Rightarrow> jstring" where
  "login_redirect ps = or_else (params_get ps (js ''redirect'')) (js ''/dashboard'')"

definition lg_rejected :: "js_exn \<Rightarrow> login_hook \<Rightarrow> login_hook" where
  "lg_rejected err s =
     (case err of
        Api_Request_Error e \<Rightarrow>
          (let s1 = s\<lparr> lg_error := Some (ae_message e) \<rparr>
           in case ae_details e of None \<Rightarrow> s1 | Some details \<Rightarrow> s1\<lparr> lg_fieldErrors := details \<rparr>)
      | Js_Error _ \<Rightarrow> s\<lparr> lg_error := Some (js ''An unexpected error occurred'') \<rparr>)"

text \<open>The rest of \<open>handleSubmit\<close>: on success the token of the answer signs the user in.\<close>

definition lg_settled ::
  "search_params \<Rightarrow> jstring \<Rightarrow> js_exn + jstring \<Rightarrow> login_hook \<times> (storage \<times> auth_state) \<Rightarrow>
   (login_hook \<times> (storage \<times> auth_state)) \<times> io list" where
  "lg_settled ps email r = (\<lambda>(s, w).
     case r of
       Inr token \<Rightarrow>
         ((s\<lparr> lg_isLoading := False \<rparr>, setAuth token \<lparr> user_id = [], user_email = email, user_firstName = [] \<rparr> w),
          [Go (Navigate (login_redirect ps) True)])
     | Inl err \<Rightarrow> (((lg_rejected err s)\<lparr> lg_isLoading := False \<rparr>, w), []))"

subsection \<open>\<open>use-register.ts\<close>\<close>

record register_hook =
  rg_firstName :: jstring
  rg_lastName :: jstring
  rg_email :: jstring
  rg_password :: jstring
  rg_error :: "jstring option"
  rg_fieldErrors :: "field_error list"
  rg_isLoading :: bool

definition rg_init :: register_hook where
  "rg_init = \<lparr> rg_firstName = [], rg_lastName = [], rg_email = [], rg_password = [], rg_error = None,
     rg_fieldErrors = [], rg_isLoading = False \<rparr>"

definition rg_handleSubmit :: "jstring \<Rightarrow> storage \<Rightarrow> register_hook \<Rightarrow> register_hook \<times> io list" where
  "rg_handleSubmit base st s =
     (s\<lparr> rg_error := None, rg_fieldErrors := [], rg_isLoading := True \<rparr>,
      [Send (apiRequest base st (registerUser (rg_email s) (rg_password s) (rg_firstName s) (rg_lastName s)))])"

text \<open>A path with the redirect passed on in its query; \<open>None\<close> is the \<open>URIError\<close> of the encoding.\<close>

definition with_redirect :: "string \<Rightarrow> jstring option \<Rightarrow> jstring option" where
  "with_redirect path redirect =
     (if truthy redirect then map_option (\<lambda>e. js path @ js ''?redirect='' @ e) (encodeURIComponent (the redirect))
      else Some (js path))"

definition rg_rejected :: "js_exn \<Rightarrow> register_hook \<Rightarrow> register_hook" where
  "rg_rejected err s =
     (case err of
        Api_Request_Error e \<Rightarrow>
          (let s1 = s\<lparr> rg_error := Some (ae_message e) \<rparr>
           in case ae_details e of None \<Rightarrow> s1 | Some details \<Rightarrow> s1\<lparr> rg_fieldErrors := details \<rparr>)
      | Js_Error _ \<Rightarrow> s\<lparr> rg_error := Some (js ''An unexpected error occurred'') \<rparr>)"

definition rg_settled :: "search_params \<Rightarrow> js_exn + unit \<Rightarrow> register_hook \<Rightarrow> register_hook \<times> io list" where
  "rg_settled ps r s =
     (case r of
        Inr _ \<Rightarrow>
          (case with_redirect ''/login'' (params_get ps (js ''redirect'')) of
             Some to \<Rightarrow> (s\<lparr> rg_isLoading := False \<rparr>, [Go (Navigate to True)])
           | None \<Rightarrow> ((rg_rejected (Js_Error (js ''URIError'')) s)\<lparr> rg_isLoading := False \<rparr>, []))
      | Inl err \<Rightarrow> ((rg_rejected err s)\<lparr> rg_isLoading := False \<rparr>, []))"

subsection \<open>The forms\<close>

datatype auth_form_event =
    Af_Submit
  | Af_FirstName jstring
  | Af_LastName jstring
  | Af_Email jstring
  | Af_Password jstring

fun lg_handle :: "jstring \<Rightarrow> storage \<Rightarrow> auth_form_event \<Rightarrow> login_hook \<Rightarrow> login_hook \<times> io list" where
  "lg_handle base st Af_Submit s = lg_handleSubmit base st s"
| "lg_handle base st (Af_Email v) s = (s\<lparr> lg_email := v \<rparr>, [])"
| "lg_handle base st (Af_Password v) s = (s\<lparr> lg_password := v \<rparr>, [])"
| "lg_handle base st _ s = (s, [])"

fun rg_handle :: "jstring \<Rightarrow> storage \<Rightarrow> auth_form_event \<Rightarrow> register_hook \<Rightarrow> register_hook \<times> io list" where
  "rg_handle base st Af_Submit s = rg_handleSubmit base st s"
| "rg_handle base st (Af_FirstName v) s = (s\<lparr> rg_firstName := v \<rparr>, [])"
| "rg_handle base st (Af_LastName v) s = (s\<lparr> rg_lastName := v \<rparr>, [])"
| "rg_handle base st (Af_Email v) s = (s\<lparr> rg_email := v \<rparr>, [])"
| "rg_handle base st (Af_Password v) s = (s\<lparr> rg_password := v \<rparr>, [])"

text \<open>A labelled input with the error of its field.\<close>

definition form_field ::
  "string \<Rightarrow> string \<Rightarrow> string \<Rightarrow> jstring \<Rightarrow> (jstring \<Rightarrow> auth_form_event) \<Rightarrow> jstring option \<Rightarrow> auth_form_event node" where
  "form_field label input_type placeholder v f err =
     El ''Field'' []
       ([El ''FieldLabel'' [] [lit label],
         El ''Input''
           [Attr ''type'' (js input_type), Attr ''placeholder'' (js placeholder), Attr ''value'' v, OnText ''onChange'' f,
            Flag ''required'' True] []]
        @ if_text err (\<lambda>e. [El ''FieldError'' [] [Txt e]]))"

definition loginForm_view :: "search_params \<Rightarrow> login_hook \<Rightarrow> auth_form_event node list option" where
  "loginForm_view ps s =
     map_option (\<lambda>to.
       [El ''form'' [On ''onSubmit'' Af_Submit]
          [El ''FieldGroup'' []
             (error_box (lg_error s)
              @ [form_field ''Email'' ''email'' ''you@example.com'' (lg_email s) Af_Email (getFieldError (lg_fieldErrors s) ''email''),
                 form_field ''Password'' ''password'' ''Enter your password'' (lg_password s) Af_Password
                   (getFieldError (lg_fieldErrors s) ''password''),
                 El ''Button'' [Attr ''type'' (js ''submit''), Flag ''disabled'' (lg_isLoading s)]
                   [lit (if lg_isLoading s then ''Signing in...'' else ''Sign in'')],
                 El ''p'' []
                   [lit ''Don't have an account?'', lit '' '', El ''Link'' [Attr ''to'' to] [lit ''Register'']]])]])
       (with_redirect ''/register'' (params_get ps (js ''redirect'')))"

definition registerForm_view :: "search_params \<Rightarrow> register_hook \<Rightarrow> auth_form_event node list option" where
  "registerForm_view ps s =
     map_option (\<lambda>to.
       [El ''form'' [On ''onSubmit'' Af_Submit]
          [El ''FieldGroup'' []
             (error_box (rg_error s)
              @ [El ''div'' []
                   [form_field ''First name'' ''text'' ''John'' (rg_firstName s) Af_FirstName
                      (getFieldError (rg_fieldErrors s) ''firstName''),
                    form_field ''Last name'' ''text'' ''Doe'' (rg_lastName s) Af_LastName
                      (getFieldError (rg_fieldErrors s) ''lastName'')],
                 form_field ''Email'' ''email'' ''you@example.com'' (rg_email s) Af_Email (getFieldError (rg_fieldErrors s) ''email''),
                 form_field ''Password'' ''password'' ''Create a password'' (rg_password s) Af_Password
                   (getFieldError (rg_fieldErrors s) ''password''),
                 El ''Button'' [Attr ''type'' (js ''submit''), Flag ''disabled'' (rg_isLoading s)]
                   [lit (if rg_isLoading s then ''Creating account...'' else ''Create account'')],
                 El ''p'' []
                   [lit ''Already have an account?'', lit '' '', El ''Link'' [Attr ''to'' to] [lit ''Sign in'']]])]])
       (with_redirect ''/login'' (params_get ps (js ''redirect'')))"

definition loginPage_view :: "search_params \<Rightarrow> login_hook \<Rightarrow> auth_form_event node option" where
  "loginPage_view ps s =
     map_option (authLayout (js ''Welcome back'') (js ''Enter your credentials to sign in to your account'')) (loginForm_view ps s)"

definition registerPage_view :: "search_params \<Rightarrow> register_hook \<Rightarrow> auth_form_event node option" where
  "registerPage_view ps s =
     map_option (authLayout (js ''Create an account'') (js ''Enter your details to create a new account'')) (registerForm_view ps s)"

subsection \<open>\<open>protected-route.tsx\<close>\<close>

text \<open>Where an anonymous visitor of \<open>l\<close> is sent; \<open>None\<close> is a \<open>URIError\<close> while rendering.\<close>

definition login_target :: "location \<Rightarrow> jstring option" where
  "login_target l = map_option (\<lambda>e. js ''/login?redirect='' @ e) (encodeURIComponent (pathname l @ search l))"

lemmas af_defs [hook_defs] =
  lg_init_def lg_handleSubmit_def lg_rejected_def lg_settled_def rg_init_def rg_handleSubmit_def rg_rejected_def
  rg_settled_def

subsection \<open>The redirect in a URL\<close>

definition redirect_of :: "jstring \<Rightarrow> jstring option" where
  "redirect_of u = params_get (searchParams (parse_url u)) (js ''redirect'')"

lemma encoded_chars: "encodeURIComponent s = Some e \<Longrightarrow> 35 \<notin> set e \<and> e = ascii (escape_uri s)"
proof -
  assume e: "encodeURIComponent s = Some e"
  then have "e = ascii (escape_uri s)" by (simp add: encodeURIComponent_def split: if_splits)
  moreover have "(word_of_nat 35 :: 16 word) = 35" by simp
  moreover have "word_of_nat 35 \<notin> set (ascii (escape_uri s))"
    using escape_uri_no [of s] by (intro ascii_mem) auto
  ultimately show ?thesis by metis
qed

lemma redirect_of_url:
  assumes "35 \<notin> set p" "63 \<notin> set p" and e: "encodeURIComponent s = Some e"
  shows "redirect_of (p @ js ''?redirect='' @ e) = Some s"
proof -
  have js: "js ''?redirect='' = 63 # js ''redirect=''" "js ''?'' = [63]" by (simp_all add: js_def)
  have "js ''redirect='' = js ''redirect'' @ js ''=''" by (simp add: js_def)
  moreover have "35 \<notin> set (js ''redirect='' @ e)" using encoded_chars [OF e, THEN conjunct1] by (simp add: js_def)
  from parse_query_url [OF assms(1,2) this]
  have "search (parse_url (p @ js ''?redirect='' @ e)) = 63 # js ''redirect='' @ e"
    by (simp add: js)
  ultimately have "searchParams (parse_url (p @ js ''?redirect='' @ e))
      = URLSearchParams (js ''?'' @ js ''redirect'' @ js ''='' @ e)"
    by (simp add: searchParams_def js)
  moreover have "literal_name ''redirect''" by (simp add: literal_name_def alnum_def)
  ultimately show ?thesis using get_encoded_component [OF _ e] by (simp add: redirect_of_def)
qed

lemma encode_defined: "well_formed s \<Longrightarrow> \<exists>e. encodeURIComponent s = Some e"
  by (simp add: encodeURIComponent_def)

lemma with_redirect_roundtrip:
  assumes "path \<in> {''/login'', ''/register''}" "well_formed r" "r \<noteq> []"
  shows "\<exists>u. with_redirect path (Some r) = Some u \<and> redirect_of u = Some r"
proof -
  obtain e where e: "encodeURIComponent r = Some e" using encode_defined assms(2) by blast
  have "35 \<notin> set (js path) \<and> 63 \<notin> set (js path)" using assms(1) by (auto simp: js_def)
  with redirect_of_url [OF _ _ e] show ?thesis
    using assms(3) by (auto simp: with_redirect_def e)
qed

lemma login_target_redirect:
  "well_formed (pathname l @ search l) \<Longrightarrow> pathname l \<noteq> [] \<Longrightarrow>
   login_target l = with_redirect ''/login'' (Some (pathname l @ search l))"
proof -
  have "js ''/login'' @ js ''?redirect='' = js ''/login?redirect=''" by (simp add: js_def)
  then show "pathname l \<noteq> [] \<Longrightarrow> ?thesis"
    by (simp add: login_target_def with_redirect_def option.map_comp o_def flip: append_assoc)
qed

lemma with_redirect_defined: "with_redirect path (params_get (URLSearchParams q) k) \<noteq> None"
  using encode_get [of q k] by (cases "params_get (URLSearchParams q) k") (auto simp: with_redirect_def)

subsection \<open>Properties\<close>

text \<open>C6: A visitor who is sent to the sign-in page gets back to exactly the path and query asked for, by
  signing in there, and also by following the link to the registration, registering, and signing in
  after that: the redirect survives both pages, whatever characters it contains.\<close>

theorem redirect_survives:
  assumes wf: "well_formed (pathname l @ search l)" and path: "pathname l \<noteq> []"
  shows "\<exists>u1 u2 u3. login_target l = Some u1
    \<and> snd (lg_settled (searchParams (parse_url u1)) email (Inr token) (s, w)) = [Go (Navigate (pathname l @ search l) True)]
    \<and> with_redirect ''/register'' (redirect_of u1) = Some u2
    \<and> snd (rg_settled (searchParams (parse_url u2)) (Inr ()) s') = [Go (Navigate u3 True)]
    \<and> snd (lg_settled (searchParams (parse_url u3)) email (Inr token) (s, w)) = [Go (Navigate (pathname l @ search l) True)]"
proof -
  let ?r = "pathname l @ search l"
  have r: "?r \<noteq> []" using path by simp
  obtain u1 where u1: "with_redirect ''/login'' (Some ?r) = Some u1" "redirect_of u1 = Some ?r"
    using with_redirect_roundtrip [of "''/login''" ?r] wf r by auto
  obtain u2 where u2: "with_redirect ''/register'' (Some ?r) = Some u2" "redirect_of u2 = Some ?r"
    using with_redirect_roundtrip [of "''/register''" ?r] wf r by auto
  have login: "snd (lg_settled (searchParams (parse_url u1)) email (Inr token) (s, w)) = [Go (Navigate ?r True)]"
    using u1(2) r by (simp add: lg_settled_def login_redirect_def redirect_of_def)
  have "snd (rg_settled (searchParams (parse_url u2)) (Inr ()) s') = [Go (Navigate u1 True)]"
    using u2(2) u1(1) by (simp add: rg_settled_def redirect_of_def)
  then show ?thesis
    using login_target_redirect [OF wf path] u1 u2(1) login by auto
qed

lemma redirect_survives_witness:
  "\<exists>u1. login_target \<lparr> pathname = js ''/invite/accept'', search = js ''?token=a+b&x=%20'' \<rparr> = Some u1
    \<and> snd (lg_settled (searchParams (parse_url u1)) [] (Inr (js ''t'')) (lg_init, (Map.empty, auth_mount Map.empty)))
      = [Go (Navigate (js ''/invite/accept?token=a+b&x=%20'') True)]"
proof -
  let ?l = "\<lparr> pathname = js ''/invite/accept'', search = js ''?token=a+b&x=%20'' \<rparr>"
  have cat: "pathname ?l @ search ?l = js ''/invite/accept?token=a+b&x=%20''" by (simp add: js_def)
  then have "well_formed (pathname ?l @ search ?l)" by (simp only: well_formed_js)
  moreover have "pathname ?l \<noteq> []" by simp
  ultimately show ?thesis
    using redirect_survives [of ?l "[]" "js ''t''" lg_init "(Map.empty, auth_mount Map.empty)"] cat by auto
qed

text \<open>C33: The two forms render for every query of the page: the redirect they re-encode into their links was
  decoded from the query, and decoding never yields a string that \<open>encodeURIComponent\<close> rejects.\<close>

theorem forms_always_render:
  "loginPage_view (URLSearchParams q) s \<noteq> None \<and> registerPage_view (URLSearchParams q) s' \<noteq> None
   \<and> (\<exists>u. snd (rg_settled (URLSearchParams q) (Inr ()) s') = [Go (Navigate u True)])"
  using with_redirect_defined [of "''/register''" q "js ''redirect''"] with_redirect_defined [of "''/login''" q "js ''redirect''"]
  by (auto simp: loginPage_view_def registerPage_view_def loginForm_view_def registerForm_view_def rg_settled_def)

lemma form_field_tree [simp]:
  "node_texts (form_field l t ph v f err) = js l # (if truthy err then [the err] else [])"
  "node_clicks (form_field l t ph v f err) = []" "node_submits (form_field l t ph v f err) = []"
  "blocked (form_field l t ph v f err) = False"
  by (auto simp: form_field_def if_text_def truthy_def split: option.splits)

lemma blocked_error_box [simp]: "list_ex blocked (error_box err) = False"
  by (auto simp: error_box_def if_text_def split: option.splits)



end
