(* ===== verification/Org_Switcher.thy ===== *)
theory Org_Switcher
  imports Layout
begin

text \<open>
  \<open>features/dashboard/components/org-switcher.tsx\<close>: the menu of organizations and the dialog that
  creates one. Its handlers work on the cells of the component and on the organization context, so
  they act on the pair of both; \<open>handleCreate\<close> is split at its \<open>await\<close>. The property \<open>variant\<close> only
  chooses a style.
\<close>

record org_switcher =
  sw_dialogOpen :: bool
  sw_newOrgName :: jstring
  sw_isCreating :: bool
  sw_error :: "jstring option"

definition sw_init :: org_switcher where
  "sw_init = \<lparr> sw_dialogOpen = False, sw_newOrgName = [], sw_isCreating = False, sw_error = None \<rparr>"

datatype switcher_event =
    Sw_Switch organization
  | Sw_Dialog bool
  | Sw_Create
  | Sw_Name jstring

definition sw_handleCreate :: "jstring \<Rightarrow> org_switcher \<times> org_world \<Rightarrow> (org_switcher \<times> org_world) \<times> io list" where
  "sw_handleCreate base = (\<lambda>(p, w).
     let name = js_trim (sw_newOrgName p)
     in if name = [] then ((p, w), [])
        else ((p\<lparr> sw_isCreating := True, sw_error := None \<rparr>, w),
              [Send (apiRequest base (fst w) (createOrganization name))]))"

definition sw_create_settled :: "js_exn + organization \<Rightarrow> org_switcher \<times> org_world \<Rightarrow> org_switcher \<times> org_world" where
  "sw_create_settled r = (\<lambda>(p, w).
     case r of
       Inr org \<Rightarrow> (p\<lparr> sw_newOrgName := [], sw_dialogOpen := False, sw_isCreating := False \<rparr>, addOrg org w)
     | Inl _ \<Rightarrow> (p\<lparr> sw_error := Some (js ''Failed to create organization''), sw_isCreating := False \<rparr>, w))"

fun sw_handle :: "jstring \<Rightarrow> switcher_event \<Rightarrow> org_switcher \<times> org_world \<Rightarrow> (org_switcher \<times> org_world) \<times> io list" where
  "sw_handle base (Sw_Switch org) (p, w) = ((p, switchOrg org w), [])"
| "sw_handle base (Sw_Dialog b) (p, w) = ((p\<lparr> sw_dialogOpen := b \<rparr>, w), [])"
| "sw_handle base Sw_Create (p, w) = sw_handleCreate base (p, w)"
| "sw_handle base (Sw_Name v) (p, w) = ((p\<lparr> sw_newOrgName := v \<rparr>, w), [])"

subsection \<open>The element tree\<close>

definition sw_item :: "organization option \<Rightarrow> organization \<Rightarrow> switcher_event node" where
  "sw_item currentOrg org =
     El ''DropdownMenuItem'' [On ''onClick'' (Sw_Switch org)]
       (El ''span'' [] [Txt (org_name org)]
        # only_if (Some (org_id org) = map_option org_id currentOrg) [El ''Check'' [] []])"

definition sw_menu :: "organization list \<Rightarrow> organization option \<Rightarrow> switcher_event node" where
  "sw_menu organizations currentOrg =
     El ''DropdownMenu'' []
       [El ''DropdownMenuTrigger'' []
          [El ''Building2'' [] [],
           El ''span'' [] [Txt (case currentOrg of None \<Rightarrow> js ''Select org'' | Some org \<Rightarrow> org_name org)],
           El ''ChevronDown'' [] []],
        El ''DropdownMenuContent'' []
          [El ''DropdownMenuGroup'' []
             (El ''DropdownMenuLabel'' [] [lit ''Organizations''] # map (sw_item currentOrg) organizations),
           El ''DropdownMenuSeparator'' [] [],
           El ''DropdownMenuItem'' [On ''onClick'' (Sw_Dialog True)]
             [El ''Plus'' [] [], lit ''Create organization'']]]"

definition sw_dialog :: "org_switcher \<Rightarrow> switcher_event node" where
  "sw_dialog p =
     El ''Dialog'' [Flag ''open'' (sw_dialogOpen p), OnBool ''onOpenChange'' Sw_Dialog]
       [El ''DialogContent'' []
          [El ''DialogHeader'' []
             [El ''DialogTitle'' [] [lit ''Create organization''],
              El ''DialogDescription'' []
                [lit ''Add a new organization to manage a separate set of API keys and webhooks.'']],
           El ''form'' [On ''onSubmit'' Sw_Create]
             [El ''div'' []
                ([El ''Label'' [Attr ''htmlFor'' (js ''org-name'')] [lit ''Name''],
                  El ''Input''
                    [Attr ''id'' (js ''org-name''), Attr ''value'' (sw_newOrgName p), OnText ''onChange'' Sw_Name,
                     Attr ''placeholder'' (js ''Acme Inc.''), Flag ''autoFocus'' True] []]
                 @ if_text (sw_error p) (\<lambda>e. [El ''p'' [] [Txt e]])),
              El ''DialogFooter'' []
                [El ''Button''
                   [Attr ''type'' (js ''submit''), Flag ''disabled'' (sw_isCreating p \<or> js_trim (sw_newOrgName p) = [])]
                   [lit (if sw_isCreating p then ''Creating...'' else ''Create'')]]]]]"

definition orgSwitcher_view :: "org_switcher \<times> org_world \<Rightarrow> switcher_event node list" where
  "orgSwitcher_view = (\<lambda>(p, w).
     [sw_menu (oc_organizations (snd w)) (oc_currentOrg (snd w)), sw_dialog p])"

lemmas sw_view_defs = sw_item_def sw_menu_def sw_dialog_def orgSwitcher_view_def

lemmas sw_defs = sw_init_def sw_handleCreate_def sw_create_settled_def

subsection \<open>Properties\<close>

text \<open>The names in the menu that carry the check mark.\<close>

fun has_child :: "string \<Rightarrow> 'e node \<Rightarrow> bool" where
  "has_child n (Txt s) = False"
| "has_child n (El m as cs) = list_ex (\<lambda>c. case c of Txt _ \<Rightarrow> False | El k _ _ \<Rightarrow> k = n) cs"

definition checked :: "org_world \<Rightarrow> organization list" where
  "checked w = filter (\<lambda>org. has_child ''Check'' (sw_item (oc_currentOrg (snd w)) org)) (oc_organizations (snd w))"

lemma checked_eq:
  "checked w = filter (\<lambda>org. Some (org_id org) = map_option org_id (oc_currentOrg (snd w))) (oc_organizations (snd w))"
  by (simp add: checked_def sw_item_def only_if_def)

lemma filter_key: "distinct (map f xs) \<Longrightarrow> x \<in> set xs \<Longrightarrow> filter (\<lambda>y. f y = f x) xs = [x]"
  by (induction xs) (auto simp: filter_empty_conv image_iff)

lemma sw_item_tree:
  "node_clicks (sw_item c org) = [Sw_Switch org]" "node_submits (sw_item c org) = []"
  by (simp_all add: sw_item_def)

lemma sw_clicks:
  "clicks (orgSwitcher_view (p, w)) = map Sw_Switch (oc_organizations (snd w)) @ [Sw_Dialog True]"
  by (cases "sw_error p")
    (simp_all add: sw_menu_def sw_dialog_def orgSwitcher_view_def tree_map sw_item_tree if_text_def)

lemma sw_submits:
  "submits (orgSwitcher_view (p, w)) = (if sw_isCreating p \<or> js_trim (sw_newOrgName p) = [] then [] else [Sw_Create])"
  by (cases "sw_error p")
    (simp_all add: sw_menu_def sw_dialog_def orgSwitcher_view_def tree_map sw_item_tree if_text_def)

text \<open>C11: The menu offers exactly the listed organizations. Choosing one makes it the current one, names it
  in the header of every authenticated request from then on and moves the check mark to it alone.
  Creating one is possible exactly with a name that is not blank and while no creation is under
  way; when the server has created it, it is listed last, is current and is checked; when that
  fails the context is as before and the dialog shows the error over the name just typed.\<close>

theorem org_switcher_flow:
  fixes base :: jstring and p :: org_switcher and w :: org_world and org new :: organization and err :: js_exn
  assumes ids: "distinct (map org_id (oc_organizations (snd w)))"
    and member: "org \<in> set (oc_organizations (snd w))"
    and fresh: "org_id new \<notin> org_id ` set (oc_organizations (snd w))"
  defines "w1 \<equiv> snd (fst (sw_handle base (Sw_Switch org) (p, w)))"
  defines "p2 \<equiv> fst (sw_create_settled (Inr new) (p, w))" and "w2 \<equiv> snd (sw_create_settled (Inr new) (p, w))"
  defines "p3 \<equiv> fst (sw_create_settled (Inl err) (p, w))" and "w3 \<equiv> snd (sw_create_settled (Inl err) (p, w))"
  shows "clicks (orgSwitcher_view (p, w)) = map Sw_Switch (oc_organizations (snd w)) @ [Sw_Dialog True]
    \<and> checked w1 = [org] \<and> org_ok w1
    \<and> header (apiRequest base (fst w1) fetchApiKeys) (js ''X-Org-ID'') = sent (Some (org_id org))
    \<and> submits (orgSwitcher_view (p, w)) = (if sw_isCreating p \<or> js_trim (sw_newOrgName p) = [] then [] else [Sw_Create])
    \<and> oc_organizations (snd w2) = oc_organizations (snd w) @ [new] \<and> checked w2 = [new] \<and> org_ok w2
    \<and> \<not> sw_dialogOpen p2
    \<and> w3 = w \<and> sw_dialogOpen p3 = sw_dialogOpen p \<and> sw_newOrgName p3 = sw_newOrgName p
    \<and> js ''Failed to create organization'' \<in> set (texts (orgSwitcher_view (p3, w3)))"
proof -
  obtain st s where w: "w = (st, s)" by (cases w)
  have "filter (\<lambda>y. org_id y = org_id org) (oc_organizations s) = [org]"
    using filter_key [of org_id] ids member by (simp add: w)
  then have w1: "checked w1 = [org]" "org_ok w1"
    "header (apiRequest base (fst w1) fetchApiKeys) (js ''X-Org-ID'') = sent (Some (org_id org))"
    using member by (simp_all add: w1_def checked_eq w switchOrg_def header_org)
  have "filter (\<lambda>y. org_id y = org_id new) (oc_organizations s) = []"
    using fresh by (auto simp: w filter_empty_conv image_iff)
  then have w2: "checked w2 = [new]" "org_ok w2" "oc_organizations (snd w2) = oc_organizations (snd w) @ [new]"
    "\<not> sw_dialogOpen p2"
    by (simp_all add: w2_def p2_def checked_eq w addOrg_def sw_create_settled_def)
  have "js ''Failed to create organization'' \<in> set (texts (orgSwitcher_view (p3, w3)))"
    by (simp add: p3_def w3_def sw_create_settled_def sw_view_defs if_text_def js_def)
  then show ?thesis using w1 w2 sw_clicks sw_submits
    by (simp add: p3_def w3_def sw_create_settled_def)
qed

lemma org_switcher_flow_witness:
  "checked (snd (fst (sw_handle [] (Sw_Switch (demo_org ''b''))
     (sw_init, (Map.empty, org_mount\<lparr> oc_organizations := [demo_org ''a'', demo_org ''b''] \<rparr>))))) = [demo_org ''b'']"
  using org_switcher_flow [of "(Map.empty, org_mount\<lparr> oc_organizations := [demo_org ''a'', demo_org ''b''] \<rparr>)"
      "demo_org ''b''" "demo_org ''c''" sw_init "[]" "Js_Error []"]
  by simp

end
