(* ===== verification/Navigation.thy ===== *)
theory Navigation
  imports Layout
begin

text \<open>
  The frame of the dashboard: \<open>components/dashboard-sidebar.tsx\<close>, \<open>dashboard-nav.tsx\<close>,
  \<open>dashboard-header.tsx\<close> (the last two are not used by any page) and \<open>pages/dashboard-page.tsx\<close>. The
  sidebar has no cells of its own, so it is a function of the two contexts; children with cells, the
  organization switcher and the dialog of invitations, stay elements. A \<open>className\<close> given as a
  function of \<open>isActive\<close> is a style like the others.
\<close>

record nav_item =
  nav_to :: jstring
  nav_label :: jstring
  nav_icon :: string
  nav_end :: bool

definition nav_entry :: "string \<Rightarrow> string \<Rightarrow> string \<Rightarrow> bool \<Rightarrow> nav_item" where
  "nav_entry to label icon e = \<lparr> nav_to = js to, nav_label = js label, nav_icon = icon, nav_end = e \<rparr>"

subsection \<open>\<open>dashboard-nav.tsx\<close>\<close>

definition navItems :: "nav_item list" where
  "navItems =
     [nav_entry ''/dashboard'' ''Overview'' ''BarChart3'' True,
      nav_entry ''/dashboard/api-keys'' ''API Keys'' ''Key'' False,
      nav_entry ''/dashboard/logs'' ''Logs'' ''ScrollText'' False,
      nav_entry ''/dashboard/playground'' ''Playground'' ''Play'' False]"

definition adminNavItems :: "nav_item list" where
  "adminNavItems =
     [nav_entry ''/dashboard/members'' ''Members'' ''Users'' False,
      nav_entry ''/dashboard/settings'' ''Settings'' ''Settings'' False]"

definition nav_link :: "'e attr list \<Rightarrow> nav_item \<Rightarrow> 'e node" where
  "nav_link as item =
     El ''NavLink'' ([Attr ''to'' (nav_to item), Flag ''end'' (nav_end item)] @ as)
       [El (nav_icon item) [] [], Txt (nav_label item)]"

definition dashboardNav_view :: "organization option \<Rightarrow> 'e node" where
  "dashboardNav_view currentOrg =
     El ''nav'' [] (map (nav_link []) (if is_admin currentOrg then navItems @ adminNavItems else navItems))"

subsection \<open>\<open>dashboard-sidebar.tsx\<close>\<close>

definition mainNavItems :: "nav_item list" where
  "mainNavItems =
     [nav_entry ''/dashboard'' ''Overview'' ''BarChart3'' True,
      nav_entry ''/dashboard/api-keys'' ''API Keys'' ''Key'' False,
      nav_entry ''/dashboard/logs'' ''Logs'' ''ScrollText'' False,
      nav_entry ''/dashboard/playground'' ''Playground'' ''Play'' False]"

definition sidebarAdminItems :: "nav_item list" where
  "sidebarAdminItems =
     [nav_entry ''/dashboard/members'' ''Members'' ''Users'' False,
      nav_entry ''/dashboard/settings'' ''Settings'' ''Settings'' False]"

text \<open>\<open>onClick={onNavigate}\<close>: no handler when the property is not given.\<close>

definition on_click :: "'e option \<Rightarrow> 'e attr list" where
  "on_click f = (case f of None \<Rightarrow> [] | Some e \<Rightarrow> [On ''onClick'' e])"

definition sidebar_items :: "'e option \<Rightarrow> nav_item list \<Rightarrow> 'e node" where
  "sidebar_items onNavigate items = El ''ul'' [] (map (\<lambda>item. El ''li'' [] [nav_link (on_click onNavigate) item]) items)"

definition user_text :: "jstring option \<Rightarrow> 'e node list" where
  "user_text x = (case x of None \<Rightarrow> [] | Some s \<Rightarrow> [Txt s])"

definition user_menu :: "'e \<Rightarrow> auth_state \<Rightarrow> 'e node" where
  "user_menu onLogout user =
     El ''DropdownMenu'' []
       [El ''DropdownMenuTrigger'' []
          [El ''Button'' [Attr ''variant'' (js ''ghost'')]
             [El ''span'' []
                [El ''span'' [] [Txt (or_else (user_field user ''firstName'') (js ''Account''))],
                 El ''span'' [] (user_text (user_field user ''email''))],
              El ''ChevronDown'' [] []]],
        El ''DropdownMenuContent'' []
          [El ''DropdownMenuItem'' [On ''onClick'' onLogout] [El ''LogOut'' [] [], lit ''Sign out'']]]"

definition dashboardSidebar_view :: "'e option \<Rightarrow> 'e \<Rightarrow> auth_state \<Rightarrow> organization option \<Rightarrow> 'e node" where
  "dashboardSidebar_view onNavigate onLogout user currentOrg =
     El ''aside'' []
       [El ''div'' []
          [El ''NavLink'' (Attr ''to'' (js ''/dashboard'') # on_click onNavigate)
             [El ''img'' [Attr ''src'' (js ''/logo.png''), Attr ''alt'' (js ''Chis'')] []]],
        El ''div'' [] [El ''OrgSwitcher'' [Attr ''variant'' (js ''sidebar'')] []],
        El ''nav'' []
          (sidebar_items onNavigate mainNavItems
           # only_if (is_admin currentOrg)
               [El ''Separator'' [] [], El ''p'' [] [lit ''Organization''], sidebar_items onNavigate sidebarAdminItems]),
        El ''div'' [] [user_menu onLogout user]]"

text \<open>Signing out ends the session and goes to the sign-in page.\<close>

definition handleLogout :: "storage \<times> auth_state \<Rightarrow> (storage \<times> auth_state) \<times> io list" where
  "handleLogout w = (logout w, [Go (Navigate (js ''/login'') True)])"

subsection \<open>\<open>dashboard-header.tsx\<close>\<close>

definition dashboardHeader_view :: "'e \<Rightarrow> auth_state \<Rightarrow> 'e node" where
  "dashboardHeader_view onLogout user =
     El ''header'' []
       [El ''div'' []
          [El ''div'' []
             [El ''OrgSwitcher'' [] [],
              El ''Separator'' [Attr ''orientation'' (js ''vertical'')] [],
              El ''div'' []
                [El ''p'' []
                   (user_text (if truthy (user_field user ''firstName'') then user_field user ''firstName'' else user_field user ''email'')),
                 El ''p'' [] (user_text (user_field user ''email''))]],
           El ''Button'' [Attr ''variant'' (js ''ghost''), On ''onClick'' onLogout]
             [El ''LogOut'' [] [], lit ''Sign out'']],
        El ''Separator'' [] []]"

subsection \<open>\<open>dashboard-page.tsx\<close>\<close>

datatype dashboard_event = Dp_Mobile bool | Dp_Logout

definition dp_handle :: "dashboard_event \<Rightarrow> bool \<times> (storage \<times> auth_state) \<Rightarrow> (bool \<times> (storage \<times> auth_state)) \<times> io list" where
  "dp_handle e = (\<lambda>(mobileOpen, w).
     case e of
       Dp_Mobile b \<Rightarrow> ((b, w), [])
     | Dp_Logout \<Rightarrow> (let (w', out) = handleLogout w in ((mobileOpen, w'), out)))"

definition dashboardPage_view :: "bool \<Rightarrow> auth_state \<Rightarrow> organization option \<Rightarrow> dashboard_event node" where
  "dashboardPage_view mobileOpen user currentOrg =
     El ''div'' []
       [El ''header'' []
          [El ''Sheet'' [Flag ''open'' mobileOpen, OnBool ''onOpenChange'' Dp_Mobile]
             [El ''SheetTrigger'' []
                [El ''Button'' [Attr ''variant'' (js ''ghost'')]
                   [El ''Menu'' [] [], El ''span'' [] [lit ''Open menu'']]],
              El ''SheetContent'' [Flag ''showCloseButton'' True]
                [dashboardSidebar_view (Some (Dp_Mobile False)) Dp_Logout user currentOrg]],
           El ''img'' [Attr ''src'' (js ''/logo.png''), Attr ''alt'' (js ''Chis'')] []],
        El ''div'' []
          [El ''div'' [] [dashboardSidebar_view None Dp_Logout user currentOrg],
           El ''main'' [] [El ''div'' [] [El ''Outlet'' [] []]]],
        El ''PendingInvitationsDialog'' [] []]"

lemmas nav_defs =
  nav_entry_def navItems_def adminNavItems_def mainNavItems_def sidebarAdminItems_def nav_link_def on_click_def

subsection \<open>The links of a tree\<close>

fun link_target :: "'e attr list \<Rightarrow> jstring list" where
  "link_target [] = []"
| "link_target (Attr n v # as) = (if n = ''to'' then [v] else link_target as)"
| "link_target (_ # as) = link_target as"

fun node_links :: "'e node \<Rightarrow> jstring list" and attr_links :: "'e attr \<Rightarrow> jstring list" where
  "node_links (Txt s) = []"
| "node_links (El n as cs) =
     (if n \<in> {''Link'', ''NavLink''} then link_target as else [])
     @ concat (map attr_links as) @ concat (map node_links cs)"
| "attr_links (Render r) = node_links r"
| "attr_links _ = []"

lemma nav_link_links: "node_links (nav_link (on_click f) item) = [nav_to item]"
  by (cases f) (simp_all add: nav_link_def on_click_def)

lemma lit_links [simp]: "node_links (lit s) = []"
  by (simp add: lit_def)

lemma user_text_links [simp]: "concat (map node_links (user_text x)) = []"
  by (cases x) (simp_all add: user_text_def)

lemma sidebar_items_links: "node_links (sidebar_items f items) = map nav_to items"
  by (induction items) (simp_all add: sidebar_items_def nav_link_links)

lemma sidebar_links:
  "node_links (dashboardSidebar_view f lo u currentOrg) =
     js ''/dashboard'' # map nav_to mainNavItems @ (if is_admin currentOrg then map nav_to sidebarAdminItems else [])"
  by (cases f) (simp_all add: dashboardSidebar_view_def sidebar_items_links user_menu_def only_if_def on_click_def)

text \<open>The sidebar offers the same items as the navigation bar.\<close>

lemma nav_links_agree:
  "node_links (dashboardSidebar_view f lo u currentOrg) = js ''/dashboard'' # node_links (dashboardNav_view currentOrg)"
  by (simp add: sidebar_links dashboardNav_view_def nav_defs)

end
