(* ===== verification/Pending_Invitations.thy ===== *)
theory Pending_Invitations
  imports Layout
begin

text \<open>
  \<open>features/dashboard/components/pending-invitations-dialog.tsx\<close>: the dialog that offers the
  invitations waiting for the user. Its effect runs once per mount (no dependencies) and has no
  loading flag; the answers to the two buttons act on the dialog and on the organization context, so
  \<open>handleRespond\<close>, split at its \<open>await\<close>, works on the pair of both. The record \<open>loading\<close> is a map: an
  absent entry is \<open>undefined\<close>, which does not disable a button.
\<close>

record pending_dialog =
  pd_cell :: "unit effect"
  pd_invitations :: "pending_invitation list"
  pd_open :: bool
  pd_loading :: "jstring \<Rightarrow> bool option"

definition pd_init :: pending_dialog where
  "pd_init = \<lparr> pd_cell = new_effect, pd_invitations = [], pd_open = False, pd_loading = Map.empty \<rparr>"

definition pd_request :: "jstring \<Rightarrow> storage \<Rightarrow> unit \<Rightarrow> http_request option" where
  "pd_request base st d = Some (apiRequest base st fetchPendingInvitations)"

definition pd_load_end :: "js_exn + pending_invitation list \<Rightarrow> pending_dialog \<Rightarrow> pending_dialog" where
  "pd_load_end r s =
     (case r of
        Inr data \<Rightarrow> if length data > 0 then s\<lparr> pd_invitations := data, pd_open := True \<rparr> else s
      | Inl _ \<Rightarrow> s)"

definition pd_commit :: "jstring \<Rightarrow> storage \<Rightarrow> unit \<Rightarrow> pending_dialog \<Rightarrow> pending_dialog" where
  "pd_commit base st d s = s\<lparr> pd_cell := commit_effect d (pd_request base st d) (pd_cell s) \<rparr>"

definition pd_load_settled :: "nat \<Rightarrow> js_exn + pending_invitation list \<Rightarrow> pending_dialog \<Rightarrow> pending_dialog" where
  "pd_load_settled i r s =
     (let s1 = s\<lparr> pd_cell := finish_run i (pd_cell s) \<rparr>
      in if run_live i (pd_cell s) then pd_load_end r s1 else s1)"

definition pd_unmount :: "pending_dialog \<Rightarrow> pending_dialog" where
  "pd_unmount s = s\<lparr> pd_cell := unmount_effect (pd_cell s) \<rparr>"

datatype pending_event = Pd_Open bool | Pd_Respond jstring respond_action

text \<open>\<open>handleRespond\<close> up to its \<open>await\<close>, and from there on.\<close>

definition pd_handleRespond ::
  "jstring \<Rightarrow> jstring \<Rightarrow> respond_action \<Rightarrow> pending_dialog \<times> org_world \<Rightarrow> (pending_dialog \<times> org_world) \<times> io list" where
  "pd_handleRespond base i action = (\<lambda>(s, w).
     ((s\<lparr> pd_loading := (pd_loading s)(i \<mapsto> True) \<rparr>, w),
      [Send (apiRequest base (fst w) (respondToInvitation i action))]))"

definition joined_org :: "accept_invitation_response \<Rightarrow> organization" where
  "joined_org data =
     \<lparr> org_id = air_orgId data, org_name = air_orgName data, org_slug = air_orgSlug data, org_role = air_role data \<rparr>"

definition pd_removed :: "jstring \<Rightarrow> pending_dialog \<Rightarrow> pending_dialog" where
  "pd_removed i s =
     (let rest = filter (\<lambda>invite. pi_id invite \<noteq> i) (pd_invitations s);
          s1 = s\<lparr> pd_invitations := rest \<rparr>
      in if length rest = 0 then s1\<lparr> pd_open := False \<rparr> else s1)"

definition pd_respond_settled ::
  "jstring \<Rightarrow> respond_action \<Rightarrow> js_exn + accept_invitation_response \<Rightarrow> pending_dialog \<times> org_world \<Rightarrow>
   pending_dialog \<times> org_world" where
  "pd_respond_settled i action r = (\<lambda>(s, w).
     let (s1, w1) =
       (case r of
          Inr data \<Rightarrow> (pd_removed i s, if action = Accept then addOrg (joined_org data) w else w)
        | Inl _ \<Rightarrow> (s, w))
     in (s1\<lparr> pd_loading := (pd_loading s1)(i \<mapsto> False) \<rparr>, w1))"

fun pd_handle ::
  "jstring \<Rightarrow> pending_event \<Rightarrow> pending_dialog \<times> org_world \<Rightarrow> (pending_dialog \<times> org_world) \<times> io list" where
  "pd_handle base (Pd_Open b) (s, w) = ((s\<lparr> pd_open := b \<rparr>, w), [])"
| "pd_handle base (Pd_Respond i action) (s, w) = pd_handleRespond base i action (s, w)"

subsection \<open>The element tree\<close>

definition pd_row :: "(jstring \<Rightarrow> bool option) \<Rightarrow> pending_invitation \<Rightarrow> pending_event node" where
  "pd_row loading invite =
     El ''div'' []
       [El ''div'' []
          [El ''p'' [] [Txt (pi_orgName invite)],
           El ''p'' [] [lit ''Role: '', Txt (pi_role invite)]],
        El ''div'' []
          [El ''Button''
             [Attr ''variant'' (js ''outline''), Flag ''disabled'' (loading (pi_id invite) = Some True),
              On ''onClick'' (Pd_Respond (pi_id invite) Decline)]
             [lit ''Decline''],
           El ''Button''
             [Flag ''disabled'' (loading (pi_id invite) = Some True), On ''onClick'' (Pd_Respond (pi_id invite) Accept)]
             [lit ''Accept'']]]"

definition pendingDialog_view :: "pending_dialog \<Rightarrow> pending_event node list" where
  "pendingDialog_view s =
     (if length (pd_invitations s) = 0 then []
      else
        [El ''Dialog'' [Flag ''open'' (pd_open s), OnBool ''onOpenChange'' Pd_Open]
           [El ''DialogContent'' []
              [El ''DialogHeader'' []
                 [El ''DialogTitle'' [] [lit ''Pending invitations''],
                  El ''DialogDescription'' [] [lit ''You have been invited to join the following organizations.'']],
               El ''div'' [] (map (pd_row (pd_loading s)) (pd_invitations s))]]])"

lemmas pd_defs =
  pd_init_def pd_request_def pd_load_end_def pd_commit_def pd_load_settled_def pd_unmount_def pd_handleRespond_def
  pd_removed_def pd_respond_settled_def

subsection \<open>The effect\<close>

datatype pd_op = Pd_Set_Open bool | Pd_Begin jstring | Pd_End jstring respond_action "js_exn + accept_invitation_response"

text \<open>The parts of the handlers that act on the dialog; the organization context has no say in them.\<close>

fun pd_other :: "pd_op \<Rightarrow> pending_dialog \<Rightarrow> pending_dialog" where
  "pd_other (Pd_Set_Open b) s = s\<lparr> pd_open := b \<rparr>"
| "pd_other (Pd_Begin i) s = s\<lparr> pd_loading := (pd_loading s)(i \<mapsto> True) \<rparr>"
| "pd_other (Pd_End i action r) s =
     (let s1 = (case r of Inr _ \<Rightarrow> pd_removed i s | Inl _ \<Rightarrow> s)
      in s1\<lparr> pd_loading := (pd_loading s1)(i \<mapsto> False) \<rparr>)"

lemma pd_other_handlers:
  "fst (fst (pd_handle base (Pd_Open b) (s, w))) = pd_other (Pd_Set_Open b) s"
  "fst (fst (pd_handle base (Pd_Respond i action) (s, w))) = pd_other (Pd_Begin i) s"
  "fst (pd_respond_settled i action r (s, w)) = pd_other (Pd_End i action r) s"
  by (auto simp: pd_handleRespond_def pd_respond_settled_def Let_def split: sum.split)

definition pd_view :: "pending_dialog \<Rightarrow> pending_dialog" where
  "pd_view s = s\<lparr> pd_cell := new_effect \<rparr>"

interpretation pd: effect_hook pd_cell pd_view "pd_request base" id pd_load_end
  "pd_commit base" pd_load_settled pd_unmount pd_other for base
proof
  show "pd_cell (pd_other x s) = pd_cell s" for x s
    by (cases x) (auto simp: pd_removed_def Let_def split: sum.split)
qed (auto simp: pd_view_def pd_commit_def pd_load_settled_def pd_unmount_def pd_load_end_def Let_def split: sum.split)

definition pd_run :: "jstring \<Rightarrow> (unit, js_exn + pending_invitation list, pd_op) hook_event list \<Rightarrow> pending_dialog \<Rightarrow> pending_dialog" where
  "pd_run base evs s = fold (hook_step (pd_commit base) pd_load_settled pd_unmount pd_other) evs s"

lemma pd_run_steps: "pd_run base = pd.steps base"
  by (rule ext)+ (simp add: pd_run_def pd.steps_def pd.step_def)

lemma pd_run_ok: "effect_ok (pd_cell (pd_run base evs pd_init))"
  by (simp add: pd_run_steps pd.steps_ok pd_init_def)

subsection \<open>Properties\<close>

lemma pd_row_tree:
  "node_clicks (pd_row loading invite) =
     (if loading (pi_id invite) = Some True then []
      else [Pd_Respond (pi_id invite) Decline, Pd_Respond (pi_id invite) Accept])"
  by (simp add: pd_row_def)

lemma pd_clicks:
  "e \<in> set (clicks (pendingDialog_view s)) \<longleftrightarrow>
     (\<exists>invite action. invite \<in> set (pd_invitations s) \<and> pd_loading s (pi_id invite) \<noteq> Some True \<and> e = Pd_Respond (pi_id invite) action)"
proof -
  have "action = Accept \<or> action = Decline" for action by (cases action) auto
  then show ?thesis by (auto simp: pendingDialog_view_def tree_map pd_row_tree)
qed

text \<open>C12: The dialog lets the user accept or decline exactly the invitations it lists, each once at a time:
  the click sends one answer with that invitation and action, and disables both its buttons. When
  the server has taken the answer, that invitation and no other is off the list, and the dialog is
  gone with the last one; an accepted one has made its organization the current one, named in the
  requests from then on, while a declined one leaves the context alone. After a failure everything
  is as before the click and the buttons are enabled again.\<close>

theorem respond_flow:
  fixes base i :: jstring and action :: respond_action and s :: pending_dialog and w :: org_world
    and data :: accept_invitation_response and err :: js_exn
  assumes offered: "Pd_Respond i action \<in> set (clicks (pendingDialog_view s))"
  defines "c1 \<equiv> fst (pd_handle base (Pd_Respond i action) (s, w))"
  defines "c2 \<equiv> pd_respond_settled i action (Inr data) c1" and "c3 \<equiv> pd_respond_settled i action (Inl err) c1"
  shows "snd (pd_handle base (Pd_Respond i action) (s, w)) = [Send (apiRequest base (fst w) (respondToInvitation i action))]
    \<and> (\<exists>invite\<in>set (pd_invitations s). pi_id invite = i)
    \<and> Pd_Respond i a \<notin> set (clicks (pendingDialog_view (fst c1)))
    \<and> pd_invitations (fst c2) = filter (\<lambda>invite. pi_id invite \<noteq> i) (pd_invitations s)
    \<and> (pendingDialog_view (fst c2) = []) = ((\<lambda>invite. pi_id invite) ` set (pd_invitations s) = {i})
    \<and> snd c2 = (case action of Accept \<Rightarrow> addOrg (joined_org data) w | Decline \<Rightarrow> w)
    \<and> header (apiRequest base (fst (addOrg (joined_org data) w)) fetchApiKeys) (js ''X-Org-ID'') = sent (Some (air_orgId data))
    \<and> snd c3 = w \<and> clicks (pendingDialog_view (fst c3)) = clicks (pendingDialog_view s)"
proof -
  obtain invite where invite: "invite \<in> set (pd_invitations s)" "pi_id invite = i" "pd_loading s i \<noteq> Some True"
    using offered by (auto simp: pd_clicks)
  have c1: "c1 = (s\<lparr> pd_loading := (pd_loading s)(i \<mapsto> True) \<rparr>, w)"
    by (simp add: c1_def pd_handleRespond_def)
  have list: "pd_invitations (fst c2) = filter (\<lambda>invite. pi_id invite \<noteq> i) (pd_invitations s)"
    by (simp add: c2_def c1 pd_respond_settled_def pd_removed_def Let_def)
  then have gone: "(pendingDialog_view (fst c2) = []) = ((\<lambda>invite. pi_id invite) ` set (pd_invitations s) = {i})"
    using invite by (auto simp: pendingDialog_view_def filter_empty_conv)
  have "clicks (pendingDialog_view (fst c3)) = clicks (pendingDialog_view s)"
    using invite by (auto simp: c3_def c1 pd_respond_settled_def Let_def pendingDialog_view_def tree_map pd_row_tree
        intro!: arg_cong [of _ _ concat])
  moreover have "snd c2 = (case action of Accept \<Rightarrow> addOrg (joined_org data) w | Decline \<Rightarrow> w)"
    by (cases action) (simp_all add: c2_def c1 pd_respond_settled_def Let_def)
  moreover have "header (apiRequest base (fst (addOrg (joined_org data) w)) fetchApiKeys) (js ''X-Org-ID'') = sent (Some (air_orgId data))"
    by (cases w) (simp add: header_org addOrg_def joined_org_def)
  moreover have "Pd_Respond i a \<notin> set (clicks (pendingDialog_view (fst c1)))" by (auto simp: pd_clicks c1)
  ultimately show ?thesis
    using list gone invite by (auto simp: c3_def c1 pd_respond_settled_def Let_def pd_handleRespond_def)
qed

lemma respond_flow_witness:
  fixes answer :: accept_invitation_response
  defines "s \<equiv> pd_init\<lparr> pd_invitations := [\<lparr> pi_id = js ''1'', pi_orgName = js ''acme'', pi_orgSlug = [], pi_role = js ''member'', pi_expiresAt = [] \<rparr>] \<rparr>"
  defines "answer \<equiv> \<lparr> air_message = [], air_orgId = js ''7'', air_orgName = js ''acme'', air_orgSlug = [], air_role = js ''member'' \<rparr>"
  shows "pendingDialog_view (fst (pd_respond_settled (js ''1'') Accept (Inr answer)
      (fst (pd_handle [] (Pd_Respond (js ''1'') Accept) (s, (Map.empty, org_mount)))))) = []"
proof -
  have "Pd_Respond (js ''1'') Accept \<in> set (clicks (pendingDialog_view s))"
    by (simp add: pd_clicks s_def pd_init_def)
  from respond_flow [OF this, of "[]" "(Map.empty, org_mount)" Accept answer "Js_Error []"]
  show ?thesis by (simp add: s_def pd_init_def)
qed

text \<open>An answer to the request of an earlier mount, also of the first of the two mounts of the strict
  mode, changes nothing.\<close>

lemma pending_late_list:
  assumes "i < length (ef_runs (pd_cell (pd_run base before pd_init)))"
  shows "pd_view (pd_load_settled i r (pd_run base after (pd_unmount (pd_run base before pd_init))))
    = pd_view (pd_run base after (pd_unmount (pd_run base before pd_init)))"
  using pd.unmounted_view [OF pd_run_ok assms] by (simp add: pd_run_steps)

end
