(* ===== verification/Accept_Invite.thy ===== *)
theory Accept_Invite
  imports Pending_Invitations
begin

text \<open>
  \<open>features/invite/accept-invite-page.tsx\<close>: the page of an invitation link. Its effect sends the token
  of the link; the answer sets the cells of the page and, on success, adds the organization to the
  context, so the state is the page with the organization context. What the rest of the console
  does to the context meanwhile, the loading of the organizations above all, are the other
  operations of the contract.
\<close>

record accept_page =
  ai_cell :: "jstring option effect"
  ai_isLoading :: bool
  ai_result :: "accept_invitation_response option"
  ai_error :: "jstring option"

definition ai_init :: accept_page where
  "ai_init = \<lparr> ai_cell = new_effect, ai_isLoading = False, ai_result = None, ai_error = None \<rparr>"

definition ai_request :: "jstring \<Rightarrow> storage \<Rightarrow> jstring option \<Rightarrow> http_request option" where
  "ai_request base st token = (if truthy token then Some (apiRequest base st (acceptInvitation (the token))) else None)"

definition ai_load_begin :: "accept_page \<times> org_world \<Rightarrow> accept_page \<times> org_world" where
  "ai_load_begin = (\<lambda>(p, w). (p\<lparr> ai_isLoading := True, ai_error := None \<rparr>, w))"

definition ai_load_end ::
  "js_exn + accept_invitation_response \<Rightarrow> accept_page \<times> org_world \<Rightarrow> accept_page \<times> org_world" where
  "ai_load_end r = (\<lambda>(p, w).
     case r of
       Inr data \<Rightarrow> (p\<lparr> ai_result := Some data, ai_isLoading := False \<rparr>, addOrg (joined_org data) w)
     | Inl err \<Rightarrow> (p\<lparr> ai_error := Some (error_message err), ai_isLoading := False \<rparr>, w))"

definition ai_commit :: "jstring \<Rightarrow> storage \<Rightarrow> jstring option \<Rightarrow> accept_page \<times> org_world \<Rightarrow> accept_page \<times> org_world" where
  "ai_commit base st token = (\<lambda>(p, w).
     if effect_due token (ai_cell p)
     then (let p1 = p\<lparr> ai_cell := commit_effect token (ai_request base st token) (ai_cell p) \<rparr>
           in if \<not> truthy token then (p1, w) else ai_load_begin (p1, w))
     else (p, w))"

definition ai_load_settled ::
  "nat \<Rightarrow> js_exn + accept_invitation_response \<Rightarrow> accept_page \<times> org_world \<Rightarrow> accept_page \<times> org_world" where
  "ai_load_settled i r = (\<lambda>(p, w).
     let p1 = p\<lparr> ai_cell := finish_run i (ai_cell p) \<rparr>
     in if run_live i (ai_cell p) then ai_load_end r (p1, w) else (p1, w))"

definition ai_unmount :: "accept_page \<times> org_world \<Rightarrow> accept_page \<times> org_world" where
  "ai_unmount = (\<lambda>(p, w). (p\<lparr> ai_cell := unmount_effect (ai_cell p) \<rparr>, w))"

subsection \<open>The element tree\<close>

definition invite_card :: "'e node list \<Rightarrow> 'e node list \<Rightarrow> 'e node list" where
  "invite_card titles content =
     [El ''div'' []
        [El ''Card'' []
           (El ''CardHeader'' [] titles
            # (if content = [] then [] else [El ''CardContent'' [] content]))]]"

definition to_dashboard :: "'e node" where
  "to_dashboard = El ''Button'' [Render (El ''Link'' [Attr ''to'' (js ''/dashboard'')] [])] [lit ''Go to dashboard'']"

definition acceptInvite_view :: "jstring option \<Rightarrow> accept_page \<Rightarrow> 'e node list" where
  "acceptInvite_view token p =
     (if \<not> truthy token then
        invite_card
          [El ''CardTitle'' [] [lit ''Invalid invitation''],
           El ''CardDescription'' [] [lit ''This invitation link is invalid or missing a token.'']]
          [to_dashboard]
      else if ai_isLoading p then
        invite_card
          [El ''CardTitle'' [] [lit ''Accepting invitation...''],
           El ''CardDescription'' [] [lit ''Please wait while we process your invitation.'']]
          []
      else if truthy (ai_error p) then
        invite_card
          [El ''CardTitle'' [] [lit ''Invitation failed''],
           El ''CardDescription'' [] [Txt (the (ai_error p))]]
          [to_dashboard]
      else (case ai_result p of
        None \<Rightarrow> []
      | Some result \<Rightarrow>
          invite_card
            [El ''CardTitle'' [] [lit ''You're in!''],
             El ''CardDescription'' []
               [lit ''You've joined '', El ''strong'' [] [Txt (air_orgName result)], lit '' as a '',
                Txt (air_role result), lit ''.'']]
            [to_dashboard]))"

lemmas ai_defs =
  ai_init_def ai_request_def ai_load_begin_def ai_load_end_def ai_commit_def ai_load_settled_def ai_unmount_def

subsection \<open>The loading contract\<close>

fun ai_other :: "jstring \<Rightarrow> org_op \<Rightarrow> accept_page \<times> org_world \<Rightarrow> accept_page \<times> org_world" where
  "ai_other base x (p, w) = (p, org_step base x w)"

definition ai_set_cell :: "jstring option effect \<Rightarrow> accept_page \<times> org_world \<Rightarrow> accept_page \<times> org_world" where
  "ai_set_cell e = (\<lambda>(p, w). (p\<lparr> ai_cell := e \<rparr>, w))"

definition ai_loading :: "accept_page \<times> org_world \<Rightarrow> bool" where
  "ai_loading = (\<lambda>(p, w). ai_isLoading p)"

definition ai_effect :: "accept_page \<times> org_world \<Rightarrow> jstring option effect" where
  "ai_effect = (\<lambda>(p, w). ai_cell p)"

interpretation ai: data_hook ai_effect ai_set_cell ai_loading "ai_request base" ai_load_begin ai_load_end
  "ai_commit base" ai_load_settled ai_unmount "ai_other base" for base
  by unfold_locales
    (auto simp: ai_set_cell_def ai_loading_def ai_effect_def ai_commit_def ai_request_def ai_load_begin_def ai_load_end_def
      ai_load_settled_def ai_unmount_def Let_def fun_eq_iff split: sum.splits)

definition ai_run ::
  "jstring \<Rightarrow> (jstring option, js_exn + accept_invitation_response, org_op) hook_event list \<Rightarrow> accept_page \<times> org_world \<Rightarrow>
   accept_page \<times> org_world" where
  "ai_run base evs s = fold (hook_step (ai_commit base) ai_load_settled ai_unmount (ai_other base)) evs s"

lemma ai_run_steps: "ai_run base = ai.steps base"
  by (rule ext)+ (simp add: ai_run_def ai.steps_def ai.step_def)

lemma ai_run_ok: "effect_ok (ai_cell (fst (ai_run base evs (ai_init, w))))"
  using ai.steps_ok [of "(ai_init, w)" base evs]
  by (simp add: ai_run_steps ai_effect_def ai_init_def case_prod_beta)

lemma ai_view_cells:
  "ai_set_cell new_effect s = (p, w) \<Longrightarrow> ai_isLoading (fst s) = ai_isLoading p \<and> ai_result (fst s) = ai_result p
    \<and> ai_error (fst s) = ai_error p \<and> snd s = w"
  by (cases s) (auto simp: ai_set_cell_def)

subsection \<open>Properties\<close>


definition demo_answer :: accept_invitation_response where
  "demo_answer =
     \<lparr> air_message = [], air_orgId = js ''7'', air_orgName = js ''acme'', air_orgSlug = [], air_role = js ''member'' \<rparr>"


text \<open>In the strict mode of development every effect runs twice. The first answer is the acceptance, and
  it is ignored, its run having been cancelled; the second request is refused by the server, as the
  invitation is no longer pending: the page reports a failure, and the organization that has been
  joined is missing from the console until it is reloaded.\<close>

theorem strict_mode_accept:
  fixes base t :: jstring and st :: storage and w :: org_world and data :: accept_invitation_response and err :: js_exn
  defines "s \<equiv> ai_run base [Commit st (Some t), Unmount, Commit st (Some t), Settled 0 (Inr data), Settled 1 (Inl err)] (ai_init, w)"
  assumes "t \<noteq> []" "error_message err \<noteq> []"
  shows "map run_request (ef_runs (ai_cell (fst s))) = replicate 2 (apiRequest base st (acceptInvitation t))
    \<and> texts (acceptInvite_view (Some t) (fst s)) = [js ''Invitation failed'', error_message err, js ''Go to dashboard'']
    \<and> snd s = w"
  using assms(2,3)
  by (simp add: s_def ai_run_def ai_defs effect_defs Let_def acceptInvite_view_def invite_card_def to_dashboard_def numeral_2_eq_2)

lemma strict_mode_accept_witness:
  "snd (ai_run [] [Commit Map.empty (Some (js ''tok'')), Unmount, Commit Map.empty (Some (js ''tok'')),
      Settled 0 (Inr demo_answer),
      Settled 1 (Inl (Js_Error []))] (ai_init, (Map.empty, org_mount))) = (Map.empty, org_mount)"
proof -
  have "js ''tok'' \<noteq> []" "error_message (Js_Error []) \<noteq> []" by (simp_all add: error_message_def js_def)
  from strict_mode_accept [OF this, of "[]" Map.empty demo_answer "(Map.empty, org_mount)"] show ?thesis by blast
qed

text \<open>C36: A link opened in a fresh tab sends the token and loads the organizations at the same time, and the
  two answers race. A list from before the acceptance that arrives after it removes the joined
  organization from the console and selects another one; a list from after the acceptance that
  arrives before it leaves the joined organization listed twice.\<close>

theorem joined_org_races:
  fixes base t :: jstring and st st' :: storage and data :: accept_invitation_response and orgs :: "organization list"
  defines "late \<equiv> ai_run base [Commit st (Some t), Other (Render_Auth True), Settled 0 (Inr data), Other (Load_Settled 0 (Inr orgs))] (ai_init, (st', org_mount))"
    and "soon \<equiv> ai_run base [Commit st (Some t), Other (Render_Auth True), Other (Load_Settled 0 (Inr orgs)), Settled 0 (Inr data)] (ai_init, (st', org_mount))"
  assumes "t \<noteq> []" "orgs \<noteq> []"
  shows "(air_orgId data \<notin> org_id ` set orgs \<longrightarrow>
      oc_organizations (snd (snd late)) = orgs \<and> oc_currentOrg (snd (snd late)) = Some (hd orgs)
      \<and> getItem (fst (snd late)) SELECTED_ORG_KEY = Some (org_id (hd orgs)))
    \<and> oc_organizations (snd (snd soon)) = orgs @ [joined_org data]
    \<and> (joined_org data \<in> set orgs \<longrightarrow> \<not> distinct (oc_organizations (snd (snd soon))))"
proof -
  have none: "List.find (\<lambda>org. org_id org = air_orgId data) orgs = None" if "air_orgId data \<notin> org_id ` set orgs"
    using that by (force simp: find_None_iff)
  have "oc_organizations (snd (snd late)) = orgs \<and> oc_currentOrg (snd (snd late)) = Some (hd orgs)
      \<and> getItem (fst (snd late)) SELECTED_ORG_KEY = Some (org_id (hd orgs))" if "air_orgId data \<notin> org_id ` set orgs"
    using assms(3,4) none [OF that]
    by (simp add: late_def ai_run_def ai_defs effect_defs org_ops joined_org_def Let_def hd_conv_nth)
  moreover have "oc_organizations (snd (snd soon)) = orgs @ [joined_org data]"
    using assms(3,4)
    by (simp add: soon_def ai_run_def ai_defs effect_defs org_ops Let_def split: option.split)
  ultimately show ?thesis by simp
qed

lemma joined_org_races_witness:
  "\<not> distinct (oc_organizations (snd (snd (ai_run [] [Commit Map.empty (Some (js ''tok'')), Other (Render_Auth True),
      Other (Load_Settled 0 (Inr [joined_org demo_answer])),
      Settled 0 (Inr demo_answer)]
      (ai_init, (Map.empty, org_mount))))))"
  using joined_org_races [of "js ''tok''" "[joined_org demo_answer]"
      demo_answer "[]" Map.empty Map.empty]
  by simp

end
