(* ===== verification/Router.thy ===== *)
theory Router
  imports Auth_Forms Navigation Accept_Invite
begin

text \<open>
  \<open>router.tsx\<close>, the three guards of \<open>shared/components\<close> and \<open>App.tsx\<close>: which page a location shows.
  The route tree is the one of the program. Matching a path against it is done by React Router, so
  the matcher is a parameter \<open>matchRoutes\<close>, from the tree and a path to the elements on the matched
  branch, outermost first; what the program relies on is \<open>documented_matching\<close>: a path written in
  the tree, the paths of nested routes joined, matches the branch it is written on, an index route
  standing for the path of its parent, and any other path matches one of the branches or the \<open>*\<close>
  route.
\<close>

subsection \<open>The route tree\<close>

datatype element =
    PublicRoute | ProtectedRoute | AdminRoute
  | LoginPage | RegisterPage | DashboardPage | OverviewPage | ApiKeysPage | LogsPage | PlaygroundPage
  | MembersPage | SettingsPage | AcceptInvitePage
  | Redirect jstring

datatype route =
    Layout_Route element "route list"
  | Path_Route string element "route list"
  | Index_Route element

definition router :: "route list" where
  "router =
     [Layout_Route PublicRoute
        [Path_Route ''/login'' LoginPage [],
         Path_Route ''/register'' RegisterPage []],
      Layout_Route ProtectedRoute
        [Path_Route ''/dashboard'' DashboardPage
           [Index_Route OverviewPage,
            Path_Route ''api-keys'' ApiKeysPage [],
            Path_Route ''logs'' LogsPage [],
            Path_Route ''playground'' PlaygroundPage [],
            Layout_Route AdminRoute
              [Path_Route ''members'' MembersPage [],
               Path_Route ''settings'' SettingsPage []]],
         Path_Route ''/invite/accept'' AcceptInvitePage []],
      Path_Route ''*'' (Redirect (js ''/dashboard'')) []]"

text \<open>The paths written in a tree, each with the elements on its branch.\<close>

definition join_path :: "string \<Rightarrow> string \<Rightarrow> string" where
  "join_path p q = (if p = [] then q else p @ ''/'' @ q)"

fun branches :: "string \<Rightarrow> route \<Rightarrow> (string \<times> element list) list" where
  "branches p (Layout_Route e rs) = map (\<lambda>(q, es). (q, e # es)) (concat (map (branches p) rs))"
| "branches p (Path_Route q e rs) =
     (if rs = [] then [(join_path p q, [e])]
      else map (\<lambda>(q', es). (q', e # es)) (concat (map (branches (join_path p q)) rs)))"
| "branches p (Index_Route e) = [(p, [e])]"

definition route_table :: "(string \<times> element list) list" where
  "route_table = concat (map (branches []) router)"

definition documented_matching :: "(route list \<Rightarrow> jstring \<Rightarrow> element list) \<Rightarrow> bool" where
  "documented_matching matchRoutes \<longleftrightarrow>
     (\<forall>(p, es)\<in>set route_table. p \<noteq> ''*'' \<longrightarrow> matchRoutes router (js p) = es)
     \<and> (\<forall>p. matchRoutes router p \<in> snd ` set route_table)"

subsection \<open>The guards\<close>

text \<open>A guard renders its outlet (\<open>None\<close>) or a \<open>Navigate\<close> element.\<close>

definition publicRoute :: "bool \<Rightarrow> navigation option" where
  "publicRoute isAuth = (if isAuth then Some (Navigate (js ''/dashboard'') True) else None)"

definition adminRoute :: "organization option \<Rightarrow> navigation option" where
  "adminRoute currentOrg = (if \<not> is_admin currentOrg then Some (Navigate (js ''/dashboard'') True) else None)"

text \<open>The outer option is the \<open>URIError\<close> of the encoding.\<close>

definition protectedRoute :: "bool \<Rightarrow> location \<Rightarrow> navigation option option" where
  "protectedRoute isAuth l =
     (if \<not> isAuth then map_option (\<lambda>to. Some (Navigate to True)) (login_target l) else Some None)"

fun guard :: "bool \<Rightarrow> organization option \<Rightarrow> location \<Rightarrow> element \<Rightarrow> navigation option option" where
  "guard isAuth currentOrg l PublicRoute = Some (publicRoute isAuth)"
| "guard isAuth currentOrg l ProtectedRoute = protectedRoute isAuth l"
| "guard isAuth currentOrg l AdminRoute = Some (adminRoute currentOrg)"
| "guard isAuth currentOrg l (Redirect to) = Some (Some (Navigate to True))"
| "guard isAuth currentOrg l _ = Some None"

fun page_of :: "element \<Rightarrow> element list" where
  "page_of PublicRoute = []"
| "page_of ProtectedRoute = []"
| "page_of AdminRoute = []"
| "page_of (Redirect to) = []"
| "page_of e = [e]"

text \<open>What a branch renders: the pages on it down to the first guard that navigates away, and that navigation.\<close>

fun render_branch ::
  "bool \<Rightarrow> organization option \<Rightarrow> location \<Rightarrow> element list \<Rightarrow> (element list \<times> navigation option) option" where
  "render_branch isAuth currentOrg l [] = Some ([], None)"
| "render_branch isAuth currentOrg l (e # es) =
     (case guard isAuth currentOrg l e of
        None \<Rightarrow> None
      | Some (Some n) \<Rightarrow> Some ([], Some n)
      | Some None \<Rightarrow> map_option (\<lambda>(ps, n). (page_of e @ ps, n)) (render_branch isAuth currentOrg l es))"

text \<open>
  \<open>App.tsx\<close>: the router inside of the two providers, so that every render of a route sees both contexts.
  A navigation renders again at its target; \<open>fuel\<close> bounds the number of renders.
\<close>

fun app_settles ::
  "(route list \<Rightarrow> jstring \<Rightarrow> element list) \<Rightarrow> auth_state \<times> org_state \<Rightarrow> nat \<Rightarrow> location \<Rightarrow> (location \<times> element list) option" where
  "app_settles matchRoutes c 0 l = None"
| "app_settles matchRoutes c (Suc fuel) l =
     (case render_branch (isAuthenticated (fst c)) (oc_currentOrg (snd c)) l (matchRoutes router (pathname l)) of
        None \<Rightarrow> None
      | Some (ps, None) \<Rightarrow> Some (l, ps)
      | Some (ps, Some (Navigate to _)) \<Rightarrow> app_settles matchRoutes c fuel (parse_url to))"

subsection \<open>The table of the routes\<close>

lemma route_table_eq:
  "route_table =
     [(''/login'', [PublicRoute, LoginPage]), (''/register'', [PublicRoute, RegisterPage]),
      (''/dashboard'', [ProtectedRoute, DashboardPage, OverviewPage]),
      (''/dashboard/api-keys'', [ProtectedRoute, DashboardPage, ApiKeysPage]),
      (''/dashboard/logs'', [ProtectedRoute, DashboardPage, LogsPage]),
      (''/dashboard/playground'', [ProtectedRoute, DashboardPage, PlaygroundPage]),
      (''/dashboard/members'', [ProtectedRoute, DashboardPage, AdminRoute, MembersPage]),
      (''/dashboard/settings'', [ProtectedRoute, DashboardPage, AdminRoute, SettingsPage]),
      (''/invite/accept'', [ProtectedRoute, AcceptInvitePage]),
      (''*'', [Redirect (js ''/dashboard'')])]"
  by (simp add: route_table_def router_def join_path_def)

lemma matched: "documented_matching m \<Longrightarrow> (p, es) \<in> set route_table \<Longrightarrow> p \<noteq> ''*'' \<Longrightarrow> m router (js p) = es"
  by (auto simp: documented_matching_def)

lemma matched_paths:
  assumes "documented_matching m"
  shows "m router (js ''/login'') = [PublicRoute, LoginPage]"
    "m router (js ''/dashboard'') = [ProtectedRoute, DashboardPage, OverviewPage]"
    "m router (js ''/dashboard/api-keys'') = [ProtectedRoute, DashboardPage, ApiKeysPage]"
    "m router (js ''/dashboard/logs'') = [ProtectedRoute, DashboardPage, LogsPage]"
    "m router (js ''/dashboard/playground'') = [ProtectedRoute, DashboardPage, PlaygroundPage]"
    "m router (js ''/dashboard/members'') = [ProtectedRoute, DashboardPage, AdminRoute, MembersPage]"
    "m router (js ''/dashboard/settings'') = [ProtectedRoute, DashboardPage, AdminRoute, SettingsPage]"
  by (rule matched [OF assms]; simp add: route_table_eq)+

lemma matched_cases:
  assumes "documented_matching m"
  shows "m router p \<in> {[PublicRoute, LoginPage], [PublicRoute, RegisterPage],
      [ProtectedRoute, DashboardPage, OverviewPage], [ProtectedRoute, DashboardPage, ApiKeysPage],
      [ProtectedRoute, DashboardPage, LogsPage], [ProtectedRoute, DashboardPage, PlaygroundPage],
      [ProtectedRoute, DashboardPage, AdminRoute, MembersPage], [ProtectedRoute, DashboardPage, AdminRoute, SettingsPage],
      [ProtectedRoute, AcceptInvitePage], [Redirect (js ''/dashboard'')]}"
proof -
  have "m router p \<in> snd ` set route_table" using assms by (simp add: documented_matching_def)
  then show ?thesis by (auto simp: route_table_eq)
qed

lemma parse_js: "35 \<notin> set (js p) \<Longrightarrow> 63 \<notin> set (js p) \<Longrightarrow> parse_url (js p) = \<lparr> pathname = js p, search = [] \<rparr>"
  by (rule parse_plain_url)

lemma parse_paths:
  "parse_url (js ''/dashboard'') = \<lparr> pathname = js ''/dashboard'', search = [] \<rparr>"
  "parse_url (js ''/dashboard/api-keys'') = \<lparr> pathname = js ''/dashboard/api-keys'', search = [] \<rparr>"
  "parse_url (js ''/dashboard/logs'') = \<lparr> pathname = js ''/dashboard/logs'', search = [] \<rparr>"
  "parse_url (js ''/dashboard/playground'') = \<lparr> pathname = js ''/dashboard/playground'', search = [] \<rparr>"
  "parse_url (js ''/dashboard/members'') = \<lparr> pathname = js ''/dashboard/members'', search = [] \<rparr>"
  "parse_url (js ''/dashboard/settings'') = \<lparr> pathname = js ''/dashboard/settings'', search = [] \<rparr>"
  by (rule parse_js; simp add: js_def)+

lemma login_target_parses:
  assumes "login_target l = Some to"
  shows "pathname (parse_url to) = js ''/login''"
proof -
  obtain e where e: "encodeURIComponent (pathname l @ search l) = Some e" "to = js ''/login?redirect='' @ e"
    using assms by (auto simp: login_target_def)
  have "to = js ''/login'' @ 63 # (js ''redirect='' @ e)" by (simp add: e js_def)
  moreover have "35 \<notin> set (js ''redirect='' @ e)" using encoded_chars [OF e(1), THEN conjunct1] by (simp add: js_def)
  moreover have "35 \<notin> set (js ''/login'')" "63 \<notin> set (js ''/login'')" by (simp_all add: js_def)
  ultimately show ?thesis using parse_query_url by (metis location.select_convs(1))
qed

lemma login_target_defined: "well_formed (pathname l @ search l) \<Longrightarrow> \<exists>to. login_target l = Some to"
  by (simp add: login_target_def encodeURIComponent_def)

lemmas guard_defs = publicRoute_def protectedRoute_def adminRoute_def

subsection \<open>Following the redirects\<close>

text \<open>More fuel never changes where the redirects end.\<close>

lemma app_settles_mono: "app_settles m c n l = Some r \<Longrightarrow> n \<le> k \<Longrightarrow> app_settles m c k l = Some r"
proof (induction n arbitrary: k l)
  case (Suc n)
  then obtain k' where "k = Suc k'" "n \<le> k'" by (cases k) auto
  then show ?case using Suc by (auto split: option.splits prod.splits navigation.splits)
qed simp

text \<open>The two ends of every redirect show a page: the dashboard when signed in, the sign-in page when not.\<close>

lemma at_dashboard:
  assumes "documented_matching m" "isAuthenticated (fst c)"
  shows "app_settles m c (Suc n) (parse_url (js ''/dashboard'')) = Some (parse_url (js ''/dashboard''), [DashboardPage, OverviewPage])"
  using assms by (simp add: parse_paths matched_paths guard_defs)

lemma at_login:
  assumes "documented_matching m" "\<not> isAuthenticated (fst c)" "pathname l = js ''/login''"
  shows "app_settles m c (Suc n) l = Some (l, [LoginPage])"
  using assms by (simp add: matched_paths guard_defs)

lemma at_protected:
  assumes "documented_matching m" "\<not> isAuthenticated (fst c)" "well_formed (pathname l @ search l)"
    "m router (pathname l) = ProtectedRoute # es"
  shows "\<exists>to. login_target l = Some to \<and> app_settles m c (Suc (Suc n)) l = Some (parse_url to, [LoginPage])"
proof -
  obtain to where to: "login_target l = Some to" using login_target_defined [OF assms(3)] by blast
  have "app_settles m c (Suc (Suc n)) l = app_settles m c (Suc n) (parse_url to)"
    using assms(2,4) to by (simp add: guard_defs)
  then show ?thesis using at_login [OF assms(1,2) login_target_parses [OF to]] to by simp
qed

text \<open>A matcher that compares paths exactly, as an example of the documented behaviour.\<close>

definition exact_match :: "route list \<Rightarrow> jstring \<Rightarrow> element list" where
  "exact_match rs p =
     (let table = concat (map (branches []) rs)
      in case List.find (\<lambda>(q, es). js q = p) table of
           Some (q, es) \<Rightarrow> es
         | None \<Rightarrow> (case List.find (\<lambda>(q, es). q = ''*'') table of Some (q, es) \<Rightarrow> es | None \<Rightarrow> []))"

lemma exact_match_documented: "documented_matching exact_match"
proof -
  have table: "concat (map (branches []) router) = route_table" by (simp add: route_table_def)
  have "exact_match router p \<in> snd ` set route_table" for p
  proof (cases "List.find (\<lambda>(q, es). js q = p) route_table")
    case None
    then show ?thesis unfolding exact_match_def table by (simp add: route_table_eq)
  next
    case (Some r)
    then show ?thesis using find_Some_mem [OF Some] unfolding exact_match_def table
      by (cases r) (force simp: image_iff)
  qed
  moreover have "\<forall>(p, es)\<in>set route_table. p \<noteq> ''*'' \<longrightarrow> exact_match router (js p) = es"
    unfolding exact_match_def table by (simp add: route_table_eq)
  ultimately show ?thesis by (simp add: documented_matching_def)
qed

definition signed_in :: auth_state where
  "signed_in = \<lparr> au_token = Some (js ''t''), au_user = Some (JObj []) \<rparr>"

lemma signed_in [simp]: "isAuthenticated signed_in"
  by (simp add: signed_in_def isAuthenticated_def)

subsection \<open>Properties\<close>

text \<open>C8: Whatever location the browser is at and whoever is signed in, the redirects of the guards end after
  at most two navigations, at a location that shows a page: no chain of redirects loops.\<close>

theorem redirects_end:
  assumes doc: "documented_matching m" and wf: "well_formed (pathname l @ search l)"
  shows "\<exists>l' ps. ps \<noteq> [] \<and> (\<forall>n\<ge>3. app_settles m c n l = Some (l', ps))"
proof -
  have "\<exists>l' ps. ps \<noteq> [] \<and> app_settles m c (Suc (Suc (Suc 0))) l = Some (l', ps)"
  proof (cases "isAuthenticated (fst c)")
    case True
    note dashboard = at_dashboard [OF doc True]
    show ?thesis
      using matched_cases [OF doc, of "pathname l"] dashboard [of 0] dashboard [of 1] True
      by (auto simp: guard_defs)
  next
    case False
    have root: "\<exists>to. app_settles m c (Suc (Suc 0)) (parse_url (js ''/dashboard'')) = Some (parse_url to, [LoginPage])"
      using at_protected [OF doc False, of "parse_url (js ''/dashboard'')" _ 0]
      by (auto simp: parse_paths matched_paths [OF doc] well_formed_js)
    have guarded: "\<exists>to. app_settles m c (Suc (Suc (Suc 0))) l = Some (parse_url to, [LoginPage])"
      if "m router (pathname l) = ProtectedRoute # es" for es
      using at_protected [OF doc False wf that, of "Suc 0"] by blast
    show ?thesis
      using matched_cases [OF doc, of "pathname l"] root guarded False
      by (auto simp: guard_defs simp del: app_settles.simps(2)) (auto simp: guard_defs)
  qed
  then show ?thesis using app_settles_mono [of m c "Suc (Suc (Suc 0))" l] by (metis numeral_3_eq_3)
qed

lemma redirects_end_witness:
  "\<exists>l' ps. ps \<noteq> [] \<and> app_settles exact_match (auth_mount Map.empty, org_mount) 3 \<lparr> pathname = js ''/nowhere'', search = [] \<rparr> = Some (l', ps)"
  using redirects_end [OF exact_match_documented, of "\<lparr> pathname = js ''/nowhere'', search = [] \<rparr>" "(auth_mount Map.empty, org_mount)"]
  by (auto simp: well_formed_js)

text \<open>C7: Nobody sees a page the guards keep from them, at whatever location and after whatever redirects: an
  anonymous visitor ends at the sign-in or the registration page and nowhere else, a signed-in user
  never does, and the pages for administrators are shown only while the current organization is one
  the user administers.\<close>

theorem access_control:
  assumes "documented_matching m" "app_settles m c n l = Some (l', ps)"
  shows "(if isAuthenticated (fst c) then hd ps = DashboardPage \<or> ps = [AcceptInvitePage] else ps = [LoginPage] \<or> ps = [RegisterPage])
    \<and> (MembersPage \<in> set ps \<or> SettingsPage \<in> set ps \<longrightarrow> is_admin (oc_currentOrg (snd c)))"
  using assms(2)
proof (induction n arbitrary: l)
  case (Suc n)
  then show ?case using matched_cases [OF assms(1), of "pathname l"]
    by (auto simp: guard_defs split: if_splits option.splits)
qed simp

lemma access_control_witness:
  "app_settles exact_match (signed_in, org_mount) 1 (parse_url (js ''/dashboard'')) = Some (parse_url (js ''/dashboard''), [DashboardPage, OverviewPage])
   \<and> hd [DashboardPage, OverviewPage] = DashboardPage"
proof -
  have "app_settles exact_match (signed_in, org_mount) 1 (parse_url (js ''/dashboard'')) = Some (parse_url (js ''/dashboard''), [DashboardPage, OverviewPage])"
    using at_dashboard [OF exact_match_documented, of "(signed_in, org_mount)" 0] by simp
  with access_control [OF exact_match_documented this] show ?thesis by simp
qed

text \<open>C10: Every link of the sidebar leads, without a redirect, to the page it names: the four pages of every
  member, and for an administrator the two others, which are linked for nobody else.\<close>

theorem sidebar_links_lead:
  assumes "documented_matching m" "isAuthenticated (fst c)"
  shows "map (\<lambda>to. app_settles m c 1 (parse_url to)) (node_links (dashboardSidebar_view f lo u (oc_currentOrg (snd c)))) =
    map (\<lambda>(to, page). Some (parse_url (js to), [DashboardPage, page]))
      ([(''/dashboard'', OverviewPage), (''/dashboard'', OverviewPage), (''/dashboard/api-keys'', ApiKeysPage),
        (''/dashboard/logs'', LogsPage), (''/dashboard/playground'', PlaygroundPage)]
       @ (if is_admin (oc_currentOrg (snd c))
          then [(''/dashboard/members'', MembersPage), (''/dashboard/settings'', SettingsPage)] else []))"
  using assms
  by (simp add: sidebar_links nav_defs parse_paths matched_paths guard_defs)

lemma sidebar_links_lead_witness:
  "map (\<lambda>to. app_settles exact_match (signed_in, org_mount) 1 (parse_url to)) (node_links (dashboardSidebar_view None () signed_in None))
    = map (\<lambda>(to, page). Some (parse_url (js to), [DashboardPage, page]))
      [(''/dashboard'', OverviewPage), (''/dashboard'', OverviewPage), (''/dashboard/api-keys'', ApiKeysPage),
       (''/dashboard/logs'', LogsPage), (''/dashboard/playground'', PlaygroundPage)]"
  using sidebar_links_lead [OF exact_match_documented, of "(signed_in, org_mount)" None "()" signed_in]
  by (simp add: org_mount_def is_admin_def)

text \<open>C37: An administrator who reloads an administrator page loses it: at the mount no organization is current
  yet, so the guard goes to the overview for good, although the very organization that is loaded a
  moment later would have been let through.\<close>

theorem admin_reload_redirects:
  fixes base :: jstring and st :: storage and a :: auth_state
  assumes doc: "documented_matching m" and auth: "isAuthenticated a" and admin: "is_admin (Some org)"
    and page: "p \<in> {''/dashboard/members'', ''/dashboard/settings''}"
  defines "loaded \<equiv> snd (org_load_settled 0 (Inr [org]) (org_effect base True (st, org_mount)))"
  shows "app_settles m (a, org_mount) 3 (parse_url (js p)) = Some (parse_url (js ''/dashboard''), [DashboardPage, OverviewPage])
    \<and> (\<exists>e\<in>{MembersPage, SettingsPage}. app_settles m (a, loaded) 3 (parse_url (js p)) = Some (parse_url (js p), [DashboardPage, e]))"
proof -
  have "\<not> is_admin None" by (simp add: is_admin_def)
  moreover have "oc_currentOrg loaded = Some org"
    by (simp add: loaded_def hook_defs Let_def split: option.split)
  ultimately show ?thesis
    using page auth admin
    by (auto simp: numeral_3_eq_3 parse_paths matched_paths [OF doc] guard_defs org_mount_def)
qed

lemma admin_reload_redirects_witness:
  "app_settles exact_match (signed_in, org_mount) 3 (parse_url (js ''/dashboard/settings''))
    = Some (parse_url (js ''/dashboard''), [DashboardPage, OverviewPage])"
proof -
  have "is_admin (Some (demo_org ''a''))" by (simp add: is_admin_def demo_org_def)
  from admin_reload_redirects [OF exact_match_documented signed_in this, of "''/dashboard/settings''" "[]" Map.empty]
  show ?thesis by simp
qed



end
