(* ===== verification/Design_Wrappers.thy ===== *)
theory Design_Wrappers
  imports Layout
begin

text \<open>
  \<open>components/ui\<close>: the wrappers of the design system that the pages are written with. Each of them is a
  function from its attributes and children to the element it renders, which is a host element or a
  primitive of the library it wraps; \<open>className\<close>, which most of them only compute, is left out like
  the other styles. A number among the attributes is its decimal text; \<open>Badge\<close>, which calls a hook of the
  library, is an element with the hook's arguments.
\<close>

subsection \<open>Attributes\<close>

fun attr_name :: "'e attr \<Rightarrow> string" where
  "attr_name (Attr n v) = n"
| "attr_name (Flag n b) = n"
| "attr_name (On n e) = n"
| "attr_name (OnText n f) = n"
| "attr_name (OnBool n f) = n"
| "attr_name (OnValue n f) = n"
| "attr_name (Render r) = ''render''"

text \<open>
  Destructuring: a property with a default, the properties that remain, and \<open>{...props}\<close> after own
  attributes, which a given one overrides.
\<close>

fun prop_text :: "string \<Rightarrow> string \<Rightarrow> 'e attr list \<Rightarrow> jstring" where
  "prop_text n d [] = js d"
| "prop_text n d (Attr m v # as) = (if m = n then v else prop_text n d as)"
| "prop_text n d (_ # as) = prop_text n d as"

fun prop_flag :: "string \<Rightarrow> bool \<Rightarrow> 'e attr list \<Rightarrow> bool" where
  "prop_flag n d [] = d"
| "prop_flag n d (Flag m b # as) = (if m = n then b else prop_flag n d as)"
| "prop_flag n d (_ # as) = prop_flag n d as"

definition without :: "string list \<Rightarrow> 'e attr list \<Rightarrow> 'e attr list" where
  "without ns as = filter (\<lambda>a. attr_name a \<notin> set ns) as"

definition spread :: "'e attr list \<Rightarrow> 'e attr list \<Rightarrow> 'e attr list" where
  "spread own given = filter (\<lambda>a. attr_name a \<notin> attr_name ` set given) own @ given"

definition data_slot :: "string \<Rightarrow> 'e attr" where
  "data_slot s = Attr ''data-slot'' (js s)"

definition data_inset :: "'e attr list \<Rightarrow> 'e attr list" where
  "data_inset as = (if ''inset'' \<in> attr_name ` set as then [Flag ''data-inset'' (prop_flag ''inset'' False as)] else [])"

subsection \<open>Cards, badges, buttons and inputs\<close>

definition card_ui :: "'e attr list \<Rightarrow> 'e node list \<Rightarrow> 'e node" where
  "card_ui as cs =
     El ''div'' (spread [data_slot ''card'', Attr ''data-size'' (prop_text ''size'' ''default'' as)] (without [''size''] as)) cs"

definition cardHeader_ui :: "'e attr list \<Rightarrow> 'e node list \<Rightarrow> 'e node" where
  "cardHeader_ui as cs =
     El ''div'' (spread [data_slot ''card-header''] as) cs"

definition cardTitle_ui :: "'e attr list \<Rightarrow> 'e node list \<Rightarrow> 'e node" where
  "cardTitle_ui as cs =
     El ''div'' (spread [data_slot ''card-title''] as) cs"

definition cardDescription_ui :: "'e attr list \<Rightarrow> 'e node list \<Rightarrow> 'e node" where
  "cardDescription_ui as cs =
     El ''div'' (spread [data_slot ''card-description''] as) cs"

definition cardAction_ui :: "'e attr list \<Rightarrow> 'e node list \<Rightarrow> 'e node" where
  "cardAction_ui as cs =
     El ''div'' (spread [data_slot ''card-action''] as) cs"

definition cardContent_ui :: "'e attr list \<Rightarrow> 'e node list \<Rightarrow> 'e node" where
  "cardContent_ui as cs =
     El ''div'' (spread [data_slot ''card-content''] as) cs"

definition cardFooter_ui :: "'e attr list \<Rightarrow> 'e node list \<Rightarrow> 'e node" where
  "cardFooter_ui as cs =
     El ''div'' (spread [data_slot ''card-footer''] as) cs"

definition badge_ui :: "'e attr list \<Rightarrow> 'e node list \<Rightarrow> 'e node" where
  "badge_ui as cs =
     El ''useRender'' ([Attr ''defaultTagName'' (js ''span''), Attr ''state.slot'' (js ''badge''),
       Attr ''state.variant'' (prop_text ''variant'' ''default'' as)] @ without [''variant''] as) cs"

definition button_ui :: "'e attr list \<Rightarrow> 'e node list \<Rightarrow> 'e node" where
  "button_ui as cs =
     El ''ButtonPrimitive'' (spread [data_slot ''button''] (without [''variant'', ''size''] as)) cs"

definition input_ui :: "'e attr list \<Rightarrow> 'e node list \<Rightarrow> 'e node" where
  "input_ui as cs =
     El ''InputPrimitive''
       (spread (filter (\<lambda>a. attr_name a = ''type'') as @ [data_slot ''input'']) (without [''type''] as)) cs"

definition label_ui :: "'e attr list \<Rightarrow> 'e node list \<Rightarrow> 'e node" where
  "label_ui as cs =
     El ''label'' (spread [data_slot ''label''] as) cs"

definition textarea_ui :: "'e attr list \<Rightarrow> 'e node list \<Rightarrow> 'e node" where
  "textarea_ui as cs =
     El ''textarea'' (spread [data_slot ''textarea''] as) cs"

definition separator_ui :: "'e attr list \<Rightarrow> 'e node list \<Rightarrow> 'e node" where
  "separator_ui as cs =
     El ''SeparatorPrimitive''
       (spread [data_slot ''separator'', Attr ''orientation'' (prop_text ''orientation'' ''horizontal'' as)] (without [''orientation''] as)) cs"

subsection \<open>Alert dialogs\<close>

definition alertDialog_ui :: "'e attr list \<Rightarrow> 'e node list \<Rightarrow> 'e node" where
  "alertDialog_ui as cs =
     El ''AlertDialogPrimitive.Root'' (spread [data_slot ''alert-dialog''] as) cs"

definition alertDialogTrigger_ui :: "'e attr list \<Rightarrow> 'e node list \<Rightarrow> 'e node" where
  "alertDialogTrigger_ui as cs =
     El ''AlertDialogPrimitive.Trigger'' (spread [data_slot ''alert-dialog-trigger''] as) cs"

definition alertDialogPortal_ui :: "'e attr list \<Rightarrow> 'e node list \<Rightarrow> 'e node" where
  "alertDialogPortal_ui as cs =
     El ''AlertDialogPrimitive.Portal'' (spread [data_slot ''alert-dialog-portal''] as) cs"

definition alertDialogOverlay_ui :: "'e attr list \<Rightarrow> 'e node list \<Rightarrow> 'e node" where
  "alertDialogOverlay_ui as cs =
     El ''AlertDialogPrimitive.Backdrop'' (spread [data_slot ''alert-dialog-overlay''] as) cs"

definition alertDialogContent_ui :: "'e attr list \<Rightarrow> 'e node list \<Rightarrow> 'e node" where
  "alertDialogContent_ui as cs =
     alertDialogPortal_ui []
       [alertDialogOverlay_ui [] [],
        El ''AlertDialogPrimitive.Popup''
          (spread [data_slot ''alert-dialog-content'', Attr ''data-size'' (prop_text ''size'' ''default'' as)] (without [''size''] as)) cs]"

definition alertDialogHeader_ui :: "'e attr list \<Rightarrow> 'e node list \<Rightarrow> 'e node" where
  "alertDialogHeader_ui as cs =
     El ''div'' (spread [data_slot ''alert-dialog-header''] as) cs"

definition alertDialogFooter_ui :: "'e attr list \<Rightarrow> 'e node list \<Rightarrow> 'e node" where
  "alertDialogFooter_ui as cs =
     El ''div'' (spread [data_slot ''alert-dialog-footer''] as) cs"

definition alertDialogMedia_ui :: "'e attr list \<Rightarrow> 'e node list \<Rightarrow> 'e node" where
  "alertDialogMedia_ui as cs =
     El ''div'' (spread [data_slot ''alert-dialog-media''] as) cs"

definition alertDialogTitle_ui :: "'e attr list \<Rightarrow> 'e node list \<Rightarrow> 'e node" where
  "alertDialogTitle_ui as cs =
     El ''AlertDialogPrimitive.Title'' (spread [data_slot ''alert-dialog-title''] as) cs"

definition alertDialogDescription_ui :: "'e attr list \<Rightarrow> 'e node list \<Rightarrow> 'e node" where
  "alertDialogDescription_ui as cs =
     El ''AlertDialogPrimitive.Description'' (spread [data_slot ''alert-dialog-description''] as) cs"

definition alertDialogAction_ui :: "'e attr list \<Rightarrow> 'e node list \<Rightarrow> 'e node" where
  "alertDialogAction_ui as cs =
     button_ui (spread [data_slot ''alert-dialog-action''] as) cs"

definition alertDialogCancel_ui :: "'e attr list \<Rightarrow> 'e node list \<Rightarrow> 'e node" where
  "alertDialogCancel_ui as cs =
     El ''AlertDialogPrimitive.Close''
       (spread [data_slot ''alert-dialog-cancel'',
          Render (button_ui [Attr ''variant'' (prop_text ''variant'' ''outline'' as), Attr ''size'' (prop_text ''size'' ''default'' as)] [])]
         (without [''variant'', ''size''] as)) cs"

subsection \<open>Dialogs\<close>

definition dialog_ui :: "'e attr list \<Rightarrow> 'e node list \<Rightarrow> 'e node" where
  "dialog_ui as cs =
     El ''DialogPrimitive.Root'' (spread [data_slot ''dialog''] as) cs"

definition dialogTrigger_ui :: "'e attr list \<Rightarrow> 'e node list \<Rightarrow> 'e node" where
  "dialogTrigger_ui as cs =
     El ''DialogPrimitive.Trigger'' (spread [data_slot ''dialog-trigger''] as) cs"

definition dialogPortal_ui :: "'e attr list \<Rightarrow> 'e node list \<Rightarrow> 'e node" where
  "dialogPortal_ui as cs =
     El ''DialogPrimitive.Portal'' (spread [data_slot ''dialog-portal''] as) cs"

definition dialogClose_ui :: "'e attr list \<Rightarrow> 'e node list \<Rightarrow> 'e node" where
  "dialogClose_ui as cs =
     El ''DialogPrimitive.Close'' (spread [data_slot ''dialog-close''] as) cs"

definition dialogOverlay_ui :: "'e attr list \<Rightarrow> 'e node list \<Rightarrow> 'e node" where
  "dialogOverlay_ui as cs =
     El ''DialogPrimitive.Backdrop'' (spread [data_slot ''dialog-overlay''] as) cs"

definition dialogContent_ui :: "'e attr list \<Rightarrow> 'e node list \<Rightarrow> 'e node" where
  "dialogContent_ui as cs =
     dialogPortal_ui []
       [dialogOverlay_ui [] [],
        El ''DialogPrimitive.Popup'' (spread [data_slot ''dialog-content''] (without [''showCloseButton''] as))
          (cs @ only_if (prop_flag ''showCloseButton'' True as)
             [El ''DialogPrimitive.Close''
                [data_slot ''dialog-close'', Render (button_ui [Attr ''variant'' (js ''ghost''), Attr ''size'' (js ''icon-sm'')] [])]
                [El ''XIcon'' [] [], El ''span'' [] [lit ''Close'']]])]"

definition dialogHeader_ui :: "'e attr list \<Rightarrow> 'e node list \<Rightarrow> 'e node" where
  "dialogHeader_ui as cs =
     El ''div'' (spread [data_slot ''dialog-header''] as) cs"

definition dialogFooter_ui :: "'e attr list \<Rightarrow> 'e node list \<Rightarrow> 'e node" where
  "dialogFooter_ui as cs =
     El ''div'' (spread [data_slot ''dialog-footer''] (without [''showCloseButton''] as))
       (cs @ only_if (prop_flag ''showCloseButton'' False as)
          [El ''DialogPrimitive.Close'' [Render (button_ui [Attr ''variant'' (js ''outline'')] [])] [lit ''Close'']])"

definition dialogTitle_ui :: "'e attr list \<Rightarrow> 'e node list \<Rightarrow> 'e node" where
  "dialogTitle_ui as cs =
     El ''DialogPrimitive.Title'' (spread [data_slot ''dialog-title''] as) cs"

definition dialogDescription_ui :: "'e attr list \<Rightarrow> 'e node list \<Rightarrow> 'e node" where
  "dialogDescription_ui as cs =
     El ''DialogPrimitive.Description'' (spread [data_slot ''dialog-description''] as) cs"

subsection \<open>Sheets\<close>

definition sheet_ui :: "'e attr list \<Rightarrow> 'e node list \<Rightarrow> 'e node" where
  "sheet_ui as cs =
     El ''SheetPrimitive.Root'' (spread [data_slot ''sheet''] as) cs"

definition sheetTrigger_ui :: "'e attr list \<Rightarrow> 'e node list \<Rightarrow> 'e node" where
  "sheetTrigger_ui as cs =
     El ''SheetPrimitive.Trigger'' (spread [data_slot ''sheet-trigger''] as) cs"

definition sheetClose_ui :: "'e attr list \<Rightarrow> 'e node list \<Rightarrow> 'e node" where
  "sheetClose_ui as cs =
     El ''SheetPrimitive.Close'' (spread [data_slot ''sheet-close''] as) cs"

definition sheetPortal_ui :: "'e attr list \<Rightarrow> 'e node list \<Rightarrow> 'e node" where
  "sheetPortal_ui as cs =
     El ''SheetPrimitive.Portal'' (spread [data_slot ''sheet-portal''] as) cs"

definition sheetOverlay_ui :: "'e attr list \<Rightarrow> 'e node list \<Rightarrow> 'e node" where
  "sheetOverlay_ui as cs =
     El ''SheetPrimitive.Backdrop'' (spread [data_slot ''sheet-overlay''] as) cs"

definition sheetContent_ui :: "'e attr list \<Rightarrow> 'e node list \<Rightarrow> 'e node" where
  "sheetContent_ui as cs =
     sheetPortal_ui []
       [sheetOverlay_ui [] [],
        El ''SheetPrimitive.Popup''
          (spread [data_slot ''sheet-content'', Attr ''data-side'' (prop_text ''side'' ''right'' as)] (without [''side'', ''showCloseButton''] as))
          (cs @ only_if (prop_flag ''showCloseButton'' True as)
             [El ''SheetPrimitive.Close''
                [data_slot ''sheet-close'', Render (button_ui [Attr ''variant'' (js ''ghost''), Attr ''size'' (js ''icon-sm'')] [])]
                [El ''XIcon'' [] [], El ''span'' [] [lit ''Close'']]])]"

definition sheetHeader_ui :: "'e attr list \<Rightarrow> 'e node list \<Rightarrow> 'e node" where
  "sheetHeader_ui as cs =
     El ''div'' (spread [data_slot ''sheet-header''] as) cs"

definition sheetFooter_ui :: "'e attr list \<Rightarrow> 'e node list \<Rightarrow> 'e node" where
  "sheetFooter_ui as cs =
     El ''div'' (spread [data_slot ''sheet-footer''] as) cs"

definition sheetTitle_ui :: "'e attr list \<Rightarrow> 'e node list \<Rightarrow> 'e node" where
  "sheetTitle_ui as cs =
     El ''SheetPrimitive.Title'' (spread [data_slot ''sheet-title''] as) cs"

definition sheetDescription_ui :: "'e attr list \<Rightarrow> 'e node list \<Rightarrow> 'e node" where
  "sheetDescription_ui as cs =
     El ''SheetPrimitive.Description'' (spread [data_slot ''sheet-description''] as) cs"

subsection \<open>Menus\<close>

definition dropdownMenu_ui :: "'e attr list \<Rightarrow> 'e node list \<Rightarrow> 'e node" where
  "dropdownMenu_ui as cs =
     El ''MenuPrimitive.Root'' (spread [data_slot ''dropdown-menu''] as) cs"

definition dropdownMenuPortal_ui :: "'e attr list \<Rightarrow> 'e node list \<Rightarrow> 'e node" where
  "dropdownMenuPortal_ui as cs =
     El ''MenuPrimitive.Portal'' (spread [data_slot ''dropdown-menu-portal''] as) cs"

definition dropdownMenuTrigger_ui :: "'e attr list \<Rightarrow> 'e node list \<Rightarrow> 'e node" where
  "dropdownMenuTrigger_ui as cs =
     El ''MenuPrimitive.Trigger'' (spread [data_slot ''dropdown-menu-trigger''] as) cs"

definition dropdownMenuContent_ui :: "'e attr list \<Rightarrow> 'e node list \<Rightarrow> 'e node" where
  "dropdownMenuContent_ui as cs =
     El ''MenuPrimitive.Portal'' []
       [El ''MenuPrimitive.Positioner''
          [Attr ''align'' (prop_text ''align'' ''start'' as), Attr ''alignOffset'' (prop_text ''alignOffset'' ''0'' as),
           Attr ''side'' (prop_text ''side'' ''bottom'' as), Attr ''sideOffset'' (prop_text ''sideOffset'' ''4'' as)]
          [El ''MenuPrimitive.Popup''
             (spread [data_slot ''dropdown-menu-content''] (without [''align'', ''alignOffset'', ''side'', ''sideOffset''] as)) cs]]"

definition dropdownMenuGroup_ui :: "'e attr list \<Rightarrow> 'e node list \<Rightarrow> 'e node" where
  "dropdownMenuGroup_ui as cs =
     El ''MenuPrimitive.Group'' (spread [data_slot ''dropdown-menu-group''] as) cs"

definition dropdownMenuLabel_ui :: "'e attr list \<Rightarrow> 'e node list \<Rightarrow> 'e node" where
  "dropdownMenuLabel_ui as cs =
     El ''MenuPrimitive.GroupLabel'' (spread (data_slot ''dropdown-menu-label'' # data_inset as) (without [''inset''] as)) cs"

definition dropdownMenuItem_ui :: "'e attr list \<Rightarrow> 'e node list \<Rightarrow> 'e node" where
  "dropdownMenuItem_ui as cs =
     El ''MenuPrimitive.Item''
       (spread (data_slot ''dropdown-menu-item'' # data_inset as @ [Attr ''data-variant'' (prop_text ''variant'' ''default'' as)])
         (without [''inset'', ''variant''] as)) cs"

definition dropdownMenuSub_ui :: "'e attr list \<Rightarrow> 'e node list \<Rightarrow> 'e node" where
  "dropdownMenuSub_ui as cs =
     El ''MenuPrimitive.SubmenuRoot'' (spread [data_slot ''dropdown-menu-sub''] as) cs"

definition dropdownMenuSubTrigger_ui :: "'e attr list \<Rightarrow> 'e node list \<Rightarrow> 'e node" where
  "dropdownMenuSubTrigger_ui as cs =
     El ''MenuPrimitive.SubmenuTrigger''
       (spread (data_slot ''dropdown-menu-sub-trigger'' # data_inset as) (without [''inset''] as))
       (cs @ [El ''ChevronRightIcon'' [] []])"

definition dropdownMenuSubContent_ui :: "'e attr list \<Rightarrow> 'e node list \<Rightarrow> 'e node" where
  "dropdownMenuSubContent_ui as cs =
     dropdownMenuContent_ui
       (spread [data_slot ''dropdown-menu-sub-content'', Attr ''align'' (prop_text ''align'' ''start'' as),
          Attr ''alignOffset'' (prop_text ''alignOffset'' ''-3'' as), Attr ''side'' (prop_text ''side'' ''right'' as),
          Attr ''sideOffset'' (prop_text ''sideOffset'' ''0'' as)]
         (without [''align'', ''alignOffset'', ''side'', ''sideOffset''] as)) cs"

definition dropdownMenuCheckboxItem_ui :: "'e attr list \<Rightarrow> 'e node list \<Rightarrow> 'e node" where
  "dropdownMenuCheckboxItem_ui as cs =
     El ''MenuPrimitive.CheckboxItem''
       (spread (data_slot ''dropdown-menu-checkbox-item'' # filter (\<lambda>a. attr_name a = ''checked'') as) (without [''checked''] as))
       (El ''span'' [data_slot ''dropdown-menu-checkbox-item-indicator'']
          [El ''MenuPrimitive.CheckboxItemIndicator'' [] [El ''CheckIcon'' [] []]] # cs)"

definition dropdownMenuRadioGroup_ui :: "'e attr list \<Rightarrow> 'e node list \<Rightarrow> 'e node" where
  "dropdownMenuRadioGroup_ui as cs =
     El ''MenuPrimitive.RadioGroup'' (spread [data_slot ''dropdown-menu-radio-group''] as) cs"

definition dropdownMenuRadioItem_ui :: "'e attr list \<Rightarrow> 'e node list \<Rightarrow> 'e node" where
  "dropdownMenuRadioItem_ui as cs =
     El ''MenuPrimitive.RadioItem'' (spread [data_slot ''dropdown-menu-radio-item''] as)
       (El ''span'' [data_slot ''dropdown-menu-radio-item-indicator'']
          [El ''MenuPrimitive.RadioItemIndicator'' [] [El ''CheckIcon'' [] []]] # cs)"

definition dropdownMenuSeparator_ui :: "'e attr list \<Rightarrow> 'e node list \<Rightarrow> 'e node" where
  "dropdownMenuSeparator_ui as cs =
     El ''MenuPrimitive.Separator'' (spread [data_slot ''dropdown-menu-separator''] as) cs"

definition dropdownMenuShortcut_ui :: "'e attr list \<Rightarrow> 'e node list \<Rightarrow> 'e node" where
  "dropdownMenuShortcut_ui as cs =
     El ''span'' (spread [data_slot ''dropdown-menu-shortcut''] as) cs"

subsection \<open>Selects\<close>

definition select_ui :: "'e attr list \<Rightarrow> 'e node list \<Rightarrow> 'e node" where
  "select_ui as cs =
     El ''SelectPrimitive.Root'' as cs"

definition selectGroup_ui :: "'e attr list \<Rightarrow> 'e node list \<Rightarrow> 'e node" where
  "selectGroup_ui as cs =
     El ''SelectPrimitive.Group'' (spread [data_slot ''select-group''] as) cs"

definition selectValue_ui :: "'e attr list \<Rightarrow> 'e node list \<Rightarrow> 'e node" where
  "selectValue_ui as cs =
     El ''SelectPrimitive.Value'' (spread [data_slot ''select-value''] as) cs"

definition selectTrigger_ui :: "'e attr list \<Rightarrow> 'e node list \<Rightarrow> 'e node" where
  "selectTrigger_ui as cs =
     El ''SelectPrimitive.Trigger''
       (spread [data_slot ''select-trigger'', Attr ''data-size'' (prop_text ''size'' ''default'' as)] (without [''size''] as))
       (cs @ [El ''SelectPrimitive.Icon'' [Render (El ''ChevronDownIcon'' [] [])] []])"

definition selectScrollUpButton_ui :: "'e attr list \<Rightarrow> 'e node list \<Rightarrow> 'e node" where
  "selectScrollUpButton_ui as cs =
     El ''SelectPrimitive.ScrollUpArrow'' (spread [data_slot ''select-scroll-up-button''] as) [El ''ChevronUpIcon'' [] []]"

definition selectScrollDownButton_ui :: "'e attr list \<Rightarrow> 'e node list \<Rightarrow> 'e node" where
  "selectScrollDownButton_ui as cs =
     El ''SelectPrimitive.ScrollDownArrow'' (spread [data_slot ''select-scroll-down-button''] as) [El ''ChevronDownIcon'' [] []]"

definition selectContent_ui :: "'e attr list \<Rightarrow> 'e node list \<Rightarrow> 'e node" where
  "selectContent_ui as cs =
     El ''SelectPrimitive.Portal'' []
       [El ''SelectPrimitive.Positioner''
          [Attr ''side'' (prop_text ''side'' ''bottom'' as), Attr ''sideOffset'' (prop_text ''sideOffset'' ''4'' as),
           Attr ''align'' (prop_text ''align'' ''center'' as), Attr ''alignOffset'' (prop_text ''alignOffset'' ''0'' as),
           Flag ''alignItemWithTrigger'' (prop_flag ''alignItemWithTrigger'' True as)]
          [El ''SelectPrimitive.Popup''
             (spread [data_slot ''select-content'', Flag ''data-align-trigger'' (prop_flag ''alignItemWithTrigger'' True as)]
               (without [''side'', ''sideOffset'', ''align'', ''alignOffset'', ''alignItemWithTrigger''] as))
             [selectScrollUpButton_ui [] [], El ''SelectPrimitive.List'' [] cs, selectScrollDownButton_ui [] []]]]"

definition selectLabel_ui :: "'e attr list \<Rightarrow> 'e node list \<Rightarrow> 'e node" where
  "selectLabel_ui as cs =
     El ''SelectPrimitive.GroupLabel'' (spread [data_slot ''select-label''] as) cs"

definition selectItem_ui :: "'e attr list \<Rightarrow> 'e node list \<Rightarrow> 'e node" where
  "selectItem_ui as cs =
     El ''SelectPrimitive.Item'' (spread [data_slot ''select-item''] as)
       [El ''SelectPrimitive.ItemText'' [] cs,
        El ''SelectPrimitive.ItemIndicator'' [Render (El ''span'' [] [])] [El ''CheckIcon'' [] []]]"

definition selectSeparator_ui :: "'e attr list \<Rightarrow> 'e node list \<Rightarrow> 'e node" where
  "selectSeparator_ui as cs =
     El ''SelectPrimitive.Separator'' (spread [data_slot ''select-separator''] as) cs"

subsection \<open>Fields\<close>

text \<open>
  What \<open>FieldError\<close> shows: its children, or the messages of its \<open>errors\<close> (each error or its message
  may be \<open>undefined\<close>), one per message: \<open>new Map\<close> keeps the place of a key where it first came.
  \<open>None\<close> is a falsy content.
\<close>

definition renders :: "'e node list \<Rightarrow> bool" where
  "renders cs \<longleftrightarrow> cs \<noteq> [] \<and> cs \<noteq> [Txt []]"

fun first_occurrences :: "'a list \<Rightarrow> 'a list" where
  "first_occurrences [] = []"
| "first_occurrences (x # xs) = x # filter (\<lambda>y. y \<noteq> x) (first_occurrences xs)"

definition text_content :: "jstring option \<Rightarrow> 'e node list option" where
  "text_content m = (if truthy m then Some [Txt (the m)] else None)"

definition fieldError_content :: "'e node list \<Rightarrow> jstring option list option \<Rightarrow> 'e node list option" where
  "fieldError_content cs errors =
     (if renders cs then Some cs
      else (case errors of
              None \<Rightarrow> None
            | Some es \<Rightarrow>
                (let uniqueErrors = first_occurrences es
                 in if length es = 0 then None
                    else if length uniqueErrors = 1 then text_content (uniqueErrors ! 0)
                    else Some [El ''ul'' [] (concat (map (\<lambda>m. if_text m (\<lambda>s. [El ''li'' [] [Txt s]])) uniqueErrors))])))"

text \<open>What \<open>null\<close> renders.\<close>

definition nothing :: "'e node" where
  "nothing = Txt []"

definition fieldSet_ui :: "'e attr list \<Rightarrow> 'e node list \<Rightarrow> 'e node" where
  "fieldSet_ui as cs =
     El ''fieldset'' (spread [data_slot ''field-set''] as) cs"

definition fieldLegend_ui :: "'e attr list \<Rightarrow> 'e node list \<Rightarrow> 'e node" where
  "fieldLegend_ui as cs =
     El ''legend''
       (spread [data_slot ''field-legend'', Attr ''data-variant'' (prop_text ''variant'' ''legend'' as)] (without [''variant''] as)) cs"

definition fieldGroup_ui :: "'e attr list \<Rightarrow> 'e node list \<Rightarrow> 'e node" where
  "fieldGroup_ui as cs =
     El ''div'' (spread [data_slot ''field-group''] as) cs"

definition field_ui :: "'e attr list \<Rightarrow> 'e node list \<Rightarrow> 'e node" where
  "field_ui as cs =
     El ''div''
       (spread [Attr ''role'' (js ''group''), data_slot ''field'', Attr ''data-orientation'' (prop_text ''orientation'' ''vertical'' as)]
         (without [''orientation''] as)) cs"

definition fieldContent_ui :: "'e attr list \<Rightarrow> 'e node list \<Rightarrow> 'e node" where
  "fieldContent_ui as cs =
     El ''div'' (spread [data_slot ''field-content''] as) cs"

definition fieldLabel_ui :: "'e attr list \<Rightarrow> 'e node list \<Rightarrow> 'e node" where
  "fieldLabel_ui as cs =
     label_ui (spread [data_slot ''field-label''] as) cs"

definition fieldTitle_ui :: "'e attr list \<Rightarrow> 'e node list \<Rightarrow> 'e node" where
  "fieldTitle_ui as cs =
     El ''div'' (spread [data_slot ''field-label''] as) cs"

definition fieldDescription_ui :: "'e attr list \<Rightarrow> 'e node list \<Rightarrow> 'e node" where
  "fieldDescription_ui as cs =
     El ''p'' (spread [data_slot ''field-description''] as) cs"

definition fieldSeparator_ui :: "'e attr list \<Rightarrow> 'e node list \<Rightarrow> 'e node" where
  "fieldSeparator_ui as cs =
     El ''div'' (spread [data_slot ''field-separator'', Flag ''data-content'' (renders cs)] as)
       (separator_ui [] [] # only_if (renders cs) [El ''span'' [data_slot ''field-separator-content''] cs])"

definition fieldError_ui :: "jstring option list option \<Rightarrow> 'e attr list \<Rightarrow> 'e node list \<Rightarrow> 'e node" where
  "fieldError_ui errors as cs =
     (case fieldError_content cs errors of
       None \<Rightarrow> nothing
     | Some content \<Rightarrow> El ''div'' (spread [Attr ''role'' (js ''alert''), data_slot ''field-error''] as) content)"

end
