(* ===== verification/Design_Inputs.thy ===== *)
theory Design_Inputs
  imports Design_Wrappers
begin

text \<open>
  The wrappers of \<open>components/ui/input-group.tsx\<close> and \<open>combobox.tsx\<close>, and the frame of the demonstration
  page (\<open>components/example.tsx\<close>), which is their only user. An addon of an input group has a click
  handler of its own, which moves the focus to the input of the group unless a button was clicked; it
  is the event \<open>focus\<close> of the functions that have it.
\<close>

text \<open>A property with a default that is passed on as an attribute of the same name.\<close>

definition prop_attrs :: "string \<Rightarrow> string \<Rightarrow> 'e attr list \<Rightarrow> 'e attr list" where
  "prop_attrs n d as =
     (if n \<in> attr_name ` set as then filter (\<lambda>a. attr_name a = n) as else [Attr n (js d)])"

subsection \<open>Input groups\<close>

definition inputGroup_ui :: "'e attr list \<Rightarrow> 'e node list \<Rightarrow> 'e node" where
  "inputGroup_ui as cs =
     El ''div'' (spread [data_slot ''input-group'', Attr ''role'' (js ''group'')] as) cs"

definition inputGroupAddon_ui :: "'e \<Rightarrow> 'e attr list \<Rightarrow> 'e node list \<Rightarrow> 'e node" where
  "inputGroupAddon_ui focus as cs =
     El ''div''
       (spread [Attr ''role'' (js ''group''), data_slot ''input-group-addon'',
          Attr ''data-align'' (prop_text ''align'' ''inline-start'' as), On ''onClick'' focus] (without [''align''] as)) cs"

definition inputGroupButton_ui :: "'e attr list \<Rightarrow> 'e node list \<Rightarrow> 'e node" where
  "inputGroupButton_ui as cs =
     button_ui
       (spread (prop_attrs ''type'' ''button'' as
            @ [Attr ''data-size'' (prop_text ''size'' ''xs'' as), Attr ''variant'' (prop_text ''variant'' ''ghost'' as)])
         (without [''type'', ''size'', ''variant''] as)) cs"

definition inputGroupText_ui :: "'e attr list \<Rightarrow> 'e node list \<Rightarrow> 'e node" where
  "inputGroupText_ui as cs =
     El ''span'' as cs"

definition inputGroupInput_ui :: "'e attr list \<Rightarrow> 'e node list \<Rightarrow> 'e node" where
  "inputGroupInput_ui as cs =
     input_ui (spread [data_slot ''input-group-control''] as) cs"

definition inputGroupTextarea_ui :: "'e attr list \<Rightarrow> 'e node list \<Rightarrow> 'e node" where
  "inputGroupTextarea_ui as cs =
     textarea_ui (spread [data_slot ''input-group-control''] as) cs"

subsection \<open>Comboboxes\<close>

text \<open>The \<open>anchor\<close> is a reference to an element, any attribute of that name.\<close>

definition anchor_attrs :: "'e attr list \<Rightarrow> 'e attr list" where
  "anchor_attrs as = filter (\<lambda>a. attr_name a = ''anchor'') as"

definition combobox_ui :: "'e attr list \<Rightarrow> 'e node list \<Rightarrow> 'e node" where
  "combobox_ui as cs =
     El ''ComboboxPrimitive.Root'' as cs"

definition comboboxValue_ui :: "'e attr list \<Rightarrow> 'e node list \<Rightarrow> 'e node" where
  "comboboxValue_ui as cs =
     El ''ComboboxPrimitive.Value'' (spread [data_slot ''combobox-value''] as) cs"

definition comboboxTrigger_ui :: "'e attr list \<Rightarrow> 'e node list \<Rightarrow> 'e node" where
  "comboboxTrigger_ui as cs =
     El ''ComboboxPrimitive.Trigger'' (spread [data_slot ''combobox-trigger''] as)
       (cs @ [El ''ChevronDownIcon'' [] []])"

definition comboboxClear_ui :: "'e attr list \<Rightarrow> 'e node list \<Rightarrow> 'e node" where
  "comboboxClear_ui as cs =
     El ''ComboboxPrimitive.Clear''
       (spread [data_slot ''combobox-clear'',
          Render (inputGroupButton_ui [Attr ''variant'' (js ''ghost''), Attr ''size'' (js ''icon-xs'')] [])] as)
       [El ''XIcon'' [] []]"

definition comboboxInput_ui :: "'e \<Rightarrow> 'e attr list \<Rightarrow> 'e node list \<Rightarrow> 'e node" where
  "comboboxInput_ui focus as cs =
     (let disabled = prop_flag ''disabled'' False as
      in inputGroup_ui []
           ([El ''ComboboxPrimitive.Input''
               (spread [Render (inputGroupInput_ui [Flag ''disabled'' disabled] [])]
                 (without [''disabled'', ''showTrigger'', ''showClear''] as)) [],
             inputGroupAddon_ui focus [Attr ''align'' (js ''inline-end'')]
               (only_if (prop_flag ''showTrigger'' True as)
                  [inputGroupButton_ui
                     [Attr ''size'' (js ''icon-xs''), Attr ''variant'' (js ''ghost''), Render (comboboxTrigger_ui [] []),
                      data_slot ''input-group-button'', Flag ''disabled'' disabled] []]
                @ only_if (prop_flag ''showClear'' False as) [comboboxClear_ui [Flag ''disabled'' disabled] []])]
            @ cs))"

definition comboboxContent_ui :: "'e attr list \<Rightarrow> 'e node list \<Rightarrow> 'e node" where
  "comboboxContent_ui as cs =
     El ''ComboboxPrimitive.Portal'' []
       [El ''ComboboxPrimitive.Positioner''
          ([Attr ''side'' (prop_text ''side'' ''bottom'' as), Attr ''sideOffset'' (prop_text ''sideOffset'' ''6'' as),
            Attr ''align'' (prop_text ''align'' ''start'' as), Attr ''alignOffset'' (prop_text ''alignOffset'' ''0'' as)]
           @ anchor_attrs as)
          [El ''ComboboxPrimitive.Popup''
             (spread [data_slot ''combobox-content'', Flag ''data-chips'' (anchor_attrs as \<noteq> [])]
               (without [''side'', ''sideOffset'', ''align'', ''alignOffset'', ''anchor''] as)) cs]]"

definition comboboxList_ui :: "'e attr list \<Rightarrow> 'e node list \<Rightarrow> 'e node" where
  "comboboxList_ui as cs =
     El ''ComboboxPrimitive.List'' (spread [data_slot ''combobox-list''] as) cs"

definition comboboxItem_ui :: "'e attr list \<Rightarrow> 'e node list \<Rightarrow> 'e node" where
  "comboboxItem_ui as cs =
     El ''ComboboxPrimitive.Item'' (spread [data_slot ''combobox-item''] as)
       (cs @ [El ''ComboboxPrimitive.ItemIndicator'' [Render (El ''span'' [] [])] [El ''CheckIcon'' [] []]])"

definition comboboxGroup_ui :: "'e attr list \<Rightarrow> 'e node list \<Rightarrow> 'e node" where
  "comboboxGroup_ui as cs =
     El ''ComboboxPrimitive.Group'' (spread [data_slot ''combobox-group''] as) cs"

definition comboboxLabel_ui :: "'e attr list \<Rightarrow> 'e node list \<Rightarrow> 'e node" where
  "comboboxLabel_ui as cs =
     El ''ComboboxPrimitive.GroupLabel'' (spread [data_slot ''combobox-label''] as) cs"

definition comboboxCollection_ui :: "'e attr list \<Rightarrow> 'e node list \<Rightarrow> 'e node" where
  "comboboxCollection_ui as cs =
     El ''ComboboxPrimitive.Collection'' (spread [data_slot ''combobox-collection''] as) cs"

definition comboboxEmpty_ui :: "'e attr list \<Rightarrow> 'e node list \<Rightarrow> 'e node" where
  "comboboxEmpty_ui as cs =
     El ''ComboboxPrimitive.Empty'' (spread [data_slot ''combobox-empty''] as) cs"

definition comboboxSeparator_ui :: "'e attr list \<Rightarrow> 'e node list \<Rightarrow> 'e node" where
  "comboboxSeparator_ui as cs =
     El ''ComboboxPrimitive.Separator'' (spread [data_slot ''combobox-separator''] as) cs"

definition comboboxChips_ui :: "'e attr list \<Rightarrow> 'e node list \<Rightarrow> 'e node" where
  "comboboxChips_ui as cs =
     El ''ComboboxPrimitive.Chips'' (spread [data_slot ''combobox-chips''] as) cs"

definition comboboxChip_ui :: "'e attr list \<Rightarrow> 'e node list \<Rightarrow> 'e node" where
  "comboboxChip_ui as cs =
     El ''ComboboxPrimitive.Chip'' (spread [data_slot ''combobox-chip''] (without [''showRemove''] as))
       (cs @ only_if (prop_flag ''showRemove'' True as)
          [El ''ComboboxPrimitive.ChipRemove''
             [Render (button_ui [Attr ''variant'' (js ''ghost''), Attr ''size'' (js ''icon-xs'')] []),
              data_slot ''combobox-chip-remove'']
             [El ''XIcon'' [] []]])"

definition comboboxChipsInput_ui :: "'e attr list \<Rightarrow> 'e node list \<Rightarrow> 'e node" where
  "comboboxChipsInput_ui as cs =
     El ''ComboboxPrimitive.Input'' (spread [data_slot ''combobox-chip-input''] as) cs"

subsection \<open>The frame of the demonstration page\<close>

definition exampleWrapper_ui :: "'e attr list \<Rightarrow> 'e node list \<Rightarrow> 'e node" where
  "exampleWrapper_ui as cs =
     El ''div'' [] [El ''div'' (spread [data_slot ''example-wrapper''] as) cs]"

definition example_ui :: "'e attr list \<Rightarrow> 'e node list \<Rightarrow> 'e node" where
  "example_ui as cs =
     El ''div'' (spread [data_slot ''example''] (without [''title'', ''containerClassName''] as))
       (if_text (Some (prop_text ''title'' [] as)) (\<lambda>t. [El ''div'' [] [Txt t]])
        @ [El ''div'' [data_slot ''example-content''] cs])"

end
