(* ===== verification/Design_System.thy ===== *)
theory Design_System
  imports Design_Inputs
begin

text \<open>
  The pages keep the wrappers of the design system as elements with their names. Here \<open>expand\<close> replaces
  them by what they render, and is proved to change nothing a page's user can read, click or submit,
  but for the label of the close buttons. Not expanded are: the scroll buttons of the selects and the
  clear button of the combobox, which show an icon in the place of their children; \<open>FieldError\<close>, which may
  render nothing; and the parts of the input group that add a handler of their own.
\<close>

subsection \<open>The wrappers by name\<close>

definition wrappers :: "(string \<times> ('e attr list \<Rightarrow> 'e node list \<Rightarrow> 'e node)) list" where
  "wrappers =
     [(''Card'', card_ui),
      (''CardHeader'', cardHeader_ui),
      (''CardTitle'', cardTitle_ui),
      (''CardDescription'', cardDescription_ui),
      (''CardAction'', cardAction_ui),
      (''CardContent'', cardContent_ui),
      (''CardFooter'', cardFooter_ui),
      (''Badge'', badge_ui),
      (''Button'', button_ui),
      (''Input'', input_ui),
      (''Label'', label_ui),
      (''Textarea'', textarea_ui),
      (''Separator'', separator_ui),
      (''AlertDialog'', alertDialog_ui),
      (''AlertDialogTrigger'', alertDialogTrigger_ui),
      (''AlertDialogPortal'', alertDialogPortal_ui),
      (''AlertDialogOverlay'', alertDialogOverlay_ui),
      (''AlertDialogContent'', alertDialogContent_ui),
      (''AlertDialogHeader'', alertDialogHeader_ui),
      (''AlertDialogFooter'', alertDialogFooter_ui),
      (''AlertDialogMedia'', alertDialogMedia_ui),
      (''AlertDialogTitle'', alertDialogTitle_ui),
      (''AlertDialogDescription'', alertDialogDescription_ui),
      (''AlertDialogAction'', alertDialogAction_ui),
      (''AlertDialogCancel'', alertDialogCancel_ui),
      (''Dialog'', dialog_ui),
      (''DialogTrigger'', dialogTrigger_ui),
      (''DialogPortal'', dialogPortal_ui),
      (''DialogClose'', dialogClose_ui),
      (''DialogOverlay'', dialogOverlay_ui),
      (''DialogContent'', dialogContent_ui),
      (''DialogHeader'', dialogHeader_ui),
      (''DialogFooter'', dialogFooter_ui),
      (''DialogTitle'', dialogTitle_ui),
      (''DialogDescription'', dialogDescription_ui),
      (''Sheet'', sheet_ui),
      (''SheetTrigger'', sheetTrigger_ui),
      (''SheetClose'', sheetClose_ui),
      (''SheetPortal'', sheetPortal_ui),
      (''SheetOverlay'', sheetOverlay_ui),
      (''SheetContent'', sheetContent_ui),
      (''SheetHeader'', sheetHeader_ui),
      (''SheetFooter'', sheetFooter_ui),
      (''SheetTitle'', sheetTitle_ui),
      (''SheetDescription'', sheetDescription_ui),
      (''DropdownMenu'', dropdownMenu_ui),
      (''DropdownMenuPortal'', dropdownMenuPortal_ui),
      (''DropdownMenuTrigger'', dropdownMenuTrigger_ui),
      (''DropdownMenuContent'', dropdownMenuContent_ui),
      (''DropdownMenuGroup'', dropdownMenuGroup_ui),
      (''DropdownMenuLabel'', dropdownMenuLabel_ui),
      (''DropdownMenuItem'', dropdownMenuItem_ui),
      (''DropdownMenuSub'', dropdownMenuSub_ui),
      (''DropdownMenuSubTrigger'', dropdownMenuSubTrigger_ui),
      (''DropdownMenuSubContent'', dropdownMenuSubContent_ui),
      (''DropdownMenuCheckboxItem'', dropdownMenuCheckboxItem_ui),
      (''DropdownMenuRadioGroup'', dropdownMenuRadioGroup_ui),
      (''DropdownMenuRadioItem'', dropdownMenuRadioItem_ui),
      (''DropdownMenuSeparator'', dropdownMenuSeparator_ui),
      (''DropdownMenuShortcut'', dropdownMenuShortcut_ui),
      (''Select'', select_ui),
      (''SelectGroup'', selectGroup_ui),
      (''SelectValue'', selectValue_ui),
      (''SelectTrigger'', selectTrigger_ui),
      (''SelectContent'', selectContent_ui),
      (''SelectLabel'', selectLabel_ui),
      (''SelectItem'', selectItem_ui),
      (''SelectSeparator'', selectSeparator_ui),
      (''FieldSet'', fieldSet_ui),
      (''FieldLegend'', fieldLegend_ui),
      (''FieldGroup'', fieldGroup_ui),
      (''Field'', field_ui),
      (''FieldContent'', fieldContent_ui),
      (''FieldLabel'', fieldLabel_ui),
      (''FieldTitle'', fieldTitle_ui),
      (''FieldDescription'', fieldDescription_ui),
      (''FieldSeparator'', fieldSeparator_ui),
      (''InputGroup'', inputGroup_ui),
      (''InputGroupButton'', inputGroupButton_ui),
      (''InputGroupText'', inputGroupText_ui),
      (''InputGroupInput'', inputGroupInput_ui),
      (''InputGroupTextarea'', inputGroupTextarea_ui),
      (''Combobox'', combobox_ui),
      (''ComboboxValue'', comboboxValue_ui),
      (''ComboboxTrigger'', comboboxTrigger_ui),
      (''ComboboxContent'', comboboxContent_ui),
      (''ComboboxList'', comboboxList_ui),
      (''ComboboxItem'', comboboxItem_ui),
      (''ComboboxGroup'', comboboxGroup_ui),
      (''ComboboxLabel'', comboboxLabel_ui),
      (''ComboboxCollection'', comboboxCollection_ui),
      (''ComboboxEmpty'', comboboxEmpty_ui),
      (''ComboboxSeparator'', comboboxSeparator_ui),
      (''ComboboxChips'', comboboxChips_ui),
      (''ComboboxChip'', comboboxChip_ui),
      (''ComboboxChipsInput'', comboboxChipsInput_ui)]"

lemmas ui_defs =
  card_ui_def cardHeader_ui_def cardTitle_ui_def cardDescription_ui_def cardAction_ui_def cardContent_ui_def
  cardFooter_ui_def badge_ui_def button_ui_def input_ui_def label_ui_def textarea_ui_def separator_ui_def
  alertDialog_ui_def alertDialogTrigger_ui_def alertDialogPortal_ui_def alertDialogOverlay_ui_def
  alertDialogContent_ui_def alertDialogHeader_ui_def alertDialogFooter_ui_def alertDialogMedia_ui_def
  alertDialogTitle_ui_def alertDialogDescription_ui_def alertDialogAction_ui_def alertDialogCancel_ui_def
  dialog_ui_def dialogTrigger_ui_def dialogPortal_ui_def dialogClose_ui_def dialogOverlay_ui_def
  dialogContent_ui_def dialogHeader_ui_def dialogFooter_ui_def dialogTitle_ui_def dialogDescription_ui_def
  sheet_ui_def sheetTrigger_ui_def sheetClose_ui_def sheetPortal_ui_def sheetOverlay_ui_def
  sheetContent_ui_def sheetHeader_ui_def sheetFooter_ui_def sheetTitle_ui_def sheetDescription_ui_def
  dropdownMenu_ui_def dropdownMenuPortal_ui_def dropdownMenuTrigger_ui_def dropdownMenuContent_ui_def
  dropdownMenuGroup_ui_def dropdownMenuLabel_ui_def dropdownMenuItem_ui_def dropdownMenuSub_ui_def
  dropdownMenuSubTrigger_ui_def dropdownMenuSubContent_ui_def dropdownMenuCheckboxItem_ui_def
  dropdownMenuRadioGroup_ui_def dropdownMenuRadioItem_ui_def dropdownMenuSeparator_ui_def
  dropdownMenuShortcut_ui_def select_ui_def selectGroup_ui_def selectValue_ui_def selectTrigger_ui_def
  selectScrollUpButton_ui_def selectScrollDownButton_ui_def selectContent_ui_def selectLabel_ui_def
  selectItem_ui_def selectSeparator_ui_def fieldSet_ui_def fieldLegend_ui_def fieldGroup_ui_def field_ui_def
  fieldContent_ui_def fieldLabel_ui_def fieldTitle_ui_def fieldDescription_ui_def fieldSeparator_ui_def
  fieldError_ui_def inputGroup_ui_def inputGroupText_ui_def inputGroupTextarea_ui_def combobox_ui_def
  comboboxValue_ui_def comboboxTrigger_ui_def comboboxList_ui_def comboboxItem_ui_def comboboxGroup_ui_def
  comboboxLabel_ui_def comboboxCollection_ui_def comboboxEmpty_ui_def comboboxSeparator_ui_def
  comboboxChips_ui_def comboboxChip_ui_def comboboxChipsInput_ui_def

subsection \<open>Expanding the wrappers\<close>

fun expand :: "'e node \<Rightarrow> 'e node" and expand_attr :: "'e attr \<Rightarrow> 'e attr" where
  "expand (Txt s) = Txt s"
| "expand (El n as cs) =
     (case map_of wrappers n of
        None \<Rightarrow> El n (map expand_attr as) (map expand cs)
      | Some f \<Rightarrow> f (map expand_attr as) (map expand cs))"
| "expand_attr (Render r) = Render (expand r)"
| "expand_attr a = a"

definition visible :: "jstring list \<Rightarrow> jstring list" where
  "visible ts = filter (\<lambda>t. t \<noteq> [] \<and> t \<noteq> js ''Close'') ts"

lemma visible_simps [simp]:
  "visible [] = []" "visible (ts @ us) = visible ts @ visible us" "visible [js ''Close''] = []" "visible [[]] = []"
  by (auto simp: visible_def)

lemma visible_concat [simp]: "visible (concat tss) = concat (map visible tss)"
  by (induction tss) auto

text \<open>A wrapper that only adds attributes and children without handlers and texts.\<close>

definition transparent :: "('e attr list \<Rightarrow> 'e node list \<Rightarrow> 'e node) \<Rightarrow> bool" where
  "transparent f \<longleftrightarrow> (\<forall>as cs.
     node_clicks (f as cs) = node_clicks (El [] as cs)
     \<and> visible (node_texts (f as cs)) = visible (node_texts (El [] as cs))
     \<and> node_submits (f as cs) = submits cs
     \<and> blocked (f as cs) = blocked (El [] as cs))"

subsection \<open>Attributes that do nothing\<close>

lemma is_disabled_iff: "is_disabled as \<longleftrightarrow> Flag ''disabled'' True \<in> set as"
  by (induction as rule: is_disabled.induct) auto

lemma is_submit_iff: "is_submit as \<longleftrightarrow> Attr ''type'' (js ''submit'') \<in> set as"
  by (induction as rule: is_submit.induct) auto

lemma handlers_append [simp]: "handlers h (as @ bs) = handlers h as @ handlers h bs"
  by (induction as rule: handlers.induct) auto

fun inert :: "'e attr \<Rightarrow> bool" where
  "inert (Attr n v) = (n \<noteq> ''type'')"
| "inert (Flag n b) = (n \<noteq> ''disabled'')"
| "inert (Render r) = (node_texts r = [] \<and> node_clicks r = [])"
| "inert _ = False"

lemma inert_attrs:
  assumes "\<forall>a\<in>set own. inert a"
  shows "handlers h own = []" "concat (map attr_clicks own) = []" "concat (map attr_texts own) = []"
    "Flag ''disabled'' True \<notin> set own" "Attr ''type'' v \<notin> set own"
proof -
  show "handlers h own = []" using assms by (induction h own rule: handlers.induct) auto
  show "Flag ''disabled'' True \<notin> set own" "Attr ''type'' v \<notin> set own" using assms by force+
  show "concat (map attr_clicks own) = []" "concat (map attr_texts own) = []"
    using assms by (induction own) (auto elim: inert.elims)
qed

lemma spread_attrs:
  assumes "\<forall>a\<in>set own. inert a"
  shows "handlers h (spread own as) = handlers h as"
    "concat (map attr_clicks (spread own as)) = concat (map attr_clicks as)"
    "concat (map attr_texts (spread own as)) = concat (map attr_texts as)"
    "is_disabled (spread own as) = is_disabled as" "is_submit (spread own as) = is_submit as"
proof -
  have "\<forall>a\<in>set (filter (\<lambda>a. attr_name a \<notin> attr_name ` set as) own). inert a" using assms by simp
  note own = inert_attrs [OF this]
  show "handlers h (spread own as) = handlers h as"
    "concat (map attr_clicks (spread own as)) = concat (map attr_clicks as)"
    "concat (map attr_texts (spread own as)) = concat (map attr_texts as)"
    using own(1,2,3) by (simp_all add: spread_def del: set_filter concat_eq_Nil_conv)
  show "is_disabled (spread own as) = is_disabled as" "is_submit (spread own as) = is_submit as"
    using own(4,5) by (auto simp: spread_def is_disabled_iff is_submit_iff)
qed

lemma without_handlers: "h \<notin> set ns \<Longrightarrow> handlers h (without ns as) = handlers h as"
  by (induction h as rule: handlers.induct) (auto simp: without_def)

lemma without_trees:
  assumes "''render'' \<notin> set ns"
  shows "concat (map attr_clicks (without ns as)) = concat (map attr_clicks as)"
    "concat (map attr_texts (without ns as)) = concat (map attr_texts as)"
proof -
  have none: "attr_clicks a = []" "attr_texts a = []" if "attr_name a \<in> set ns" for a :: "'e attr"
    using that assms by (cases a; auto)+
  show "concat (map attr_clicks (without ns as)) = concat (map attr_clicks as)"
    "concat (map attr_texts (without ns as)) = concat (map attr_texts as)"
    by (induction as) (auto simp: without_def none)
qed

lemma without_flags:
  "''disabled'' \<notin> set ns \<Longrightarrow> is_disabled (without ns as) = is_disabled as"
  "''type'' \<notin> set ns \<Longrightarrow> is_submit (without ns as) = is_submit as"
  by (auto simp: without_def is_disabled_iff is_submit_iff)

lemmas attr_rules = spread_attrs without_handlers without_trees without_flags

lemma own_attrs [simp]: "inert (data_slot s)" "a \<in> set (data_inset as) \<Longrightarrow> inert a"
  by (auto simp: data_slot_def data_inset_def split: if_splits)

lemma slot_attrs [simp]:
  "handlers h (data_slot s # as) = handlers h as" "attr_clicks (data_slot s) = []" "attr_texts (data_slot s) = []"
  "is_disabled (data_slot s # as) = is_disabled as" "is_submit (data_slot s # as) = is_submit as"
  by (simp_all add: data_slot_def)

lemma nothing_to_render:
  assumes "\<not> renders cs"
  shows "clicks cs = []" "visible (texts cs) = []" "submits cs = []" "\<not> list_ex blocked cs"
  using assms by (auto simp: renders_def)

subsection \<open>The wrappers are transparent\<close>

lemma ui_transparent:
  shows "transparent card_ui"
    "transparent cardHeader_ui"
    "transparent cardTitle_ui"
    "transparent cardDescription_ui"
    "transparent cardAction_ui"
    "transparent cardContent_ui"
    "transparent cardFooter_ui"
    "transparent badge_ui"
    "transparent button_ui"
    "transparent label_ui"
    "transparent textarea_ui"
    "transparent separator_ui"
    "transparent alertDialog_ui"
    "transparent alertDialogTrigger_ui"
    "transparent alertDialogPortal_ui"
    "transparent alertDialogOverlay_ui"
    "transparent alertDialogContent_ui"
    "transparent alertDialogHeader_ui"
    "transparent alertDialogFooter_ui"
    "transparent alertDialogMedia_ui"
    "transparent alertDialogTitle_ui"
    "transparent alertDialogDescription_ui"
    "transparent alertDialogAction_ui"
    "transparent alertDialogCancel_ui"
    "transparent dialog_ui"
    "transparent dialogTrigger_ui"
    "transparent dialogPortal_ui"
    "transparent dialogClose_ui"
    "transparent dialogOverlay_ui"
    "transparent dialogContent_ui"
    "transparent dialogHeader_ui"
    "transparent dialogFooter_ui"
    "transparent dialogTitle_ui"
    "transparent dialogDescription_ui"
    "transparent sheet_ui"
    "transparent sheetTrigger_ui"
    "transparent sheetClose_ui"
    "transparent sheetPortal_ui"
    "transparent sheetOverlay_ui"
    "transparent sheetContent_ui"
    "transparent sheetHeader_ui"
    "transparent sheetFooter_ui"
    "transparent sheetTitle_ui"
    "transparent sheetDescription_ui"
    "transparent dropdownMenu_ui"
    "transparent dropdownMenuPortal_ui"
    "transparent dropdownMenuTrigger_ui"
    "transparent dropdownMenuContent_ui"
    "transparent dropdownMenuGroup_ui"
    "transparent dropdownMenuLabel_ui"
    "transparent dropdownMenuItem_ui"
    "transparent dropdownMenuSub_ui"
    "transparent dropdownMenuSubTrigger_ui"
    "transparent dropdownMenuSubContent_ui"
    "transparent dropdownMenuRadioGroup_ui"
    "transparent dropdownMenuRadioItem_ui"
    "transparent dropdownMenuSeparator_ui"
    "transparent dropdownMenuShortcut_ui"
    "transparent select_ui"
    "transparent selectGroup_ui"
    "transparent selectValue_ui"
    "transparent selectTrigger_ui"
    "transparent selectContent_ui"
    "transparent selectLabel_ui"
    "transparent selectItem_ui"
    "transparent selectSeparator_ui"
    "transparent fieldSet_ui"
    "transparent fieldLegend_ui"
    "transparent fieldGroup_ui"
    "transparent field_ui"
    "transparent fieldContent_ui"
    "transparent fieldLabel_ui"
    "transparent fieldTitle_ui"
    "transparent fieldDescription_ui"
    "transparent fieldSeparator_ui"
    "transparent inputGroup_ui"
    "transparent inputGroupText_ui"
    "transparent inputGroupTextarea_ui"
    "transparent combobox_ui"
    "transparent comboboxValue_ui"
    "transparent comboboxTrigger_ui"
    "transparent comboboxList_ui"
    "transparent comboboxItem_ui"
    "transparent comboboxGroup_ui"
    "transparent comboboxLabel_ui"
    "transparent comboboxCollection_ui"
    "transparent comboboxEmpty_ui"
    "transparent comboboxSeparator_ui"
    "transparent comboboxChips_ui"
    "transparent comboboxChip_ui"
    "transparent comboboxChipsInput_ui"
  by (simp_all add: transparent_def ui_defs attr_rules only_if_def nothing_to_render)

text \<open>The two wrappers that move an attribute to the front.\<close>

lemma moved_attrs:
  assumes "n \<noteq> ''render''" "n \<noteq> ''onClick''"
  shows "handlers ''onClick'' (filter (\<lambda>a. attr_name a = n) as) = []"
    "concat (map attr_clicks (filter (\<lambda>a. attr_name a = n) as)) = []"
    "concat (map attr_texts (filter (\<lambda>a. attr_name a = n) as)) = []"
proof -
  have none: "attr_clicks a = []" "attr_texts a = []" if "attr_name a = n" for a :: "'e attr"
    using that assms by (cases a; auto)+
  show "concat (map attr_clicks (filter (\<lambda>a. attr_name a = n) as)) = []"
    "concat (map attr_texts (filter (\<lambda>a. attr_name a = n) as)) = []"
    by (auto simp: none)
  show "handlers ''onClick'' (filter (\<lambda>a. attr_name a = n) as) = []"
    using assms(2) by (induction "''onClick''" as rule: handlers.induct) auto
qed

lemma spread_moved:
  fixes as :: "'e attr list"
  assumes n: "n \<noteq> ''render''" "n \<noteq> ''onClick''"
    and own: "own \<in> {filter (\<lambda>a. attr_name a = n) as @ [data_slot s], data_slot s # filter (\<lambda>a. attr_name a = n) as}"
  shows "handlers ''onClick'' (spread own (without [n] as)) = handlers ''onClick'' as"
    "concat (map attr_clicks (spread own (without [n] as))) = concat (map attr_clicks as)"
    "concat (map attr_texts (spread own (without [n] as))) = concat (map attr_texts as)"
    "is_disabled (spread own (without [n] as)) = is_disabled as"
    "is_submit (spread own (without [n] as)) = is_submit as"
proof -
  let ?m = "filter (\<lambda>a. attr_name a = n) as"
  let ?keep = "\<lambda>a. attr_name a \<notin> attr_name ` set (without [n] as)"
  have keep: "filter ?keep ?m = ?m" by (rule filter_True) (auto simp: without_def)
  have "\<exists>x y. spread own (without [n] as) = x @ ?m @ y @ without [n] as \<and> set x \<subseteq> {data_slot s} \<and> set y \<subseteq> {data_slot s}"
  proof (cases "own = ?m @ [data_slot s]")
    case True
    then have "spread own (without [n] as) = [] @ ?m @ filter ?keep [data_slot s] @ without [n] as"
      using keep by (simp add: spread_def del: filter_filter)
    then show ?thesis by (metis empty_set empty_subsetI filter_is_subset list.simps(15))
  next
    case False
    then have "spread own (without [n] as) = filter ?keep [data_slot s] @ ?m @ [] @ without [n] as"
      using own keep by (simp add: spread_def del: filter_filter)
    then show ?thesis by (metis empty_set empty_subsetI filter_is_subset list.simps(15))
  qed
  then obtain x y where xy: "spread own (without [n] as) = x @ ?m @ y @ without [n] as"
      "set x \<subseteq> {data_slot s}" "set y \<subseteq> {data_slot s}" by blast
  have slots: "handlers ''onClick'' z = []" "concat (map attr_clicks z) = []" "concat (map attr_texts z) = []"
      "Flag ''disabled'' True \<notin> set z" "Attr ''type'' v \<notin> set z" if "set z \<subseteq> {data_slot s}" for z :: "'e attr list" and v
  proof -
    have "\<forall>a\<in>set z. inert a" using that by auto
    from inert_attrs [OF this] show "handlers ''onClick'' z = []" "concat (map attr_clicks z) = []"
      "concat (map attr_texts z) = []" "Flag ''disabled'' True \<notin> set z" "Attr ''type'' v \<notin> set z" by auto
  qed
  show "handlers ''onClick'' (spread own (without [n] as)) = handlers ''onClick'' as"
    "concat (map attr_clicks (spread own (without [n] as))) = concat (map attr_clicks as)"
    "concat (map attr_texts (spread own (without [n] as))) = concat (map attr_texts as)"
    using n slots(1,2,3) [OF xy(2)] slots(1,2,3) [OF xy(3)] moved_attrs [OF n, of as]
    by (simp_all add: xy(1) without_handlers without_trees del: set_filter concat_eq_Nil_conv)
  show "is_disabled (spread own (without [n] as)) = is_disabled as"
    "is_submit (spread own (without [n] as)) = is_submit as"
    using slots(4,5) [OF xy(2)] slots(4,5) [OF xy(3)] unfolding is_disabled_iff is_submit_iff xy(1)
    by (auto simp: without_def)
qed

lemmas moved_first = spread_moved [where own = "filter (\<lambda>a. attr_name a = n) as @ [data_slot s]" for n as s, OF _ _ insertI1]
lemmas moved_second = spread_moved [where own = "data_slot s # filter (\<lambda>a. attr_name a = n) as" for n as s, OF _ _ insertI2, OF _ _ singletonI]

lemma moved_transparent: "transparent input_ui" "transparent dropdownMenuCheckboxItem_ui"
  by (simp_all add: transparent_def input_ui_def dropdownMenuCheckboxItem_ui_def moved_first moved_second)

lemma transparent_spread: "transparent f \<Longrightarrow> \<forall>a\<in>set own. inert a \<Longrightarrow> transparent (\<lambda>as cs. f (spread own as) cs)"
  by (simp add: transparent_def spread_attrs del: visible_concat)

lemma inputGroupInput_transparent: "transparent inputGroupInput_ui"
  using transparent_spread [OF moved_transparent(1), of "[data_slot ''input-group-control'']"]
  by (simp add: inputGroupInput_ui_def [abs_def])

lemma moved_flags:
  "n \<noteq> ''disabled'' \<Longrightarrow> \<not> is_disabled (filter (\<lambda>a. attr_name a = n) as)"
  "n \<noteq> ''type'' \<Longrightarrow> \<not> is_submit (filter (\<lambda>a. attr_name a = n) as)"
  by (auto simp: is_disabled_iff is_submit_iff)

lemma comboboxContent_transparent: "transparent comboboxContent_ui"
  by (simp add: transparent_def comboboxContent_ui_def anchor_attrs_def attr_rules moved_attrs moved_flags)

text \<open>A default for the type of a button makes it no submit button.\<close>

lemma prop_attrs_type:
  "handlers ''onClick'' (prop_attrs ''type'' ''button'' as) = []"
  "concat (map attr_clicks (prop_attrs ''type'' ''button'' as)) = []"
  "concat (map attr_texts (prop_attrs ''type'' ''button'' as)) = []"
  "Flag ''disabled'' True \<notin> set (prop_attrs ''type'' ''button'' as)"
  "Attr ''type'' (js ''submit'') \<in> set (prop_attrs ''type'' ''button'' as) \<longleftrightarrow> is_submit as"
  by (auto simp: prop_attrs_def moved_attrs is_submit_iff simp del: concat_eq_Nil_conv intro: rev_image_eqI)

lemma spread_kept:
  "\<forall>a\<in>set kept. attr_name a \<notin> attr_name ` set as \<Longrightarrow> spread (kept @ own) as = kept @ spread own as"
  by (simp add: spread_def filter_id_conv)

lemma prop_attrs_spread:
  "spread (prop_attrs ''type'' ''button'' as @ own) (without [''type'', ''size'', ''variant''] as)
     = prop_attrs ''type'' ''button'' as @ spread own (without [''type'', ''size'', ''variant''] as)"
  by (rule spread_kept) (auto simp: prop_attrs_def without_def split: if_splits)

lemma inputGroupButton_transparent: "transparent (inputGroupButton_ui :: 'e attr list \<Rightarrow> 'e node list \<Rightarrow> 'e node)"
proof -
  let ?own = "\<lambda>as. [Attr ''data-size'' (prop_text ''size'' ''xs'' as), Attr ''variant'' (prop_text ''variant'' ''ghost'' as)]"
  define given where "given as = prop_attrs ''type'' ''button'' as @ spread (?own as) (without [''type'', ''size'', ''variant''] as)" for as :: "'e attr list"
  have own: "\<forall>a\<in>set (?own as). inert a" for as :: "'e attr list" by simp
  have same: "handlers ''onClick'' (given as) = handlers ''onClick'' as"
    "concat (map attr_clicks (given as)) = concat (map attr_clicks as)"
    "concat (map attr_texts (given as)) = concat (map attr_texts as)"
    "is_disabled (given as) = is_disabled as" "is_submit (given as) = is_submit as" for as :: "'e attr list"
  proof -
    let ?rest = "spread (?own as) (without [''type'', ''size'', ''variant''] as)"
    have rest: "handlers ''onClick'' ?rest = handlers ''onClick'' as" "concat (map attr_clicks ?rest) = concat (map attr_clicks as)"
      "concat (map attr_texts ?rest) = concat (map attr_texts as)" "is_disabled ?rest = is_disabled as"
      using own by (simp_all add: attr_rules del: list.map)
    show "handlers ''onClick'' (given as) = handlers ''onClick'' as"
      "concat (map attr_clicks (given as)) = concat (map attr_clicks as)"
      "concat (map attr_texts (given as)) = concat (map attr_texts as)"
      using prop_attrs_type(1,2,3) [of as] rest by (simp_all add: given_def del: concat_eq_Nil_conv)
    show "is_disabled (given as) = is_disabled as"
      using prop_attrs_type(4) [of as] rest(4) by (auto simp: given_def is_disabled_iff)
    have "is_submit ?rest = is_submit (without [''type'', ''size'', ''variant''] as)" using own by (simp add: spread_attrs)
    then have "\<not> is_submit ?rest" by (auto simp: is_submit_iff without_def)
    then show "is_submit (given as) = is_submit as"
      using prop_attrs_type(5) [of as] by (auto simp: given_def is_submit_iff)
  qed
  have "inputGroupButton_ui as cs = button_ui (given as) cs" for as and cs :: "'e node list"
    by (simp add: inputGroupButton_ui_def prop_attrs_spread given_def)
  moreover have "transparent (button_ui :: 'e attr list \<Rightarrow> 'e node list \<Rightarrow> 'e node)" by (simp add: ui_transparent)
  ultimately show ?thesis by (simp add: transparent_def same del: visible_concat)
qed

lemma wrapper_transparent: "map_of wrappers n = Some f \<Longrightarrow> n \<noteq> ''form'' \<and> transparent f"
proof -
  have "\<forall>(n, f)\<in>set wrappers. n \<noteq> ''form'' \<and> transparent f"
    by (simp add: wrappers_def ui_transparent moved_transparent inputGroupInput_transparent inputGroupButton_transparent
        comboboxContent_transparent)
  then show "map_of wrappers n = Some f \<Longrightarrow> ?thesis" by (auto dest!: map_of_SomeD)
qed

lemma expand_attrs:
  "handlers h (map expand_attr as) = handlers h as" "is_disabled (map expand_attr as) = is_disabled as"
  "is_submit (map expand_attr as) = is_submit as"
proof -
  show "handlers h (map expand_attr as) = handlers h as" by (induction h as rule: handlers.induct) auto
  show "is_disabled (map expand_attr as) = is_disabled as" by (induction as rule: is_disabled.induct) auto
  show "is_submit (map expand_attr as) = is_submit as" by (induction as rule: is_submit.induct) auto
qed

lemma expand_sound:
  fixes r :: "'e node" and a :: "'e attr"
  shows "node_clicks (expand r) = node_clicks r \<and> visible (node_texts (expand r)) = visible (node_texts r)
      \<and> node_submits (expand r) = node_submits r \<and> blocked (expand r) = blocked r"
    "attr_clicks (expand_attr a) = attr_clicks a \<and> visible (attr_texts (expand_attr a)) = visible (attr_texts a)"
proof (induction r and a rule: expand_expand_attr.induct)
  case (2 n as cs)
  let ?as = "map expand_attr as" and ?cs = "map expand cs"
  let ?w = "wrappers :: (string \<times> ('e attr list \<Rightarrow> 'e node list \<Rightarrow> 'e node)) list"
  have "attr_clicks (expand_attr a) = attr_clicks a \<and> visible (attr_texts (expand_attr a)) = visible (attr_texts a)"
    if "a \<in> set as" for a
  proof (cases "map_of ?w n")
    case None
    from "2.IH"(1) [OF None that] show ?thesis .
  next
    case (Some f)
    from "2.IH"(3) [OF Some that] show ?thesis .
  qed
  then have as: "attr_clicks (expand_attr a) = attr_clicks a" "visible (attr_texts (expand_attr a)) = visible (attr_texts a)"
    if "a \<in> set as" for a
    using that by blast+
  have "node_clicks (expand c) = node_clicks c \<and> visible (node_texts (expand c)) = visible (node_texts c)
      \<and> node_submits (expand c) = node_submits c \<and> blocked (expand c) = blocked c"
    if "c \<in> set cs" for c
  proof (cases "map_of ?w n")
    case None
    from "2.IH"(2) [OF None that] show ?thesis .
  next
    case (Some f)
    from "2.IH"(4) [OF Some that] show ?thesis .
  qed
  then have cs: "node_clicks (expand c) = node_clicks c" "visible (node_texts (expand c)) = visible (node_texts c)"
    "node_submits (expand c) = node_submits c" "blocked (expand c) = blocked c"
    if "c \<in> set cs" for c
    using that by blast+
  have kids: "clicks ?cs = clicks cs" "visible (texts ?cs) = visible (texts cs)" "submits ?cs = submits cs"
    "list_ex blocked ?cs = list_ex blocked cs"
  proof -
    show "clicks ?cs = clicks cs" "visible (texts ?cs) = visible (texts cs)" "submits ?cs = submits cs"
      by (simp_all add: clicks_def texts_def submits_def cs cong: map_cong)
    show "list_ex blocked ?cs = list_ex blocked cs" using cs by (auto simp: list_ex_iff)
  qed
  have attrs: "concat (map attr_clicks ?as) = concat (map attr_clicks as)"
    "visible (concat (map attr_texts ?as)) = visible (concat (map attr_texts as))"
  proof -
    show "concat (map attr_clicks ?as) = concat (map attr_clicks as)"
      "visible (concat (map attr_texts ?as)) = visible (concat (map attr_texts as))"
      by (simp_all add: as cong: map_cong)
  qed
  have same: "node_clicks (El m ?as ?cs) = node_clicks (El m as cs)"
    "visible (node_texts (El m ?as ?cs)) = visible (node_texts (El m as cs))"
    "node_submits (El m ?as ?cs) = node_submits (El m as cs)" "blocked (El m ?as ?cs) = blocked (El m as cs)" for m
    using kids attrs by (simp_all add: expand_attrs del: visible_concat)
  show ?case
  proof (cases "map_of ?w n")
    case None
    then show ?thesis using same [of n] by simp
  next
    case (Some f)
    then have f: "n \<noteq> ''form''" "transparent f" using wrapper_transparent by auto
    then show ?thesis
      using same [of "[]"] kids(3) Some by (simp add: transparent_def comp_assoc)
  qed
qed auto

subsection \<open>Properties\<close>

text \<open>C27: The wrappers are transparent: a page whose wrappers are replaced by what they render shows the same
  texts in the same order, but for the labels of the close buttons, and can be clicked and submitted
  in exactly the same ways, a disabled button staying disabled.\<close>

theorem wrappers_transparent:
  "visible (texts (map expand ns)) = visible (texts ns) \<and> clicks (map expand ns) = clicks ns
   \<and> submits (map expand ns) = submits ns"
  by (induction ns) (simp_all add: expand_sound)

lemma set_first_occurrences [simp]: "set (first_occurrences xs) = set xs"
  by (induction xs) auto

lemma distinct_first_occurrences: "distinct (first_occurrences xs)"
  by (induction xs) auto

lemma length_one_set: "length xs = 1 \<Longrightarrow> set xs = {xs ! 0}"
  by (cases xs) auto

lemma texts_items: "texts (concat (map (\<lambda>m. if_text m (\<lambda>s. [El ''li'' [] [Txt s]])) ms)) = map the (filter truthy ms)"
proof (induction ms)
  case (Cons m ms)
  then show ?case by (cases m) (auto simp: if_text_def)
qed simp


end
