(* ===== verification/Component_Example.thy ===== *)
theory Component_Example
  imports Design_System
begin

text \<open>
  \<open>components/component-example.tsx\<close>: the demonstration page of the design system, which no route
  leads to. Its form keeps three switches and a theme, set from the items of a menu. The lists that a
  select and a combobox are given as \<open>items\<close>, for the library's own use, are left out of their
  attributes, like the default \<open>null\<close> of the select; the function that renders the items of the
  combobox is applied to all of them, as it is while nothing has been typed.
\<close>

record example_page =
  ex_email :: bool
  ex_sms :: bool
  ex_push :: bool
  ex_theme :: jstring

datatype example_event = Notify_Email bool | Notify_Sms bool | Notify_Push bool | Set_Theme jstring

definition example_init :: example_page where
  "example_init = \<lparr> ex_email = True, ex_sms = False, ex_push = True, ex_theme = js ''light'' \<rparr>"

fun example_handle :: "example_event \<Rightarrow> example_page \<Rightarrow> example_page" where
  "example_handle (Notify_Email b) s = s\<lparr> ex_email := b \<rparr>"
| "example_handle (Notify_Sms b) s = s\<lparr> ex_sms := b \<rparr>"
| "example_handle (Notify_Push b) s = s\<lparr> ex_push := b \<rparr>"
| "example_handle (Set_Theme t) s = s\<lparr> ex_theme := t \<rparr>"

definition frameworks :: "jstring list" where
  "frameworks = [js ''Next.js'', js ''SvelteKit'', js ''Nuxt.js'', js ''Remix'', js ''Astro'']"

definition roleItems :: "(jstring \<times> jstring) list" where
  "roleItems =
     [(js ''Developer'', js ''developer''), (js ''Designer'', js ''designer''), (js ''Manager'', js ''manager''),
      (js ''Other'', js ''other'')]"

definition cardExample :: "example_event node" where
  "cardExample =
     El ''Example'' [Attr ''title'' (js ''Card'')]
       [El ''Card'' []
          [El ''div'' [] [],
           El ''img'' [Attr ''src'' (js (''https://images.unsplash.com/photo-1604076850742-4c7221f3101b?q=80&w=1887&auto=format'' @
                 ''&fit=crop&ixlib=rb-4.1.0&ixid=M3wxMjA3fDB8MHxwaG90by1wYWdlfHx8fGVufDB8fHx8fA%3D%3D'')),
              Attr ''alt'' (js ''Photo by mymind on Unsplash''),
              Attr ''title'' (js ''Photo by mymind on Unsplash'')]
             [],
           El ''CardHeader'' []
             [El ''CardTitle'' [] [lit ''Observability Plus is replacing Monitoring''],
              El ''CardDescription'' []
                [lit (''Switch to the improved way to explore your data, with natural language. Monitoring '' @
                      ''will no longer be available on the Pro plan in November, 2025'')]],
           El ''CardFooter'' []
             [El ''AlertDialog'' []
                [El ''AlertDialogTrigger'' [Render (El ''Button'' [] [])]
                   [El ''PlusIcon'' [Attr ''data-icon'' (js ''inline-start'')] [],
                    lit ''Show Dialog''],
                 El ''AlertDialogContent'' [Attr ''size'' (js ''sm'')]
                   [El ''AlertDialogHeader'' []
                      [El ''AlertDialogMedia'' [] [El ''BluetoothIcon'' [] []],
                       El ''AlertDialogTitle'' [] [lit ''Allow accessory to connect?''],
                       El ''AlertDialogDescription'' []
                         [lit ''Do you want to allow the USB accessory to connect to this device?'']],
                    El ''AlertDialogFooter'' []
                      [El ''AlertDialogCancel'' [] [Txt (js ''Don'' @ [0x27] @ js ''t allow'')],
                       El ''AlertDialogAction'' [] [lit ''Allow'']]]],
              El ''Badge'' [Attr ''variant'' (js ''secondary'')] [lit ''Warning'']]]]"

definition fileMenu :: "example_event node" where
  "fileMenu =
     El ''DropdownMenuGroup'' []
       [El ''DropdownMenuLabel'' [] [lit ''File''],
        El ''DropdownMenuItem'' []
          [El ''FileIcon'' [] [],
           lit ''New File'',
           El ''DropdownMenuShortcut'' [] [Txt ([0x2318] @ js ''N'')]],
        El ''DropdownMenuItem'' []
          [El ''FolderIcon'' [] [],
           lit ''New Folder'',
           El ''DropdownMenuShortcut'' [] [Txt ([0x21E7] @ [0x2318] @ js ''N'')]],
        El ''DropdownMenuSub'' []
          [El ''DropdownMenuSubTrigger'' [] [El ''FolderOpenIcon'' [] [], lit ''Open Recent''],
           El ''DropdownMenuPortal'' []
             [El ''DropdownMenuSubContent'' []
                [El ''DropdownMenuGroup'' []
                   [El ''DropdownMenuLabel'' [] [lit ''Recent Projects''],
                    El ''DropdownMenuItem'' [] [El ''FileCodeIcon'' [] [], lit ''Project Alpha''],
                    El ''DropdownMenuItem'' [] [El ''FileCodeIcon'' [] [], lit ''Project Beta''],
                    El ''DropdownMenuSub'' []
                      [El ''DropdownMenuSubTrigger'' [] [El ''MoreHorizontalIcon'' [] [], lit ''More Projects''],
                       El ''DropdownMenuPortal'' []
                         [El ''DropdownMenuSubContent'' []
                            [El ''DropdownMenuItem'' [] [El ''FileCodeIcon'' [] [], lit ''Project Gamma''],
                             El ''DropdownMenuItem'' [] [El ''FileCodeIcon'' [] [], lit ''Project Delta'']]]]],
                 El ''DropdownMenuSeparator'' [] [],
                 El ''DropdownMenuGroup'' []
                   [El ''DropdownMenuItem'' [] [El ''FolderSearchIcon'' [] [], lit ''Browse...'']]]]],
        El ''DropdownMenuSeparator'' [] [],
        El ''DropdownMenuItem'' []
          [El ''SaveIcon'' [] [],
           lit ''Save'',
           El ''DropdownMenuShortcut'' [] [Txt ([0x2318] @ js ''S'')]],
        El ''DropdownMenuItem'' []
          [El ''DownloadIcon'' [] [],
           lit ''Export'',
           El ''DropdownMenuShortcut'' [] [Txt ([0x21E7] @ [0x2318] @ js ''E'')]]]"

definition viewMenu :: "example_page \<Rightarrow> example_event node" where
  "viewMenu s =
     El ''DropdownMenuGroup'' []
       [El ''DropdownMenuLabel'' [] [lit ''View''],
        El ''DropdownMenuCheckboxItem'' [Flag ''checked'' (ex_email s), OnBool ''onCheckedChange'' Notify_Email]
          [El ''EyeIcon'' [] [],
           lit ''Show Sidebar''],
        El ''DropdownMenuCheckboxItem'' [Flag ''checked'' (ex_sms s), OnBool ''onCheckedChange'' Notify_Sms]
          [El ''LayoutIcon'' [] [],
           lit ''Show Status Bar''],
        El ''DropdownMenuSub'' []
          [El ''DropdownMenuSubTrigger'' [] [El ''PaletteIcon'' [] [], lit ''Theme''],
           El ''DropdownMenuPortal'' []
             [El ''DropdownMenuSubContent'' []
                [El ''DropdownMenuGroup'' []
                   [El ''DropdownMenuLabel'' [] [lit ''Appearance''],
                    El ''DropdownMenuRadioGroup'' [Attr ''value'' (ex_theme s), OnText ''onValueChange'' Set_Theme]
                      [El ''DropdownMenuRadioItem'' [Attr ''value'' (js ''light'')]
                         [El ''SunIcon'' [] [],
                          lit ''Light''],
                       El ''DropdownMenuRadioItem'' [Attr ''value'' (js ''dark'')]
                         [El ''MoonIcon'' [] [],
                          lit ''Dark''],
                       El ''DropdownMenuRadioItem'' [Attr ''value'' (js ''system'')]
                         [El ''MonitorIcon'' [] [],
                          lit ''System'']]]]]]]"

definition accountMenu :: "example_page \<Rightarrow> example_event node" where
  "accountMenu s =
     El ''DropdownMenuGroup'' []
       [El ''DropdownMenuLabel'' [] [lit ''Account''],
        El ''DropdownMenuItem'' []
          [El ''UserIcon'' [] [],
           lit ''Profile'',
           El ''DropdownMenuShortcut'' [] [Txt ([0x21E7] @ [0x2318] @ js ''P'')]],
        El ''DropdownMenuItem'' [] [El ''CreditCardIcon'' [] [], lit ''Billing''],
        El ''DropdownMenuSub'' []
          [El ''DropdownMenuSubTrigger'' [] [El ''SettingsIcon'' [] [], lit ''Settings''],
           El ''DropdownMenuPortal'' []
             [El ''DropdownMenuSubContent'' []
                [El ''DropdownMenuGroup'' []
                   [El ''DropdownMenuLabel'' [] [lit ''Preferences''],
                    El ''DropdownMenuItem'' [] [El ''KeyboardIcon'' [] [], lit ''Keyboard Shortcuts''],
                    El ''DropdownMenuItem'' [] [El ''LanguagesIcon'' [] [], lit ''Language''],
                    El ''DropdownMenuSub'' []
                      [El ''DropdownMenuSubTrigger'' [] [El ''BellIcon'' [] [], lit ''Notifications''],
                       El ''DropdownMenuPortal'' []
                         [El ''DropdownMenuSubContent'' []
                            [El ''DropdownMenuGroup'' []
                               [El ''DropdownMenuLabel'' [] [lit ''Notification Types''],
                                El ''DropdownMenuCheckboxItem'' [Flag ''checked'' (ex_push s), OnBool ''onCheckedChange'' Notify_Push]
                                  [El ''BellIcon'' [] [],
                                   lit ''Push Notifications''],
                                El ''DropdownMenuCheckboxItem'' [Flag ''checked'' (ex_email s), OnBool ''onCheckedChange'' Notify_Email]
                                  [El ''MailIcon'' [] [],
                                   lit ''Email Notifications'']]]]]],
                 El ''DropdownMenuSeparator'' [] [],
                 El ''DropdownMenuGroup'' []
                   [El ''DropdownMenuItem'' [] [El ''ShieldIcon'' [] [], lit ''Privacy & Security'']]]]]]"

definition helpMenu :: "example_event node" where
  "helpMenu =
     El ''DropdownMenuGroup'' []
       [El ''DropdownMenuItem'' [] [El ''HelpCircleIcon'' [] [], lit ''Help & Support''],
        El ''DropdownMenuItem'' [] [El ''FileTextIcon'' [] [], lit ''Documentation'']]"

definition signOutMenu :: "example_event node" where
  "signOutMenu =
     El ''DropdownMenuGroup'' []
       [El ''DropdownMenuItem'' [Attr ''variant'' (js ''destructive'')]
          [El ''LogOutIcon'' [] [],
           lit ''Sign Out'',
           El ''DropdownMenuShortcut'' [] [Txt ([0x21E7] @ [0x2318] @ js ''Q'')]]]"

definition optionsMenu :: "example_page \<Rightarrow> example_event node" where
  "optionsMenu s =
     El ''DropdownMenu'' []
       [El ''DropdownMenuTrigger'' [Render (El ''Button'' [Attr ''variant'' (js ''ghost''), Attr ''size'' (js ''icon'')] [])]
          [El ''MoreVerticalIcon'' [] [],
           El ''span'' [] [lit ''More options'']],
        El ''DropdownMenuContent'' [Attr ''align'' (js ''end'')]
          [fileMenu,
           El ''DropdownMenuSeparator'' [] [],
           viewMenu s,
           El ''DropdownMenuSeparator'' [] [],
           accountMenu s,
           El ''DropdownMenuSeparator'' [] [],
           helpMenu,
           El ''DropdownMenuSeparator'' [] [],
           signOutMenu]]"

definition formFields :: "example_event node" where
  "formFields =
     El ''FieldGroup'' []
       [El ''div'' []
          [El ''Field'' []
             [El ''FieldLabel'' [Attr ''htmlFor'' (js ''small-form-name'')] [lit ''Name''],
              El ''Input'' [Attr ''id'' (js ''small-form-name''),
                 Attr ''placeholder'' (js ''Enter your name''),
                 Flag ''required'' True]
                []],
           El ''Field'' []
             [El ''FieldLabel'' [Attr ''htmlFor'' (js ''small-form-role'')] [lit ''Role''],
              El ''Select'' []
                [El ''SelectTrigger'' [Attr ''id'' (js ''small-form-role'')] [El ''SelectValue'' [] []],
                 El ''SelectContent'' []
                   [El ''SelectGroup'' []
                      (map (\<lambda>(label, value). El ''SelectItem'' [Attr ''value'' value] [Txt label]) roleItems)]]]],
        El ''Field'' []
          [El ''FieldLabel'' [Attr ''htmlFor'' (js ''small-form-framework'')] [lit ''Framework''],
           El ''Combobox'' []
             [El ''ComboboxInput'' [Attr ''id'' (js ''small-form-framework''),
                 Attr ''placeholder'' (js ''Select a framework''),
                 Flag ''required'' True]
                [],
              El ''ComboboxContent'' []
                [El ''ComboboxEmpty'' [] [lit ''No frameworks found.''],
                 El ''ComboboxList'' []
                   (map (\<lambda>item. El ''ComboboxItem'' [Attr ''value'' item] [Txt item]) frameworks)]]],
        El ''Field'' []
          [El ''FieldLabel'' [Attr ''htmlFor'' (js ''small-form-comments'')] [lit ''Comments''],
           El ''Textarea'' [Attr ''id'' (js ''small-form-comments''),
              Attr ''placeholder'' (js ''Add any additional comments'')]
             []],
        El ''Field'' [Attr ''orientation'' (js ''horizontal'')]
          [El ''Button'' [Attr ''type'' (js ''submit'')] [lit ''Submit''],
           El ''Button'' [Attr ''variant'' (js ''outline''), Attr ''type'' (js ''button'')] [lit ''Cancel'']]]"

definition formExample :: "example_page \<Rightarrow> example_event node" where
  "formExample s =
     El ''Example'' [Attr ''title'' (js ''Form'')]
       [El ''Card'' []
          [El ''CardHeader'' []
             [El ''CardTitle'' [] [lit ''User Information''],
              El ''CardDescription'' [] [lit ''Please fill in your details below''],
              El ''CardAction'' [] [optionsMenu s]],
           El ''CardContent'' [] [El ''form'' [] [formFields]]]]"

definition componentExample :: "example_page \<Rightarrow> example_event node list" where
  "componentExample s = [El ''ExampleWrapper'' [] [cardExample, formExample s]]"

text \<open>The values a tree gives to the attributes of a name, and the handlers of its switches.\<close>

fun node_flags :: "string \<Rightarrow> 'e node \<Rightarrow> bool list" where
  "node_flags k (Txt s) = []"
| "node_flags k (El n as cs) =
     concat (map (\<lambda>a. case a of Flag m b \<Rightarrow> if m = k then [b] else [] | _ \<Rightarrow> []) as) @ concat (map (node_flags k) cs)"

fun node_switches :: "'e node \<Rightarrow> (bool \<Rightarrow> 'e) list" where
  "node_switches (Txt s) = []"
| "node_switches (El n as cs) =
     concat (map (\<lambda>a. case a of OnBool m f \<Rightarrow> [f] | _ \<Rightarrow> []) as) @ concat (map node_switches cs)"

text \<open>
  The page has four switches for three cells: the one labelled for the side bar and the one labelled
  for electronic mail are the same, and setting either of them sets what both of them show.
\<close>

lemmas menu_defs = optionsMenu_def fileMenu_def viewMenu_def accountMenu_def helpMenu_def signOutMenu_def

lemma example_switches:
  "node_flags ''checked'' (optionsMenu s) = [ex_email s, ex_sms s, ex_push s, ex_email s]"
  "node_switches (optionsMenu s) = [Notify_Email, Notify_Sms, Notify_Push, Notify_Email]"
  by (simp_all add: menu_defs lit_def)

lemma example_switch_shown:
  assumes "i < 4"
  shows "node_flags ''checked'' (optionsMenu (example_handle ((node_switches (optionsMenu s) ! i) b) s)) ! i = b"
proof -
  consider "i = 0" | "i = 1" | "i = 2" | "i = 3" using assms by linarith
  then show ?thesis by cases (simp_all add: example_switches)
qed

text \<open>The menu can be used as it is written: expanding its wrappers leaves its texts and its clicks.\<close>

lemma example_expanded:
  "visible (texts (map expand (componentExample s))) = visible (texts (componentExample s))
   \<and> clicks (map expand (componentExample s)) = []"
proof -
  have "visible (texts (map expand ns)) = visible (texts ns) \<and> clicks (map expand ns) = clicks ns"
    for ns :: "example_event node list"
    by (induction ns) (simp_all add: expand_sound)
  moreover have "clicks (componentExample s) = []"
    by (auto simp: componentExample_def cardExample_def formExample_def menu_defs formFields_def tree_map)
  ultimately show ?thesis by simp
qed

end
