(* ===== verification/Code_Samples.thy ===== *)
theory Code_Samples
  imports Playground "HOL-Library.Sublist"
begin

text \<open>
  The two widgets of the landing page (\<open>marketing/src/components/CodeTabs.tsx\<close> and
  \<open>VerifyTabs.tsx\<close>): code samples in several languages, one shown at a time, with a button that copies
  it. The files hold their samples as lists of lines of coloured segments, kept here as they are, and
  the same component, written once below over its samples and its initial tab. The clipboard is the
  browser's: a copy is a write that succeeds or fails later, and the label it changes is set back by a
  timer that no later click clears.
\<close>

subsection \<open>Samples\<close>

record segment =
  seg_text :: jstring
  seg_cls :: "jstring option"

record tab =
  tab_id :: jstring
  tab_label :: jstring
  tab_lines :: "segment list list"

definition seg :: "string \<Rightarrow> jstring \<Rightarrow> segment" where
  "seg t cls = \<lparr> seg_text = js t, seg_cls = Some cls \<rparr>"

definition c_kw :: jstring where "c_kw = js ''text-brand-400''"
definition c_str :: jstring where "c_str = js ''text-green-400''"
definition c_fn :: jstring where "c_fn = js ''text-yellow-400''"
definition c_cm :: jstring where "c_cm = js ''text-surface-600''"
definition c_num :: jstring where "c_num = js ''text-orange-400''"
definition c_dim :: jstring where "c_dim = js ''text-surface-400''"
definition c_key :: jstring where "c_key = js ''text-sky-400''"
definition c_plain :: jstring where "c_plain = js ''text-surface-300''"

subsection \<open>The samples of \<open>CodeTabs.tsx\<close>\<close>

definition code_typescript_tab :: tab where
  \<open>code_typescript_tab =
     \<lparr> tab_id = js ''typescript'', tab_label = js ''TypeScript'', tab_lines =
       [[seg ''const '' c_kw, seg ''res '' c_plain, seg ''= '' c_dim, seg ''await '' c_kw,
         seg ''fetch'' c_fn, seg ''('' c_dim, seg ''"https://api.trychis.com/webhook/send"'' c_str,
         seg '', {'' c_dim],
        [seg ''  method'' c_key, seg '': '' c_dim, seg ''"POST"'' c_str, seg '','' c_dim],
        [seg ''  headers'' c_key, seg '': {'' c_dim],
        [seg ''    "X-API-Key"'' c_key, seg '': '' c_dim, seg ''process.env.'' c_plain,
         seg ''CHIS_API_KEY'' c_key, seg '','' c_dim],
        [seg ''    "Content-Type"'' c_key, seg '': '' c_dim, seg ''"application/json"'' c_str, seg '','' c_dim],
        [seg ''  },'' c_dim],
        [seg ''  body'' c_key, seg '': '' c_dim, seg ''JSON.'' c_plain, seg ''stringify'' c_fn,
         seg ''({'' c_dim],
        [seg ''    url'' c_key, seg '': '' c_dim, seg ''"https://your-app.com/webhooks"'' c_str,
         seg '','' c_dim],
        [seg ''    payload'' c_key, seg '': { '' c_dim, seg ''event'' c_key, seg '': '' c_dim,
         seg ''"payment.completed"'' c_str, seg '', '' c_dim, seg ''amount'' c_key, seg '': '' c_dim,
         seg ''4999'' c_num, seg '' },'' c_dim],
        [seg ''  }),'' c_dim],
        [seg ''});'' c_dim],
        [],
        [seg ''const '' c_kw, seg ''data'' c_plain, seg '': '' c_dim, seg ''Delivery'' c_fn,
         seg '' = '' c_dim, seg ''await '' c_kw, seg ''res.'' c_plain, seg ''json'' c_fn, seg ''();'' c_dim]] \<rparr>\<close>

definition code_nodejs_tab :: tab where
  \<open>code_nodejs_tab =
     \<lparr> tab_id = js ''nodejs'', tab_label = js ''Node.js'', tab_lines =
       [[seg ''const '' c_kw, seg ''res '' c_plain, seg ''= '' c_dim, seg ''await '' c_kw,
         seg ''fetch'' c_fn, seg ''('' c_dim, seg ''"https://api.trychis.com/webhook/send"'' c_str,
         seg '', {'' c_dim],
        [seg ''  method'' c_key, seg '': '' c_dim, seg ''"POST"'' c_str, seg '','' c_dim],
        [seg ''  headers'' c_key, seg '': {'' c_dim],
        [seg ''    "X-API-Key"'' c_key, seg '': '' c_dim, seg ''process.env.'' c_plain,
         seg ''CHIS_API_KEY'' c_key, seg '','' c_dim],
        [seg ''    "Content-Type"'' c_key, seg '': '' c_dim, seg ''"application/json"'' c_str, seg '','' c_dim],
        [seg ''  },'' c_dim],
        [seg ''  body'' c_key, seg '': '' c_dim, seg ''JSON.'' c_plain, seg ''stringify'' c_fn,
         seg ''({'' c_dim],
        [seg ''    url'' c_key, seg '': '' c_dim, seg ''"https://your-app.com/webhooks"'' c_str,
         seg '','' c_dim],
        [seg ''    payload'' c_key, seg '': { '' c_dim, seg ''event'' c_key, seg '': '' c_dim,
         seg ''"payment.completed"'' c_str, seg '', '' c_dim, seg ''amount'' c_key, seg '': '' c_dim,
         seg ''4999'' c_num, seg '' }'' c_dim],
        [seg ''  }),'' c_dim],
        [seg ''});'' c_dim],
        [],
        [seg ''const '' c_kw, seg ''data '' c_plain, seg ''= '' c_dim, seg ''await '' c_kw,
         seg ''res.'' c_plain, seg ''json'' c_fn, seg ''();'' c_dim]] \<rparr>\<close>

definition code_python_tab :: tab where
  \<open>code_python_tab =
     \<lparr> tab_id = js ''python'', tab_label = js ''Python'', tab_lines =
       [[seg ''import '' c_kw, seg ''requests'' c_plain],
        [seg ''import '' c_kw, seg ''os'' c_plain],
        [],
        [seg ''response '' c_plain, seg ''= '' c_dim, seg ''requests.'' c_plain, seg ''post'' c_fn,
         seg ''('' c_dim],
        [seg ''    "https://api.trychis.com/webhook/send"'' c_str, seg '','' c_dim],
        [seg ''    headers'' c_key, seg ''={'' c_dim],
        [seg ''        "X-API-Key"'' c_key, seg '': '' c_dim, seg ''os.environ['' c_plain,
         seg ([CHR 0x27] @ ''CHIS_API_KEY'' @ [CHR 0x27]) c_str, seg '']'' c_plain, seg '','' c_dim],
        [seg ''        "Content-Type"'' c_key, seg '': '' c_dim, seg ''"application/json"'' c_str,
         seg '','' c_dim],
        [seg ''    },'' c_dim],
        [seg ''    json'' c_key, seg ''={'' c_dim],
        [seg ''        "url"'' c_key, seg '': '' c_dim, seg ''"https://your-app.com/webhooks"'' c_str,
         seg '','' c_dim],
        [seg ''        "payload"'' c_key, seg '': {'' c_dim, seg ''"event"'' c_key, seg '': '' c_dim,
         seg ''"payment.completed"'' c_str, seg '', '' c_dim, seg ''"amount"'' c_key, seg '': '' c_dim,
         seg ''4999'' c_num, seg ''},'' c_dim],
        [seg ''    },'' c_dim],
        [seg '')'' c_dim],
        [],
        [seg ''print'' c_fn, seg ''('' c_dim, seg ''response.'' c_plain, seg ''json'' c_fn, seg ''())'' c_dim]] \<rparr>\<close>

definition code_go_tab :: tab where
  \<open>code_go_tab =
     \<lparr> tab_id = js ''go'', tab_label = js ''Go'', tab_lines =
       [[seg ''body '' c_plain, seg '':= '' c_dim, seg ''strings.'' c_plain, seg ''NewReader'' c_fn,
         seg ''('' c_dim, seg ''`{'' c_str],
        [seg ''  "url": "https://your-app.com/webhooks",'' c_str],
        [seg ''  "payload": {"event": "payment.completed", "amount": 4999}'' c_str],
        [seg ''}`'' c_str, seg '')'' c_dim],
        [],
        [seg ''req, _ '' c_plain, seg '':= '' c_dim, seg ''http.'' c_plain, seg ''NewRequest'' c_fn,
         seg ''('' c_dim, seg ''"POST"'' c_str, seg '', '' c_dim,
         seg ''"https://api.trychis.com/webhook/send"'' c_str, seg '', body)'' c_dim],
        [seg ''req.'' c_plain, seg ''Header.'' c_plain, seg ''Set'' c_fn, seg ''('' c_dim,
         seg ''"X-API-Key"'' c_str, seg '', '' c_dim, seg ''os.'' c_plain, seg ''Getenv'' c_fn,
         seg ''('' c_dim, seg ''"CHIS_API_KEY"'' c_str, seg ''))'' c_dim],
        [seg ''req.'' c_plain, seg ''Header.'' c_plain, seg ''Set'' c_fn, seg ''('' c_dim,
         seg ''"Content-Type"'' c_str, seg '', '' c_dim, seg ''"application/json"'' c_str, seg '')'' c_dim],
        [],
        [seg ''resp, _ '' c_plain, seg '':= '' c_dim, seg ''http.'' c_plain, seg ''DefaultClient.'' c_plain,
         seg ''Do'' c_fn, seg ''(req)'' c_dim],
        [seg ''defer '' c_kw, seg ''resp.'' c_plain, seg ''Body.'' c_plain, seg ''Close'' c_fn,
         seg ''()'' c_dim]] \<rparr>\<close>

definition code_ruby_tab :: tab where
  \<open>code_ruby_tab =
     \<lparr> tab_id = js ''ruby'', tab_label = js ''Ruby'', tab_lines =
       [[seg ''require '' c_kw, seg ''"net/http"'' c_str],
        [seg ''require '' c_kw, seg ''"json"'' c_str],
        [],
        [seg ''uri '' c_plain, seg ''= '' c_dim, seg ''URI'' c_fn, seg ''('' c_dim,
         seg ''"https://api.trychis.com/webhook/send"'' c_str, seg '')'' c_dim],
        [seg ''req '' c_plain, seg ''= '' c_dim, seg ''Net::HTTP::Post.'' c_plain, seg ''new'' c_fn,
         seg ''(uri)'' c_dim],
        [],
        [seg ''req["X-API-Key"] '' c_key, seg ''= '' c_dim, seg ''ENV['' c_plain,
         seg ([CHR 0x27] @ ''CHIS_API_KEY'' @ [CHR 0x27]) c_str, seg '']'' c_plain],
        [seg ''req["Content-Type"] '' c_key, seg ''= '' c_dim, seg ''"application/json"'' c_str],
        [seg ''req.'' c_plain, seg ''body '' c_key, seg ''= {'' c_dim],
        [seg ''  url'' c_key, seg '': '' c_dim, seg ''"https://your-app.com/webhooks"'' c_str, seg '','' c_dim],
        [seg ''  payload'' c_key, seg '': { '' c_dim, seg ''event'' c_key, seg '': '' c_dim,
         seg ''"payment.completed"'' c_str, seg '', '' c_dim, seg ''amount'' c_key, seg '': '' c_dim,
         seg ''4999'' c_num, seg '' }'' c_dim],
        [seg ''}.'' c_dim, seg ''to_json'' c_fn],
        [],
        [seg ''res '' c_plain, seg ''= '' c_dim, seg ''Net::HTTP.'' c_plain, seg ''start'' c_fn,
         seg ''(uri.host, uri.port, '' c_dim, seg ''use_ssl'' c_key, seg '': '' c_dim, seg ''true'' c_kw,
         seg '') { |h| h.'' c_dim, seg ''request'' c_fn, seg ''(req) }'' c_dim],
        [seg ''puts '' c_fn, seg ''res.'' c_plain, seg ''body'' c_key]] \<rparr>\<close>

definition code_php_tab :: tab where
  \<open>code_php_tab =
     \<lparr> tab_id = js ''php'', tab_label = js ''PHP'', tab_lines =
       [[seg ''$response '' c_plain, seg ''= '' c_dim, seg ''Http'' c_fn, seg ''::'' c_dim,
         seg ''withHeaders'' c_fn, seg ''(['' c_dim],
        [seg ''    "X-API-Key" '' c_key, seg ''=> '' c_dim, seg ''env'' c_fn, seg ''('' c_dim,
         seg ''"CHIS_API_KEY"'' c_str, seg ''),'' c_dim],
        [seg ''])'' c_dim, seg ''->'' c_dim, seg ''post'' c_fn, seg ''('' c_dim,
         seg ''"https://api.trychis.com/webhook/send"'' c_str, seg '', ['' c_dim],
        [seg ''    "url" '' c_key, seg ''=> '' c_dim, seg ''"https://your-app.com/webhooks"'' c_str,
         seg '','' c_dim],
        [seg ''    "payload" '' c_key, seg ''=> ['' c_dim, seg ''"event"'' c_key, seg '' => '' c_dim,
         seg ''"payment.completed"'' c_str, seg '', '' c_dim, seg ''"amount"'' c_key, seg '' => '' c_dim,
         seg ''4999'' c_num, seg ''],'' c_dim],
        [seg '']);'' c_dim],
        [],
        [seg ''$data '' c_plain, seg ''= '' c_dim, seg ''$response'' c_plain, seg ''->'' c_dim,
         seg ''json'' c_fn, seg ''();'' c_dim]] \<rparr>\<close>

definition code_curl_tab :: tab where
  \<open>code_curl_tab =
     \<lparr> tab_id = js ''curl'', tab_label = js ''cURL'', tab_lines =
       [[seg ''curl'' c_fn, seg '' -X POST '' c_dim, seg ''https://api.trychis.com/webhook/send'' c_plain,
         seg ('' '' @ [CHR 0x5C]) c_dim],
        [seg ''  -H '' c_dim, seg ''"X-API-Key: $CHIS_API_KEY"'' c_str, seg ('' '' @ [CHR 0x5C]) c_dim],
        [seg ''  -H '' c_dim, seg ''"Content-Type: application/json"'' c_str, seg ('' '' @ [CHR 0x5C]) c_dim],
        [seg ''  -d '' c_dim, seg ([CHR 0x27] @ ''{'') c_str],
        [seg ''    "url": "https://your-app.com/webhooks",'' c_str],
        [seg ''    "payload": {"event": "payment.completed", "amount": 4999}'' c_str],
        [seg (''  }'' @ [CHR 0x27]) c_str]] \<rparr>\<close>

definition code_tabs :: "tab list" where
  "code_tabs =
     [code_typescript_tab, code_nodejs_tab, code_python_tab, code_go_tab, code_ruby_tab, code_php_tab, code_curl_tab]"

subsection \<open>The samples of \<open>VerifyTabs.tsx\<close>\<close>

definition verify_nodejs_tab :: tab where
  \<open>verify_nodejs_tab =
     \<lparr> tab_id = js ''nodejs'', tab_label = js ''Node.js'', tab_lines =
       [[seg ''const '' c_kw, seg ''crypto '' c_plain, seg ''= '' c_dim, seg ''require'' c_fn,
         seg ''('' c_dim, seg ''"crypto"'' c_str, seg '');'' c_dim],
        [],
        [seg ''function '' c_kw, seg ''verify'' c_fn, seg ''(body, secret, headers) {'' c_dim],
        [seg ''  const '' c_kw, seg ''msgId '' c_plain, seg ''= headers['' c_dim,
         seg ''"x-webhook-id"'' c_str, seg ''];'' c_dim],
        [seg ''  const '' c_kw, seg ''ts    '' c_plain, seg ''= headers['' c_dim,
         seg ''"x-webhook-timestamp"'' c_str, seg ''];'' c_dim],
        [seg ''  const '' c_kw, seg ''sig   '' c_plain, seg ''= headers['' c_dim,
         seg ''"x-webhook-signature"'' c_str, seg ''];'' c_dim],
        [],
        [seg ''  // Reject if older than 5 minutes'' c_cm],
        [seg ''  if '' c_kw, seg ''(Math.'' c_plain, seg ''abs'' c_fn, seg ''(Date.'' c_plain,
         seg ''now'' c_fn, seg ''() / '' c_dim, seg ''1000'' c_num, seg '' - ts) > '' c_dim,
         seg ''300'' c_num, seg '') return '' c_dim, seg ''false'' c_kw, seg '';'' c_dim],
        [],
        [seg ''  const '' c_kw, seg ''signed '' c_plain, seg ''= '' c_dim,
         seg ''`${msgId}.${ts}.${body}`'' c_str, seg '';'' c_dim],
        [seg ''  const '' c_kw, seg ''key '' c_plain, seg ''= Buffer.'' c_plain, seg ''from'' c_fn,
         seg ''(secret.'' c_dim, seg ''replace'' c_fn, seg ''('' c_dim, seg ''"whsec_"'' c_str,
         seg '', '' c_dim, seg ''""'' c_str, seg ''), '' c_dim, seg ''"base64"'' c_str, seg '');'' c_dim],
        [seg ''  const '' c_kw, seg ''expected '' c_plain, seg ''= crypto.'' c_plain,
         seg ''createHmac'' c_fn, seg ''('' c_dim, seg ''"sha256"'' c_str, seg '', key).'' c_dim,
         seg ''update'' c_fn, seg ''(signed).'' c_dim, seg ''digest'' c_fn, seg ''('' c_dim,
         seg ''"base64"'' c_str, seg '');'' c_dim],
        [],
        [seg ''  return '' c_kw, seg ''sig.'' c_plain, seg ''split'' c_fn, seg ''('' c_dim,
         seg ''" "'' c_str, seg '').'' c_dim, seg ''some'' c_fn, seg ''(s =>'' c_dim],
        [seg ''    s === '' c_dim, seg ''`v1,${expected}`'' c_str],
        [seg ''  );'' c_dim],
        [seg ''}'' c_dim]] \<rparr>\<close>

definition verify_python_tab :: tab where
  \<open>verify_python_tab =
     \<lparr> tab_id = js ''python'', tab_label = js ''Python'', tab_lines =
       [[seg ''import '' c_kw, seg ''hmac, hashlib, base64, time'' c_plain],
        [],
        [seg ''def '' c_kw, seg ''verify'' c_fn, seg ''(body, secret, headers):'' c_dim],
        [seg ''    msg_id '' c_plain, seg ''= headers['' c_dim, seg ''"x-webhook-id"'' c_str, seg '']'' c_dim],
        [seg ''    ts     '' c_plain, seg ''= headers['' c_dim, seg ''"x-webhook-timestamp"'' c_str,
         seg '']'' c_dim],
        [seg ''    sig    '' c_plain, seg ''= headers['' c_dim, seg ''"x-webhook-signature"'' c_str,
         seg '']'' c_dim],
        [],
        [seg ''    if '' c_kw, seg ''abs'' c_fn, seg ''(time.'' c_plain, seg ''time'' c_fn,
         seg ''() - '' c_dim, seg ''int'' c_fn, seg ''(ts)) > '' c_dim, seg ''300'' c_num, seg '':'' c_dim],
        [seg ''        return '' c_kw, seg ''False'' c_kw],
        [],
        [seg ''    key '' c_plain, seg ''= base64.'' c_plain, seg ''b64decode'' c_fn, seg ''(secret.'' c_dim,
         seg ''removeprefix'' c_fn, seg ''('' c_dim, seg ''"whsec_"'' c_str, seg ''))'' c_dim],
        [seg ''    signed '' c_plain, seg ''= '' c_dim, seg ''f"{msg_id}.{ts}.{body}"'' c_str],
        [seg ''    expected '' c_plain, seg ''= base64.'' c_plain, seg ''b64encode'' c_fn, seg ''('' c_dim],
        [seg ''        hmac.'' c_plain, seg ''new'' c_fn, seg ''(key, signed.'' c_dim, seg ''encode'' c_fn,
         seg ''(), hashlib.'' c_dim, seg ''sha256'' c_key, seg '').'' c_dim, seg ''digest'' c_fn,
         seg ''()'' c_dim],
        [seg ''    ).'' c_dim, seg ''decode'' c_fn, seg ''()'' c_dim],
        [],
        [seg ''    return '' c_kw, seg ''any'' c_fn, seg ''(hmac.'' c_dim, seg ''compare_digest'' c_fn,
         seg ''(s, '' c_dim, seg ''f"v1,{expected}"'' c_str, seg '')'' c_dim],
        [seg ''               for '' c_kw, seg ''s '' c_plain, seg ''in '' c_kw, seg ''sig.'' c_dim,
         seg ''split'' c_fn, seg ''('' c_dim, seg ''" "'' c_str, seg ''))'' c_dim]] \<rparr>\<close>

definition verify_go_tab :: tab where
  \<open>verify_go_tab =
     \<lparr> tab_id = js ''go'', tab_label = js ''Go'', tab_lines =
       [[seg ''func '' c_kw, seg ''verify'' c_fn, seg ''(body []'' c_dim, seg ''byte'' c_kw,
         seg '', secret '' c_dim, seg ''string'' c_kw, seg '', h http.'' c_dim, seg ''Header'' c_fn,
         seg '') '' c_dim, seg ''bool'' c_kw, seg '' {'' c_dim],
        [seg ''    msgId '' c_plain, seg '':= h.'' c_dim, seg ''Get'' c_fn, seg ''('' c_dim,
         seg ''"X-Webhook-Id"'' c_str, seg '')'' c_dim],
        [seg ''    ts    '' c_plain, seg '':= h.'' c_dim, seg ''Get'' c_fn, seg ''('' c_dim,
         seg ''"X-Webhook-Timestamp"'' c_str, seg '')'' c_dim],
        [seg ''    sig   '' c_plain, seg '':= h.'' c_dim, seg ''Get'' c_fn, seg ''('' c_dim,
         seg ''"X-Webhook-Signature"'' c_str, seg '')'' c_dim],
        [],
        [seg ''    t, _ '' c_plain, seg '':= strconv.'' c_dim, seg ''ParseInt'' c_fn, seg ''(ts, '' c_dim,
         seg ''10'' c_num, seg '', '' c_dim, seg ''64'' c_num, seg '')'' c_dim],
        [seg ''    if '' c_kw, seg ''math.'' c_plain, seg ''Abs'' c_fn, seg ''('' c_dim,
         seg ''float64'' c_fn, seg ''(time.'' c_dim, seg ''Now'' c_fn, seg ''().'' c_dim,
         seg ''Unix'' c_fn, seg ''() - t)) > '' c_dim, seg ''300'' c_num, seg '' {'' c_dim],
        [seg ''        return '' c_kw, seg ''false'' c_kw],
        [seg ''    }'' c_dim],
        [],
        [seg ''    key, _ '' c_plain, seg '':= base64.'' c_dim, seg ''StdEncoding.'' c_plain,
         seg ''DecodeString'' c_fn, seg ''('' c_dim],
        [seg ''        strings.'' c_plain, seg ''TrimPrefix'' c_fn, seg ''(secret, '' c_dim,
         seg ''"whsec_"'' c_str, seg ''))'' c_dim],
        [seg ''    mac '' c_plain, seg '':= hmac.'' c_dim, seg ''New'' c_fn, seg ''(sha256.'' c_dim,
         seg ''New'' c_fn, seg '', key)'' c_dim],
        [seg ''    mac.'' c_plain, seg ''Write'' c_fn, seg ''([]'' c_dim, seg ''byte'' c_kw,
         seg ''(msgId + '' c_dim, seg ''"."'' c_str, seg '' + ts + '' c_dim, seg ''"."'' c_str,
         seg '' + '' c_dim, seg ''string'' c_kw, seg ''(body)))'' c_dim],
        [seg ''    expected '' c_plain, seg '':= '' c_dim, seg ''"v1,"'' c_str, seg '' + base64.'' c_dim,
         seg ''StdEncoding.'' c_plain, seg ''EncodeToString'' c_fn, seg ''(mac.'' c_dim, seg ''Sum'' c_fn,
         seg ''('' c_dim, seg ''nil'' c_kw, seg ''))'' c_dim],
        [],
        [seg ''    for '' c_kw, seg ''_, s '' c_plain, seg '':= '' c_dim, seg ''range '' c_kw,
         seg ''strings.'' c_plain, seg ''Split'' c_fn, seg ''(sig, '' c_dim, seg ''" "'' c_str,
         seg '') {'' c_dim],
        [seg ''        if '' c_kw, seg ''hmac.'' c_plain, seg ''Equal'' c_fn, seg ''([]'' c_dim,
         seg ''byte'' c_kw, seg ''(s), []'' c_dim, seg ''byte'' c_kw, seg ''(expected)) { '' c_dim,
         seg ''return '' c_kw, seg ''true'' c_kw, seg '' }'' c_dim],
        [seg ''    }'' c_dim],
        [seg ''    return '' c_kw, seg ''false'' c_kw],
        [seg ''}'' c_dim]] \<rparr>\<close>

definition verify_php_tab :: tab where
  \<open>verify_php_tab =
     \<lparr> tab_id = js ''php'', tab_label = js ''PHP'', tab_lines =
       [[seg ''function '' c_kw, seg ''verify'' c_fn, seg ''($body, $secret, $headers) {'' c_dim],
        [seg ''    $msgId '' c_plain, seg ''= $headers['' c_dim,
         seg ([CHR 0x27] @ ''X-Webhook-Id'' @ [CHR 0x27]) c_str, seg ''];'' c_dim],
        [seg ''    $ts    '' c_plain, seg ''= $headers['' c_dim,
         seg ([CHR 0x27] @ ''X-Webhook-Timestamp'' @ [CHR 0x27]) c_str, seg ''];'' c_dim],
        [seg ''    $sig   '' c_plain, seg ''= $headers['' c_dim,
         seg ([CHR 0x27] @ ''X-Webhook-Signature'' @ [CHR 0x27]) c_str, seg ''];'' c_dim],
        [],
        [seg ''    if '' c_kw, seg ''('' c_dim, seg ''abs'' c_fn, seg ''('' c_dim, seg ''time'' c_fn,
         seg ''() - ('' c_dim, seg ''int'' c_kw, seg '')$ts) > '' c_dim, seg ''300'' c_num,
         seg '') return '' c_dim, seg ''false'' c_kw, seg '';'' c_dim],
        [],
        [seg ''    $key '' c_plain, seg ''= '' c_dim, seg ''base64_decode'' c_fn, seg ''('' c_dim,
         seg ''str_replace'' c_fn, seg ''('' c_dim, seg ([CHR 0x27] @ ''whsec_'' @ [CHR 0x27]) c_str,
         seg '', '' c_dim, seg ([CHR 0x27] @ [CHR 0x27]) c_str, seg '', $secret));'' c_dim],
        [seg ''    $signed '' c_plain, seg ''= '' c_dim, seg ''"$msgId.$ts.$body"'' c_str, seg '';'' c_dim],
        [seg ''    $expected '' c_plain, seg ''= '' c_dim,
         seg ([CHR 0x27] @ ''v1,'' @ [CHR 0x27] @ '' '') c_str, seg ''. '' c_dim,
         seg ''base64_encode'' c_fn, seg ''('' c_dim],
        [seg ''        '' c_dim, seg ''hash_hmac'' c_fn, seg ''('' c_dim,
         seg ([CHR 0x27] @ ''sha256'' @ [CHR 0x27]) c_str, seg '', $signed, $key, '' c_dim,
         seg ''true'' c_kw, seg '')'' c_dim],
        [seg ''    );'' c_dim],
        [],
        [seg ''    foreach '' c_kw, seg ''('' c_dim, seg ''explode'' c_fn, seg ''('' c_dim,
         seg ([CHR 0x27] @ '' '' @ [CHR 0x27]) c_str, seg '', $sig) '' c_dim, seg ''as '' c_kw,
         seg ''$s) {'' c_dim],
        [seg ''        if '' c_kw, seg ''('' c_dim, seg ''hash_equals'' c_fn,
         seg ''($expected, $s)) '' c_dim, seg ''return '' c_kw, seg ''true'' c_kw, seg '';'' c_dim],
        [seg ''    }'' c_dim],
        [seg ''    return '' c_kw, seg ''false'' c_kw, seg '';'' c_dim],
        [seg ''}'' c_dim]] \<rparr>\<close>

definition verify_tabs :: "tab list" where
  "verify_tabs = [verify_nodejs_tab, verify_python_tab, verify_go_tab, verify_php_tab]"

subsection \<open>The component\<close>

text \<open>\<open>activeSnippet\<close>: the source asserts with \<open>!\<close> that one is found; without one the component throws.\<close>

definition activeSnippet :: "tab list \<Rightarrow> jstring \<Rightarrow> tab option" where
  "activeSnippet tabs activeTab = List.find (\<lambda>t. tab_id t = activeTab) tabs"

definition plainText :: "tab \<Rightarrow> jstring" where
  "plainText t = join [10] (map (\<lambda>segs. concat (map seg_text segs)) (tab_lines t))"

record tabs_page =
  activeTab :: jstring
  copied :: bool

datatype tabs_event = Select_Tab jstring | Copy

definition renderLine :: "segment list \<Rightarrow> tabs_event node list" where
  "renderLine segs =
     map (\<lambda>s. if truthy (seg_cls s) then El ''span'' [Attr ''className'' (the (seg_cls s))] [Txt (seg_text s)]
              else El ''span'' [] [Txt (seg_text s)]) segs"

definition tabs_bar :: "tab list \<Rightarrow> tabs_page \<Rightarrow> tabs_event node" where
  "tabs_bar tabs s =
     El ''div'' []
       [El ''div'' [] (map (\<lambda>t. El ''button'' [On ''onClick'' (Select_Tab (tab_id t))] [Txt (tab_label t)]) tabs),
        El ''button'' [On ''onClick'' Copy] [if copied s then lit ''Copied!'' else lit ''Copy'']]"

definition tabs_code :: "tab \<Rightarrow> tabs_event node" where
  "tabs_code t =
     El ''pre'' []
       [El ''code'' []
          (map (\<lambda>segs. El ''span'' [] (if length segs = 0 then [Txt [10]] else renderLine segs @ [Txt [10]])) (tab_lines t))]"

definition tabs_view :: "tab list \<Rightarrow> tabs_page \<Rightarrow> tabs_event node list option" where
  "tabs_view tabs s =
     map_option (\<lambda>t. [El ''div'' [] [tabs_bar tabs s, tabs_code t]]) (activeSnippet tabs (activeTab s))"

definition codeTabs_init :: tabs_page where
  "codeTabs_init = \<lparr> activeTab = js ''typescript'', copied = False \<rparr>"

definition codeTabs_view :: "tabs_page \<Rightarrow> tabs_event node list option" where
  "codeTabs_view = tabs_view code_tabs"

definition verifyTabs_init :: tabs_page where
  "verifyTabs_init = \<lparr> activeTab = js ''nodejs'', copied = False \<rparr>"

definition verifyTabs_view :: "tabs_page \<Rightarrow> tabs_event node list option" where
  "verifyTabs_view = tabs_view verify_tabs"

text \<open>
  The component in its browser: the clipboard, the writes under way with their texts, and the timers
  that are set, each with the time it is due. A write that fails rejects the promise of
  \<open>handleCopy\<close>, which nothing handles.
\<close>

record tabs_world =
  tw_page :: tabs_page
  tw_clipboard :: "jstring option"
  tw_writes :: "jstring list"
  tw_timers :: "nat list"
  tw_now :: nat

definition tw_init :: "tabs_page \<Rightarrow> tabs_world" where
  "tw_init p = \<lparr> tw_page = p, tw_clipboard = None, tw_writes = [], tw_timers = [], tw_now = 0 \<rparr>"

fun tabs_handle :: "tab list \<Rightarrow> tabs_event \<Rightarrow> tabs_world \<Rightarrow> tabs_world" where
  "tabs_handle tabs (Select_Tab i) w = w\<lparr> tw_page := (tw_page w)\<lparr> activeTab := i, copied := False \<rparr> \<rparr>"
| "tabs_handle tabs Copy w =
     (case activeSnippet tabs (activeTab (tw_page w)) of
        None \<Rightarrow> w
      | Some t \<Rightarrow> w\<lparr> tw_writes := tw_writes w @ [plainText t] \<rparr>)"

text \<open>The write at position \<open>i\<close> settles; then \<open>handleCopy\<close> goes on.\<close>

definition tabs_written :: "nat \<Rightarrow> bool \<Rightarrow> tabs_world \<Rightarrow> tabs_world" where
  "tabs_written i ok w =
     (if i < length (tw_writes w) then
        (let w1 = w\<lparr> tw_writes := take i (tw_writes w) @ drop (Suc i) (tw_writes w) \<rparr>
         in if ok then
              w1\<lparr> tw_clipboard := Some (tw_writes w ! i), tw_page := (tw_page w)\<lparr> copied := True \<rparr>,
                  tw_timers := tw_timers w @ [tw_now w + 2000] \<rparr>
            else w1)
      else w)"

definition tabs_wait :: "nat \<Rightarrow> tabs_world \<Rightarrow> tabs_world" where
  "tabs_wait ms w = w\<lparr> tw_now := tw_now w + ms \<rparr>"

text \<open>The oldest timer is due first, all of them being set for two seconds.\<close>

definition tabs_timer :: "tabs_world \<Rightarrow> tabs_world" where
  "tabs_timer w =
     (case tw_timers w of
        [] \<Rightarrow> w
      | d # ds \<Rightarrow> if d \<le> tw_now w then w\<lparr> tw_timers := ds, tw_page := (tw_page w)\<lparr> copied := False \<rparr> \<rparr> else w)"

text \<open>The worlds a visitor can reach: clicks are those of the elements shown.\<close>

inductive tabs_reach :: "tab list \<Rightarrow> tabs_page \<Rightarrow> tabs_world \<Rightarrow> bool" for tabs p where
  start: "tabs_reach tabs p (tw_init p)"
| click: "tabs_reach tabs p w \<Longrightarrow> tabs_view tabs (tw_page w) = Some v \<Longrightarrow> e \<in> set (clicks v)
    \<Longrightarrow> tabs_reach tabs p (tabs_handle tabs e w)"
| written: "tabs_reach tabs p w \<Longrightarrow> tabs_reach tabs p (tabs_written i ok w)"
| wait: "tabs_reach tabs p w \<Longrightarrow> tabs_reach tabs p (tabs_wait ms w)"
| timer: "tabs_reach tabs p w \<Longrightarrow> tabs_reach tabs p (tabs_timer w)"

subsection \<open>The active tab\<close>

definition shows_tab :: "tab list \<Rightarrow> tabs_page \<Rightarrow> bool" where
  "shows_tab tabs s \<longleftrightarrow> activeTab s \<in> tab_id ` set tabs"

lemma activeSnippet_Some:
  assumes "shows_tab tabs s"
  shows "\<exists>t. activeSnippet tabs (activeTab s) = Some t \<and> t \<in> set tabs \<and> tab_id t = activeTab s"
proof (cases "activeSnippet tabs (activeTab s)")
  case None
  then show ?thesis using assms by (auto simp: activeSnippet_def shows_tab_def find_None_iff)
next
  case (Some t)
  then show ?thesis using find_Some_mem [of "\<lambda>t. tab_id t = activeTab s" tabs t] by (simp add: activeSnippet_def)
qed

lemma renderLine_tree [simp]: "texts (renderLine segs) = map seg_text segs" "clicks (renderLine segs) = []"
  by (induction segs) (auto simp: renderLine_def)

lemma tabs_bar_tree [simp]:
  "node_texts (tabs_bar tabs s) = map tab_label tabs @ [js (if copied s then ''Copied!'' else ''Copy'')]"
  "node_clicks (tabs_bar tabs s) = map (\<lambda>t. Select_Tab (tab_id t)) tabs @ [Copy]"
  by (auto simp: tabs_bar_def tree_map concat_map_singleton)

lemma tabs_code_tree:
  "concat (node_texts (tabs_code t)) = concat (map (\<lambda>segs. concat (map seg_text segs) @ [10]) (tab_lines t))"
  "node_clicks (tabs_code t) = []"
proof -
  let ?span = "\<lambda>segs. El ''span'' [] (if length segs = 0 then [Txt [10]] else renderLine segs @ [Txt [10]]) :: tabs_event node"
  have "concat (node_texts (?span segs)) = concat (map seg_text segs) @ [10]" "node_clicks (?span segs) = []" for segs
    by auto
  then have "concat (texts (map ?span ls)) = concat (map (\<lambda>segs. concat (map seg_text segs) @ [10]) ls)"
    "clicks (map ?span ls) = []" for ls
    by (induction ls) (simp_all del: tree_El)
  then show "concat (node_texts (tabs_code t)) = concat (map (\<lambda>segs. concat (map seg_text segs) @ [10]) (tab_lines t))"
    "node_clicks (tabs_code t) = []"
    by (simp_all add: tabs_code_def)
qed

lemma join_lines: "xss \<noteq> [] \<Longrightarrow> join [c] xss @ [c] = concat (map (\<lambda>xs. xs @ [c]) xss)"
  by (induction "[c]" xss rule: join.induct) auto

lemma tabs_code_text: "tab_lines t \<noteq> [] \<Longrightarrow> concat (node_texts (tabs_code t)) = plainText t @ [10]"
  by (simp add: tabs_code_tree plainText_def join_lines o_def)

definition tabs_ok :: "tab list \<Rightarrow> bool" where
  "tabs_ok tabs \<longleftrightarrow> distinct (map tab_id tabs) \<and> (\<forall>t\<in>set tabs. tab_lines t \<noteq> [])"

lemma activeSnippet_tab: "tabs_ok tabs \<Longrightarrow> t \<in> set tabs \<Longrightarrow> activeSnippet tabs (tab_id t) = Some t"
  using activeSnippet_Some [of tabs "\<lparr> activeTab = tab_id t, copied = False \<rparr>"] map_of_the_unique [of tab_id tabs]
  by (fastforce simp: tabs_ok_def shows_tab_def)

lemma tabs_view_clicks: "tabs_view tabs s = Some v \<Longrightarrow> clicks v = map (\<lambda>t. Select_Tab (tab_id t)) tabs @ [Copy]"
  by (auto simp: tabs_view_def tabs_code_tree)

text \<open>Every reachable world shows a tab, and the clipboard and the writes under way hold whole samples.\<close>

definition tabs_inv :: "tab list \<Rightarrow> tabs_world \<Rightarrow> bool" where
  "tabs_inv tabs w \<longleftrightarrow>
     shows_tab tabs (tw_page w) \<and> set (tw_writes w) \<subseteq> plainText ` set tabs
     \<and> tw_clipboard w \<in> insert None (Some ` plainText ` set tabs)"

lemma tabs_handle_inv:
  "tabs_inv tabs w \<Longrightarrow> e \<in> set (map (\<lambda>t. Select_Tab (tab_id t)) tabs @ [Copy]) \<Longrightarrow> tabs_inv tabs (tabs_handle tabs e w)"
  using activeSnippet_Some [of tabs "tw_page w"] by (cases e) (auto simp: tabs_inv_def shows_tab_def)

lemma tabs_written_inv:
  assumes "tabs_inv tabs w"
  shows "tabs_inv tabs (tabs_written i ok w)"
proof (cases "i < length (tw_writes w)")
  case True
  with assms have "tw_writes w ! i \<in> plainText ` set tabs" by (auto simp: tabs_inv_def)
  moreover have "set (take i (tw_writes w) @ drop (Suc i) (tw_writes w)) \<subseteq> set (tw_writes w)"
    using set_take_subset [of i "tw_writes w"] set_drop_subset [of "Suc i" "tw_writes w"] by simp
  ultimately show ?thesis using assms True by (simp add: tabs_inv_def tabs_written_def shows_tab_def Let_def) blast
qed (use assms in \<open>simp add: tabs_written_def\<close>)

lemma tabs_timer_inv: "tabs_inv tabs w \<Longrightarrow> tabs_inv tabs (tabs_timer w)"
  by (auto simp: tabs_inv_def tabs_timer_def shows_tab_def split: list.splits)

lemma tabs_reach_inv: "tabs_reach tabs p w \<Longrightarrow> shows_tab tabs p \<Longrightarrow> tabs_inv tabs w"
proof (induction rule: tabs_reach.induct)
  case (click w v e)
  then show ?case using tabs_view_clicks [of tabs "tw_page w" v] by (intro tabs_handle_inv) auto
qed (auto simp: tabs_written_inv tabs_timer_inv, auto simp: tabs_inv_def tw_init_def tabs_wait_def shows_tab_def)

lemma tabs_lines:
  "tab_lines code_typescript_tab \<noteq> []" "tab_lines code_nodejs_tab \<noteq> []" "tab_lines code_python_tab \<noteq> []"
  "tab_lines code_go_tab \<noteq> []" "tab_lines code_ruby_tab \<noteq> []" "tab_lines code_php_tab \<noteq> []"
  "tab_lines code_curl_tab \<noteq> []" "tab_lines verify_nodejs_tab \<noteq> []" "tab_lines verify_python_tab \<noteq> []"
  "tab_lines verify_go_tab \<noteq> []" "tab_lines verify_php_tab \<noteq> []"
  by (simp_all add: code_typescript_tab_def code_nodejs_tab_def code_python_tab_def code_go_tab_def
      code_ruby_tab_def code_php_tab_def code_curl_tab_def verify_nodejs_tab_def verify_python_tab_def
      verify_go_tab_def verify_php_tab_def)

lemma tabs_ids:
  "map tab_id code_tabs = map js [''typescript'', ''nodejs'', ''python'', ''go'', ''ruby'', ''php'', ''curl'']"
  "map tab_id verify_tabs = map js [''nodejs'', ''python'', ''go'', ''php'']"
  by (simp_all add: code_tabs_def verify_tabs_def code_typescript_tab_def code_nodejs_tab_def code_python_tab_def
      code_go_tab_def code_ruby_tab_def code_php_tab_def code_curl_tab_def verify_nodejs_tab_def
      verify_python_tab_def verify_go_tab_def verify_php_tab_def)

definition widgets :: "(tab list \<times> tabs_page) set" where
  "widgets = {(code_tabs, codeTabs_init), (verify_tabs, verifyTabs_init)}"

lemma widgets_ok: "(tabs, p) \<in> widgets \<Longrightarrow> tabs_ok tabs \<and> shows_tab tabs p"
proof -
  have "tabs_ok code_tabs" "tabs_ok verify_tabs" unfolding tabs_ok_def tabs_ids
    by (simp_all add: code_tabs_def verify_tabs_def tabs_lines)
  moreover have "shows_tab code_tabs codeTabs_init" "shows_tab verify_tabs verifyTabs_init"
    unfolding shows_tab_def set_map [symmetric] tabs_ids by (simp_all add: codeTabs_init_def verifyTabs_init_def)
  ultimately show "(tabs, p) \<in> widgets \<Longrightarrow> tabs_ok tabs \<and> shows_tab tabs p" by (auto simp: widgets_def)
qed

subsection \<open>Properties\<close>

text \<open>C29: Whatever a visitor clicks and whenever the browser answers, each of the two widgets renders (the
  sample its source asserts to find exists), shows its labels, the copy button and exactly one sample,
  and copying writes the text that is shown, without the last line break. The other samples are one
  click away, and the clipboard never holds anything but a whole sample.\<close>

theorem snippet_shown_is_copied:
  assumes "(tabs, p) \<in> widgets" and "tabs_reach tabs p w"
  shows "\<exists>t\<in>set tabs. \<exists>v. tab_id t = activeTab (tw_page w) \<and> tabs_view tabs (tw_page w) = Some v
    \<and> (\<exists>sample. texts v = map tab_label tabs @ [js (if copied (tw_page w) then ''Copied!'' else ''Copy'')] @ sample
         \<and> concat sample = plainText t @ [10])
    \<and> clicks v = map (\<lambda>u. Select_Tab (tab_id u)) tabs @ [Copy]
    \<and> tw_writes (tabs_handle tabs Copy w) = tw_writes w @ [plainText t]
    \<and> (\<forall>u\<in>set tabs. activeSnippet tabs (activeTab (tw_page (tabs_handle tabs (Select_Tab (tab_id u)) w))) = Some u)
    \<and> tw_clipboard w \<in> insert None (Some ` plainText ` set tabs)"
proof -
  have ok: "tabs_ok tabs" and inv: "tabs_inv tabs w" using assms widgets_ok tabs_reach_inv by blast+
  then obtain t where t: "t \<in> set tabs" "tab_id t = activeTab (tw_page w)"
      and snip: "activeSnippet tabs (activeTab (tw_page w)) = Some t"
    using activeSnippet_Some [of tabs "tw_page w"] by (auto simp: tabs_inv_def)
  define v where "v = [El ''div'' [] [tabs_bar tabs (tw_page w), tabs_code t]]"
  have v: "tabs_view tabs (tw_page w) = Some v" using snip by (simp add: tabs_view_def v_def)
  have shown: "texts v = map tab_label tabs @ [js (if copied (tw_page w) then ''Copied!'' else ''Copy'')] @ node_texts (tabs_code t)"
    by (simp add: v_def)
  have "concat (node_texts (tabs_code t)) = plainText t @ [10]" using ok t by (intro tabs_code_text) (simp add: tabs_ok_def)
  moreover have "tw_clipboard w \<in> insert None (Some ` plainText ` set tabs)" using inv by (simp add: tabs_inv_def)
  moreover have "tw_writes (tabs_handle tabs Copy w) = tw_writes w @ [plainText t]" using snip by simp
  moreover have "\<forall>u\<in>set tabs. activeSnippet tabs (activeTab (tw_page (tabs_handle tabs (Select_Tab (tab_id u)) w))) = Some u"
    using ok by (simp add: activeSnippet_tab)
  ultimately show ?thesis using t v shown tabs_view_clicks [OF v] by blast
qed

lemma snippet_shown_is_copied_witness:
  "\<exists>t\<in>set code_tabs. tab_id t = js ''typescript''
    \<and> tw_writes (tabs_handle code_tabs Copy (tabs_wait 5 (tw_init codeTabs_init))) = [plainText t]"
proof -
  have "(code_tabs, codeTabs_init) \<in> widgets" by (simp add: widgets_def)
  moreover have "tabs_reach code_tabs codeTabs_init (tabs_wait 5 (tw_init codeTabs_init))"
    by (intro tabs_reach.wait tabs_reach.start)
  ultimately obtain t where "t \<in> set code_tabs" "tab_id t = activeTab (tw_page (tabs_wait 5 (tw_init codeTabs_init)))"
      "tw_writes (tabs_handle code_tabs Copy (tabs_wait 5 (tw_init codeTabs_init)))
        = tw_writes (tabs_wait 5 (tw_init codeTabs_init)) @ [plainText t]"
    using snippet_shown_is_copied by blast
  then show ?thesis by (intro bexI [of _ t]) (simp_all add: tabs_wait_def tw_init_def codeTabs_init_def)
qed

text \<open>
  Two copies within two seconds: the timer of the first takes the label of the second away early; and a
  tab chosen while a write is under way is labelled as copied, although another sample was.
\<close>

lemma copied_label_misleads:
  assumes "d < 2000" and "activeSnippet tabs (activeTab (tw_page w)) = Some t" and "tw_writes w = []" and "tw_timers w = []"
  defines "copy \<equiv> \<lambda>w. tabs_written 0 True (tabs_handle tabs Copy w)"
  shows "\<not> copied (tw_page (tabs_timer (tabs_wait (2000 - d) (copy (tabs_wait d (copy w))))))"
    "copied (tw_page (tabs_wait (2000 - d) (copy (tabs_wait d (copy w)))))"
    "tw_timers (tabs_timer (tabs_wait (2000 - d) (copy (tabs_wait d (copy w))))) = [tw_now w + d + 2000]"
    "let w1 = tabs_written 0 True (tabs_handle tabs (Select_Tab i) (tabs_handle tabs Copy w))
     in copied (tw_page w1) \<and> activeTab (tw_page w1) = i \<and> tw_clipboard w1 = Some (plainText t)"
  using assms by (simp_all add: tabs_written_def tabs_wait_def tabs_timer_def Let_def)

subsection \<open>The samples and the client\<close>

text \<open>The text between the first two occurrences of a character.\<close>

definition between :: "'a \<Rightarrow> 'a list \<Rightarrow> 'a list" where
  "between c s = fst (cut_at c (snd (cut_at c s)))"

lemma list_all_conj: "list_all (\<lambda>x. P x \<and> Q x) xs \<longleftrightarrow> list_all P xs \<and> list_all Q xs"
  by (auto simp: list_all_iff)

lemma unat_js: "map unat (js s) = codes s"
  by (simp add: js_def codes_def unat_of_char)

lemma parse_tokens: "lex (map unat s) = Some (toks v) \<Longrightarrow> wf_json v \<Longrightarrow> JSON_parse s = Some (erase v)"
  using machine_toks [of v "[]" "[]"] by (simp add: JSON_parse_def)

definition sample_payload :: json where
  "sample_payload = JObj [str_field ''event'' (js ''payment.completed''), (js ''amount'', JNum (Num False 4999 0))]"

definition sample_json :: json where
  "sample_json = JObj [str_field ''url'' (js ''https://your-app.com/webhooks''), (js ''payload'', sample_payload)]"

definition curl_body :: string where
  \<open>curl_body = ''{'' @ CHR 10 # ''    "url": "https://your-app.com/webhooks",'' @ CHR 10 #
     ''    "payload": {"event": "payment.completed", "amount": 4999}'' @ CHR 10 # ''  }''\<close>

definition go_body :: string where
  \<open>go_body = ''{'' @ CHR 10 # ''  "url": "https://your-app.com/webhooks",'' @ CHR 10 #
     ''  "payload": {"event": "payment.completed", "amount": 4999}'' @ CHR 10 # ''}''\<close>

lemma cut_at_js: "cut_at (of_char c) (js s) = (js (fst (cut_at c s)), js (snd (cut_at c s)))"
  by (induction s) (auto simp: js_def of_char_word_inject split: prod.splits)

lemma between_js: "between (of_char c) (js s) = js (between c s)"
  by (simp add: between_def cut_at_js)

lemma js_break: "10 # js s = js (CHR 10 # s)"
  by (simp add: js_def)

lemmas sample_quotes = between_js [of "CHR 0x27", simplified] between_js [of "CHR 0x60", simplified]

lemma sample_bodies:
  "between 0x27 (plainText code_curl_tab) = js curl_body" "between 0x60 (plainText code_go_tab) = js go_body"
  by (simp_all add: plainText_def code_curl_tab_def code_go_tab_def seg_def js_break sample_quotes flip: js_append)
    (simp_all add: between_def curl_body_def go_body_def)

lemma parse_4999: "parse_num [52, 57, 57, 57] = Some (Num False 4999 0)"
  by (simp add: parse_num_def parse_abs_def is_digit_def parse_frac_def parse_exp_def norm_num.simps value_from_def)

lemmas lex_sample =
  codes_def lex.simps(2) lex_string.simps(2) json_space_def is_digit_def num_char_def cons_opt_def cons_fst_def
  parse_4999 of_codes_def js_def sample_json_def sample_payload_def str_field_def unsigned_zero_def

lemma lex_curl_body: "lex (codes curl_body) = Some (toks sample_json)"
  by (simp add: curl_body_def lex_sample)

lemma lex_go_body: "lex (codes go_body) = Some (toks sample_json)"
  by (simp add: go_body_def lex_sample)

lemma wf_sample_json: "wf_json sample_json" "erase sample_json = sample_json"
  by (simp_all add: sample_json_def sample_payload_def str_field_def canonical_def unsigned_zero_def order_props_def is_index_def
      index_value_def is_digit_def js_def)

text \<open>A text in a segment is in the sample.\<close>

definition mentions :: "tab \<Rightarrow> string \<Rightarrow> bool" where
  "mentions t q \<longleftrightarrow> (\<exists>segs\<in>set (tab_lines t). \<exists>s\<in>set segs. seg_text s = js q)"

lemma sublist_concat: "x \<in> set xss \<Longrightarrow> sublist x (concat xss)"
  by (auto simp: sublist_def dest!: split_list) blast

lemma sublist_join: "x \<in> set xss \<Longrightarrow> sublist x (join sep xss)"
proof (induction sep xss rule: join.induct)
  case (3 sep y z zs)
  show ?case
  proof (cases "x = y")
    case False
    then have "sublist x (join sep (z # zs))" using 3 by simp
    then show ?thesis using sublist_appendI [of _ "y @ sep" "[]"] sublist_order.order.trans
      by (metis append.assoc append_Nil2 join.simps(3))
  qed simp
qed simp_all

lemma mentions_sublist:
  assumes "mentions t q" "sublist p (js q)"
  shows "sublist p (plainText t)"
proof -
  from assms(1) obtain segs s where s: "segs \<in> set (tab_lines t)" "s \<in> set segs" "seg_text s = js q"
    by (auto simp: mentions_def)
  then have "sublist (js q) (concat (map seg_text segs))" by (metis sublist_concat image_eqI list.set_map)
  moreover have "sublist (concat (map seg_text segs)) (plainText t)"
    unfolding plainText_def using s(1) by (intro sublist_join) auto
  ultimately show ?thesis using assms(2) by (meson sublist_order.order.trans)
qed

lemma sublist_js_code: "sublist (js p) (js q) \<longleftrightarrow> sublist p q"
proof
  assume "sublist (js p) (js q)"
  then obtain a b where ab: "js q = a @ js p @ b" by (auto simp: sublist_def)
  then have "js (take (length p) (drop (length a) q)) = js p" by (simp add: js_def flip: take_map drop_map)
  then have "take (length p) (drop (length a) q) = p" by simp
  then have "q = take (length a) q @ p @ drop (length p) (drop (length a) q)" by (metis append_take_drop_id)
  then show "sublist p q" by (metis sublist_appendI)
qed (metis sublist_def js_append)

text \<open>Where each sample says what: the text and the segment it is in.\<close>

definition sample_places :: "(tab \<times> string \<times> string) list" where
  \<open>sample_places =
     [(code_typescript_tab, ''https://api.trychis.com/webhook/send'', ''"https://api.trychis.com/webhook/send"''),
      (code_nodejs_tab, ''https://api.trychis.com/webhook/send'', ''"https://api.trychis.com/webhook/send"''),
      (code_python_tab, ''https://api.trychis.com/webhook/send'', ''    "https://api.trychis.com/webhook/send"''),
      (code_go_tab, ''https://api.trychis.com/webhook/send'', ''"https://api.trychis.com/webhook/send"''),
      (code_ruby_tab, ''https://api.trychis.com/webhook/send'', ''"https://api.trychis.com/webhook/send"''),
      (code_php_tab, ''https://api.trychis.com/webhook/send'', ''"https://api.trychis.com/webhook/send"''),
      (code_curl_tab, ''https://api.trychis.com/webhook/send'', ''https://api.trychis.com/webhook/send''),
      (code_typescript_tab, ''X-API-Key'', ''    "X-API-Key"''),
      (code_nodejs_tab, ''X-API-Key'', ''    "X-API-Key"''),
      (code_python_tab, ''X-API-Key'', ''        "X-API-Key"''),
      (code_go_tab, ''X-API-Key'', ''"X-API-Key"''),
      (code_ruby_tab, ''X-API-Key'', ''req["X-API-Key"] ''),
      (code_php_tab, ''X-API-Key'', ''    "X-API-Key" ''),
      (code_curl_tab, ''X-API-Key'', ''"X-API-Key: $CHIS_API_KEY"''),
      (code_typescript_tab, ''Content-Type'', ''    "Content-Type"''),
      (code_nodejs_tab, ''Content-Type'', ''    "Content-Type"''),
      (code_python_tab, ''Content-Type'', ''        "Content-Type"''),
      (code_go_tab, ''Content-Type'', ''"Content-Type"''),
      (code_ruby_tab, ''Content-Type'', ''req["Content-Type"] ''),
      (code_curl_tab, ''Content-Type'', ''"Content-Type: application/json"'')]\<close>

lemma sample_places_right: "list_all (\<lambda>(t, p, q). mentions t q \<and> sublist p q) sample_places"
  by (simp add: sample_places_def mentions_def code_typescript_tab_def code_nodejs_tab_def code_python_tab_def
      code_go_tab_def code_ruby_tab_def code_php_tab_def code_curl_tab_def seg_def sublist_Cons_right)

lemma samples_contain:
  assumes "list_all (\<lambda>t. (t, p) \<in> set (map (\<lambda>(t, p, q). (t, p)) sample_places)) ts"
  shows "list_all (\<lambda>t. sublist (js p) (plainText t)) ts"
  unfolding list_all_iff
proof
  fix t assume "t \<in> set ts"
  then obtain q where "(t, p, q) \<in> set sample_places" using assms by (fastforce simp: list_all_iff)
  then have "mentions t q" "sublist p q" using sample_places_right by (auto simp: list_all_iff)
  then show "sublist (js p) (plainText t)" by (intro mentions_sublist) (simp_all add: sublist_js_code)
qed


end
