(* ===== verification/Session.thy ===== *)
theory Session
  imports Org_Context
begin

text \<open>
  \<open>AuthProvider\<close> and \<open>OrgProvider\<close> together, over the storage they share and across page loads: the
  console of \<open>App.tsx\<close> without its pages. The abstract machine \<open>session\<close> has no storage, no cells and
  no effects: who is signed in, which organizations are listed and which of them is remembered; the
  current organization is computed. Every step of the console is shown to do what the session says.
\<close>

subsection \<open>The console\<close>

datatype session_op =
    Reload
  | Sign_In jstring auth_user
  | Leave
  | Listed "js_exn + organization list"
  | Choose organization
  | Join organization
  | Drop jstring

type_synonym console = "storage \<times> auth_state \<times> org_state"

text \<open>
  A step changes the cells of a provider; the render that follows runs the effect of \<open>OrgProvider\<close>
  with the new authentication. A page load starts from the storage alone. \<open>Listed\<close> is the answer to
  the last list of organizations that was asked for.
\<close>

definition console_render :: "jstring \<Rightarrow> console \<Rightarrow> console" where
  "console_render base = (\<lambda>(st, a, s). let (st1, s1) = org_effect base (isAuthenticated a) (st, s) in (st1, a, s1))"

definition console_load :: "jstring \<Rightarrow> storage \<Rightarrow> console" where
  "console_load base st = console_render base (st, auth_mount st, org_mount)"

definition on_orgs :: "(org_world \<Rightarrow> org_world) \<Rightarrow> console \<Rightarrow> console" where
  "on_orgs f = (\<lambda>(st, a, s). let (st1, s1) = f (st, s) in (st1, a, s1))"

definition on_auth :: "(storage \<times> auth_state \<Rightarrow> storage \<times> auth_state) \<Rightarrow> console \<Rightarrow> console" where
  "on_auth f = (\<lambda>(st, a, s). let (st1, a1) = f (st, a) in (st1, a1, s))"

fun console_step :: "jstring \<Rightarrow> session_op \<Rightarrow> console \<Rightarrow> console" where
  "console_step base Reload c = console_load base (fst c)"
| "console_step base (Sign_In t u) c = console_render base (on_auth (setAuth t u) c)"
| "console_step base Leave c = console_render base (on_auth logout c)"
| "console_step base (Listed r) c = on_orgs (org_load_settled (length (oc_loads (snd (snd c))) - 1) r) c"
| "console_step base (Choose org) c = on_orgs (switchOrg org) c"
| "console_step base (Join org) c = on_orgs (addOrg org) c"
| "console_step base (Drop i) c = on_orgs (removeOrg i) c"

subsection \<open>The session\<close>

record session =
  se_token :: "jstring option"
  se_user :: "json option"
  se_orgs :: "organization list"
  se_selected :: "jstring option"
  se_waiting :: bool

definition signed_in_session :: "session \<Rightarrow> bool" where
  "signed_in_session a \<longleftrightarrow> se_token a \<noteq> None \<and> se_user a \<noteq> None"

definition org_with :: "jstring option \<Rightarrow> organization list \<Rightarrow> organization option" where
  "org_with i orgs = List.find (\<lambda>org. Some (org_id org) = i) orgs"

definition current_of :: "session \<Rightarrow> organization option" where
  "current_of a = org_with (se_selected a) (se_orgs a)"

definition first_id :: "organization list \<Rightarrow> jstring option" where
  "first_id orgs = (case orgs of [] \<Rightarrow> None | org # _ \<Rightarrow> Some (org_id org))"

definition await_list :: "session \<Rightarrow> session" where
  "await_list a = a\<lparr> se_orgs := [], se_waiting := signed_in_session a \<rparr>"

definition session_of :: "storage \<Rightarrow> session" where
  "session_of st = await_list
     \<lparr> se_token = getInitialToken st, se_user = getInitialUser st, se_orgs = [],
       se_selected = getItem st SELECTED_ORG_KEY, se_waiting = False \<rparr>"

fun session_step :: "session_op \<Rightarrow> session \<Rightarrow> session" where
  "session_step Reload a = await_list a"
| "session_step (Sign_In t u) a = await_list (a\<lparr> se_token := Some t, se_user := Some (json_of_user u) \<rparr>)"
| "session_step Leave a = \<lparr> se_token = None, se_user = None, se_orgs = [], se_selected = None, se_waiting = False \<rparr>"
| "session_step (Listed r) a =
     (if \<not> se_waiting a then a
      else (case r of
              Inl _ \<Rightarrow> a\<lparr> se_waiting := False \<rparr>
            | Inr orgs \<Rightarrow>
                a\<lparr> se_waiting := False, se_orgs := orgs,
                   se_selected := (if org_with (se_selected a) orgs = None \<and> orgs \<noteq> [] then first_id orgs else se_selected a) \<rparr>))"
| "session_step (Choose org) a = a\<lparr> se_selected := Some (org_id org) \<rparr>"
| "session_step (Join org) a = a\<lparr> se_orgs := se_orgs a @ [org], se_selected := Some (org_id org) \<rparr>"
| "session_step (Drop i) a =
     (let rest = filter (\<lambda>org. org_id org \<noteq> i) (se_orgs a) in a\<lparr> se_orgs := rest, se_selected := first_id rest \<rparr>)"

text \<open>
  The guards: one signs in when signed out and uses the console when signed in; while a list is
  awaited one can only reload; the ids of a list are distinct and a joined organization is new.
\<close>

fun session_allowed :: "session_op \<Rightarrow> session \<Rightarrow> bool" where
  "session_allowed Reload a = True"
| "session_allowed (Sign_In t u) a = (\<not> signed_in_session a)"
| "session_allowed Leave a = (\<not> se_waiting a)"
| "session_allowed (Listed r) a = (case r of Inl _ \<Rightarrow> True | Inr orgs \<Rightarrow> distinct (map org_id orgs))"
| "session_allowed (Choose org) a = (\<not> se_waiting a \<and> signed_in_session a \<and> org \<in> set (se_orgs a))"
| "session_allowed (Join org) a = (\<not> se_waiting a \<and> signed_in_session a \<and> org_id org \<notin> org_id ` set (se_orgs a))"
| "session_allowed (Drop i) a = (\<not> se_waiting a \<and> signed_in_session a)"

subsection \<open>The simulation\<close>

definition session_wf :: "session \<Rightarrow> bool" where
  "session_wf a \<longleftrightarrow>
     distinct (map org_id (se_orgs a))
     \<and> (se_orgs a \<noteq> [] \<longrightarrow> signed_in_session a \<and> \<not> se_waiting a \<and> se_selected a \<in> Some ` org_id ` set (se_orgs a))
     \<and> (se_waiting a \<longrightarrow> signed_in_session a)"

text \<open>Which of the loads of a page is still under way: the last one, or none.\<close>

definition last_pending :: "(http_request \<times> bool) list \<Rightarrow> bool \<Rightarrow> bool" where
  "last_pending ls w \<longleftrightarrow> (\<exists>ls0. (\<forall>l\<in>set ls0. snd l) \<and> (if w then \<exists>rq. ls = ls0 @ [(rq, False)] else ls = ls0))"

fun related :: "console \<Rightarrow> session \<Rightarrow> bool" where
  "related (st, au, s) a \<longleftrightarrow>
     session_wf a \<and> mirrors (st, au) \<and> au_token au = se_token a \<and> au_user au = se_user a
     \<and> getItem st SELECTED_ORG_KEY = se_selected a
     \<and> oc_organizations s = se_orgs a \<and> oc_currentOrg s = current_of a
     \<and> oc_deps s = Some (signed_in_session a) \<and> last_pending (oc_loads s) (se_waiting a)"

lemma org_with_simps [simp]:
  "org_with i [] = None" "org_with None orgs = None"
  "org_with (Some (org_id org)) (org # orgs) = Some org"
  "org_with (first_id orgs) orgs = (case orgs of [] \<Rightarrow> None | org # _ \<Rightarrow> Some org)"
  by (auto simp: org_with_def first_id_def find_None_iff split: list.splits)

lemma org_with_None: "org_with i orgs = None \<longleftrightarrow> i \<notin> Some ` org_id ` set orgs"
  by (auto simp: org_with_def find_None_iff)

lemma org_with_listed: "distinct (map org_id orgs) \<Longrightarrow> org \<in> set orgs \<Longrightarrow> org_with (Some (org_id org)) orgs = Some org"
proof -
  assume d: "distinct (map org_id orgs)" and org: "org \<in> set orgs"
  then obtain o1 where o1: "org_with (Some (org_id org)) orgs = Some o1" using org_with_None by fastforce
  then have "o1 \<in> set orgs" "org_id o1 = org_id org"
    using find_Some_mem [of "\<lambda>x. Some (org_id x) = Some (org_id org)" orgs o1] by (simp_all add: org_with_def)
  then show ?thesis using map_of_the_unique [OF d] org o1 by blast
qed

lemma first_id_listed: "orgs \<noteq> [] \<Longrightarrow> first_id orgs \<in> Some ` org_id ` set orgs"
  by (cases orgs) (auto simp: first_id_def)

lemma last_pending_simps [simp]:
  "last_pending [] False" "last_pending (ls @ [(rq, False)]) True \<longleftrightarrow> last_pending ls False"
  by (auto simp: last_pending_def)

lemma signed_in_update [simp]:
  "signed_in_session (a\<lparr> se_orgs := os \<rparr>) = signed_in_session a" "signed_in_session (a\<lparr> se_selected := i \<rparr>) = signed_in_session a"
  "signed_in_session (a\<lparr> se_waiting := w \<rparr>) = signed_in_session a"
  by (simp_all add: signed_in_session_def)

lemma related_signed_in: "related (st, au, s) a \<Longrightarrow> isAuthenticated au = signed_in_session a"
  by (simp add: isAuthenticated_def signed_in_session_def)

text \<open>A render that starts a load, or that finds everybody signed out.\<close>

lemma render_related:
  assumes "mirrors (st, au)" "oc_deps s \<noteq> Some (isAuthenticated au)" "last_pending (oc_loads s) False"
    "oc_organizations s = []" "oc_currentOrg s = None"
    "au_token au = se_token a" "au_user au = se_user a" "getItem st SELECTED_ORG_KEY = se_selected a"
  shows "related (console_render base (st, au, s)) (await_list a)"
proof -
  have "isAuthenticated au = signed_in_session a" using assms(6,7) by (simp add: isAuthenticated_def signed_in_session_def)
  then show ?thesis
    using assms by (cases "isAuthenticated au")
      (simp_all add: console_render_def org_effect_def await_list_def session_wf_def current_of_def)
qed

lemma load_related: "related (console_load base st) (session_of st)"
  unfolding console_load_def session_of_def
  by (rule render_related) (simp_all add: mirrors_def auth_mount_def org_mount_def)

lemma reload_related: "related c a \<Longrightarrow> related (console_step base Reload c) (await_list a)"
  by (cases c) (auto simp: console_load_def mirrors_def org_mount_def intro!: render_related)

lemma sign_in_related:
  assumes "related (st, au, s) a" "\<not> signed_in_session a"
  shows "related (console_step base (Sign_In t u) (st, au, s)) (session_step (Sign_In t u) a)"
proof -
  obtain st1 au1 where new: "setAuth t u (st, au) = (st1, au1)" by (cases "setAuth t u (st, au)")
  then have cells: "au_token au1 = Some t" "au_user au1 = Some (json_of_user u)" "isAuthenticated au1"
    "getItem st1 SELECTED_ORG_KEY = getItem st SELECTED_ORG_KEY"
    by (auto simp: hook_defs)
  have mirrors: "mirrors (st1, au1)" using setAuth_mirrors [of t u "(st, au)"] new by simp
  have none: "se_orgs a = []" "\<not> se_waiting a" using assms by (auto simp: session_wf_def)
  have "related (console_render base (st1, au1, s)) (await_list (a\<lparr> se_token := Some t, se_user := Some (json_of_user u) \<rparr>))"
    using assms none cells mirrors by (intro render_related) (auto simp: current_of_def)
  then show ?thesis by (simp add: on_auth_def new)
qed

lemma leave_related:
  assumes "related (st, au, s) a" "\<not> se_waiting a"
  shows "related (console_step base Leave (st, au, s)) (session_step Leave a)"
proof -
  obtain st1 au1 where new: "logout (st, au) = (st1, au1)" by (cases "logout (st, au)")
  then have cells: "au_token au1 = None" "au_user au1 = None" "\<not> isAuthenticated au1" "getItem st1 SELECTED_ORG_KEY = None"
    by (auto simp: hook_defs)
  have "mirrors (st1, au1)" using logout_mirrors [of "(st, au)"] new by simp
  then show ?thesis
    using assms cells by (auto simp: on_auth_def new console_render_def org_effect_def session_wf_def current_of_def
        signed_in_session_def)
qed

text \<open>The last load of a page is the pending one.\<close>

lemma last_load:
  assumes "last_pending (oc_loads s) w"
  shows "load_pending (length (oc_loads s) - 1) s = w"
    and "w \<Longrightarrow> last_pending (oc_loads (finish_load (length (oc_loads s) - 1) s)) False"
proof -
  from assms obtain ls where ls: "\<forall>l\<in>set ls. snd l" "if w then \<exists>rq. oc_loads s = ls @ [(rq, False)] else oc_loads s = ls"
    by (auto simp: last_pending_def)
  then show "load_pending (length (oc_loads s) - 1) s = w"
    by (cases w; cases ls rule: rev_cases) (auto simp: load_pending_def nth_append)
  show "w \<Longrightarrow> last_pending (oc_loads (finish_load (length (oc_loads s) - 1) s)) False"
    using ls by (auto simp: finish_load_def last_pending_def)
qed

lemma settled_org_with:
  fixes st :: storage
  assumes "load_pending i s" "oc_currentOrg s = None"
  defines "sel \<equiv> getItem st SELECTED_ORG_KEY"
  shows "org_load_settled i (Inr orgs) (st, s) =
    (if org_with sel orgs = None \<and> orgs \<noteq> [] then setItem SELECTED_ORG_KEY (org_id (orgs ! 0)) st else st,
     (finish_load i s)\<lparr> oc_organizations := orgs,
       oc_currentOrg := (if org_with sel orgs = None \<and> orgs \<noteq> [] then Some (orgs ! 0) else org_with sel orgs) \<rparr>)"
  using assms by (auto simp: org_load_settled_def org_with_def finish_load_def Let_def split: option.splits)

lemma mirrors_selected:
  "mirrors (st, au) \<Longrightarrow> mirrors (setItem SELECTED_ORG_KEY i st, au)"
  "mirrors (st, au) \<Longrightarrow> mirrors (removeItem SELECTED_ORG_KEY st, au)"
  by (auto simp: mirrors_def hook_defs)

lemma listed_related:
  assumes rel: "related (st, au, s) a" and ok: "session_allowed (Listed r) a"
  shows "related (console_step base (Listed r) (st, au, s)) (session_step (Listed r) a)"
proof (cases "se_waiting a")
  case True
  let ?i = "length (oc_loads s) - 1"
  have pending: "load_pending ?i s" and settled: "last_pending (oc_loads (finish_load ?i s)) False"
    using rel True last_load [of s True] by auto
  have empty: "oc_organizations s = []" "oc_currentOrg s = None" "signed_in_session a"
    using rel True by (auto simp: session_wf_def current_of_def)
  show ?thesis
  proof (cases r)
    case (Inl e)
    then show ?thesis using rel True pending settled empty
      by (simp add: on_orgs_def org_load_settled_def finish_load_def session_wf_def current_of_def)
  next
    case (Inr orgs)
    have step: "console_step base (Listed r) (st, au, s) =
      (if org_with (se_selected a) orgs = None \<and> orgs \<noteq> [] then setItem SELECTED_ORG_KEY (org_id (orgs ! 0)) st else st,
       au, (finish_load ?i s)\<lparr> oc_organizations := orgs,
         oc_currentOrg := (if org_with (se_selected a) orgs = None \<and> orgs \<noteq> [] then Some (orgs ! 0) else org_with (se_selected a) orgs) \<rparr>)"
      using rel settled_org_with [OF pending empty(2), where st = st and orgs = orgs] by (simp add: Inr on_orgs_def)
    have frame: "oc_deps (finish_load ?i s) = oc_deps s" by (simp add: finish_load_def)
    show ?thesis
    proof (cases "org_with (se_selected a) orgs = None \<and> orgs \<noteq> []")
      case new: True
      then obtain org rest where orgs: "orgs = org # rest" by (cases orgs) auto
      show ?thesis unfolding step
        using rel ok new True settled empty frame orgs
        by (simp add: Inr session_wf_def current_of_def mirrors_selected first_id_def)
    next
      case False
      then have "orgs \<noteq> [] \<Longrightarrow> se_selected a \<in> Some ` org_id ` set orgs" by (simp add: org_with_None)
      then show ?thesis unfolding step
        using rel ok False True settled empty frame by (auto simp: Inr session_wf_def current_of_def)
    qed
  qed
next
  case False
  then show ?thesis using rel last_load(1) [of s False] by (simp add: on_orgs_def org_load_settled_def)
qed

lemma choose_related:
  assumes "related (st, au, s) a" "session_allowed (Choose org) a"
  shows "related (console_step base (Choose org) (st, au, s)) (session_step (Choose org) a)"
  using assms org_with_listed [of "se_orgs a" org]
  by (auto simp: on_orgs_def switchOrg_def session_wf_def current_of_def mirrors_selected)

lemma join_related:
  assumes "related (st, au, s) a" "session_allowed (Join org) a"
  shows "related (console_step base (Join org) (st, au, s)) (session_step (Join org) a)"
  using assms org_with_listed [of "se_orgs a @ [org]" org]
  by (auto simp: on_orgs_def addOrg_def session_wf_def current_of_def mirrors_selected)

lemma drop_related:
  assumes "related (st, au, s) a" "session_allowed (Drop i) a"
  shows "related (console_step base (Drop i) (st, au, s)) (session_step (Drop i) a)"
proof -
  define rest where "rest = filter (\<lambda>org. org_id org \<noteq> i) (se_orgs a)"
  have "distinct (map org_id rest)" unfolding rest_def using assms by (intro distinct_map_filter) (simp add: session_wf_def)
  then show ?thesis
    using assms first_id_listed [of rest]
    by (cases rest) (auto simp: on_orgs_def removeOrg_def session_wf_def current_of_def mirrors_selected
        rest_def [symmetric] first_id_def Let_def)
qed

lemma console_step_related:
  assumes "related c a" "session_allowed e a"
  shows "related (console_step base e c) (session_step e a)"
proof -
  obtain st au s where c: "c = (st, au, s)" by (cases c)
  note rel = assms(1) [unfolded c]
  show ?thesis unfolding c
  proof (cases e)
    case Reload
    then show "related (console_step base e (st, au, s)) (session_step e a)" using reload_related [OF rel] by simp
  next
    case (Sign_In t u)
    then show "related (console_step base e (st, au, s)) (session_step e a)"
      using sign_in_related [OF rel] assms(2) by (simp del: console_step.simps session_step.simps)
  next
    case Leave
    then show "related (console_step base e (st, au, s)) (session_step e a)"
      using leave_related [OF rel] assms(2) by (simp del: console_step.simps session_step.simps)
  next
    case (Listed r)
    then show "related (console_step base e (st, au, s)) (session_step e a)"
      using listed_related [OF rel] assms(2) by blast
  next
    case (Choose org)
    then show "related (console_step base e (st, au, s)) (session_step e a)"
      using choose_related [OF rel] assms(2) by blast
  next
    case (Join org)
    then show "related (console_step base e (st, au, s)) (session_step e a)"
      using join_related [OF rel] assms(2) by blast
  next
    case (Drop i)
    then show "related (console_step base e (st, au, s)) (session_step e a)"
      using drop_related [OF rel] assms(2) by blast
  qed
qed

interpretation console: simulation "console_step base" session_step session_allowed related
  by unfold_locales (rule console_step_related)

text \<open>What a component sees of a session: the context values and the headers of its requests.\<close>

definition seen_by :: "session \<Rightarrow> console \<Rightarrow> bool" where
  "seen_by a = (\<lambda>(st, au, s).
     isAuthenticated au = signed_in_session a \<and> au_user au = se_user a
     \<and> oc_organizations s = se_orgs a \<and> oc_currentOrg s = current_of a
     \<and> (oc_currentOrg s = None) = (oc_organizations s = [])
     \<and> header (apiRequest [] st fetchApiKeys) (js ''Authorization'') = map_option ((@) (js ''Bearer '')) (sent (se_token a))
     \<and> header (apiRequest [] st fetchApiKeys) (js ''X-Org-ID'') = sent (se_selected a))"

lemma related_seen: "related c a \<Longrightarrow> seen_by a c"
proof (cases c)
  case (fields st au s)
  assume rel: "related c a"
  have "getStoredToken st = se_token a"
    using rel by (auto simp: fields mirrors_def auth_mount_def getInitialToken_def getStoredToken_def key_literals)
  moreover have "(current_of a = None) = (se_orgs a = [])"
    using rel by (cases "se_orgs a") (auto simp: fields session_wf_def current_of_def org_with_None)
  ultimately show ?thesis
    using rel related_signed_in [of st au s a] by (auto simp: seen_by_def fields header_token header_org)
qed

subsection \<open>Properties\<close>


definition demo_user :: auth_user where
  "demo_user = \<lparr> user_id = js ''7'', user_email = js ''a@b'', user_firstName = js ''Ada'' \<rparr>"

definition demo_session_ops :: "session_op list" where
  "demo_session_ops = [Sign_In (js ''tok'') demo_user, Listed (Inr [demo_org ''a'', demo_org ''b'']), Choose (demo_org ''b''),
     Reload, Listed (Inr [demo_org ''a'', demo_org ''b'']), Join (demo_org ''c''), Drop (js ''c'')]"

lemmas demo_session_simps =
  demo_session_ops_def session_of_def getInitialToken_def getInitialUser_def await_list_def signed_in_session_def
  org_with_def first_id_def current_of_def Let_def

lemma demo_session_allowed: "guarded session_allowed session_step demo_session_ops (session_of Map.empty)"
  by (simp add: demo_session_simps)

lemma demo_session_result:
  "current_of (fold session_step demo_session_ops (session_of Map.empty)) = Some (demo_org ''a'')"
  by (simp add: demo_session_simps)


lemma relist_same:
  assumes "session_wf a" "signed_in_session a" "\<not> se_waiting a"
  shows "session_step (Listed (Inr (se_orgs a))) (await_list a) = a" "session_allowed (Listed (Inr (se_orgs a))) b"
proof -
  have "org_with (se_selected a) (se_orgs a) = None \<Longrightarrow> se_orgs a = []"
    using assms by (auto simp: session_wf_def org_with_None)
  then show "session_step (Listed (Inr (se_orgs a))) (await_list a) = a"
    using assms by (cases a) (auto simp: await_list_def signed_in_session_def)
  show "session_allowed (Listed (Inr (se_orgs a))) b" using assms by (simp add: session_wf_def)
qed

lemma reload_storage:
  assumes "related (st, au, s) a" "signed_in_session a"
  shows "\<exists>rq. console_step base Reload (st, au, s)
    = (st, au, org_mount\<lparr> oc_deps := Some True, oc_loads := [(rq, False)] \<rparr>)"
  using assms related_signed_in [OF assms(1)]
  by (simp add: console_load_def console_render_def org_effect_def org_mount_def mirrors_def)

text \<open>C2: A page load is invisible: when the console is used and no list is awaited, loading the page again
  and getting the list that was shown leaves the same user, the same organizations, the same current
  one and the same headers. Only until that answer the console has no organization.\<close>

theorem reload_restores_session:
  fixes base :: jstring and st :: storage
  assumes "guarded session_allowed session_step ops (session_of st)"
  defines "a \<equiv> fold session_step ops (session_of st)"
    and "c \<equiv> fold (console_step base) ops (console_load base st)"
  assumes "signed_in_session a" "\<not> se_waiting a"
  defines "c' \<equiv> console_step base Reload c"
  shows "oc_currentOrg (snd (snd c')) = None \<and> oc_organizations (snd (snd c')) = []
    \<and> seen_by a (console_step base (Listed (Inr (oc_organizations (snd (snd c))))) c')
    \<and> fst (console_step base (Listed (Inr (oc_organizations (snd (snd c))))) c') = fst c"
proof -
  have "related c a" unfolding c_def a_def using assms(1) by (intro console.run_related load_related)
  moreover obtain st1 au s where c: "c = (st1, au, s)" by (cases c)
  ultimately have rel: "related (st1, au, s) a" by simp
  then have wf: "session_wf a" and orgs: "oc_organizations s = se_orgs a"
    and sel: "getItem st1 SELECTED_ORG_KEY = se_selected a" by auto
  let ?answer = "Listed (Inr (se_orgs a))"
  have "related c' (await_list a)" unfolding c'_def c using rel by (rule reload_related)
  from console_step_related [OF this relist_same(2) [OF wf assms(4,5)]] relist_same(1) [OF wf assms(4,5)]
  have seen: "seen_by a (console_step base ?answer c')" by (metis related_seen)
  obtain rq where c': "c' = (st1, au, org_mount\<lparr> oc_deps := Some True, oc_loads := [(rq, False)] \<rparr>)"
    using reload_storage [OF rel assms(4)] unfolding c'_def c by blast
  have found: "org_with (se_selected a) (se_orgs a) = None \<Longrightarrow> se_orgs a = []"
    using wf by (auto simp: session_wf_def org_with_None)
  have "fst (console_step base ?answer c') = st1"
    using found sel by (auto simp: c' on_orgs_def load_pending_def org_mount_def settled_org_with)
  then show ?thesis using seen by (simp add: c orgs) (simp add: c' org_mount_def)
qed

lemma reload_restores_session_witness:
  "oc_currentOrg (snd (snd (console_step [] (Listed (Inr (oc_organizations
       (snd (snd (fold (console_step []) demo_session_ops (console_load [] Map.empty))))))) 
     (console_step [] Reload (fold (console_step []) demo_session_ops (console_load [] Map.empty)))))) = Some (demo_org ''a'')"
proof -
  have "signed_in_session (fold session_step demo_session_ops (session_of Map.empty))"
    "\<not> se_waiting (fold session_step demo_session_ops (session_of Map.empty))"
    by (simp_all add: demo_session_simps)
  from reload_restores_session [OF demo_session_allowed this, of "[]"] demo_session_result
  show ?thesis by (simp add: seen_by_def split: prod.splits)
qed

end
