(* ===== verification/Spec2Isabelle.thy ===== *)
theory Spec2Isabelle
  imports Api_Keys Overview Members Settings Playground Logs Auth_Forms Org_Switcher Router
    Component_Example Code_Samples Session
begin

text \<open>
  Verification of the TypeScript of the webhook service: the web console (\<open>web/src\<close>) and the two
  interactive widgets of the landing page (\<open>marketing/src/components\<close>). Paths below are relative to
  \<open>web/src\<close> unless they start with \<open>marketing\<close>.

  \<^bold>\<open>The program.\<close> The console is a React application. \<open>AuthProvider\<close> keeps the token and the user,
  \<open>OrgProvider\<close> the organizations of the user and the current one; both mirror the browser's
  \<open>localStorage\<close>, from which \<open>apiRequest\<close> takes the token and the organization of every request. The
  router shows a page below guards that ask the providers who is signed in and with which role. Each
  page has a hook that loads its data in an effect whose dependency is the current organization, and
  handlers that send requests and go on after the answer. The server is the other side of
  \<open>fetch\<close>: its answers are arbitrary.

  \<^bold>\<open>Theories.\<close>
  \<^item> \<open>Prelude\<close>: rule collections, lists, \<open>split_at\<close>, runs of guarded events and the locale \<open>simulation\<close>.
  \<^item> \<open>Js_Strings\<close>, \<open>Js_Uri\<close>, \<open>Js_Numbers\<close>, \<open>Js_Json\<close>: what is used of the JavaScript library. Strings are
    lists of 16-bit code units; \<open>trim\<close>, UTF-8, \<open>encodeURIComponent\<close>, \<open>URLSearchParams\<close>, decimal
    numbers, \<open>JSON.parse\<close> and \<open>JSON.stringify\<close>, with their round trips.
  \<^item> \<open>Browser\<close>: truthiness, storage, locations, and element trees with their texts, clicks and submissions.
  \<^item> \<open>Api_Client\<close>, \<open>Api\<close>: \<open>shared/api\<close> and the modules \<open>features/*/api\<close> with the types they exchange. A
    request is a value; the answer goes through \<open>apiRequest_settle\<close>.
  \<^item> \<open>Auth_Context\<close>, \<open>Org_Context\<close>: the two providers of \<open>shared/context\<close>; \<open>Session\<close>: both of them over their
    storage and across page loads, refined from an abstract session without storage or effects.
  \<^item> \<open>Effects\<close>: the life of an effect that loads data, and the locales of the hooks (below).
  \<^item> \<open>Api_Keys\<close>, \<open>Overview\<close>, \<open>Members\<close>, \<open>Settings\<close>, \<open>Log_Detail\<close>, \<open>Logs\<close>: a hook of
    \<open>features/dashboard/hooks\<close> and its page or panel; \<open>Playground\<close>: the page without a hook.
  \<^item> \<open>Org_Switcher\<close>, \<open>Pending_Invitations\<close>, \<open>Accept_Invite\<close>: the components that change the organizations.
  \<^item> \<open>Auth_Forms\<close>: sign-in and registration, with the redirect they carry; \<open>Navigation\<close>: side bar,
    header and dashboard frame; \<open>Router\<close>: \<open>router.tsx\<close>, the guards and where a navigation ends.
  \<^item> \<open>Layout\<close>: shared presentational components; \<open>Design_Wrappers\<close>, \<open>Design_Inputs\<close>: \<open>components/ui\<close>, and
    \<open>Design_System\<close>: a page means the same with its wrappers expanded; \<open>Component_Example\<close>: the
    demonstration page of the design system.
  \<^item> \<open>Code_Samples\<close>: \<open>CodeTabs.tsx\<close> and \<open>VerifyTabs.tsx\<close> with their samples.

  \<^bold>\<open>Conventions.\<close> The state cells of a component are a record, one field per \<open>useState\<close>. A handler
  is a function on it; an \<open>async\<close> function is cut at its \<open>await\<close> into the part up to the request and the
  part from the answer on, and any event may happen in between. An effect runs when a render is
  committed with other dependencies than before (\<open>ef_deps\<close>); \<open>useEffect\<close>'s cleanup marks its run as
  cancelled, and the list of all runs is kept so that late answers can be asked about. A state update
  is seen by the next event. Element trees carry every attribute but list keys and styling; a
  handler in a tree is the event it raises. \<open>throw\<close> and a rejected promise are \<open>Inl\<close>; \<open>None\<close> is
  \<open>null\<close> or \<open>undefined\<close>; a failed cast \<open>as T\<close> of an answer counts as a missing field. Numbers of JSON
  are exact decimals, which agree with JavaScript where a double holds the decimal. The texts of
  errors the engine raises are represented by the name of the error.

  \<^bold>\<open>Interfaces.\<close> \<open>effect_hook\<close> states what a hook's commit, answer, unmount and other operations do to
  the runs of its effect; inside it, answers to runs other than the last are shown to change nothing.
  \<open>cancellable_load\<close> adds a loading flag and \<open>data_hook\<close> the standard form of an effect, a
  sublocale. They are interpreted on the eight hooks that load data, and the properties about stale
  answers rest on those interpretations. \<open>read_hook\<close> adds that only the effect writes what is shown: then
  an idle hook shows an answer for its last dependencies; it is interpreted on the delivery log.
  \<open>simulation\<close> is interpreted on the providers in \<open>Session\<close>.

  \<^bold>\<open>What is shown.\<close>
  \<^item> Session: the providers refine an abstract session, a page load is invisible but for the wait for the
    list, headers and current organization agree, tokens and headers follow sign-in and sign-out.
  \<^item> Stale data: a page shows the answer for the organization, filters and page of its last render, in
    any order of answers; the search is debounced; page numbers keep their bounds.
  \<^item> Routing: redirects end after at most two navigations, no guard is passed by the wrong visitor, deep
    links survive sign-in and registration, side-bar links lead where they say.
  \<^item> Flows: create, cancel, delete, rotate, switch, accept and decline, each on success and failure.
  \<^item> Data: what is printed is read back (bodies, queries, redirects, samples); formatting keeps values;
    a hidden secret does not leak; every page keeps its meaning below the design system.
  \<^item> Faults, as theorems: late loads after a sign-out, races of the invitation link, the
    redirect of administrators on reload, keys created across a switch, the page number kept across a
    switch, the overview without an organization.

  \<^bold>\<open>Bounds.\<close> Redirects are followed with fuel 3, and \<open>redirects_end\<close> shows that 2 suffice; no other
  function has fuel. The lexer of JSON and the decoders recurse on the rest of the text.

  \<^bold>\<open>Parameters.\<close> The matcher of React Router is a parameter with its documented behaviour on the paths of
  the route table (\<open>documented_matching\<close>), and \<open>exact_match\<close> is an instance; the base URL and the
  texts of dates and numbers in the host's language are arbitrary. The primitives of the component
  library are elements.

  \<^bold>\<open>Not modelled.\<close> Class names (\<open>lib/utils.ts\<close> and the variant tables of \<open>components/ui\<close>), which two
  libraries compute; \<open>main.tsx\<close> and the build configuration; the static pages of the landing site, which
  are not TypeScript; the server, written in Go, which was read for the contract between the two.
\<close>

end
